(* ===== verification/Prelude.thy ===== *)
theory Prelude
  imports Main "HOL-Library.Sublist"
begin

text \<open>
  The vocabulary every theory of the development shares: error values, time, the JSON documents
  the portal keeps in its storage backend, and generic lemmas on lists, options and sums.

  Strings are Go strings: \<open>string\<close> is a list of 8-bit characters, so \<open>length\<close> counts bytes as
  Go's \<open>len\<close> does. Instants and durations are integers counting nanoseconds, as \<open>time.Time\<close>
  (since the Unix epoch) and \<open>time.Duration\<close> do.
\<close>

section \<open>Collections of rewrite rules\<close>

named_theorems go_simps \<open>characterisations of the modelled string functions\<close>
named_theorems store_simps \<open>what storage operations leave unchanged\<close>
named_theorems json_simps \<open>decoding of marshalled documents\<close>

section \<open>Errors as values\<close>

text \<open>
  The error values the modelled code distinguishes. \<open>EText\<close> is \<open>errors.New\<close> or \<open>fmt.Errorf\<close> on
  a literal text; \<open>ETrans\<close> is an error whose text is a translation, kept as the language, the
  message key and the integers put into it; \<open>EIpa\<close> is an \<open>ipa.IpaError\<close> with its code and message;
  \<open>ESentinel\<close> is one of goipa's sentinel errors, which the code recognises with \<open>errors.Is\<close>;
  \<open>EPanic\<close> is a run-time panic, which the recover middleware turns into a failed request;
  \<open>EMember\<close> is an \<open>ipa.MemberError\<close> with the messages of its failures.
\<close>

datatype error =
    EText string
  | ETrans string string "int list"
  | EIpa int string
  | ESentinel string
  | EPanic string
  | EMember "string list"

type_synonym 'a result = "error + 'a"

abbreviation Err :: "error \<Rightarrow> 'a result" where
  "Err e \<equiv> Inl e"

abbreviation Ok :: "'a \<Rightarrow> 'a result" where
  "Ok x \<equiv> Inr x"

text \<open>The text of an error in a log record or another error; the errors of FreeIPA are not translated.\<close>

fun error_string :: "error \<Rightarrow> string" where
  "error_string (EText s) = s"
| "error_string (ETrans lang key args) = key"
| "error_string (EIpa c m) = m"
| "error_string (ESentinel s) = s"
| "error_string (EPanic s) = s"
| "error_string (EMember fs) = []"

section \<open>Time\<close>

type_synonym time = int
type_synonym duration = int

definition second :: duration where
  "second = 1000000000"

definition minute :: duration where
  "minute = 60 * second"

definition hour :: duration where
  "hour = 60 * minute"

definition day :: duration where
  "day = 24 * hour"

text \<open>\<open>Time.Unix\<close>: whole seconds since the epoch.\<close>

definition unix :: "time \<Rightarrow> int" where
  "unix t = t div second"

lemmas time_units = second_def minute_def hour_def day_def

lemma second_pos [simp]: "0 < second"
  by (simp add: second_def)

lemma minute_pos [simp]: "0 < minute"
  by (simp add: minute_def)

lemma hour_pos [simp]: "0 < hour"
  by (simp add: hour_def)

lemma day_pos [simp]: "0 < day"
  by (simp add: day_def)

lemma unix_mono: "s \<le> t \<Longrightarrow> unix s \<le> unix t"
  by (simp add: unix_def zdiv_mono1)

section \<open>JSON documents\<close>

text \<open>
  What \<open>encoding/json\<close> writes. The text of a document is never inspected by the portal, so a
  document is kept as a tree; an instant is marshalled in RFC 3339 form, here \<open>JTime\<close>. A stored
  value is either a plain text (the markers and counters) or a document. Texts are taken to be UTF-8: the library
  replaces bytes that are not by U+FFFD, here they stay as they are.
\<close>

datatype json =
    JNull
  | JBool bool
  | JInt int
  | JStr string
  | JTime time
  | JArr "json list"
  | JObj "(string \<times> json) list"

datatype blob = Raw string | Doc json

text \<open>
  \<open>json.Unmarshal\<close> into a struct field by field: a missing or null member leaves the zero value,
  a member of another type is an error (\<open>None\<close>).
\<close>

fun member_str :: "(string \<times> json) list \<Rightarrow> string \<Rightarrow> string option" where
  "member_str ms k =
     (case map_of ms k of
        None \<Rightarrow> Some ''''
      | Some JNull \<Rightarrow> Some ''''
      | Some (JStr s) \<Rightarrow> Some s
      | Some _ \<Rightarrow> None)"

fun member_int :: "(string \<times> json) list \<Rightarrow> string \<Rightarrow> int option" where
  "member_int ms k =
     (case map_of ms k of
        None \<Rightarrow> Some 0
      | Some JNull \<Rightarrow> Some 0
      | Some (JInt i) \<Rightarrow> Some i
      | Some _ \<Rightarrow> None)"

text \<open>The zero \<open>time.Time\<close> is 1 January of year 1, in nanoseconds before the epoch.\<close>

definition zero_time :: time where
  "zero_time = - 62135596800 * second"

fun member_time :: "(string \<times> json) list \<Rightarrow> string \<Rightarrow> time option" where
  "member_time ms k =
     (case map_of ms k of
        None \<Rightarrow> Some zero_time
      | Some JNull \<Rightarrow> Some zero_time
      | Some (JTime t) \<Rightarrow> Some t
      | Some _ \<Rightarrow> None)"

text \<open>All members of a list decode, or the whole list does not.\<close>

fun sequence :: "'a option list \<Rightarrow> 'a list option" where
  "sequence [] = Some []"
| "sequence (None # xs) = None"
| "sequence (Some x # xs) = map_option (Cons x) (sequence xs)"

text \<open>\<open>json.Unmarshal\<close> into a slice of structs, given the decoder of one struct.\<close>

fun unmarshal_list :: "(json \<Rightarrow> 'a option) \<Rightarrow> blob \<Rightarrow> 'a list option" where
  "unmarshal_list f (Doc (JArr js)) = sequence (map f js)"
| "unmarshal_list f (Doc JNull) = Some []"
| "unmarshal_list f _ = None"

definition marshal_list :: "('a \<Rightarrow> json) \<Rightarrow> 'a list \<Rightarrow> blob" where
  "marshal_list f xs = Doc (JArr (map f xs))"

lemma sequence_map_Some [simp]: "sequence (map (\<lambda>x. Some (f x)) xs) = Some (map f xs)"
  by (induction xs) auto

lemma sequence_all:
  "(\<And>x. x \<in> set xs \<Longrightarrow> f x = Some (g x)) \<Longrightarrow> sequence (map f xs) = Some (map g xs)"
  by (induction xs) auto

lemma unmarshal_marshal [json_simps]:
  "(\<And>x. x \<in> set xs \<Longrightarrow> dec (enc x) = Some (g x))
    \<Longrightarrow> unmarshal_list dec (marshal_list enc xs) = Some (map g xs)"
  by (simp add: marshal_list_def) (rule sequence_all, simp)

lemma marshal_not_empty_text [simp]: "marshal_list f xs \<noteq> Raw s"
  by (simp add: marshal_list_def)

section \<open>Generic lemmas\<close>

lemma filter_eq_length_iff: "length (filter P xs) = length xs \<longleftrightarrow> (\<forall>x\<in>set xs. P x)"
  by (metis filter_id_conv length_filter_less less_irrefl filter_True)

lemma filter_neq_absent: "x \<notin> f ` set xs \<Longrightarrow> filter (\<lambda>y. f y \<noteq> x) xs = xs"
  by (auto intro!: filter_True)

lemma filter_neq_length:
  "length (filter (\<lambda>y. f y \<noteq> x) xs) = length xs \<longleftrightarrow> x \<notin> f ` set xs"
  by (auto simp: filter_eq_length_iff)

lemma distinct_map_drop: "distinct (map f xs) \<Longrightarrow> distinct (map f (drop n xs))"
  by (simp add: drop_map [symmetric] del: drop_map)

end
