(* ===== verification/Go_Strings.thy ===== *)
theory Go_Strings
  imports Prelude
begin

text \<open>
  The parts of Go's \<open>strings\<close>, \<open>unicode/utf8\<close>, \<open>strconv\<close>, \<open>path/filepath\<close> and \<open>encoding/hex\<close> packages the
  portal uses, on byte strings. Functions whose behaviour beyond ASCII is a Unicode table
  (\<open>strings.ToLower\<close>, \<open>strings.EqualFold\<close>) take that part as an argument, in the place where
  Go's own implementation leaves its ASCII fast path.
\<close>

section \<open>Characters\<close>

abbreviation code :: "char \<Rightarrow> nat" where
  "code \<equiv> of_char"

definition is_digit :: "char \<Rightarrow> bool" where
  "is_digit c \<longleftrightarrow> 48 \<le> code c \<and> code c \<le> 57"

definition is_upper :: "char \<Rightarrow> bool" where
  "is_upper c \<longleftrightarrow> 65 \<le> code c \<and> code c \<le> 90"

definition is_lower :: "char \<Rightarrow> bool" where
  "is_lower c \<longleftrightarrow> 97 \<le> code c \<and> code c \<le> 122"

definition ascii :: "string \<Rightarrow> bool" where
  "ascii s \<longleftrightarrow> list_all (\<lambda>c. code c < 128) s"

definition lower_char :: "char \<Rightarrow> char" where
  "lower_char c = (if is_upper c then char_of (code c + 32) else c)"

definition upper_char :: "char \<Rightarrow> char" where
  "upper_char c = (if is_lower c then char_of (code c - 32) else c)"

section \<open>Prefixes, suffixes, searching\<close>

fun HasPrefix :: "string \<Rightarrow> string \<Rightarrow> bool" where
  "HasPrefix s [] = True"
| "HasPrefix [] (p # ps) = False"
| "HasPrefix (c # s) (p # ps) = (c = p \<and> HasPrefix s ps)"

definition HasSuffix :: "string \<Rightarrow> string \<Rightarrow> bool" where
  "HasSuffix s p = HasPrefix (rev s) (rev p)"

definition CutPrefix :: "string \<Rightarrow> string \<Rightarrow> string option" where
  "CutPrefix s p = (if HasPrefix s p then Some (drop (length p) s) else None)"

definition TrimPrefix :: "string \<Rightarrow> string \<Rightarrow> string" where
  "TrimPrefix s p = (if HasPrefix s p then drop (length p) s else s)"

text \<open>\<open>strings.Index\<close>, with \<open>None\<close> for -1.\<close>

fun Index :: "string \<Rightarrow> string \<Rightarrow> nat option" where
  "Index [] sub = (if sub = [] then Some 0 else None)"
| "Index (c # s) sub = (if HasPrefix (c # s) sub then Some 0 else map_option Suc (Index s sub))"

definition Contains :: "string \<Rightarrow> string \<Rightarrow> bool" where
  "Contains s sub \<longleftrightarrow> Index s sub \<noteq> None"

text \<open>\<open>strings.Cut\<close>: the text before and after the first separator, and whether it was found.\<close>

definition Cut :: "string \<Rightarrow> string \<Rightarrow> string \<times> string \<times> bool" where
  "Cut s sep =
     (case Index s sep of
        None \<Rightarrow> (s, [], False)
      | Some i \<Rightarrow> (take i s, drop (i + length sep) s, True))"

text \<open>\<open>strings.LastIndex\<close> for a separator of one byte.\<close>

fun LastIndex :: "string \<Rightarrow> char \<Rightarrow> nat option" where
  "LastIndex [] c = None"
| "LastIndex (x # xs) c =
     (case LastIndex xs c of
        Some i \<Rightarrow> Some (Suc i)
      | None \<Rightarrow> if x = c then Some 0 else None)"

text \<open>\<open>strings.Split\<close> on a separator of one byte.\<close>

fun Split :: "string \<Rightarrow> char \<Rightarrow> string list" where
  "Split [] c = [[]]"
| "Split (x # xs) c =
     (if x = c then [] # Split xs c
      else (case Split xs c of [] \<Rightarrow> [[x]] | w # ws \<Rightarrow> (x # w) # ws))"

section \<open>Trimming white space\<close>

text \<open>\<open>strings.Join\<close>.\<close>

fun join_sep :: "string \<Rightarrow> string list \<Rightarrow> string" where
  "join_sep sep [] = []"
| "join_sep sep [s] = s"
| "join_sep sep (s # ss) = s @ sep @ join_sep sep ss"

text \<open>
  The UTF-8 encodings of the characters \<open>unicode.IsSpace\<close> accepts. A string starts (ends) with
  such a character exactly when it starts (ends) with the bytes of its encoding.
\<close>

definition space_encodings :: "string list" where
  "space_encodings =
     map (map char_of)
       ([[9], [10], [11], [12], [13], [32], [194, 133], [194, 160], [225, 154, 128],
         [226, 128, 168], [226, 128, 169], [226, 128, 175], [226, 129, 159], [227, 128, 128],
         [226, 128, 128], [226, 128, 129], [226, 128, 130], [226, 128, 131], [226, 128, 132],
         [226, 128, 133], [226, 128, 134], [226, 128, 135], [226, 128, 136], [226, 128, 137],
         [226, 128, 138]] :: nat list list)"

definition match_len :: "string list \<Rightarrow> string \<Rightarrow> nat" where
  "match_len es s = (case find (HasPrefix s) es of None \<Rightarrow> 0 | Some e \<Rightarrow> length e)"

function trim_left :: "string list \<Rightarrow> string \<Rightarrow> string" where
  "trim_left es s =
     (if s = [] \<or> match_len es s = 0 then s else trim_left es (drop (match_len es s) s))"
  by pat_completeness auto
termination
  by (relation "measure (\<lambda>(es, s). length s)") auto

declare trim_left.simps [simp del]

definition TrimSpace :: "string \<Rightarrow> string" where
  "TrimSpace s = rev (trim_left (map rev space_encodings) (rev (trim_left space_encodings s)))"

section \<open>Case\<close>

text \<open>
  The Unicode part of the case functions: \<open>u_lower\<close> is \<open>strings.ToLower\<close>, \<open>u_upper\<close> \<open>strings.ToUpper\<close> and \<open>u_fold\<close>
  \<open>strings.EqualFold\<close> on strings that are not pure ASCII; \<open>u_letter\<close> and \<open>u_number\<close> are the categories L
  and N of runes.
\<close>

record unicode =
  u_lower :: "string \<Rightarrow> string"
  u_upper :: "string \<Rightarrow> string"
  u_fold :: "string \<Rightarrow> string \<Rightarrow> bool"
  u_letter :: "nat \<Rightarrow> bool"
  u_number :: "nat \<Rightarrow> bool"

text \<open>Tables that know no letters beyond ASCII, for examples.\<close>

definition plain_unicode :: unicode where
  "plain_unicode = \<lparr>u_lower = \<lambda>s. s, u_upper = \<lambda>s. s, u_fold = \<lambda>s t. s = t,
     u_letter = \<lambda>r. 65 \<le> r \<and> r \<le> 90 \<or> 97 \<le> r \<and> r \<le> 122, u_number = \<lambda>r. 48 \<le> r \<and> r \<le> 57\<rparr>"

definition ToLower :: "unicode \<Rightarrow> string \<Rightarrow> string" where
  "ToLower U s = (if ascii s then map lower_char s else u_lower U s)"

definition ToUpper :: "unicode \<Rightarrow> string \<Rightarrow> string" where
  "ToUpper U s = (if ascii s then map upper_char s else u_upper U s)"

definition EqualFold :: "unicode \<Rightarrow> string \<Rightarrow> string \<Rightarrow> bool" where
  "EqualFold U s t =
     (if ascii s \<and> ascii t then map lower_char s = map lower_char t else u_fold U s t)"

section \<open>Runes\<close>

definition cont :: "nat \<Rightarrow> bool" where
  "cont b \<longleftrightarrow> 128 \<le> b \<and> b \<le> 191"

text \<open>
  \<open>utf8.DecodeRune\<close> on byte values: the rune and how many bytes it takes; an invalid encoding
  gives U+FFFD and one byte.
\<close>

definition rune2 :: "nat \<Rightarrow> nat \<Rightarrow> nat" where
  "rune2 b c = (b - 192) * 64 + (c - 128)"

definition rune3 :: "nat \<Rightarrow> nat \<Rightarrow> nat \<Rightarrow> nat" where
  "rune3 b c d = (b - 224) * 4096 + (c - 128) * 64 + (d - 128)"

definition rune4 :: "nat \<Rightarrow> nat \<Rightarrow> nat \<Rightarrow> nat \<Rightarrow> nat" where
  "rune4 b c d e = (b - 240) * 262144 + (c - 128) * 4096 + (d - 128) * 64 + (e - 128)"

fun decode_rune :: "nat list \<Rightarrow> nat \<times> nat" where
  "decode_rune [] = (65533, 0)"
| "decode_rune (b # bs) =
     (if b < 128 then (b, 1)
      else if 194 \<le> b \<and> b \<le> 223 then
        (case bs of
           c # _ \<Rightarrow> if cont c then (rune2 b c, 2) else (65533, 1)
         | _ \<Rightarrow> (65533, 1))
      else if 224 \<le> b \<and> b \<le> 239 then
        (case bs of
           c # d # _ \<Rightarrow>
             if cont c \<and> (b = 224 \<longrightarrow> 160 \<le> c) \<and> (b = 237 \<longrightarrow> c \<le> 159) \<and> cont d
             then (rune3 b c d, 3) else (65533, 1)
         | _ \<Rightarrow> (65533, 1))
      else if 240 \<le> b \<and> b \<le> 244 then
        (case bs of
           c # d # e # _ \<Rightarrow>
             if cont c \<and> (b = 240 \<longrightarrow> 144 \<le> c) \<and> (b = 244 \<longrightarrow> c \<le> 143) \<and> cont d \<and> cont e
             then (rune4 b c d e, 4) else (65533, 1)
         | _ \<Rightarrow> (65533, 1))
      else (65533, 1))"

function decode_runes :: "nat list \<Rightarrow> nat list" where
  "decode_runes [] = []"
| "decode_runes (b # bs) =
     (case decode_rune (b # bs) of (r, n) \<Rightarrow> r # decode_runes (drop (n - 1) bs))"
  by pat_completeness auto
termination
  by (relation "measure length") auto

text \<open>The conversion \<open>[]rune(s)\<close>, which is also what \<open>range s\<close> runs over.\<close>

definition runes :: "string \<Rightarrow> nat list" where
  "runes s = decode_runes (map of_char s)"

section \<open>Decimal numbers\<close>

text \<open>\<open>strconv.FormatInt(i, 10)\<close>.\<close>

fun digits_of :: "nat \<Rightarrow> string" where
  "digits_of n = (if n < 10 then [char_of (48 + n)] else digits_of (n div 10) @ [char_of (48 + n mod 10)])"

declare digits_of.simps [simp del]

definition FormatInt :: "int \<Rightarrow> string" where
  "FormatInt i = (if i < 0 then CHR ''-'' # digits_of (nat (- i)) else digits_of (nat i))"

fun parse_digits :: "nat \<Rightarrow> string \<Rightarrow> nat option" where
  "parse_digits n [] = Some n"
| "parse_digits n (c # cs) =
     (if is_digit c then parse_digits (10 * n + (code c - 48)) cs else None)"

text \<open>
  \<open>strconv.ParseInt(s, 10, 64)\<close>: an optional sign, then decimal digits, in the range of \<open>int64\<close>;
  \<open>None\<close> is an error.
\<close>

definition int64_min :: int where "int64_min = - 9223372036854775808"
definition int64_max :: int where "int64_max = 9223372036854775807"

definition parse_nat :: "string \<Rightarrow> int option" where
  "parse_nat s = (if s = [] then None else map_option int (parse_digits 0 s))"

definition int_syntax :: "string \<Rightarrow> int option" where
  "int_syntax s =
     (case s of
        [] \<Rightarrow> None
      | c # cs \<Rightarrow>
          if c = CHR ''-'' then map_option uminus (parse_nat cs)
          else if c = CHR ''+'' then parse_nat cs
          else parse_nat s)"

definition ParseInt :: "string \<Rightarrow> int option" where
  "ParseInt s =
     (case int_syntax s of
        None \<Rightarrow> None
      | Some i \<Rightarrow> if int64_min \<le> i \<and> i \<le> int64_max then Some i else None)"

text \<open>The number \<open>ParseInt\<close> returns beside its error: 0 for malformed text, the nearest bound for a
  number out of range.\<close>

definition ParseInt_value :: "string \<Rightarrow> int" where
  "ParseInt_value s =
     (case int_syntax s of None \<Rightarrow> 0 | Some i \<Rightarrow> max int64_min (min int64_max i))"

text \<open>Arithmetic on \<open>int64\<close> wraps around.\<close>

definition wrap64 :: "int \<Rightarrow> int" where
  "wrap64 i = (i + 9223372036854775808) mod 18446744073709551616 - 9223372036854775808"

section \<open>Paths\<close>

text \<open>\<open>filepath.Join\<close>: elements are joined with slashes and the result is cleaned.\<close>

fun path_stack :: "bool \<Rightarrow> string list \<Rightarrow> string list \<Rightarrow> string list" where
  "path_stack rooted st [] = rev st"
| "path_stack rooted st (p # ps) =
     (if p = [] \<or> p = ''.'' then path_stack rooted st ps
      else if p = ''..'' then
        (case st of
           [] \<Rightarrow> path_stack rooted (if rooted then [] else [p]) ps
         | q # qs \<Rightarrow> path_stack rooted (if q = ''..'' then p # st else qs) ps)
      else path_stack rooted (p # st) ps)"

fun join_slash :: "string list \<Rightarrow> string" where
  "join_slash [] = []"
| "join_slash [p] = p"
| "join_slash (p # ps) = p @ ''/'' @ join_slash ps"

definition Clean :: "string \<Rightarrow> string" where
  "Clean p =
     (let rooted = HasPrefix p ''/''; q = join_slash (path_stack rooted [] (Split p CHR ''/''))
      in if rooted then ''/'' @ q else if q = [] then ''.'' else q)"

definition Join :: "string \<Rightarrow> string \<Rightarrow> string" where
  "Join a b =
     (if a = [] \<and> b = [] then []
      else Clean (if a = [] then b else if b = [] then a else a @ ''/'' @ b))"

section \<open>Hexadecimal digits\<close>

definition upper_hex :: "nat \<Rightarrow> char" where
  "upper_hex n = ''0123456789ABCDEF'' ! n"

definition unhex :: "char \<Rightarrow> nat option" where
  "unhex c =
     (if is_digit c then Some (code c - 48)
      else if 97 \<le> code c \<and> code c \<le> 102 then Some (code c - 87)
      else if 65 \<le> code c \<and> code c \<le> 70 then Some (code c - 55)
      else None)"

lemma nibbles: "code c div 16 < 16" "code c mod 16 < 16"
  using nat_of_char_less_256 [of c] less_mult_imp_div_less [of "code c" 16 16] by auto

lemma unhex_hex: "n < 16 \<Longrightarrow> unhex (upper_hex n) = Some n"
proof -
  have "\<forall>n\<in>set [0..<16]. unhex (upper_hex n) = Some n" by code_simp
  then show "n < 16 \<Longrightarrow> ?thesis" by simp
qed

section \<open>Lemmas\<close>

lemma HasPrefix_iff [go_simps]: "HasPrefix s p \<longleftrightarrow> (\<exists>r. s = p @ r)"
  by (induction s p rule: HasPrefix.induct) auto

lemma HasPrefix_append [simp]: "HasPrefix (p @ r) p"
  by (auto simp: HasPrefix_iff)

lemma HasPrefix_mono: "HasPrefix s e \<Longrightarrow> HasPrefix (s @ t) e"
  by (auto simp: HasPrefix_iff)

lemma CutPrefix_Some [go_simps]: "CutPrefix s p = Some r \<longleftrightarrow> s = p @ r"
  by (auto simp: CutPrefix_def HasPrefix_iff)

lemma Index_absent: "c \<notin> set s \<Longrightarrow> Index s [c] = None"
  by (induction s) auto

lemma Index_first: "c \<notin> set s \<Longrightarrow> Index (s @ c # t) [c] = Some (length s)"
  by (induction s) auto

lemma Cut_first: "c \<notin> set s \<Longrightarrow> Cut (s @ c # t) [c] = (s, t, True)"
  by (simp add: Cut_def Index_first)

lemma Cut_absent: "c \<notin> set s \<Longrightarrow> Cut s [c] = (s, [], False)"
  by (simp add: Cut_def Index_absent)

lemma LastIndex_Some:
  "LastIndex s c = Some i \<Longrightarrow> i < length s \<and> s ! i = c \<and> c \<notin> set (drop (Suc i) s)"
proof (induction s arbitrary: i)
  case Nil
  then show ?case by simp
next
  case (Cons x s)
  show ?case
  proof (cases "LastIndex s c")
    case None
    with Cons.prems have "x = c" "i = 0" by (auto split: if_splits)
    moreover have "c \<notin> set s"
      using None by (induction s) (auto split: option.splits if_splits)
    ultimately show ?thesis by simp
  next
    case (Some j)
    with Cons show ?thesis by auto
  qed
qed

lemma LastIndex_None: "LastIndex s c = None \<longleftrightarrow> c \<notin> set s"
  by (induction s) (auto split: option.splits)

lemma match_len_0: "[] \<notin> set es \<Longrightarrow> match_len es s = 0 \<longleftrightarrow> (\<forall>e\<in>set es. \<not> HasPrefix s e)"
  by (auto simp: match_len_def find_None_iff find_Some_iff split: option.splits)
    (metis nth_mem)

lemma trim_left_id: "match_len es s = 0 \<Longrightarrow> trim_left es s = s"
  by (simp add: trim_left.simps)

lemma trim_left_stops: "trim_left es s = [] \<or> match_len es (trim_left es s) = 0"
proof (induction es s rule: trim_left.induct)
  case (1 es s)
  then show ?case
    by (cases "s = [] \<or> match_len es s = 0") (auto simp: trim_left.simps [of es s])
qed

lemma trim_left_suffix: "suffix (trim_left es s) s"
proof (induction es s rule: trim_left.induct)
  case (1 es s)
  then show ?case
    by (cases "s = [] \<or> match_len es s = 0")
      (auto simp: trim_left.simps [of es s] intro: suffix_order.trans suffix_drop)
qed

lemma space_encodings_nonempty [simp]:
  "[] \<notin> set space_encodings" "[] \<notin> rev ` set space_encodings"
  by (auto simp: space_encodings_def)

text \<open>A text no white-space character starts or ends.\<close>

definition trimmed :: "string \<Rightarrow> bool" where
  "trimmed s \<longleftrightarrow> (\<forall>e\<in>set space_encodings. \<not> HasPrefix s e \<and> \<not> HasSuffix s e)"

lemma trimmed_TrimSpace [go_simps]: "trimmed s \<Longrightarrow> TrimSpace s = s"
proof -
  assume a: "trimmed s"
  then have "match_len space_encodings s = 0"
    by (simp add: match_len_0 trimmed_def)
  moreover from a have "match_len (map rev space_encodings) (rev s) = 0"
    by (simp add: match_len_0 trimmed_def HasSuffix_def)
  ultimately show ?thesis
    by (simp add: TrimSpace_def trim_left_id)
qed

lemma TrimSpace_trimmed: "TrimSpace s = [] \<or> trimmed (TrimSpace s)"
proof (cases "TrimSpace s = []")
  case False
  define l where "l = trim_left space_encodings s"
  define r where "r = trim_left (map rev space_encodings) (rev l)"
  have ts: "TrimSpace s = rev r" by (simp add: TrimSpace_def r_def l_def)
  with False have "r \<noteq> []" by simp
  then have right: "match_len (map rev space_encodings) r = 0"
    using trim_left_stops [of "map rev space_encodings" "rev l"] by (simp add: r_def)
  have "suffix r (rev l)" by (simp add: r_def trim_left_suffix)
  then have pre: "prefix (rev r) l"
    by (metis rev_rev_ident suffix_to_prefix)
  with \<open>r \<noteq> []\<close> have "l \<noteq> []" by auto
  then have "match_len space_encodings l = 0"
    using trim_left_stops [of space_encodings s] by (simp add: l_def)
  with pre have "\<not> HasPrefix (rev r) e" if "e \<in> set space_encodings" for e
    using that by (auto simp: match_len_0 HasPrefix_iff prefix_def)
  with right show ?thesis
    by (simp add: ts trimmed_def HasSuffix_def match_len_0)
qed simp

lemma TrimSpace_Nil [simp]: "TrimSpace [] = []"
  by (simp add: TrimSpace_def trim_left.simps [of _ "[]"])

lemma TrimSpace_idem [simp]: "TrimSpace (TrimSpace s) = TrimSpace s"
  using TrimSpace_trimmed [of s] trimmed_TrimSpace [of "TrimSpace s"] by auto

lemma lower_char_idem [simp]: "lower_char (lower_char c) = lower_char c"
  by (simp add: lower_char_def is_upper_def)

lemma lower_char_ascii: "code c < 128 \<Longrightarrow> code (lower_char c) < 128"
  by (simp add: lower_char_def is_upper_def)

lemma ToLower_ascii: "ascii s \<Longrightarrow> ToLower U s = map lower_char s"
  by (simp add: ToLower_def)

lemma ToLower_ascii_idem: "ascii s \<Longrightarrow> ToLower U (ToLower U s) = ToLower U s"
  by (auto simp: ToLower_def ascii_def list_all_iff lower_char_ascii)

lemma rune2_wide: "194 \<le> b \<Longrightarrow> 128 \<le> rune2 b c"
  by (simp add: rune2_def)

lemma rune3_wide: "224 \<le> b \<Longrightarrow> (b = 224 \<longrightarrow> 160 \<le> c) \<Longrightarrow> 128 \<le> rune3 b c d"
  by (cases "b = 224") (simp_all add: rune3_def)

lemma rune4_wide: "240 \<le> b \<Longrightarrow> (b = 240 \<longrightarrow> 144 \<le> c) \<Longrightarrow> 128 \<le> rune4 b c d e"
  by (cases "b = 240") (simp_all add: rune4_def)

lemma decode_rune_wide:
  assumes "128 \<le> b"
  shows "128 \<le> fst (decode_rune (b # bs))"
    and "\<forall>x\<in>set (take (snd (decode_rune (b # bs)) - 1) bs). 128 \<le> x"
proof -
  consider "bs = []" | c where "bs = [c]" | c d where "bs = [c, d]" | c d e r where "bs = c # d # e # r"
    by (metis list.exhaust)
  then have "128 \<le> fst (decode_rune (b # bs)) \<and>
      (\<forall>x\<in>set (take (snd (decode_rune (b # bs)) - 1) bs). 128 \<le> x)"
    using assms by cases (simp_all add: cont_def rune2_wide rune3_wide rune4_wide)
  then show "128 \<le> fst (decode_rune (b # bs))"
    and "\<forall>x\<in>set (take (snd (decode_rune (b # bs)) - 1) bs). 128 \<le> x" by blast+
qed

text \<open>Decoding neither creates nor swallows ASCII characters.\<close>

lemma filter_ascii_runes:
  "filter (\<lambda>r. r < 128) (decode_runes bs) = filter (\<lambda>b. b < 128) bs"
proof (induction bs rule: decode_runes.induct)
  case 1
  then show ?case by simp
next
  case (2 b bs)
  obtain r n where rn: "decode_rune (b # bs) = (r, n)" by fastforce
  with 2 have IH: "filter (\<lambda>r. r < 128) (decode_runes (drop (n - 1) bs))
      = filter (\<lambda>b. b < 128) (drop (n - 1) bs)"
    by auto
  show ?case
  proof (cases "b < 128")
    case True
    with rn have "r = b" "n = 1" by auto
    with True IH show ?thesis by (simp del: decode_rune.simps add: rn)
  next
    case False
    have "filter (\<lambda>b. b < 128) bs
        = filter (\<lambda>b. b < 128) (take (n - 1) bs) @ filter (\<lambda>b. b < 128) (drop (n - 1) bs)"
      by (metis append_take_drop_id filter_append)
    moreover from False decode_rune_wide [of b bs]
    have "128 \<le> r" "filter (\<lambda>b. b < 128) (take (n - 1) bs) = []"
      by (auto simp: rn filter_empty_conv simp del: decode_rune.simps)
    ultimately show ?thesis
      using False IH by (simp del: decode_rune.simps add: rn)
  qed
qed

lemma decode_runes_narrow: "\<forall>r\<in>set (decode_runes bs). r < 128 \<Longrightarrow> \<forall>b\<in>set bs. b < 128"
proof (induction bs rule: decode_runes.induct)
  case (2 b bs)
  obtain r n where d: "decode_rune (b # bs) = (r, n)" by fastforce
  from "2.prems" have r: "r < 128" by (simp del: decode_rune.simps add: d)
  have b: "b < 128"
  proof (rule ccontr)
    assume "\<not> b < 128"
    with decode_rune_wide(1) [of b bs] d r show False by (simp del: decode_rune.simps)
  qed
  then have "n = 1" using d by simp
  with "2.IH" [OF d [symmetric]] "2.prems" b show ?case by (simp del: decode_rune.simps add: d)
qed simp

lemma decode_runes_ascii: "\<forall>b\<in>set bs. b < 128 \<Longrightarrow> decode_runes bs = bs"
  by (induction bs rule: decode_runes.induct) auto

lemma runes_narrow: "list_all (\<lambda>r. r < 128) (runes s) \<longleftrightarrow> ascii s"
  using decode_runes_narrow [of "map of_char s"] decode_runes_ascii [of "map of_char s"]
  by (auto simp: runes_def ascii_def list_all_iff)

lemma runes_ascii [go_simps]: "ascii s \<Longrightarrow> runes s = map of_char s"
  by (simp add: runes_def ascii_def list_all_iff decode_runes_ascii)

lemma length_decode_runes: "length (decode_runes bs) \<le> length bs"
proof (induction bs rule: decode_runes.induct)
  case (2 b bs)
  obtain r n where rn: "decode_rune (b # bs) = (r, n)" by fastforce
  with 2 have "length (decode_runes (drop (n - 1) bs)) \<le> length (drop (n - 1) bs)" by auto
  then show ?case by (simp del: decode_rune.simps add: rn)
qed simp

lemma length_runes: "length (runes s) \<le> length s"
  using length_decode_runes [of "map of_char s"] by (simp add: runes_def)

text \<open>Printing a number and reading it back.\<close>

lemma is_digit_digit: "(n::nat) < 10 \<Longrightarrow> is_digit (char_of (48 + n))"
  by (simp add: is_digit_def)

lemma digits_of_digits: "\<forall>c\<in>set (digits_of n). is_digit c"
proof (induction n rule: digits_of.induct)
  case (1 n)
  then show ?case
    by (cases "n < 10") (auto simp: digits_of.simps [of n] is_digit_digit)
qed

lemma Split_once: "c \<notin> set s \<Longrightarrow> Split (s @ c # t) c = s # Split t c"
  by (induction s) auto

lemma Split_plain: "c \<notin> set s \<Longrightarrow> Split s c = [s]"
  by (induction s) auto

lemma Split_nonempty: "Split s c \<noteq> []"
  by (induction s) (auto split: list.splits)

lemma join_sep_Cons: "ss \<noteq> [] \<Longrightarrow> join_sep sep (s # ss) = s @ sep @ join_sep sep ss"
  by (cases ss) auto

lemma digits_of_nonempty [simp]: "digits_of n \<noteq> []"
  by (simp add: digits_of.simps [of n])

lemma parse_digits_snoc:
  "parse_digits m s = Some n \<Longrightarrow> is_digit c \<Longrightarrow> parse_digits m (s @ [c]) = Some (10 * n + (code c - 48))"
  by (induction m s rule: parse_digits.induct) (auto split: if_splits)

lemma parse_digits_of: "parse_digits 0 (digits_of n) = Some n"
proof (induction n rule: digits_of.induct)
  case (1 n)
  show ?case
  proof (cases "n < 10")
    case True
    then show ?thesis by (simp add: digits_of.simps [of n] is_digit_def)
  next
    case False
    with 1 have "parse_digits 0 (digits_of (n div 10)) = Some (n div 10)" by simp
    from parse_digits_snoc [OF this is_digit_digit [of "n mod 10"]] False show ?thesis
      by (simp add: digits_of.simps [of n])
  qed
qed

lemma ParseInt_FormatInt [go_simps]:
  assumes "int64_min \<le> i" "i \<le> int64_max"
  shows "ParseInt (FormatInt i) = Some i"
proof -
  have nat: "parse_nat (digits_of n) = Some (int n)" for n
    by (simp add: parse_nat_def parse_digits_of)
  have hd: "\<exists>c cs. digits_of n = c # cs \<and> c \<noteq> CHR ''-'' \<and> c \<noteq> CHR ''+''" for n
    using digits_of_digits [of n] digits_of_nonempty [of n]
    by (cases "digits_of n") (auto simp: is_digit_def)
  show ?thesis
  proof (cases "i < 0")
    case True
    with assms show ?thesis by (simp add: ParseInt_def int_syntax_def FormatInt_def nat)
  next
    case False
    from hd obtain c cs where c: "digits_of (nat i) = c # cs" "c \<noteq> CHR ''-''" "c \<noteq> CHR ''+''"
      by blast
    with nat [of "nat i"] False assms show ?thesis
      by (simp add: ParseInt_def int_syntax_def FormatInt_def)
  qed
qed

lemma ParseInt_value_ok [go_simps]: "ParseInt s = Some i \<Longrightarrow> ParseInt_value s = i"
  by (auto simp: ParseInt_def ParseInt_value_def split: option.splits if_splits)

lemma wrap64_id [simp]: "int64_min \<le> i \<Longrightarrow> i \<le> int64_max \<Longrightarrow> wrap64 i = i"
  by (simp add: wrap64_def int64_min_def int64_max_def)

lemma FormatInt_inj: "FormatInt i = FormatInt j \<Longrightarrow> 0 \<le> i \<Longrightarrow> 0 \<le> j \<Longrightarrow> i = j"
  by (metis FormatInt_def eq_nat_nat_iff not_less option.inject parse_digits_of)

lemma runes_filter:
  assumes "\<And>r. P r \<Longrightarrow> r < 128"
  shows "filter P (runes s) = map of_char (filter (\<lambda>c. P (of_char c)) s)"
proof -
  have "filter P (runes s) = filter P (filter (\<lambda>r. r < 128) (runes s))"
    using assms by (auto intro!: filter_cong)
  also have "\<dots> = filter P (filter (\<lambda>b. b < 128) (map of_char s))"
    by (simp only: runes_def filter_ascii_runes)
  also have "\<dots> = filter P (map of_char s)"
    using assms by (auto intro!: filter_cong)
  finally show ?thesis by (simp add: filter_map o_def)
qed

text \<open>A text between visible ASCII characters has nothing to trim.\<close>

lemma trimmedI:
  assumes "s \<noteq> []" "32 < code (hd s)" "code (hd s) < 127" "32 < code (last s)" "code (last s) < 127"
  shows "trimmed s"
proof -
  obtain a x where s: "s = a # x" using assms(1) by (cases s) auto
  obtain b y where r: "rev s = b # y" using assms(1) by (cases "rev s") auto
  have last: "last s = b" using r by (metis hd_rev list.sel(1) rev_rev_ident)
  have "\<not> HasPrefix s e" if "e \<in> set space_encodings" for e
    using that assms(2,3) by (auto simp: space_encodings_def s)
  moreover have "\<not> HasPrefix (rev s) (rev e)" if "e \<in> set space_encodings" for e
    using that assms(4,5) last by (auto simp: space_encodings_def r)
  ultimately show ?thesis by (auto simp: trimmed_def HasSuffix_def)
qed

end
