(* ===== verification/Storage.thy ===== *)
theory Storage
  imports Go_Strings
begin

text \<open>
  The storage backend. The portal keeps sessions, markers, queues and the audit ring in a
  \<open>fiber.Storage\<close> (memory, SQLite or Redis), which is third-party code: here it is a record of
  operations that every definition using it takes as an argument. The locale \<open>kv_store\<close> states
  what the interface documents: a read that does not fail returns what was last written and has
  not expired, and an operation on one key leaves every other key alone. Any operation may
  fail. A lifetime is the one given to \<open>Set\<close>; the drivers for memory and SQLite count it in whole seconds, so that with them every
  end of a lifetime in a theorem is exact to the second before it. The locale \<open>reliable_store\<close> adds that none does, as for the memory driver.

  The last section instantiates both with an in-memory store with expiry and fault switches.
\<close>

section \<open>The interface\<close>

text \<open>
  Every operation takes the state of the backend and the instant at which it runs. \<open>st_get\<close> is
  \<open>Get\<close> (\<open>Ok None\<close> is Go's \<open>nil, nil\<close>), \<open>st_set\<close> is \<open>Set\<close> with its expiry (0 keeps the value for
  ever), \<open>st_delete\<close> is \<open>Delete\<close>; the last two return the error, if any, and the new state.
\<close>

record 's storage =
  st_get :: "'s \<Rightarrow> time \<Rightarrow> string \<Rightarrow> blob option result"
  st_set :: "'s \<Rightarrow> time \<Rightarrow> string \<Rightarrow> blob \<Rightarrow> duration \<Rightarrow> error option \<times> 's"
  st_delete :: "'s \<Rightarrow> time \<Rightarrow> string \<Rightarrow> error option \<times> 's"

section \<open>The keys\<close>

text \<open>The token purposes and key prefixes of \<open>const.go\<close>.\<close>

definition TokenAccountVerify :: string where "TokenAccountVerify = ''verify''"
definition TokenPasswordReset :: string where "TokenPasswordReset = ''reset''"
definition TokenEmailChange :: string where "TokenEmailChange = ''emailchange''"
definition TokenInvite :: string where "TokenInvite = ''invite''"
definition TokenOTPRecovery :: string where "TokenOTPRecovery = ''otprecovery''"
definition TokenUsedPrefix :: string where "TokenUsedPrefix = ''used-''"
definition TokenIssuedPrefix :: string where "TokenIssuedPrefix = ''issued-''"
definition PasswordChangedPrefix :: string where "PasswordChangedPrefix = ''pwchanged-''"

lemmas purpose_defs =
  TokenAccountVerify_def TokenPasswordReset_def TokenEmailChange_def TokenInvite_def
  TokenOTPRecovery_def

lemmas key_defs =
  purpose_defs TokenUsedPrefix_def TokenIssuedPrefix_def PasswordChangedPrefix_def

definition token_purposes :: "string list" where
  "token_purposes =
     [TokenAccountVerify, TokenPasswordReset, TokenEmailChange, TokenInvite, TokenOTPRecovery]"

definition used_key :: "string \<Rightarrow> string \<Rightarrow> string" where
  "used_key pfx token = pfx @ TokenUsedPrefix @ token"

definition issued_key :: "string \<Rightarrow> string \<Rightarrow> string" where
  "issued_key pfx username = pfx @ TokenIssuedPrefix @ username"

definition pwchanged_key :: "string \<Rightarrow> string" where
  "pwchanged_key username = PasswordChangedPrefix @ username"

section \<open>What the backend promises\<close>

locale kv_store =
  fixes S :: "'s storage"
    and view :: "'s \<Rightarrow> time \<Rightarrow> string \<Rightarrow> blob option"
  assumes get_view: "st_get S s t k = Ok r \<Longrightarrow> r = view s t k"
    and set_same: "st_set S s now k v ttl = (None, s') \<Longrightarrow> k \<noteq> [] \<Longrightarrow> v \<noteq> Raw []
      \<Longrightarrow> now \<le> t \<Longrightarrow> ttl = 0 \<or> t < now + ttl \<Longrightarrow> view s' t k = Some v"
    and set_other: "st_set S s now k v ttl = (e, s') \<Longrightarrow> k' \<noteq> k \<Longrightarrow> view s' t k' = view s t k'"
    and set_only: "st_set S s now k v ttl = (e, s') \<Longrightarrow> now \<le> t
      \<Longrightarrow> view s' t k = view s t k \<or> view s' t k = Some v \<or> view s' t k = None"
    and delete_same: "st_delete S s now k = (None, s') \<Longrightarrow> view s' t k = None"
    and delete_only: "st_delete S s now k = (e, s') \<Longrightarrow> view s' t k = view s t k \<or> view s' t k = None"
    and delete_other: "st_delete S s now k = (e, s') \<Longrightarrow> k' \<noteq> k \<Longrightarrow> view s' t k' = view s t k'"
begin

lemma set_other' [store_simps]: "k' \<noteq> k \<Longrightarrow> view (snd (st_set S s now k v ttl)) t k' = view s t k'"
  by (metis prod.collapse set_other)

lemma delete_other' [store_simps]: "k' \<noteq> k \<Longrightarrow> view (snd (st_delete S s now k)) t k' = view s t k'"
  by (metis prod.collapse delete_other)

end

locale reliable_store = kv_store +
  assumes get_ok: "st_get S s t k = Ok (view s t k)"
    and set_ok: "fst (st_set S s now k v ttl) = None"
    and delete_ok: "fst (st_delete S s now k) = None"
begin

lemma set_same_ok [store_simps]:
  "k \<noteq> [] \<Longrightarrow> v \<noteq> Raw [] \<Longrightarrow> now \<le> t \<Longrightarrow> ttl = 0 \<or> t < now + ttl
    \<Longrightarrow> view (snd (st_set S s now k v ttl)) t k = Some v"
  using set_ok [of s now k v ttl] set_same [of s now k v ttl _ t]
  by (metis prod.collapse)

lemma delete_same_ok [store_simps]: "view (snd (st_delete S s now k)) t k = None"
  by (metis delete_ok delete_same prod.collapse)

end

section \<open>An in-memory store\<close>

record mem =
  cells :: "string \<Rightarrow> (blob \<times> time option) option"
  get_down :: "string \<Rightarrow> bool"
  set_down :: "string \<Rightarrow> bool"
  delete_down :: "string \<Rightarrow> bool"

definition mem_view :: "mem \<Rightarrow> time \<Rightarrow> string \<Rightarrow> blob option" where
  "mem_view m t k =
     (case cells m k of
        None \<Rightarrow> None
      | Some (v, None) \<Rightarrow> Some v
      | Some (v, Some e) \<Rightarrow> if t < e then Some v else None)"

definition mem_get :: "mem \<Rightarrow> time \<Rightarrow> string \<Rightarrow> blob option result" where
  "mem_get m t k = (if get_down m k then Err (EText ''storage'') else Ok (mem_view m t k))"

definition mem_set :: "mem \<Rightarrow> time \<Rightarrow> string \<Rightarrow> blob \<Rightarrow> duration \<Rightarrow> error option \<times> mem" where
  "mem_set m now k v ttl =
     (if set_down m k then (Some (EText ''storage''), m)
      else if k = [] \<or> v = Raw [] then (None, m)
      else (None, m\<lparr>cells := (cells m)(k := Some (v, if ttl = 0 then None else Some (now + ttl)))\<rparr>))"

definition mem_delete :: "mem \<Rightarrow> time \<Rightarrow> string \<Rightarrow> error option \<times> mem" where
  "mem_delete m now k =
     (if delete_down m k then (Some (EText ''storage''), m)
      else (None, m\<lparr>cells := (cells m)(k := None)\<rparr>))"

definition mem_storage :: "mem storage" where
  "mem_storage = \<lparr>st_get = mem_get, st_set = mem_set, st_delete = mem_delete\<rparr>"

text \<open>The memory driver, which has no faults.\<close>

type_synonym cells = "string \<Rightarrow> (blob \<times> time option) option"

definition sound_storage :: "cells storage" where
  "sound_storage =
     (let m = (\<lambda>c. \<lparr>cells = c, get_down = \<lambda>_. False, set_down = \<lambda>_. False, delete_down = \<lambda>_. False\<rparr>)
      in \<lparr>st_get = (\<lambda>c. mem_get (m c)),
          st_set = (\<lambda>c now k v ttl. (None, cells (snd (mem_set (m c) now k v ttl)))),
          st_delete = (\<lambda>c now k. (None, cells (snd (mem_delete (m c) now k))))\<rparr>)"

definition sound_view :: "cells \<Rightarrow> time \<Rightarrow> string \<Rightarrow> blob option" where
  "sound_view c =
     mem_view \<lparr>cells = c, get_down = \<lambda>_. False, set_down = \<lambda>_. False, delete_down = \<lambda>_. False\<rparr>"

definition empty_mem :: mem where
  "empty_mem =
     \<lparr>cells = \<lambda>_. None, get_down = \<lambda>_. False, set_down = \<lambda>_. False, delete_down = \<lambda>_. False\<rparr>"

lemmas mem_defs = mem_storage_def mem_get_def mem_set_def mem_delete_def mem_view_def

lemmas sound_defs = sound_storage_def sound_view_def Let_def mem_get_def mem_set_def
  mem_delete_def mem_view_def

interpretation mem: kv_store mem_storage mem_view
  by unfold_locales (auto simp: mem_defs split: if_splits)

interpretation sound: reliable_store sound_storage sound_view
  by unfold_locales (auto simp: sound_defs split: if_splits)

section \<open>The key families do not overlap\<close>

lemma purpose_cases:
  "p \<in> set token_purposes \<longleftrightarrow>
     p = ''verify'' \<or> p = ''reset'' \<or> p = ''emailchange'' \<or> p = ''invite'' \<or> p = ''otprecovery''"
  by (auto simp: token_purposes_def purpose_defs)

lemma used_key_inj:
  "p \<in> set token_purposes \<Longrightarrow> q \<in> set token_purposes \<Longrightarrow>
    used_key p x = used_key q y \<longleftrightarrow> p = q \<and> x = y"
  by (auto simp: purpose_cases used_key_def key_defs)

lemma issued_key_inj:
  "p \<in> set token_purposes \<Longrightarrow> q \<in> set token_purposes \<Longrightarrow>
    issued_key p x = issued_key q y \<longleftrightarrow> p = q \<and> x = y"
  by (auto simp: purpose_cases issued_key_def key_defs)

lemma used_issued_disjoint:
  "p \<in> set token_purposes \<Longrightarrow> q \<in> set token_purposes \<Longrightarrow> used_key p x \<noteq> issued_key q y"
  by (auto simp: purpose_cases used_key_def issued_key_def key_defs)

lemma key_nonempty [simp]: "used_key p x \<noteq> []" "issued_key p x \<noteq> []" "pwchanged_key u \<noteq> []"
  by (auto simp: used_key_def issued_key_def pwchanged_key_def key_defs)

end
