(* ===== verification/Sessions.thy ===== *)
theory Sessions
  imports Storage
begin

text \<open>
  The inventory of active sessions (\<open>sessions.go\<close>). Every login adds the id of its session to a
  per-user index kept under one storage key; the security page lists the index and revokes
  entries. The data of a session is stored by the session middleware under the session id
  itself, so deleting that key signs the session out.

  The operations below run under the storage lock of the index key, at one instant each. The
  lemmas show the shape of the index (distinct ids, bounded length, login order) as an invariant
  and what each operation does to the index and to the session data, on a backend that works.
\<close>

section \<open>The index\<close>

definition userSessionsPrefix :: string where "userSessionsPrefix = ''usersessions-''"
definition userSessionsTTL :: duration where "userSessionsTTL = 30 * 24 * hour"
definition userSessionsMax :: nat where "userSessionsMax = 20"

record UserSession =
  SID :: string
  LoginTime :: time
  us_IP :: string
  Browser :: string
  OS :: string
  Current :: bool

text \<open>\<open>Current\<close> carries the tag \<open>json:"-"\<close>.\<close>

definition marshal_UserSession :: "UserSession \<Rightarrow> json" where
  "marshal_UserSession u =
     JObj [(''sid'', JStr (SID u)), (''login_time'', JTime (LoginTime u)), (''ip'', JStr (us_IP u)),
           (''browser'', JStr (Browser u)), (''os'', JStr (OS u))]"

fun unmarshal_UserSession :: "json \<Rightarrow> UserSession option" where
  "unmarshal_UserSession (JObj ms) =
     (case (member_str ms ''sid'', member_time ms ''login_time'', member_str ms ''ip'',
            member_str ms ''browser'', member_str ms ''os'') of
        (Some sid, Some lt, Some ip, Some br, Some os) \<Rightarrow>
          Some \<lparr>SID = sid, LoginTime = lt, us_IP = ip, Browser = br, OS = os, Current = False\<rparr>
      | _ \<Rightarrow> None)"
| "unmarshal_UserSession JNull =
     Some \<lparr>SID = [], LoginTime = zero_time, us_IP = [], Browser = [], OS = [], Current = False\<rparr>"
| "unmarshal_UserSession _ = None"

definition sessions_key :: "string \<Rightarrow> string" where
  "sessions_key username = userSessionsPrefix @ username"

definition loadSessionIndex :: "'s storage \<Rightarrow> string \<Rightarrow> time \<Rightarrow> 's \<Rightarrow> UserSession list" where
  "loadSessionIndex S username now s =
     (case st_get S s now (sessions_key username) of
        Err _ \<Rightarrow> []
      | Ok None \<Rightarrow> []
      | Ok (Some raw) \<Rightarrow>
          (case unmarshal_list unmarshal_UserSession raw of None \<Rightarrow> [] | Some ss \<Rightarrow> ss))"

text \<open>A storage error is only logged.\<close>

definition saveSessionIndex ::
    "'s storage \<Rightarrow> string \<Rightarrow> UserSession list \<Rightarrow> time \<Rightarrow> 's \<Rightarrow> 's" where
  "saveSessionIndex S username sessions now s =
     (if sessions = [] then snd (st_delete S s now (sessions_key username))
      else snd (st_set S s now (sessions_key username)
                  (marshal_list marshal_UserSession sessions) userSessionsTTL))"

section \<open>Operations\<close>

text \<open>The browser and system names parsed from the User-Agent header and the remote address are
  arguments.\<close>

definition recordUserSession ::
    "'s storage \<Rightarrow> string \<Rightarrow> string \<Rightarrow> string \<Rightarrow> string \<Rightarrow> string \<Rightarrow> time \<Rightarrow> 's \<Rightarrow> 's" where
  "recordUserSession S username sid ip uaName uaOS now s =
     (let sessions = loadSessionIndex S username now s;
          kept = filter (\<lambda>x. SID x \<noteq> sid) sessions @
            [\<lparr>SID = sid, LoginTime = now, us_IP = ip, Browser = uaName, OS = uaOS, Current = False\<rparr>];
          kept' = (if length kept > userSessionsMax then drop (length kept - userSessionsMax) kept
                   else kept)
      in saveSessionIndex S username kept' now s)"

definition sessionAlive :: "'s storage \<Rightarrow> string \<Rightarrow> time \<Rightarrow> 's \<Rightarrow> bool" where
  "sessionAlive S sid now s =
     (case st_get S s now sid of Err _ \<Rightarrow> False | Ok None \<Rightarrow> False | Ok (Some _) \<Rightarrow> True)"

definition userSessions ::
    "'s storage \<Rightarrow> string \<Rightarrow> string \<Rightarrow> time \<Rightarrow> 's \<Rightarrow> UserSession list \<times> 's" where
  "userSessions S username currentSID now s =
     (let sessions = loadSessionIndex S username now s;
          live = map (\<lambda>x. x\<lparr>Current := (SID x = currentSID)\<rparr>)
                   (filter (\<lambda>x. sessionAlive S (SID x) now s) sessions);
          s' = (if length live \<noteq> length sessions then saveSessionIndex S username live now s
                else if length live > 0 then saveSessionIndex S username sessions now s
                else s)
      in (rev live, s'))"

definition revokeUserSession :: "'s storage \<Rightarrow> string \<Rightarrow> string \<Rightarrow> time \<Rightarrow> 's \<Rightarrow> bool \<times> 's" where
  "revokeUserSession S username sid now s =
     (let sessions = loadSessionIndex S username now s;
          kept = filter (\<lambda>x. SID x \<noteq> sid) sessions;
          found = list_ex (\<lambda>x. SID x = sid) sessions
      in if \<not> found then (False, s)
         else (let s1 = snd (st_delete S s now sid)
               in (True, saveSessionIndex S username kept now s1)))"

text \<open>The loop of \<open>revokeOtherUserSessions\<close>: the kept entries, the count and the backend.\<close>

fun revoke_others_loop ::
    "'s storage \<Rightarrow> string \<Rightarrow> time \<Rightarrow> UserSession list \<Rightarrow> UserSession list \<times> nat \<times> 's
      \<Rightarrow> UserSession list \<times> nat \<times> 's" where
  "revoke_others_loop S currentSID now [] st = st"
| "revoke_others_loop S currentSID now (x # xs) (kept, revoked, s) =
     (if SID x = currentSID then revoke_others_loop S currentSID now xs (kept @ [x], revoked, s)
      else (case st_delete S s now (SID x) of
              (None, s') \<Rightarrow> revoke_others_loop S currentSID now xs (kept, Suc revoked, s')
            | (Some _, s') \<Rightarrow> revoke_others_loop S currentSID now xs (kept, revoked, s')))"

definition revokeOtherUserSessions ::
    "'s storage \<Rightarrow> string \<Rightarrow> string \<Rightarrow> time \<Rightarrow> 's \<Rightarrow> nat \<times> 's" where
  "revokeOtherUserSessions S username currentSID now s =
     (let sessions = loadSessionIndex S username now s;
          (kept, revoked, s1) = revoke_others_loop S currentSID now sessions ([], 0, s)
      in (revoked, saveSessionIndex S username kept now s1))"

definition dropSessionFromIndex :: "'s storage \<Rightarrow> string \<Rightarrow> string \<Rightarrow> time \<Rightarrow> 's \<Rightarrow> 's" where
  "dropSessionFromIndex S username sid now s =
     saveSessionIndex S username
       (filter (\<lambda>x. SID x \<noteq> sid) (loadSessionIndex S username now s)) now s"

section \<open>The index as a value\<close>

text \<open>What is stored of an entry: everything but \<open>Current\<close>.\<close>

definition stored :: "UserSession \<Rightarrow> UserSession" where
  "stored u = u\<lparr>Current := False\<rparr>"

lemma UserSession_json [json_simps]: "unmarshal_UserSession (marshal_UserSession u) = Some (stored u)"
  by (simp add: marshal_UserSession_def stored_def)

lemma SID_stored [simp]: "SID (stored u) = SID u" "stored (stored u) = stored u"
  "stored (u\<lparr>Current := b\<rparr>) = stored u"
  by (simp_all add: stored_def)

lemma unmarshal_stored: "unmarshal_UserSession j = Some u \<Longrightarrow> stored u = u"
  by (cases j) (auto simp: stored_def simp del: member_str.simps member_time.simps
      split: option.splits)

lemma sequence_elem: "sequence xs = Some ys \<Longrightarrow> y \<in> set ys \<Longrightarrow> Some y \<in> set xs"
  by (induction xs arbitrary: ys rule: sequence.induct) auto

lemma load_stored: "x \<in> set (loadSessionIndex S u now s) \<Longrightarrow> stored x = x"
proof -
  assume "x \<in> set (loadSessionIndex S u now s)"
  then obtain raw ss where r: "unmarshal_list unmarshal_UserSession raw = Some ss" "x \<in> set ss"
    by (auto simp: loadSessionIndex_def eq_commute [of "Some _"] split: sum.splits option.splits)
  then obtain js where "sequence (map unmarshal_UserSession js) = Some ss \<or> ss = []"
    by (cases "(unmarshal_UserSession, raw)" rule: unmarshal_list.cases) auto
  with r(2) obtain j where "unmarshal_UserSession j = Some x"
    by (auto dest!: sequence_elem)
  then show ?thesis by (rule unmarshal_stored)
qed

lemma map_stored_id: "(\<And>x. x \<in> set xs \<Longrightarrow> stored x = x) \<Longrightarrow> map stored xs = xs"
  by (induction xs) auto

lemma map_stored_filter [simp]:
  "map stored (filter P (loadSessionIndex S u now s)) = filter P (loadSessionIndex S u now s)"
  by (rule map_stored_id) (auto intro: load_stored)

text \<open>The last \<open>userSessionsMax\<close> entries of an index, and the entry a login appends.\<close>

definition newest :: "UserSession list \<Rightarrow> UserSession list" where
  "newest xs = drop (length xs - userSessionsMax) xs"

definition fresh_session :: "string \<Rightarrow> time \<Rightarrow> string \<Rightarrow> string \<Rightarrow> string \<Rightarrow> UserSession" where
  "fresh_session sid now ip br os =
     \<lparr>SID = sid, LoginTime = now, us_IP = ip, Browser = br, OS = os, Current = False\<rparr>"

lemma recordUserSession_newest:
  "recordUserSession S u sid ip br os now s =
     saveSessionIndex S u
       (newest (filter (\<lambda>x. SID x \<noteq> sid) (loadSessionIndex S u now s) @ [fresh_session sid now ip br os]))
       now s"
  by (simp add: recordUserSession_def Let_def newest_def fresh_session_def)

lemma map_stored_newest [simp]:
  "map stored (newest (filter P (loadSessionIndex S u now s) @ [fresh_session sid now ip br os]))
    = newest (filter P (loadSessionIndex S u now s) @ [fresh_session sid now ip br os])"
  unfolding newest_def
  by (rule map_stored_id, drule in_set_dropD) (auto simp: fresh_session_def stored_def load_stored [unfolded stored_def])

lemma sessions_key_nonempty [simp]: "sessions_key u \<noteq> []"
  by (simp add: sessions_key_def userSessionsPrefix_def)

lemma userSessionsTTL_pos [simp]: "0 < userSessionsTTL"
  by (simp add: userSessionsTTL_def)

lemma sessions_key_inj [simp]: "sessions_key u = sessions_key v \<longleftrightarrow> u = v"
  by (simp add: sessions_key_def)

section \<open>What the operations do on a working backend\<close>

context reliable_store
begin

abbreviation idx :: "string \<Rightarrow> time \<Rightarrow> 'a \<Rightarrow> UserSession list" where
  "idx u t s \<equiv> loadSessionIndex S u t s"

lemma idx_save:
  assumes "now \<le> t" "t < now + userSessionsTTL"
  shows "idx u t (saveSessionIndex S u xs now s) = map stored xs"
proof (cases "xs = []")
  case True
  then show ?thesis
    by (simp add: loadSessionIndex_def saveSessionIndex_def get_ok delete_same_ok)
next
  case False
  with assms have "view (saveSessionIndex S u xs now s) t (sessions_key u)
      = Some (marshal_list marshal_UserSession xs)"
    by (simp add: saveSessionIndex_def set_same_ok)
  moreover have "unmarshal_list unmarshal_UserSession (marshal_list marshal_UserSession xs)
      = Some (map stored xs)"
    by (rule unmarshal_marshal) (simp add: json_simps)
  ultimately show ?thesis
    by (simp add: loadSessionIndex_def get_ok)
qed

lemma save_other [store_simps]:
  "k \<noteq> sessions_key u \<Longrightarrow> view (saveSessionIndex S u xs now s) t k = view s t k"
  by (simp add: saveSessionIndex_def set_other' delete_other')

lemma idx_cong: "view s t (sessions_key u) = view s' t (sessions_key u) \<Longrightarrow> idx u t s = idx u t s'"
  by (simp add: loadSessionIndex_def get_ok)

lemma alive_iff: "sessionAlive S sid now s \<longleftrightarrow> view s now sid \<noteq> None"
  by (auto simp: sessionAlive_def get_ok split: option.splits)

lemma idx_record:
  assumes "now \<le> t" "t < now + userSessionsTTL"
  shows "idx u t (recordUserSession S u sid ip br os now s)
    = newest (filter (\<lambda>x. SID x \<noteq> sid) (idx u now s) @ [fresh_session sid now ip br os])"
  using assms by (simp add: recordUserSession_newest idx_save map_stored_newest)

lemma idx_drop:
  assumes "now \<le> t" "t < now + userSessionsTTL"
  shows "idx u t (dropSessionFromIndex S u sid now s) = filter (\<lambda>x. SID x \<noteq> sid) (idx u now s)"
  using assms
  by (simp add: dropSessionFromIndex_def idx_save)

lemma revoke_foreign: "sid \<notin> SID ` set (idx u now s) \<Longrightarrow> revokeUserSession S u sid now s = (False, s)"
  by (auto simp: revokeUserSession_def Let_def list_ex_iff)

lemma revoke_own:
  assumes "sid \<in> SID ` set (idx u now s)" "sid \<noteq> sessions_key u"
    "now \<le> t" "t < now + userSessionsTTL"
  defines "s' \<equiv> snd (revokeUserSession S u sid now s)"
  shows "fst (revokeUserSession S u sid now s)"
    and "idx u t s' = filter (\<lambda>x. SID x \<noteq> sid) (idx u now s)"
    and "view s' t sid = None"
    and "\<And>k. k \<noteq> sid \<Longrightarrow> k \<noteq> sessions_key u \<Longrightarrow> view s' t k = view s t k"
proof -
  from assms(1) have f: "list_ex (\<lambda>x. SID x = sid) (idx u now s)"
    by (auto simp: list_ex_iff)
  then show "fst (revokeUserSession S u sid now s)"
    by (simp add: revokeUserSession_def Let_def)
  have s': "s' = saveSessionIndex S u (filter (\<lambda>x. SID x \<noteq> sid) (idx u now s)) now
      (snd (st_delete S s now sid))"
    using f by (simp add: s'_def revokeUserSession_def Let_def)
  show "idx u t s' = filter (\<lambda>x. SID x \<noteq> sid) (idx u now s)"
    using assms(3,4) by (simp add: s' idx_save)
  show "view s' t sid = None"
    using assms(2) by (simp add: s' save_other delete_same_ok)
  show "\<And>k. k \<noteq> sid \<Longrightarrow> k \<noteq> sessions_key u \<Longrightarrow> view s' t k = view s t k"
    by (simp add: s' save_other delete_other')
qed

lemma revoke_others_loop_spec:
  "revoke_others_loop S cur now xs (kept, n, s) = (kept', n', s')
    \<Longrightarrow> kept' = kept @ filter (\<lambda>x. SID x = cur) xs
      \<and> n' = n + length (filter (\<lambda>x. SID x \<noteq> cur) xs)
      \<and> (\<forall>t. \<forall>k. view s' t k = (if k \<noteq> cur \<and> k \<in> SID ` set xs then None else view s t k))"
proof (induction xs arbitrary: kept n s)
  case Nil
  then show ?case by simp
next
  case (Cons x xs)
  show ?case
  proof (cases "SID x = cur")
    case True
    with Cons.prems have "revoke_others_loop S cur now xs (kept @ [x], n, s) = (kept', n', s')"
      by simp
    from Cons.IH [OF this] True show ?thesis by simp
  next
    case False
    obtain s1 where d: "st_delete S s now (SID x) = (None, s1)"
      by (metis delete_ok prod.collapse)
    with Cons.prems False have "revoke_others_loop S cur now xs (kept, Suc n, s1) = (kept', n', s')"
      by simp
    note IH = Cons.IH [OF this]
    have v: "view s1 t k = (if k = SID x then None else view s t k)" for t k
      using delete_same [OF d] delete_other [OF d] by auto
    from IH False show ?thesis
      by (auto simp: v)
  qed
qed

lemma revoke_others:
  assumes "\<And>x. x \<in> set (idx u now s) \<Longrightarrow> SID x \<noteq> sessions_key u"
    "now \<le> t" "t < now + userSessionsTTL"
    and "revokeOtherUserSessions S u cur now s = (n, s')"
  shows "idx u t s' = filter (\<lambda>x. SID x = cur) (idx u now s)"
    and "n = length (filter (\<lambda>x. SID x \<noteq> cur) (idx u now s))"
    and "\<And>k. k \<noteq> sessions_key u
      \<Longrightarrow> view s' t k = (if k \<noteq> cur \<and> k \<in> SID ` set (idx u now s) then None else view s t k)"
proof -
  obtain kept m s1 where l: "revoke_others_loop S cur now (idx u now s) ([], 0, s) = (kept, m, s1)"
    by (metis prod.collapse)
  note spec = revoke_others_loop_spec [OF l]
  from assms(4) l have n: "n = m" and s': "s' = saveSessionIndex S u kept now s1"
    by (auto simp: revokeOtherUserSessions_def Let_def)
  show "idx u t s' = filter (\<lambda>x. SID x = cur) (idx u now s)"
    using assms(2,3) spec by (simp add: s' idx_save)
  show "n = length (filter (\<lambda>x. SID x \<noteq> cur) (idx u now s))"
    using spec n by simp
  show "\<And>k. k \<noteq> sessions_key u
      \<Longrightarrow> view s' t k = (if k \<noteq> cur \<and> k \<in> SID ` set (idx u now s) then None else view s t k)"
    using spec by (simp add: s' save_other)
qed

text \<open>Listing shows the live entries, newest first, and keeps exactly those in the index.\<close>

lemma list_sessions:
  assumes "now \<le> t" "t < now + userSessionsTTL" and "userSessions S u cur now s = (shown, s')"
  shows "map SID shown = rev (map SID (filter (\<lambda>x. view s now (SID x) \<noteq> None) (idx u now s)))"
    and "\<And>x. x \<in> set shown \<Longrightarrow> Current x = (SID x = cur)"
    and "idx u now s \<noteq> [] \<Longrightarrow> idx u t s' = filter (\<lambda>x. view s now (SID x) \<noteq> None) (idx u now s)"
    and "\<And>k. k \<noteq> sessions_key u \<Longrightarrow> view s' t k = view s t k"
proof -
  let ?live = "filter (\<lambda>x. view s now (SID x) \<noteq> None) (idx u now s)"
  let ?shown = "map (\<lambda>x. x\<lparr>Current := (SID x = cur)\<rparr>) ?live"
  have shown: "shown = rev ?shown"
    and s': "s' = (if length ?live \<noteq> length (idx u now s) then saveSessionIndex S u ?shown now s
       else if length ?live > 0 then saveSessionIndex S u (idx u now s) now s else s)"
    using assms(3) by (auto simp: userSessions_def Let_def alive_iff)
  show "map SID shown = rev (map SID ?live)"
    by (simp add: shown rev_map o_def)
  show "\<And>x. x \<in> set shown \<Longrightarrow> Current x = (SID x = cur)"
    by (auto simp: shown)
  have strip: "idx u t (saveSessionIndex S u ?shown now s) = ?live"
    using map_stored_filter [of "\<lambda>x. view s now (SID x) \<noteq> None" S u now s] assms(1,2)
    by (simp add: idx_save o_def)
  have all: "?live = idx u now s" if "length ?live = length (idx u now s)"
    using that by (simp only: filter_eq_length_iff filter_id_conv)
  have id: "map stored (idx u now s) = idx u now s"
    using map_stored_filter [of "\<lambda>_. True" S u now s] by simp
  show "idx u now s \<noteq> [] \<Longrightarrow> idx u t s' = ?live"
    using assms(1,2) all id strip by (cases "length ?live = length (idx u now s)") (simp_all add: s' idx_save)
  show "\<And>k. k \<noteq> sessions_key u \<Longrightarrow> view s' t k = view s t k"
    by (simp add: s' save_other)
qed

end

section \<open>The shape of the index, whatever the backend does\<close>

text \<open>
  An index holds at most \<open>userSessionsMax\<close> entries with distinct ids, all of them of a kind \<open>G\<close>. The five operations on the
  indexes, as commands of a trace; each command names the user it works for and the instant it runs.
\<close>

definition index_ok :: "(string \<Rightarrow> bool) \<Rightarrow> UserSession list \<Rightarrow> bool" where
  "index_ok G xs \<longleftrightarrow> distinct (map SID xs) \<and> length xs \<le> userSessionsMax \<and> (\<forall>x\<in>set xs. G (SID x))"

datatype session_op =
    Login string string string string
  | ListSessions string
  | Revoke string
  | RevokeOthers string
  | Forget string

fun session_step :: "'s storage \<Rightarrow> time \<times> string \<times> session_op \<Rightarrow> 's \<Rightarrow> 's" where
  "session_step S (now, u, Login sid ip br os) s = recordUserSession S u sid ip br os now s"
| "session_step S (now, u, ListSessions cur) s = snd (userSessions S u cur now s)"
| "session_step S (now, u, Revoke sid) s = snd (revokeUserSession S u sid now s)"
| "session_step S (now, u, RevokeOthers cur) s = snd (revokeOtherUserSessions S u cur now s)"
| "session_step S (now, u, Forget sid) s = dropSessionFromIndex S u sid now s"

definition session_trace :: "'s storage \<Rightarrow> (time \<times> string \<times> session_op) list \<Rightarrow> 's \<Rightarrow> 's" where
  "session_trace S ops s = fold (session_step S) ops s"

lemma index_ok_filter: "index_ok G xs \<Longrightarrow> index_ok G (filter P xs)"
  by (auto simp: index_ok_def distinct_map_filter intro: le_trans [OF length_filter_le])

lemma index_ok_Nil [simp]: "index_ok G []"
  by (simp add: index_ok_def)

lemma index_ok_map: "(\<And>x. SID (f x) = SID x) \<Longrightarrow> index_ok G (map f xs) = index_ok G xs"
  by (simp add: index_ok_def o_def)

lemma index_ok_newest:
  "index_ok G xs \<Longrightarrow> G (SID y) \<Longrightarrow> SID y \<notin> SID ` set xs \<Longrightarrow> index_ok G (newest (xs @ [y]))"
  by (auto simp: index_ok_def newest_def distinct_map_drop simp flip: drop_append
      simp del: drop_append dest!: in_set_dropD)

context kv_store
begin

text \<open>Every index that a read from now on can find decodes and is well formed.\<close>

definition indexes_ok :: "(string \<Rightarrow> bool) \<Rightarrow> time \<Rightarrow> 's \<Rightarrow> bool" where
  "indexes_ok G now s \<longleftrightarrow> (\<forall>u t raw. now \<le> t \<longrightarrow> view s t (sessions_key u) = Some raw
     \<longrightarrow> (\<exists>ss. unmarshal_list unmarshal_UserSession raw = Some ss \<and> index_ok G ss))"

lemma indexes_ok_load:
  assumes "indexes_ok G now s" "now \<le> t"
  shows "index_ok G (loadSessionIndex S u t s)"
proof -
  have "index_ok G ss" if "st_get S s t (sessions_key u) = Ok (Some raw)" "unmarshal_list unmarshal_UserSession raw = Some ss" for raw ss
    using that get_view [OF that(1)] assms unfolding indexes_ok_def by (metis option.inject)
  then show ?thesis by (simp add: loadSessionIndex_def split: sum.split option.split)
qed

lemma indexes_ok_later: "indexes_ok G now s \<Longrightarrow> now \<le> t \<Longrightarrow> indexes_ok G t s"
  unfolding indexes_ok_def by (meson order_trans)

lemma indexes_ok_delete: "indexes_ok G now s \<Longrightarrow> indexes_ok G now (snd (st_delete S s now k))"
  unfolding indexes_ok_def
  by (metis delete_only delete_other' option.distinct(1) prod.collapse)

lemma indexes_ok_save:
  assumes "indexes_ok G now s" "index_ok G xs"
  shows "indexes_ok G now (saveSessionIndex S u xs now s)"
proof (cases "xs = []")
  case True
  with assms(1) show ?thesis by (simp add: saveSessionIndex_def indexes_ok_delete)
next
  case False
  let ?raw = "marshal_list marshal_UserSession xs"
  have dec: "unmarshal_list unmarshal_UserSession ?raw = Some (map stored xs)"
    by (rule unmarshal_marshal) (simp add: json_simps)
  obtain e s' where set: "st_set S s now (sessions_key u) ?raw userSessionsTTL = (e, s')" by fastforce
  have "\<exists>ss. unmarshal_list unmarshal_UserSession raw = Some ss \<and> index_ok G ss"
    if t: "now \<le> t" "view s' t (sessions_key v) = Some raw" for v t raw
  proof (cases "v = u")
    case True
    with set_only [OF set t(1)] t(2) have "view s t (sessions_key v) = Some raw \<or> raw = ?raw"
      by auto
    with t assms dec show ?thesis
      by (auto simp: indexes_ok_def index_ok_map)
  next
    case False
    then have "view s t (sessions_key v) = Some raw"
      using set_other [OF set, of "sessions_key v" t] t(2) by simp
    with t assms(1) show ?thesis
      by (auto simp: indexes_ok_def)
  qed
  with False set show ?thesis
    by (auto simp: saveSessionIndex_def indexes_ok_def)
qed

lemma revoke_others_loop_ok:
  "indexes_ok G now s \<Longrightarrow> revoke_others_loop S cur now xs (kept, n, s) = (kept', n', s')
    \<Longrightarrow> kept' = kept @ filter (\<lambda>x. SID x = cur) xs \<and> indexes_ok G now s'"
proof (induction xs arbitrary: kept n s)
  case (Cons x xs)
  have del: "indexes_ok G now (snd (st_delete S s now (SID x)))"
    by (rule indexes_ok_delete [OF Cons.prems(1)])
  show ?case
  proof (cases "SID x = cur")
    case True
    with Cons.prems(2) have "revoke_others_loop S cur now xs (kept @ [x], n, s) = (kept', n', s')"
      by simp
    from Cons.IH [OF Cons.prems(1) this] True show ?thesis by simp
  next
    case False
    with Cons.prems(2) obtain m where
      "revoke_others_loop S cur now xs (kept, m, snd (st_delete S s now (SID x))) = (kept', n', s')"
      by (auto split: prod.splits option.splits)
    from Cons.IH [OF del this] False show ?thesis by simp
  qed
qed simp

lemma session_step_ok:
  assumes "indexes_ok G now s" and "\<And>sid ip br os. oper = Login sid ip br os \<Longrightarrow> G sid"
  shows "indexes_ok G now (session_step S (now, u, oper) s)"
proof -
  note load = indexes_ok_load [OF assms(1) order_refl, of u]
  note assms(1) [simp]
  show ?thesis
  proof (cases oper)
    case (Login sid ip br os)
    have "index_ok G (newest (filter (\<lambda>x. SID x \<noteq> sid) (loadSessionIndex S u now s)
        @ [fresh_session sid now ip br os]))"
      by (rule index_ok_newest) (use assms(2) Login in \<open>auto simp: index_ok_filter load fresh_session_def\<close>)
    with Login show ?thesis by (simp add: recordUserSession_newest indexes_ok_save)
  next
    case (ListSessions cur)
    with load show ?thesis
      by (auto simp: userSessions_def Let_def index_ok_map index_ok_filter intro!: indexes_ok_save)
  next
    case (Revoke sid)
    with load show ?thesis
      by (auto simp: revokeUserSession_def Let_def index_ok_filter
          intro!: indexes_ok_save indexes_ok_delete)
  next
    case (RevokeOthers cur)
    obtain kept n s1 where l: "revoke_others_loop S cur now (loadSessionIndex S u now s) ([], 0, s)
        = (kept, n, s1)" by (metis prod.collapse)
    with revoke_others_loop_ok [OF assms(1) l] load RevokeOthers show ?thesis
      by (auto simp: revokeOtherUserSessions_def Let_def index_ok_filter intro!: indexes_ok_save)
  next
    case (Forget sid)
    with load show ?thesis
      by (auto simp: dropSessionFromIndex_def index_ok_filter intro!: indexes_ok_save)
  qed
qed

lemma session_trace_ok:
  assumes "sorted (map fst ops)" "\<And>x. x \<in> fst ` set ops \<Longrightarrow> t0 \<le> x \<and> x \<le> t" "indexes_ok G t0 s" "t0 \<le> t"
    and "\<forall>x\<in>set ops. \<forall>sid ip br os. snd (snd x) = Login sid ip br os \<longrightarrow> G sid"
  shows "indexes_ok G t (session_trace S ops s)"
  using assms
proof (induction ops arbitrary: t0 s)
  case Nil
  then show ?case by (auto simp: session_trace_def intro: indexes_ok_later)
next
  case (Cons x ops)
  obtain now u oper where x: "x = (now, u, oper)" by (metis prod_cases3)
  have ops: "now \<le> y \<and> y \<le> t" if "y \<in> fst ` set ops" for y
    using Cons.prems(1) Cons.prems(2) [of y] that by (auto simp: x)
  have "indexes_ok G now (session_step S x s)"
    unfolding x using Cons.prems(2) [of now]
    by (intro session_step_ok indexes_ok_later [OF Cons.prems(3)]) (use Cons.prems(5) in \<open>auto simp: x\<close>)
  moreover have "sorted (map fst ops)" "now \<le> t" using Cons.prems(1) Cons.prems(2) [of now] by (simp_all add: x)
  ultimately have "indexes_ok G t (session_trace S ops (session_step S x s))"
    using Cons.IH [OF _ ops] Cons.prems(5) by simp
  then show ?case by (simp add: session_trace_def)
qed

end

section \<open>Properties\<close>

text \<open>
  Session index invariant. From a store that holds no index, after any sequence of logins,
  listings, revocations and logouts of any users at non-decreasing times, every index that loads
  has at most 20 entries with distinct session ids, even where storage operations fail.
\<close>

theorem session_index_invariant:
  assumes "kv_store S view" and "sorted (map fst ops)"
    and "\<And>x. x \<in> fst ` set ops \<Longrightarrow> t0 \<le> x \<and> x \<le> t" and "t0 \<le> t"
    and "\<And>x v. t0 \<le> x \<Longrightarrow> view s x (sessions_key v) = None"
  shows "distinct (map SID (loadSessionIndex S u t (session_trace S ops s)))
    \<and> length (loadSessionIndex S u t (session_trace S ops s)) \<le> userSessionsMax"
proof -
  have "kv_store.indexes_ok view (\<lambda>_. True) t0 s"
    using assms(5) by (simp add: kv_store.indexes_ok_def [OF assms(1)])
  from kv_store.session_trace_ok [OF assms(1-3) this assms(4)]
  show ?thesis
    using kv_store.indexes_ok_load [OF assms(1)] by (simp add: index_ok_def)
qed

text \<open>
  Recording a login. For the lifetime of the index it then holds the entries it had, less the
  one of the same session id, followed by the new one, cut to the newest 20; other keys are kept.
\<close>

theorem login_recorded:
  assumes "reliable_store S view" and "now \<le> t" and "t < now + userSessionsTTL"
  shows "loadSessionIndex S u t (recordUserSession S u sid ip br os now s)
      = newest (filter (\<lambda>x. SID x \<noteq> sid) (loadSessionIndex S u now s) @ [fresh_session sid now ip br os])
    \<and> (\<forall>k. k \<noteq> sessions_key u \<longrightarrow> view (recordUserSession S u sid ip br os now s) t k = view s t k)"
  using reliable_store.idx_record [OF assms(1-3)] reliable_store.save_other [OF assms(1)]
  by (simp add: recordUserSession_newest)

text \<open>
  Ownership of revocation. Revoking a session id that is not in the user's own index changes
  nothing and reports so. Revoking one that is deletes the session's data, drops exactly its
  entry from the index, and touches no other key.
\<close>

theorem revoke_own_sessions_only:
  assumes "reliable_store S view" and "sid \<noteq> sessions_key u" and "now \<le> t" and "t < now + userSessionsTTL"
  shows "case revokeUserSession S u sid now s of (found, s') \<Rightarrow>
    found = (sid \<in> SID ` set (loadSessionIndex S u now s))
    \<and> (if found then view s' t sid = None
          \<and> loadSessionIndex S u t s' = filter (\<lambda>x. SID x \<noteq> sid) (loadSessionIndex S u now s)
          \<and> (\<forall>k. k \<noteq> sid \<and> k \<noteq> sessions_key u \<longrightarrow> view s' t k = view s t k)
       else s' = s)"
proof (cases "sid \<in> SID ` set (loadSessionIndex S u now s)")
  case True
  note own = reliable_store.revoke_own [OF assms(1) True assms(2-4)]
  from own(1) True own(2-4) show ?thesis
    by (auto simp: case_prod_unfold)
next
  case False
  with reliable_store.revoke_foreign [OF assms(1)] show ?thesis
    by (simp add: case_prod_unfold)
qed

text \<open>
  Signing out everywhere else. The data of every indexed session but the current one is gone,
  the index keeps only the current session, the count is that of the others, and every other key
  keeps its value: in particular a session whose entry fell off the index stays alive.
\<close>

theorem revoke_others_exact:
  assumes "reliable_store S view"
    and "\<And>x. x \<in> set (loadSessionIndex S u now s) \<Longrightarrow> SID x \<noteq> sessions_key u"
    and "now \<le> t" and "t < now + userSessionsTTL"
  shows "case revokeOtherUserSessions S u cur now s of (n, s') \<Rightarrow>
    n = length (filter (\<lambda>x. SID x \<noteq> cur) (loadSessionIndex S u now s))
    \<and> loadSessionIndex S u t s' = filter (\<lambda>x. SID x = cur) (loadSessionIndex S u now s)
    \<and> (\<forall>k. k \<noteq> sessions_key u \<longrightarrow> view s' t k =
          (if k \<noteq> cur \<and> k \<in> SID ` set (loadSessionIndex S u now s) then None else view s t k))"
  using reliable_store.revoke_others [OF assms]
  by (cases "revokeOtherUserSessions S u cur now s") simp

section \<open>Witnesses\<close>

definition demo_ops :: "(time \<times> string \<times> session_op) list" where
  "demo_ops = [(1, ''alice'', Login ''s1'' ''10.0.0.1'' ''Firefox'' ''Linux''),
     (2, ''alice'', Login ''s2'' ''10.0.0.2'' ''Safari'' ''iOS''), (3, ''bob'', ListSessions ''s9''),
     (4, ''alice'', Revoke ''s1'')]"

theorem session_index_invariant_witness:
  "distinct (map SID (loadSessionIndex sound_storage ''alice'' 5
       (session_trace sound_storage demo_ops Map.empty)))"
  by (rule conjunct1 [OF session_index_invariant [OF sound.kv_store_axioms, of demo_ops 0 5]])
    (auto simp: demo_ops_def sound_view_def mem_view_def)

lemma sound_reliable: "reliable_store sound_storage sound_view"
  by (rule sound.reliable_store_axioms)

definition demo_cells :: cells where
  "demo_cells = recordUserSession sound_storage ''alice'' ''s1'' [] [] [] 0 Map.empty"

lemma demo_idx: "0 \<le> t \<Longrightarrow> t < userSessionsTTL
    \<Longrightarrow> loadSessionIndex sound_storage ''alice'' t demo_cells = [fresh_session ''s1'' 0 [] [] []]"
  unfolding demo_cells_def
  by (subst sound.idx_record)
    (simp_all add: newest_def userSessionsMax_def loadSessionIndex_def sound_defs)

theorem login_recorded_witness:
  "loadSessionIndex sound_storage ''alice'' 1
     (recordUserSession sound_storage ''alice'' ''s2'' [] [] [] 1 demo_cells)
    = [fresh_session ''s1'' 0 [] [] [], fresh_session ''s2'' 1 [] [] []]"
  using login_recorded [OF sound_reliable, of 1 1 "''alice''" "''s2''" "[]" "[]" "[]" demo_cells]
  by (simp add: demo_idx newest_def userSessionsMax_def userSessionsTTL_def fresh_session_def hour_def
      minute_def second_def)

theorem revoke_own_sessions_only_witness:
  "fst (revokeUserSession sound_storage ''alice'' ''s1'' 1 demo_cells)
    \<and> \<not> fst (revokeUserSession sound_storage ''alice'' ''s7'' 1 demo_cells)"
  using revoke_own_sessions_only [OF sound_reliable, of "''s1''" "''alice''" 1 1 demo_cells]
    revoke_own_sessions_only [OF sound_reliable, of "''s7''" "''alice''" 1 1 demo_cells]
  by (auto simp: demo_idx userSessionsTTL_def fresh_session_def hour_def minute_def second_def
      sessions_key_def userSessionsPrefix_def)

theorem revoke_others_exact_witness:
  "fst (revokeOtherUserSessions sound_storage ''alice'' ''s2'' 1 demo_cells) = 1"
  using revoke_others_exact [OF sound_reliable, of "''alice''" 1 demo_cells 1 "''s2''"]
  by (auto simp: demo_idx userSessionsTTL_def fresh_session_def hour_def minute_def second_def
      sessions_key_def userSessionsPrefix_def)

end
