(* ===== verification/Queues.thy ===== *)
theory Queues
  imports Storage
begin

text \<open>
  The request queues: join and leave requests per group (\<open>group_requests.go\<close>) and OTP recovery
  requests (\<open>otprecovery.go\<close>). Both keep a JSON list under one storage key, load it with every
  error read as the empty list, and rewrite it whole. The locale \<open>request_queue\<close> is the contract
  the two share, with an entry per user name; the handlers rely on it and on nothing else. It is
  interpreted on the operations of both files for every backend that works.

  Each operation runs under the storage lock of its key (see the theory \<open>Store_Lock\<close>), so it is one
  atomic change of the backend here.
\<close>

section \<open>Group requests\<close>

definition groupRequestsPrefix :: string where "groupRequestsPrefix = ''grouprequests-''"
definition groupRequestsTTL :: duration where "groupRequestsTTL = 30 * day"
definition groupRequestJoin :: string where "groupRequestJoin = ''join''"
definition groupRequestLeave :: string where "groupRequestLeave = ''leave''"

record GroupRequest =
  gr_Username :: string
  gr_Type :: string
  gr_RequestedAt :: time

definition marshal_GroupRequest :: "GroupRequest \<Rightarrow> json" where
  "marshal_GroupRequest r =
     JObj [(''username'', JStr (gr_Username r)), (''type'', JStr (gr_Type r)),
           (''requested_at'', JTime (gr_RequestedAt r))]"

fun unmarshal_GroupRequest :: "json \<Rightarrow> GroupRequest option" where
  "unmarshal_GroupRequest (JObj ms) =
     (case (member_str ms ''username'', member_str ms ''type'', member_time ms ''requested_at'') of
        (Some u, Some ty, Some at) \<Rightarrow> Some \<lparr>gr_Username = u, gr_Type = ty, gr_RequestedAt = at\<rparr>
      | _ \<Rightarrow> None)"
| "unmarshal_GroupRequest JNull =
     Some \<lparr>gr_Username = [], gr_Type = [], gr_RequestedAt = zero_time\<rparr>"
| "unmarshal_GroupRequest _ = None"

definition groupRequests_key :: "string \<Rightarrow> string" where
  "groupRequests_key g = groupRequestsPrefix @ g"

definition loadGroupRequests :: "'s storage \<Rightarrow> string \<Rightarrow> time \<Rightarrow> 's \<Rightarrow> GroupRequest list" where
  "loadGroupRequests S g now s =
     (case st_get S s now (groupRequests_key g) of
        Err _ \<Rightarrow> []
      | Ok None \<Rightarrow> []
      | Ok (Some raw) \<Rightarrow>
          (case unmarshal_list unmarshal_GroupRequest raw of None \<Rightarrow> [] | Some reqs \<Rightarrow> reqs))"

text \<open>A storage error is only logged.\<close>

definition saveGroupRequests ::
    "'s storage \<Rightarrow> string \<Rightarrow> GroupRequest list \<Rightarrow> time \<Rightarrow> 's \<Rightarrow> 's" where
  "saveGroupRequests S g reqs now s =
     (if reqs = [] then snd (st_delete S s now (groupRequests_key g))
      else snd (st_set S s now (groupRequests_key g) (marshal_list marshal_GroupRequest reqs)
                  groupRequestsTTL))"

definition addGroupRequest ::
    "'s storage \<Rightarrow> string \<Rightarrow> string \<Rightarrow> string \<Rightarrow> time \<Rightarrow> 's \<Rightarrow> bool \<times> 's" where
  "addGroupRequest S g username reqType now s =
     (let reqs = loadGroupRequests S g now s
      in if list_ex (\<lambda>req. gr_Username req = username) reqs then (False, s)
         else (True, saveGroupRequests S g
                 (reqs @ [\<lparr>gr_Username = username, gr_Type = reqType, gr_RequestedAt = now\<rparr>]) now s))"

definition removeGroupRequest :: "'s storage \<Rightarrow> string \<Rightarrow> string \<Rightarrow> time \<Rightarrow> 's \<Rightarrow> bool \<times> 's" where
  "removeGroupRequest S g username now s =
     (let reqs = loadGroupRequests S g now s;
          kept = filter (\<lambda>req. gr_Username req \<noteq> username) reqs
      in if length kept = length reqs then (False, s)
         else (True, saveGroupRequests S g kept now s))"

section \<open>OTP recovery requests\<close>

definition otpRecoveryKey :: string where "otpRecoveryKey = ''otprecovery''"
definition otpRecoveryTTL :: duration where "otpRecoveryTTL = 30 * day"

record OTPRecoveryRequest =
  or_Username :: string
  or_RequestedAt :: time

definition marshal_OTPRecoveryRequest :: "OTPRecoveryRequest \<Rightarrow> json" where
  "marshal_OTPRecoveryRequest r =
     JObj [(''username'', JStr (or_Username r)), (''requested_at'', JTime (or_RequestedAt r))]"

fun unmarshal_OTPRecoveryRequest :: "json \<Rightarrow> OTPRecoveryRequest option" where
  "unmarshal_OTPRecoveryRequest (JObj ms) =
     (case (member_str ms ''username'', member_time ms ''requested_at'') of
        (Some u, Some at) \<Rightarrow> Some \<lparr>or_Username = u, or_RequestedAt = at\<rparr>
      | _ \<Rightarrow> None)"
| "unmarshal_OTPRecoveryRequest JNull = Some \<lparr>or_Username = [], or_RequestedAt = zero_time\<rparr>"
| "unmarshal_OTPRecoveryRequest _ = None"

definition loadOTPRecoveryRequests :: "'s storage \<Rightarrow> time \<Rightarrow> 's \<Rightarrow> OTPRecoveryRequest list" where
  "loadOTPRecoveryRequests S now s =
     (case st_get S s now otpRecoveryKey of
        Err _ \<Rightarrow> []
      | Ok None \<Rightarrow> []
      | Ok (Some raw) \<Rightarrow>
          (case unmarshal_list unmarshal_OTPRecoveryRequest raw of None \<Rightarrow> [] | Some reqs \<Rightarrow> reqs))"

definition saveOTPRecoveryRequests ::
    "'s storage \<Rightarrow> OTPRecoveryRequest list \<Rightarrow> time \<Rightarrow> 's \<Rightarrow> 's" where
  "saveOTPRecoveryRequests S reqs now s =
     (if reqs = [] then snd (st_delete S s now otpRecoveryKey)
      else snd (st_set S s now otpRecoveryKey (marshal_list marshal_OTPRecoveryRequest reqs)
                  otpRecoveryTTL))"

definition addOTPRecoveryRequest :: "'s storage \<Rightarrow> string \<Rightarrow> time \<Rightarrow> 's \<Rightarrow> bool \<times> 's" where
  "addOTPRecoveryRequest S username now s =
     (let reqs = loadOTPRecoveryRequests S now s
      in if list_ex (\<lambda>req. or_Username req = username) reqs then (False, s)
         else (True, saveOTPRecoveryRequests S
                 (reqs @ [\<lparr>or_Username = username, or_RequestedAt = now\<rparr>]) now s))"

definition removeOTPRecoveryRequest :: "'s storage \<Rightarrow> string \<Rightarrow> time \<Rightarrow> 's \<Rightarrow> bool \<times> 's" where
  "removeOTPRecoveryRequest S username now s =
     (let reqs = loadOTPRecoveryRequests S now s;
          kept = filter (\<lambda>req. or_Username req \<noteq> username) reqs
      in if length kept = length reqs then (False, s)
         else (True, saveOTPRecoveryRequests S kept now s))"

section \<open>The shared contract\<close>

text \<open>A request to queue somebody, or the removal of a name.\<close>

datatype 'q queue_op = Ask 'q | Drop string

text \<open>The specification: a list of names without duplicates, in the order of arrival.\<close>

fun queue_spec :: "('q \<Rightarrow> string) \<Rightarrow> 'q queue_op \<Rightarrow> string list \<Rightarrow> string list" where
  "queue_spec who (Ask q) ns = (if who q \<in> set ns then ns else ns @ [who q])"
| "queue_spec who (Drop u) ns = filter (\<lambda>v. v \<noteq> u) ns"

lemma queue_spec_distinct: "distinct ns \<Longrightarrow> distinct (fold (queue_spec who) ops ns)"
proof (induction ops arbitrary: ns)
  case (Cons x ops)
  have "distinct (queue_spec who x ns)" using Cons.prems by (cases x) auto
  then show ?case using Cons.IH by simp
qed simp

text \<open>
  A queue of requests, at most one per name. \<open>load\<close> reads it at an instant; \<open>save\<close> replaces it and
  the new content can be read for \<open>ttl\<close> from then on. \<open>make q now\<close> is the entry that \<open>add q now\<close>
  appends for a request by \<open>who q\<close>, and \<open>del u now\<close> drops the entries of a name; both report whether
  they changed anything.
\<close>

locale request_queue =
  fixes load :: "time \<Rightarrow> 's \<Rightarrow> 'r list"
    and save :: "'r list \<Rightarrow> time \<Rightarrow> 's \<Rightarrow> 's"
    and name_of :: "'r \<Rightarrow> string"
    and who :: "'q \<Rightarrow> string"
    and ttl :: duration
    and make :: "'q \<Rightarrow> time \<Rightarrow> 'r"
    and add :: "'q \<Rightarrow> time \<Rightarrow> 's \<Rightarrow> bool \<times> 's"
    and del :: "string \<Rightarrow> time \<Rightarrow> 's \<Rightarrow> bool \<times> 's"
  assumes load_save: "now \<le> t \<Longrightarrow> t < now + ttl \<Longrightarrow> load t (save rs now s) = rs"
    and name_make: "name_of (make q now) = who q"
    and add_eq: "add q now s =
      (if who q \<in> name_of ` set (load now s) then (False, s)
       else (True, save (load now s @ [make q now]) now s))"
    and del_eq: "del u now s =
      (if u \<notin> name_of ` set (load now s) then (False, s)
       else (True, save (filter (\<lambda>r. name_of r \<noteq> u) (load now s)) now s))"
    and ttl_pos: "0 < ttl"
begin

definition queued :: "time \<Rightarrow> 's \<Rightarrow> string list" where
  "queued t s = map name_of (load t s)"

lemma add_True:
  "add q now s = (True, s') \<Longrightarrow> now \<le> t \<Longrightarrow> t < now + ttl
    \<Longrightarrow> queued t s' = queued now s @ [who q] \<and> who q \<notin> set (queued now s)"
  by (auto simp: add_eq queued_def load_save name_make split: if_splits)

lemma add_False: "add q now s = (False, s') \<Longrightarrow> s' = s \<and> who q \<in> set (queued now s)"
  by (auto simp: add_eq queued_def split: if_splits)

lemma del_True:
  "del u now s = (True, s') \<Longrightarrow> now \<le> t \<Longrightarrow> t < now + ttl
    \<Longrightarrow> queued t s' = filter (\<lambda>v. v \<noteq> u) (queued now s) \<and> u \<in> set (queued now s)"
  by (auto simp: del_eq queued_def load_save filter_map o_def split: if_splits)

lemma del_False: "del u now s = (False, s') \<Longrightarrow> s' = s \<and> u \<notin> set (queued now s)"
  by (auto simp: del_eq queued_def split: if_splits)

lemma add_then_del:
  assumes "add q now s = (True, s1)" "now \<le> t" "t < now + ttl" and "t \<le> t'" "t' < t + ttl"
  shows "fst (del (who q) t s1)" and "load t' (snd (del (who q) t s1)) = load now s"
proof -
  have l1: "load t s1 = load now s @ [make q now]" and new: "who q \<notin> name_of ` set (load now s)"
    using assms(1-3) by (auto simp: add_eq load_save split: if_splits)
  have "who q \<in> name_of ` set (load t s1)" by (simp add: l1 name_make)
  then have d: "del (who q) t s1 = (True, save (filter (\<lambda>r. name_of r \<noteq> who q) (load t s1)) t s1)"
    by (simp add: del_eq)
  then show "fst (del (who q) t s1)" by simp
  have "filter (\<lambda>r. name_of r \<noteq> who q) (load t s1) = load now s"
    using new by (simp add: l1 name_make filter_neq_absent)
  with d assms(4,5) show "load t' (snd (del (who q) t s1)) = load now s"
    by (simp add: load_save)
qed

fun step :: "time \<times> 'q queue_op \<Rightarrow> 's \<Rightarrow> 's" where
  "step (now, Ask q) s = snd (add q now s)"
| "step (now, Drop u) s = snd (del u now s)"

lemma step_refines:
  assumes "now \<le> t" "t < now + ttl" "queued now s = ns" "queued t s = ns"
  shows "queued t (step (now, x) s) = queue_spec who x ns"
proof (cases x)
  case (Ask q)
  obtain b s' where "add q now s = (b, s')" by fastforce
  with Ask assms add_True [of q now s s' t] add_False [of q now s s'] show ?thesis
    by (cases b) auto
next
  case (Drop u)
  obtain b s' where "del u now s = (b, s')" by fastforce
  moreover have "filter (\<lambda>v. v \<noteq> u) ns = ns" if "u \<notin> set ns"
    using that filter_neq_absent [of u "\<lambda>x. x" ns] by simp
  ultimately show ?thesis
    using Drop assms del_True [of u now s s' t] del_False [of u now s s'] by (cases b) auto
qed

text \<open>The stored queue follows the list of names, for as long as nothing expires.\<close>

lemma trace_refines:
  assumes "sorted (map fst ops)" and "\<And>x. x \<in> fst ` set ops \<Longrightarrow> t0 \<le> x \<and> x \<le> t"
    and "t0 \<le> t" "t < t0 + ttl" and "\<And>x. t0 \<le> x \<Longrightarrow> x \<le> t \<Longrightarrow> queued x s = ns"
  shows "queued t (fold step ops s) = fold (queue_spec who) (map snd ops) ns"
  using assms
proof (induction ops arbitrary: t0 s ns)
  case (Cons x ops)
  obtain now oper where x: "x = (now, oper)" by fastforce
  have now: "t0 \<le> now" "now \<le> t" using Cons.prems(2) [of now] by (simp_all add: x)
  have "queued y (step x s) = queue_spec who oper ns" if "now \<le> y" "y \<le> t" for y
    unfolding x using that now Cons.prems(4) Cons.prems(5) [of now] Cons.prems(5) [of y]
    by (intro step_refines) auto
  moreover have "now \<le> y \<and> y \<le> t" if "y \<in> fst ` set ops" for y
    using Cons.prems(1) Cons.prems(2) [of y] that by (auto simp: x)
  moreover have "sorted (map fst ops)" using Cons.prems(1) by simp
  ultimately show ?case
    using Cons.IH [of now "step x s" "queue_spec who oper ns"] now Cons.prems(4) by (simp add: x)
qed simp

end

section \<open>Both queues satisfy it\<close>

lemma GroupRequest_json [json_simps]:
  "unmarshal_GroupRequest (marshal_GroupRequest r) = Some r"
  by (simp add: marshal_GroupRequest_def)

lemma OTPRecoveryRequest_json [json_simps]:
  "unmarshal_OTPRecoveryRequest (marshal_OTPRecoveryRequest r) = Some r"
  by (simp add: marshal_OTPRecoveryRequest_def)

lemma queue_keys [simp]: "groupRequests_key g \<noteq> []" "otpRecoveryKey \<noteq> []"
  by (simp_all add: groupRequests_key_def groupRequestsPrefix_def otpRecoveryKey_def)

lemma queue_ttls [simp]: "0 < groupRequestsTTL" "0 < otpRecoveryTTL"
  by (simp_all add: groupRequestsTTL_def otpRecoveryTTL_def)

context reliable_store
begin

lemma load_save_group:
  assumes "now \<le> t" "t < now + groupRequestsTTL"
  shows "loadGroupRequests S g t (saveGroupRequests S g rs now s) = rs"
proof (cases "rs = []")
  case True
  then show ?thesis
    by (simp add: loadGroupRequests_def saveGroupRequests_def get_ok delete_same_ok)
next
  case False
  with assms show ?thesis
    by (simp add: loadGroupRequests_def saveGroupRequests_def get_ok set_same_ok json_simps)
qed

lemma load_save_otp:
  assumes "now \<le> t" "t < now + otpRecoveryTTL"
  shows "loadOTPRecoveryRequests S t (saveOTPRecoveryRequests S rs now s) = rs"
proof (cases "rs = []")
  case True
  then show ?thesis
    by (simp add: loadOTPRecoveryRequests_def saveOTPRecoveryRequests_def get_ok delete_same_ok)
next
  case False
  with assms show ?thesis
    by (simp add: loadOTPRecoveryRequests_def saveOTPRecoveryRequests_def get_ok set_same_ok json_simps)
qed

end

sublocale reliable_store \<subseteq> group_queue: request_queue
  "loadGroupRequests S g" "saveGroupRequests S g" gr_Username fst groupRequestsTTL
  "\<lambda>q now. \<lparr>gr_Username = fst q, gr_Type = snd q, gr_RequestedAt = now\<rparr>"
  "\<lambda>q. addGroupRequest S g (fst q) (snd q)" "removeGroupRequest S g"
  for g
  by unfold_locales
    (auto simp: load_save_group addGroupRequest_def removeGroupRequest_def Let_def list_ex_iff
      filter_neq_length)

sublocale reliable_store \<subseteq> otp_queue: request_queue
  "loadOTPRecoveryRequests S" "saveOTPRecoveryRequests S" or_Username "\<lambda>u. u" otpRecoveryTTL
  "\<lambda>u now. \<lparr>or_Username = u, or_RequestedAt = now\<rparr>"
  "addOTPRecoveryRequest S" "removeOTPRecoveryRequest S"
  by unfold_locales
    (auto simp: load_save_otp addOTPRecoveryRequest_def removeOTPRecoveryRequest_def Let_def list_ex_iff
      filter_neq_length)

section \<open>Properties\<close>

text \<open>Runs of the two queues: timed requests and removals.\<close>

fun group_step :: "'s storage \<Rightarrow> string \<Rightarrow> time \<times> (string \<times> string) queue_op \<Rightarrow> 's \<Rightarrow> 's" where
  "group_step S g (now, Ask q) s = snd (addGroupRequest S g (fst q) (snd q) now s)"
| "group_step S g (now, Drop u) s = snd (removeGroupRequest S g u now s)"

fun otp_step :: "'s storage \<Rightarrow> time \<times> string queue_op \<Rightarrow> 's \<Rightarrow> 's" where
  "otp_step S (now, Ask u) s = snd (addOTPRecoveryRequest S u now s)"
| "otp_step S (now, Drop u) s = snd (removeOTPRecoveryRequest S u now s)"

context reliable_store
begin

lemma group_step_eq: "group_queue.step g = group_step S g"
proof (rule ext, rule ext)
  fix x :: "time \<times> (string \<times> string) queue_op" and s
  obtain now oper where "x = (now, oper)" by fastforce
  then show "group_queue.step g x s = group_step S g x s" by (cases oper) simp_all
qed

lemma otp_step_eq: "otp_queue.step = otp_step S"
proof (rule ext, rule ext)
  fix x :: "time \<times> string queue_op" and s
  obtain now oper where "x = (now, oper)" by fastforce
  then show "otp_queue.step x s = otp_step S x s" by (cases oper) simp_all
qed

lemmas group_trace_refines = group_queue.trace_refines [unfolded group_step_eq group_queue.queued_def]
lemmas otp_trace_refines = otp_queue.trace_refines [unfolded otp_step_eq otp_queue.queued_def]

lemmas group_add_then_del = group_queue.add_then_del [where q = "(u, ty)" for u ty, simplified]

end

text \<open>
  C16. Group request queue. Over any run of requests and removals shorter than the lifetime of the
  queue, the users of the stored requests are those of the specification: the first request of a
  user is appended, further ones are dropped until it is removed, and nobody is queued twice.
\<close>

theorem group_queue_refines:
  assumes "reliable_store S view" and "sorted (map fst ops)"
    and "\<And>x. x \<in> fst ` set ops \<Longrightarrow> t0 \<le> x \<and> x \<le> t" and "t0 \<le> t" and "t < t0 + groupRequestsTTL"
    and "\<And>x. t0 \<le> x \<Longrightarrow> x \<le> t \<Longrightarrow> map gr_Username (loadGroupRequests S g x s) = ns" and "distinct ns"
  shows "map gr_Username (loadGroupRequests S g t (fold (group_step S g) ops s))
      = fold (queue_spec fst) (map snd ops) ns
    \<and> distinct (map gr_Username (loadGroupRequests S g t (fold (group_step S g) ops s)))"
  using reliable_store.group_trace_refines [OF assms(1-6)] queue_spec_distinct [OF assms(7), of fst "map snd ops"]
  by simp

text \<open>OTP recovery queue: the same contract for the recovery requests of the help desk.\<close>

theorem otp_queue_refines:
  assumes "reliable_store S view" and "sorted (map fst ops)"
    and "\<And>x. x \<in> fst ` set ops \<Longrightarrow> t0 \<le> x \<and> x \<le> t" and "t0 \<le> t" and "t < t0 + otpRecoveryTTL"
    and "\<And>x. t0 \<le> x \<Longrightarrow> x \<le> t \<Longrightarrow> map or_Username (loadOTPRecoveryRequests S x s) = ns" and "distinct ns"
  shows "map or_Username (loadOTPRecoveryRequests S t (fold (otp_step S) ops s))
      = fold (queue_spec (\<lambda>u. u)) (map snd ops) ns
    \<and> distinct (map or_Username (loadOTPRecoveryRequests S t (fold (otp_step S) ops s)))"
  using reliable_store.otp_trace_refines [OF assms(1-6)]
    queue_spec_distinct [OF assms(7), of "\<lambda>u. u" "map snd ops"]
  by simp

text \<open>A run of each queue on the memory store.\<close>

definition demo_group_ops :: "(time \<times> (string \<times> string) queue_op) list" where
  "demo_group_ops = [(1, Ask (''ann'', ''join'')), (2, Ask (''bob'', ''leave'')), (3, Ask (''ann'', ''leave'')),
     (4, Drop ''bob'')]"

definition demo_otp_ops :: "(time \<times> string queue_op) list" where
  "demo_otp_ops = [(1, Ask ''ann''), (2, Ask ''bob''), (3, Drop ''ann''), (4, Ask ''bob'')]"

theorem group_queue_refines_witness:
  "map gr_Username (loadGroupRequests sound_storage ''dev'' 9
     (fold (group_step sound_storage ''dev'') demo_group_ops Map.empty)) = [''ann'']"
proof -
  have "map gr_Username (loadGroupRequests sound_storage ''dev'' 9
      (fold (group_step sound_storage ''dev'') demo_group_ops Map.empty))
      = fold (queue_spec fst) (map snd demo_group_ops) []"
    by (rule conjunct1 [OF group_queue_refines [OF sound.reliable_store_axioms, of demo_group_ops 0 9]])
      (auto simp: demo_group_ops_def loadGroupRequests_def sound_defs groupRequestsTTL_def time_units)
  then show ?thesis by (simp add: demo_group_ops_def)
qed

theorem otp_queue_refines_witness:
  "map or_Username (loadOTPRecoveryRequests sound_storage 9
     (fold (otp_step sound_storage) demo_otp_ops Map.empty)) = [''bob'']"
proof -
  have "map or_Username (loadOTPRecoveryRequests sound_storage 9
      (fold (otp_step sound_storage) demo_otp_ops Map.empty))
      = fold (queue_spec (\<lambda>u. u)) (map snd demo_otp_ops) []"
    by (rule conjunct1 [OF otp_queue_refines [OF sound.reliable_store_axioms, of demo_otp_ops 0 9]])
      (auto simp: demo_otp_ops_def loadOTPRecoveryRequests_def sound_defs otpRecoveryTTL_def time_units)
  then show ?thesis by (simp add: demo_otp_ops_def)
qed

end
