(* ===== verification/Config.thy ===== *)
theory Config
  imports Prelude
begin

text \<open>
  The configuration values the modelled code reads through viper, one record per section of
  \<open>mokey.toml\<close>. \<open>SetDefaults\<close> of \<open>server.go\<close> is \<open>default_config\<close>; options it does not mention have the
  zero value of their type, which is what viper returns for them; \<open>subject_prefix\<close> is \<open>None\<close> where it
  is not set. \<open>hydra_clients\<close> is \<open>None\<close> where
  the list does not unmarshal, \<open>hydra_admin_url\<close> is \<open>None\<close> where the option is not set;
  so are \<open>site_logo\<close>, \<open>site_css\<close>, \<open>templates_dir\<close>, \<open>keytab\<close> and \<open>sqlite3_dbpath\<close>.
\<close>

record site_config =
  site_name :: string
  default_language :: string
  ktuser :: string
  getting_started_url :: string
  site_homepage :: string
  site_logo :: "string option"
  site_css :: "string option"
  help_url :: string
  translations_dir :: string
  site_languages :: "string list"
  templates_dir :: "string option"
  static_assets_dir :: string
  favicon :: string
  keytab :: "string option"

record accounts_config =
  enable_signup :: bool
  staged_signup :: bool
  enable_groups :: bool
  enable_access :: bool
  enable_apps :: bool
  enable_subid :: bool
  enable_captcha :: bool
  single_page_login :: bool
  hide_invalid_username_error :: bool
  default_homedir :: string
  default_shell :: string
  allow_change_shell :: bool
  allowed_shells :: "string list"
  min_passwd_len :: int
  min_passwd_classes :: int
  check_breached_passwords :: bool
  otp_hash_algorithm :: string
  otp_issuer :: string
  username_from_email :: bool
  require_mfa :: bool
  require_admin_verify :: bool
  password_expiry_warning_days :: int
  block_users :: "string list"
  allowed_domains :: "(string \<times> string) list"
  otp_readonly_groups :: "string list"

record admin_config =
  admin_enabled :: bool
  admin_group :: string
  inactive_days :: int
  admin_users :: "string list"

record email_config =
  token_max_age :: int
  resend_cooldown :: int
  smtp_host :: string
  smtp_port :: int
  smtp_tls :: string
  smtp_username :: string
  smtp_password :: string
  email_from :: string
  base_url :: string
  subject_prefix :: "string option"
  subject_suffix :: string
  token_secret :: string
  email_signature :: string
  notify_new_login :: bool
  notify_password_change :: bool
  password_expiry_reminders :: "int list"

record server_config =
  secure_cookies :: bool
  session_idle_timeout :: int
  listen :: string
  read_timeout :: int
  write_timeout :: int
  idle_timeout :: int
  rate_limit_expiration :: int
  rate_limit_max :: int
  read_buffer_size :: int
  trusted_proxies :: "string list"
  enable_metrics :: bool
  csrf_secret :: string
  api_tokens :: "string list"
  tls_min_version :: string
  tls_ciphers :: "string list"
  ssl_cert :: string
  ssl_key :: string

text \<open>The files of \<open>[storage.redis]\<close>; an unset one is empty.\<close>

record redis_config =
  redis_url :: string
  ca_file :: string
  cert_file :: string
  key_file :: string

text \<open>An entry of \<open>[[hydra.clients]]\<close>: one OAuth client limited to members of groups.\<close>

record hydraClientPolicy =
  ClientID :: string
  Groups :: "string list"

record hydra_config =
  hydra_admin_url :: "string option"
  hydra_clients :: "hydraClientPolicy list option"
  default_deny :: bool
  consent_sweep_interval :: duration
  login_timeout :: int
  fake_tls_termination :: bool

record config =
  site :: site_config
  accounts :: accounts_config
  admin :: admin_config
  email :: email_config
  server :: server_config
  storage_driver :: string
  sqlite3_dbpath :: "string option"
  storage_redis :: redis_config
  hydra :: hydra_config
  slack_token :: string

definition default_config :: config where
  "default_config =
     \<lparr>site = \<lparr>site_name = ''Acme Widgets'', default_language = ''english'', ktuser = ''mokeyapp'',
        getting_started_url = [],
        site_homepage = [], site_logo = None, site_css = None, help_url = [], translations_dir = [],
        site_languages = [], templates_dir = None, static_assets_dir = [], favicon = [], keytab = None\<rparr>,
      accounts =
        \<lparr>enable_signup = True, staged_signup = False, enable_groups = True, enable_access = True,
         enable_apps = False, enable_subid = False, enable_captcha = True,
         single_page_login = False, hide_invalid_username_error = False,
         default_homedir = ''/home'', default_shell = ''/bin/bash'', allow_change_shell = False,
         allowed_shells = [''/bin/bash'', ''/bin/sh'', ''/bin/zsh'', ''/usr/bin/fish'', ''/sbin/nologin''],
         min_passwd_len = 8, min_passwd_classes = 2, check_breached_passwords = False,
         otp_hash_algorithm = ''sha1'', otp_issuer = [], username_from_email = False, require_mfa = False,
         require_admin_verify = False, password_expiry_warning_days = 14,
         block_users = [], allowed_domains = [], otp_readonly_groups = []\<rparr>,
      admin = \<lparr>admin_enabled = False, admin_group = ''admins'', inactive_days = 90, admin_users = []\<rparr>,
      email =
        \<lparr>token_max_age = 3600, resend_cooldown = 180, smtp_host = ''localhost'', smtp_port = 25,
         smtp_tls = ''off'', smtp_username = [], smtp_password = [], email_from = ''support@example.com'', base_url = [],
         subject_prefix = None, subject_suffix = [], token_secret = [], email_signature = [],
         notify_new_login = False, notify_password_change = False, password_expiry_reminders = []\<rparr>,
      server =
        \<lparr>secure_cookies = True, session_idle_timeout = 900, listen = ''0.0.0.0:8866'',
         read_timeout = 5, write_timeout = 5, idle_timeout = 120, rate_limit_expiration = 3600,
         rate_limit_max = 10, read_buffer_size = 16384, trusted_proxies = [],
         enable_metrics = False, csrf_secret = [], api_tokens = [], tls_min_version = [], tls_ciphers = [],
         ssl_cert = [], ssl_key = []\<rparr>,
      storage_driver = ''memory'', sqlite3_dbpath = None,
      storage_redis = \<lparr>redis_url = [], ca_file = [], cert_file = [], key_file = []\<rparr>,
      hydra =
        \<lparr>hydra_admin_url = None, hydra_clients = Some [], default_deny = False,
         consent_sweep_interval = hour, login_timeout = 0, fake_tls_termination = False\<rparr>,
      slack_token = []\<rparr>"

end
