(* ===== verification/Tokens.thy ===== *)
theory Tokens
  imports Storage Config
begin

text \<open>
  Single-use tokens (\<open>token.go\<close>): the links mailed for account verification, password reset,
  email change, invitations and OTP recovery. A token is a branca token (third-party code, an
  argument here) around the JSON of its claims. Two kinds of storage markers go with it: an
  issued marker per purpose and user, which enforces the resend cooldown, and a used marker per
  purpose and token, which makes the token single-use.

  \<open>NewToken\<close>, \<open>ParseToken\<close> and \<open>MarkTokenUsed\<close> follow the code branch by branch; the instant each
  runs at and the random nonce are arguments. The theorems show the life cycle of a token on
  any backend that satisfies \<open>kv_store\<close>: failing closed, the cooldown, single use, and which
  purposes accept it.
\<close>

section \<open>Hexadecimal text and secrets\<close>

definition hex_digit :: "nat \<Rightarrow> char" where
  "hex_digit n = char_of (if n < 10 then 48 + n else 87 + n)"

definition hex_val :: "char \<Rightarrow> nat option" where
  "hex_val c =
     (if 48 \<le> code c \<and> code c \<le> 57 then Some (code c - 48)
      else if 97 \<le> code c \<and> code c \<le> 102 then Some (code c - 87)
      else if 65 \<le> code c \<and> code c \<le> 70 then Some (code c - 55)
      else None)"

definition HexEncode :: "string \<Rightarrow> string" where
  "HexEncode bs = concat (map (\<lambda>b. [hex_digit (code b div 16), hex_digit (code b mod 16)]) bs)"

fun HexDecode :: "string \<Rightarrow> string option" where
  "HexDecode [] = Some []"
| "HexDecode [c] = None"
| "HexDecode (c # d # cs) =
     (case (hex_val c, hex_val d, HexDecode cs) of
        (Some x, Some y, Some bs) \<Rightarrow> Some (char_of (16 * x + y) # bs)
      | _ \<Rightarrow> None)"

text \<open>
  \<open>GenerateSecret\<close> and \<open>GenerateSecretString\<close>. The random source is an argument: \<open>rand_read n\<close> fills
  \<open>n\<close> bytes, \<open>rand_int i m\<close> is the number below \<open>m\<close> drawn in round \<open>i\<close>; both may fail.
\<close>

definition GenerateSecret :: "(nat \<Rightarrow> string result) \<Rightarrow> nat \<Rightarrow> string result" where
  "GenerateSecret rand_read n =
     (case rand_read n of Err e \<Rightarrow> Err e | Ok secret \<Rightarrow> Ok (HexEncode secret))"

definition secret_letters :: string where
  "secret_letters = ''0123456789ABCDEFGHIJKLMNOPQRSTUVWXYZabcdefghijklmnopqrstuvwxyz-!@#$%^&*(){}[]''"

fun secret_loop :: "(nat \<Rightarrow> nat \<Rightarrow> nat result) \<Rightarrow> nat \<Rightarrow> nat \<Rightarrow> string \<Rightarrow> string result" where
  "secret_loop rand_int i 0 ret = Ok ret"
| "secret_loop rand_int i (Suc k) ret =
     (case rand_int i (length secret_letters) of
        Err e \<Rightarrow> Err e
      | Ok num \<Rightarrow> secret_loop rand_int (Suc i) k (ret @ [secret_letters ! num]))"

definition GenerateSecretString :: "(nat \<Rightarrow> nat \<Rightarrow> nat result) \<Rightarrow> nat \<Rightarrow> string result" where
  "GenerateSecretString rand_int n = secret_loop rand_int 0 n []"

section \<open>Claims and codec\<close>

record Token =
  tk_Username :: string
  tk_Email :: string
  tk_Timestamp :: time

text \<open>The timestamp carries the tag \<open>json:"-"\<close>: it is not part of the payload.\<close>

definition marshal_claims :: "Token \<Rightarrow> blob" where
  "marshal_claims tk =
     Doc (JObj [(''username'', JStr (tk_Username tk)), (''email'', JStr (tk_Email tk))])"

fun unmarshal_claims :: "blob \<Rightarrow> Token option" where
  "unmarshal_claims (Doc (JObj ms)) =
     (case (member_str ms ''username'', member_str ms ''email'') of
        (Some u, Some e) \<Rightarrow> Some \<lparr>tk_Username = u, tk_Email = e, tk_Timestamp = zero_time\<rparr>
      | _ \<Rightarrow> None)"
| "unmarshal_claims (Doc JNull) =
     Some \<lparr>tk_Username = [], tk_Email = [], tk_Timestamp = zero_time\<rparr>"
| "unmarshal_claims _ = None"

text \<open>
  The branca library: \<open>br_new\<close> checks a key, \<open>br_encode\<close> seals a payload at an instant with a
  nonce, \<open>br_decode\<close> opens a token and gives the payload and the sealing time, \<open>br_expired\<close>
  compares that time with a lifetime in seconds and the present.
\<close>

record branca =
  br_new :: "string \<Rightarrow> error option"
  br_encode :: "string \<Rightarrow> time \<Rightarrow> string \<Rightarrow> blob \<Rightarrow> string result"
  br_decode :: "string \<Rightarrow> string \<Rightarrow> (blob \<times> time) result"
  br_expired :: "time \<Rightarrow> int \<Rightarrow> time \<Rightarrow> bool"

text \<open>What a sealed token documents: opening it with the same key gives the payload back, with the
  time of sealing in whole seconds.\<close>

definition branca_ok :: "branca \<Rightarrow> bool" where
  "branca_ok B \<longleftrightarrow>
     (\<forall>key now nonce p t. br_encode B key now nonce p = Ok t
        \<longrightarrow> br_decode B key t = Ok (p, unix now * second))"

text \<open>Branca counts in whole seconds: a token is expired when the clock shows a later second than its last one.\<close>

definition branca_expires :: "branca \<Rightarrow> bool" where
  "branca_expires B \<longleftrightarrow> (\<forall>ts age t. br_expired B ts age t \<longleftrightarrow> unix ts + age < unix t)"

text \<open>Opening a token with the configured secret, as \<open>ParseToken\<close> does.\<close>

definition branca_open :: "branca \<Rightarrow> config \<Rightarrow> string \<Rightarrow> (blob \<times> time) option" where
  "branca_open B cfg token =
     (case HexDecode (token_secret (email cfg)) of
        None \<Rightarrow> None
      | Some key \<Rightarrow> (case br_decode B key token of Err _ \<Rightarrow> None | Ok r \<Rightarrow> Some r))"

section \<open>Operations\<close>

definition NewToken ::
    "'s storage \<Rightarrow> branca \<Rightarrow> config \<Rightarrow> string \<Rightarrow> string \<Rightarrow> string \<Rightarrow> time \<Rightarrow> string \<Rightarrow> 's
      \<Rightarrow> string result \<times> 's" where
  "NewToken S B cfg username eaddr pfx now nonce s =
     (case st_get S s now (issued_key pfx username) of
        Err e \<Rightarrow> (Err e, s)
      | Ok (Some _) \<Rightarrow> (Err (EText ''token already issued''), s)
      | Ok None \<Rightarrow>
          (let claims = \<lparr>tk_Username = username, tk_Email = eaddr, tk_Timestamp = zero_time\<rparr>;
               jsonBytes = marshal_claims claims
           in case HexDecode (token_secret (email cfg)) of
                None \<Rightarrow> (Err (EText ''encoding/hex''), s)
              | Some key \<Rightarrow>
                  (case br_new B key of
                     Some e \<Rightarrow> (Err e, s)
                   | None \<Rightarrow>
                       (case br_encode B key now nonce jsonBytes of
                          Err e \<Rightarrow> (Err e, s)
                        | Ok token \<Rightarrow>
                            (case st_set S s now (issued_key pfx username) (Raw ''true'')
                                    (resend_cooldown (email cfg) * second) of
                               (Some e, s') \<Rightarrow> (Err e, s')
                             | (None, s') \<Rightarrow> (Ok token, s'))))))"

definition ParseToken ::
    "'s storage \<Rightarrow> branca \<Rightarrow> config \<Rightarrow> string \<Rightarrow> string \<Rightarrow> time \<Rightarrow> 's \<Rightarrow> Token result" where
  "ParseToken S B cfg token pfx now s =
     (case st_get S s now (used_key pfx token) of
        Err e \<Rightarrow> Err e
      | Ok (Some _) \<Rightarrow> Err (EText ''token already used'')
      | Ok None \<Rightarrow>
          (case HexDecode (token_secret (email cfg)) of
             None \<Rightarrow> Err (EText ''encoding/hex'')
           | Some key \<Rightarrow>
               (case br_new B key of
                  Some e \<Rightarrow> Err e
                | None \<Rightarrow>
                    (case br_decode B key token of
                       Err e \<Rightarrow> Err e
                     | Ok (payload, ts) \<Rightarrow>
                         if br_expired B ts (token_max_age (email cfg)) now
                         then Err (EText ''Token expired'')
                         else (case unmarshal_claims payload of
                                 None \<Rightarrow> Err (EText ''json'')
                               | Some tk \<Rightarrow> Ok (tk\<lparr>tk_Timestamp := ts\<rparr>))))))"

text \<open>A failed write is only logged.\<close>

definition MarkTokenUsed ::
    "'s storage \<Rightarrow> config \<Rightarrow> string \<Rightarrow> string \<Rightarrow> Token \<Rightarrow> time \<Rightarrow> 's \<Rightarrow> 's" where
  "MarkTokenUsed S cfg token pfx claims now s =
     (let ttl = tk_Timestamp claims + token_max_age (email cfg) * second - now
      in snd (st_set S s now (used_key pfx token) (Raw ''true'') ttl))"

section \<open>Secrets decode\<close>

lemma hex_val_digit: "n < 16 \<Longrightarrow> hex_val (hex_digit n) = Some n"
  by (auto simp: hex_val_def hex_digit_def)

lemma hex_round_trip: "HexDecode (HexEncode bs) = Some bs"
proof (induction bs)
  case Nil
  then show ?case by (simp add: HexEncode_def)
next
  case (Cons b bs)
  have "code b < 256" by simp
  then have "code b div 16 < 16" by (simp add: less_mult_imp_div_less)
  then have "hex_val (hex_digit (code b div 16)) = Some (code b div 16)"
    "hex_val (hex_digit (code b mod 16)) = Some (code b mod 16)"
    by (simp_all only: hex_val_digit mod_less_divisor zero_less_numeral)
  with Cons show ?case by (simp add: HexEncode_def)
qed

lemma secret_loop_ok:
  assumes "\<And>i. \<exists>n < length secret_letters. rand_int i (length secret_letters) = Ok n"
  shows "\<exists>r. secret_loop rand_int i k ret = Ok (ret @ r) \<and> length r = k \<and> set r \<subseteq> set secret_letters"
proof (induction k arbitrary: i ret)
  case 0
  then show ?case by simp
next
  case (Suc k)
  from assms obtain n where n: "n < length secret_letters" "rand_int i (length secret_letters) = Ok n"
    by blast
  with Suc.IH [of "Suc i" "ret @ [secret_letters ! n]"] obtain r where
    r: "secret_loop rand_int (Suc i) k (ret @ [secret_letters ! n]) = Ok ((ret @ [secret_letters ! n]) @ r)"
    "length r = k" "set r \<subseteq> set secret_letters" by blast
  with n show ?case
    by (intro exI [of _ "(secret_letters ! n) # r"]) simp
qed

section \<open>Case rules\<close>

lemma NewToken_cases:
  assumes "NewToken S B cfg u e pfx now nonce s = (Ok t, s')"
  obtains key where "st_get S s now (issued_key pfx u) = Ok None"
    and "HexDecode (token_secret (email cfg)) = Some key" and "br_new B key = None"
    and "br_encode B key now nonce
      (marshal_claims \<lparr>tk_Username = u, tk_Email = e, tk_Timestamp = zero_time\<rparr>) = Ok t"
    and "st_set S s now (issued_key pfx u) (Raw ''true'') (resend_cooldown (email cfg) * second)
      = (None, s')"
  using assms
  by (auto simp: NewToken_def Let_def split: sum.splits option.splits prod.splits)

lemma unmarshal_marshal_claims [json_simps]:
  "unmarshal_claims (marshal_claims tk) = Some (tk\<lparr>tk_Timestamp := zero_time\<rparr>)"
  by (simp add: marshal_claims_def)

lemma NewToken_Err_unchanged:
  assumes "st_get S s now (issued_key pfx u) \<noteq> Ok None"
  shows "\<exists>e. NewToken S B cfg u a pfx now nonce s = (Err e, s)"
  using assms by (auto simp: NewToken_def split: sum.splits option.splits)

text \<open>A token that opens and is neither used nor expired parses, whatever the purpose.\<close>

lemma ParseToken_fresh:
  assumes "branca_ok B" and "NewToken S B cfg u e pfx now nonce s = (Ok t, s')"
    and "st_get S s2 t2 (used_key q t) = Ok None"
    and "\<not> br_expired B (unix now * second) (token_max_age (email cfg)) t2"
  shows "ParseToken S B cfg t q t2 s2
    = Ok \<lparr>tk_Username = u, tk_Email = e, tk_Timestamp = unix now * second\<rparr>"
  using assms(2)
proof (rule NewToken_cases)
  fix key
  assume k: "HexDecode (token_secret (email cfg)) = Some key" "br_new B key = None"
    and enc: "br_encode B key now nonce
      (marshal_claims \<lparr>tk_Username = u, tk_Email = e, tk_Timestamp = zero_time\<rparr>) = Ok t"
  from enc assms(1) have "br_decode B key t
      = Ok (marshal_claims \<lparr>tk_Username = u, tk_Email = e, tk_Timestamp = zero_time\<rparr>, unix now * second)"
    unfolding branca_ok_def by blast
  with k assms(3,4) show ?thesis
    by (simp add: ParseToken_def json_simps)
qed

section \<open>Life cycle on a conforming backend\<close>

context kv_store
begin

lemma issued_marker_set:
  assumes "NewToken S B cfg u e pfx now nonce s = (Ok t, s')"
    and "now \<le> t'" and "t' < now + resend_cooldown (email cfg) * second"
  shows "view s' t' (issued_key pfx u) = Some (Raw ''true'')"
  using assms(1)
  by (rule NewToken_cases) (use assms(2,3) in \<open>auto intro!: set_same\<close>)

lemma cooldown:
  assumes "NewToken S B cfg u e pfx now nonce s = (Ok t, s')"
    and "now \<le> t'" and "t' < now + resend_cooldown (email cfg) * second"
    and "\<And>x. view s2 x (issued_key pfx u) = view s' x (issued_key pfx u)"
  shows "\<exists>err. NewToken S B' cfg' u e' pfx t' nonce' s2 = (Err err, s2)"
proof -
  have "view s2 t' (issued_key pfx u) = Some (Raw ''true'')"
    using issued_marker_set [OF assms(1-3)] assms(4) by simp
  then have "st_get S s2 t' (issued_key pfx u) \<noteq> Ok None"
    using get_view by fastforce
  then show ?thesis by (rule NewToken_Err_unchanged)
qed

lemma used_marker_set:
  assumes "st_set S s now (used_key pfx token) (Raw ''true'')
      (tk_Timestamp claims + token_max_age (email cfg) * second - now) = (None, s')"
    and "now \<le> t'" and "t' < tk_Timestamp claims + token_max_age (email cfg) * second"
  shows "view s' t' (used_key pfx token) = Some (Raw ''true'')"
  using assms by (auto intro!: set_same)

lemma used_token_rejected:
  assumes "view s t' (used_key pfx token) = Some v"
  shows "\<exists>err. ParseToken S B cfg token pfx t' s = Err err"
  using get_view [of s t' "used_key pfx token"] assms
  by (auto simp: ParseToken_def split: sum.splits option.splits)

lemma MarkTokenUsed_frame [store_simps]:
  "k \<noteq> used_key pfx token \<Longrightarrow> view (MarkTokenUsed S cfg token pfx claims now s) t k = view s t k"
  by (simp add: MarkTokenUsed_def Let_def set_other')

lemma NewToken_frame [store_simps]:
  "k \<noteq> issued_key pfx u \<Longrightarrow> view (snd (NewToken S B cfg u e pfx now nonce s)) t k = view s t k"
  by (auto simp: NewToken_def Let_def set_other split: sum.splits option.splits prod.splits)

end

section \<open>Runs of token operations\<close>

text \<open>
  How the backend evolves while handlers work with tokens: tokens are issued, a token that
  parses is marked used (every handler parses before it marks), and anything else is written or
  deleted under keys that are not used markers. Time only moves forward.
\<close>

inductive token_run ::
    "'s storage \<Rightarrow> branca \<Rightarrow> config \<Rightarrow> time \<Rightarrow> 's \<Rightarrow> time \<Rightarrow> 's \<Rightarrow> bool"
  for S B cfg t0 s0 where
  start: "token_run S B cfg t0 s0 t0 s0"
| issue: "token_run S B cfg t0 s0 t s \<Longrightarrow> t \<le> now \<Longrightarrow> p \<in> set token_purposes
    \<Longrightarrow> token_run S B cfg t0 s0 now (snd (NewToken S B cfg u e p now nonce s))"
| spend: "token_run S B cfg t0 s0 t s \<Longrightarrow> t \<le> now \<Longrightarrow> p \<in> set token_purposes
    \<Longrightarrow> ParseToken S B cfg token p now s = Ok claims
    \<Longrightarrow> token_run S B cfg t0 s0 now (MarkTokenUsed S cfg token p claims now s)"
| put: "token_run S B cfg t0 s0 t s \<Longrightarrow> t \<le> now
    \<Longrightarrow> (\<And>p x. p \<in> set token_purposes \<Longrightarrow> k \<noteq> used_key p x)
    \<Longrightarrow> token_run S B cfg t0 s0 now (snd (st_set S s now k v ttl))"
| erase: "token_run S B cfg t0 s0 t s \<Longrightarrow> t \<le> now
    \<Longrightarrow> (\<And>p x. p \<in> set token_purposes \<Longrightarrow> k \<noteq> used_key p x)
    \<Longrightarrow> token_run S B cfg t0 s0 now (snd (st_delete S s now k))"

context kv_store
begin

lemma used_marker_persists:
  assumes "token_run S B cfg t0 s0 t s" and "p \<in> set token_purposes"
    and "\<And>x. t0 \<le> x \<Longrightarrow> x < limit \<Longrightarrow> view s0 x (used_key p token) = Some (Raw ''true'')"
  shows "t0 \<le> t \<and> (\<forall>x. t \<le> x \<and> x < limit \<longrightarrow> view s x (used_key p token) = Some (Raw ''true''))"
  using assms(1)
proof (induction rule: token_run.induct)
  case start
  then show ?case using assms(3) by simp
next
  case (issue t s now q u e nonce)
  then show ?case
    using assms(2) by (auto simp: NewToken_frame used_issued_disjoint)
next
  case (spend t s now q token' claims)
  have "used_key q token' \<noteq> used_key p token" if "now < limit"
  proof
    assume same: "used_key q token' = used_key p token"
    from spend that have "view s now (used_key q token') = Some (Raw ''true'')"
      by (simp add: same)
    from used_token_rejected [OF this, of B cfg] spend.hyps(4) show False by auto
  qed
  with spend show ?case by (auto simp: MarkTokenUsed_frame)
next
  case (put t s now k v ttl)
  then have "k \<noteq> used_key p token" using assms(2) by blast
  with put show ?case by (auto simp: set_other')
next
  case (erase t s now k)
  then have "k \<noteq> used_key p token" using assms(2) by blast
  with erase show ?case by (auto simp: delete_other')
qed

lemma spent_token_rejected:
  assumes "p \<in> set token_purposes" and "branca_open B cfg token = Some (payload, ts)"
    and "tk_Timestamp claims = ts"
    and "st_set S s now (used_key p token) (Raw ''true'')
      (ts + token_max_age (email cfg) * second - now) = (None, s1)"
    and "token_run S B cfg now s1 t s2" and lim: "t < ts + token_max_age (email cfg) * second"
  shows "\<exists>err. ParseToken S B cfg token p t s2 = Err err"
proof -
  have "view s2 t (used_key p token) = Some (Raw ''true'')"
    using used_marker_persists [OF assms(5,1), of "ts + token_max_age (email cfg) * second"]
      used_marker_set [of s now p token claims cfg s1] assms(3,4) lim
    by auto
  then show ?thesis by (rule used_token_rejected)
qed

end

section \<open>Properties\<close>

lemma ParseToken_opens:
  assumes "ParseToken S B cfg token p now s = Ok claims"
  shows "\<exists>payload. branca_open B cfg token = Some (payload, tk_Timestamp claims)"
  using assms
  by (auto simp: ParseToken_def branca_open_def split: sum.splits option.splits if_splits)

text \<open>A token is refused from one second after its lifetime at the latest.\<close>

lemma late_token:
  assumes "branca_expires B" and "branca_open B cfg token = Some (payload, ts)"
    and "ts + token_max_age (email cfg) * second + second \<le> t"
  shows "\<exists>err. ParseToken S B cfg token p t s = Err err"
proof -
  have "unix ts + token_max_age (email cfg) + 1 = (ts + token_max_age (email cfg) * second + second) div second"
    by (simp add: unix_def second_def)
  also have "\<dots> \<le> unix t" unfolding unix_def by (rule zdiv_mono1 [OF assms(3)]) (simp add: second_def)
  finally have "br_expired B ts (token_max_age (email cfg)) t" using assms(1) by (simp add: branca_expires_def)
  with assms(2) show ?thesis by (auto simp: ParseToken_def branca_open_def split: sum.splits option.splits)
qed

text \<open>
  C11. Single use, but for one second. Once a token has parsed for a purpose and its used marker has been written, it is
  refused for that purpose after any further run of the portal's token operations and of other writes, at every time but the one
  second after its lifetime: the marker lives as long as the token, which branca only calls expired when that second is over.
\<close>

theorem token_single_use:
  assumes "kv_store S view" and "branca_expires B" and "p \<in> set token_purposes"
    and "ParseToken S B cfg token p now s = Ok claims"
    and "fst (st_set S s now (used_key p token) (Raw ''true'')
      (tk_Timestamp claims + token_max_age (email cfg) * second - now)) = None"
    and "token_run S B cfg now (MarkTokenUsed S cfg token p claims now s) t s2"
  shows "(\<exists>err. ParseToken S B cfg token p t s2 = Err err)
    \<or> (tk_Timestamp claims + token_max_age (email cfg) * second \<le> t
        \<and> t < tk_Timestamp claims + token_max_age (email cfg) * second + second)"
proof -
  obtain payload where opn: "branca_open B cfg token = Some (payload, tk_Timestamp claims)"
    using ParseToken_opens [OF assms(4)] by blast
  have set: "st_set S s now (used_key p token) (Raw ''true'')
      (tk_Timestamp claims + token_max_age (email cfg) * second - now)
      = (None, MarkTokenUsed S cfg token p claims now s)"
    using assms(5) by (simp add: MarkTokenUsed_def Let_def prod_eq_iff)
  show ?thesis
    using kv_store.spent_token_rejected [OF assms(1,3) opn refl set assms(6)] late_token [OF assms(2) opn]
    by (metis linorder_not_less)
qed

text \<open>
  C36. Round trip. A token that \<open>NewToken\<close> issued parses back to the user and address it was issued
  for, with its sealing time, until it is used or expires.
\<close>

theorem token_round_trip:
  assumes "kv_store S view" and "branca_ok B"
    and "NewToken S B cfg u e p now nonce s = (Ok t, s')"
    and "st_get S s2 t2 (used_key p t) = Ok (view s2 t2 (used_key p t))"
    and "\<not> br_expired B (unix now * second) (token_max_age (email cfg)) t2"
  shows "ParseToken S B cfg t p t2 s2 =
    (if view s2 t2 (used_key p t) = None
     then Ok \<lparr>tk_Username = u, tk_Email = e, tk_Timestamp = unix now * second\<rparr>
     else Err (EText ''token already used''))"
  using ParseToken_fresh [OF assms(2,3) _ assms(5), of s2 p] assms(4)
  by (auto simp: ParseToken_def split: option.splits)

text \<open>
  The resend cooldown. After a token has been issued to a user for a purpose, asking again
  within the cooldown is refused and changes nothing, whichever other keys were written or
  deleted in between.
\<close>

theorem token_cooldown:
  assumes "kv_store S view" and "NewToken S B cfg u e p now nonce s = (Ok t, s')"
    and "now \<le> t'" and "t' < now + resend_cooldown (email cfg) * second"
    and "\<And>x. view s2 x (issued_key p u) = view s' x (issued_key p u)"
  shows "\<exists>err. NewToken S B' cfg' u e' p t' nonce' s2 = (Err err, s2)"
  by (rule kv_store.cooldown [OF assms])

text \<open>
  Failing closed. When the storage cannot tell whether a token is outstanding or spent, no
  token is issued and none is accepted, and the storage error is what the caller gets.
\<close>

theorem token_fail_closed:
  assumes "st_get S s now (issued_key p u) = Err e1" and "st_get S s now (used_key p token) = Err e2"
  shows "NewToken S B cfg u a p now nonce s = (Err e1, s)
    \<and> ParseToken S B cfg token p now s = Err e2"
  using assms by (simp_all add: NewToken_def ParseToken_def)

text \<open>
  The purpose is not part of a token. A token issued for one purpose is accepted under every
  other one where it has not been marked used: only the marker key depends on the purpose.
\<close>

theorem token_purpose_not_bound:
  assumes "branca_ok B" and "NewToken S B cfg u e p now nonce s = (Ok t, s')"
    and "st_get S s2 t2 (used_key q t) = Ok None"
    and "\<not> br_expired B (unix now * second) (token_max_age (email cfg)) t2"
  shows "ParseToken S B cfg t q t2 s2
    = Ok \<lparr>tk_Username = u, tk_Email = e, tk_Timestamp = unix now * second\<rparr>"
  by (rule ParseToken_fresh [OF assms])

section \<open>Witnesses\<close>

text \<open>A codec that seals one payload, in a token that prints the sealing time.\<close>

definition alice_payload :: blob where
  "alice_payload = marshal_claims
     \<lparr>tk_Username = ''alice'', tk_Email = ''alice@example.com'', tk_Timestamp = zero_time\<rparr>"

definition demo_branca :: branca where
  "demo_branca =
     \<lparr>br_new = (\<lambda>key. None),
      br_encode = (\<lambda>key now nonce p.
        if p = alice_payload \<and> unix now = 7 then Ok ''token-7'' else Err (EText ''branca'')),
      br_decode = (\<lambda>key t.
        if t = ''token-7'' then Ok (alice_payload, 7 * second) else Err (EText ''branca'')),
      br_expired = (\<lambda>ts ttl now. unix ts + ttl < unix now)\<rparr>"

lemma demo_branca_ok: "branca_ok demo_branca"
  by (auto simp: branca_ok_def demo_branca_def)

lemma demo_branca_expires: "branca_expires demo_branca"
  by (auto simp: branca_expires_def demo_branca_def)

definition t7 :: time where "t7 = 7 * second"

lemma t7_unix: "unix t7 = 7" "unix (t7 + 60 * second) = 67"
  by (simp_all add: t7_def unix_def second_def)

definition issued_alice :: cells where
  "issued_alice = snd (NewToken sound_storage demo_branca default_config ''alice'' ''alice@example.com''
     TokenPasswordReset t7 [] Map.empty)"

lemma NewToken_alice:
  "NewToken sound_storage demo_branca default_config ''alice'' ''alice@example.com''
     TokenPasswordReset t7 [] Map.empty = (Ok ''token-7'', issued_alice)"
  by (simp add: issued_alice_def NewToken_def sound_defs demo_branca_def
      default_config_def alice_payload_def t7_unix)

lemma unused_alice: "q \<in> set token_purposes \<Longrightarrow> sound_view issued_alice t (used_key q x) = None"
  using sound.NewToken_frame [of "used_key q x" TokenPasswordReset "''alice''" demo_branca default_config
      "''alice@example.com''" t7 "[]" Map.empty t]
  by (simp add: issued_alice_def used_issued_disjoint token_purposes_def sound_defs)

lemma sound_kv: "kv_store sound_storage sound_view"
  by (rule sound.kv_store_axioms)

lemma fresh_alice: "\<not> br_expired demo_branca (unix t7 * second) (token_max_age (email default_config)) t7"
  by (simp add: demo_branca_def default_config_def t7_unix) (simp add: unix_def second_def)

definition claims_alice :: Token where
  "claims_alice = \<lparr>tk_Username = ''alice'', tk_Email = ''alice@example.com'', tk_Timestamp = t7\<rparr>"

lemma parsed_alice:
  "q \<in> set token_purposes
    \<Longrightarrow> ParseToken sound_storage demo_branca default_config ''token-7'' q t7 issued_alice = Ok claims_alice"
  using ParseToken_fresh [OF demo_branca_ok NewToken_alice _ fresh_alice, of issued_alice q]
  by (simp add: sound.get_ok unused_alice claims_alice_def t7_unix) (simp add: t7_def)

theorem token_single_use_witness:
  "\<exists>err. ParseToken sound_storage demo_branca default_config ''token-7'' TokenPasswordReset t7
     (MarkTokenUsed sound_storage default_config ''token-7'' TokenPasswordReset claims_alice t7 issued_alice)
     = Err err"
  using token_single_use [OF sound_kv demo_branca_expires _ parsed_alice sound.set_ok token_run.start, of TokenPasswordReset]
  by (simp add: token_purposes_def claims_alice_def default_config_def second_def)

text \<open>
  The second after the lifetime. A token that was used at once is accepted again when its lifetime of an hour is just over: its
  marker is gone, and branca does not call it expired yet.
\<close>

theorem used_token_revives:
  "ParseToken sound_storage demo_branca default_config ''token-7'' TokenPasswordReset (t7 + 3600 * second)
     (MarkTokenUsed sound_storage default_config ''token-7'' TokenPasswordReset claims_alice t7 issued_alice) = Ok claims_alice"
proof -
  have "sound_view (MarkTokenUsed sound_storage default_config ''token-7'' TokenPasswordReset claims_alice t7 issued_alice)
      (t7 + 3600 * second) (used_key TokenPasswordReset ''token-7'') = None"
    by (simp add: MarkTokenUsed_def claims_alice_def default_config_def sound_defs second_def)
  then have "ParseToken sound_storage demo_branca default_config ''token-7'' TokenPasswordReset (t7 + 3600 * second)
      (MarkTokenUsed sound_storage default_config ''token-7'' TokenPasswordReset claims_alice t7 issued_alice)
      = Ok \<lparr>tk_Username = ''alice'', tk_Email = ''alice@example.com'', tk_Timestamp = unix t7 * second\<rparr>"
    by (intro ParseToken_fresh [OF demo_branca_ok NewToken_alice])
      (simp_all add: sound.get_ok demo_branca_def default_config_def unix_def second_def t7_def)
  then show ?thesis by (simp add: claims_alice_def t7_unix) (simp add: t7_def)
qed

theorem token_round_trip_witness:
  "ParseToken sound_storage demo_branca default_config ''token-7'' TokenPasswordReset t7 issued_alice
    = Ok \<lparr>tk_Username = ''alice'', tk_Email = ''alice@example.com'', tk_Timestamp = unix t7 * second\<rparr>"
  using token_round_trip [OF sound_kv demo_branca_ok NewToken_alice sound.get_ok fresh_alice]
  by (simp add: unused_alice token_purposes_def)

theorem token_cooldown_witness:
  "\<exists>err. NewToken sound_storage demo_branca default_config ''alice'' ''x'' TokenPasswordReset
     (t7 + 60 * second) [] issued_alice = (Err err, issued_alice)"
  by (rule token_cooldown [OF sound_kv NewToken_alice]) (simp_all add: default_config_def second_def)

theorem token_fail_closed_witness:
  "NewToken mem_storage demo_branca default_config ''alice'' ''x'' TokenInvite t7 []
      (empty_mem\<lparr>get_down := \<lambda>_. True\<rparr>)
    = (Err (EText ''storage''), empty_mem\<lparr>get_down := \<lambda>_. True\<rparr>)
   \<and> ParseToken mem_storage demo_branca default_config ''token-7'' TokenInvite t7
      (empty_mem\<lparr>get_down := \<lambda>_. True\<rparr>) = Err (EText ''storage'')"
  using token_fail_closed [of mem_storage "empty_mem\<lparr>get_down := \<lambda>_. True\<rparr>" t7 TokenInvite "''alice''"
      "EText ''storage''" "''token-7''" "EText ''storage''"]
  by (simp add: mem_storage_def mem_get_def)

theorem token_purpose_not_bound_witness:
  "ParseToken sound_storage demo_branca default_config ''token-7'' TokenAccountVerify t7 issued_alice
    = Ok \<lparr>tk_Username = ''alice'', tk_Email = ''alice@example.com'', tk_Timestamp = unix t7 * second\<rparr>"
  by (rule token_purpose_not_bound [OF demo_branca_ok NewToken_alice _ fresh_alice])
    (simp add: sound.get_ok unused_alice token_purposes_def)

end
