(* ===== verification/Password_Policy.thy ===== *)
theory Password_Policy
  imports Tokens Config
begin

text \<open>
  Password rules (\<open>password.go\<close>, \<open>lockout.go\<close>, \<open>hibp.go\<close>): the checks a new password has to pass, which
  follow FreeIPA's own (character classes with a penalty for repetitions) and libpwquality's,
  the breached-password lookup, who has a FreeIPA password at all, and the lockout threshold.

  \<open>None\<close> stands for a nil error. The lemmas give a declarative reading of each check: the scanning
  loops compute the classes, the repetitions and the longest runs that their comments promise.
\<close>

section \<open>The policy\<close>

text \<open>The policy as goipa returns it.\<close>

record ipa_PwPolicy =
  ip_MinLength :: int
  ip_MinClasses :: int
  ip_HistoryLength :: int
  ip_MaxLife :: duration
  ip_MinLife :: duration
  ip_MaxFailures :: int
  ip_LockoutDuration :: duration
  ip_MaxRepeat :: int
  ip_MaxSequence :: int
  ip_DictCheck :: bool
  ip_UserCheck :: bool
  ip_DigitCredit :: int
  ip_UpperCredit :: int
  ip_LowerCredit :: int
  ip_OtherCredit :: int

record PwPolicy =
  MinLength :: int
  MinClasses :: int
  HistorySize :: int
  MaxLifeDays :: int
  MinLifeHours :: int
  MaxFailure :: int
  MaxRepeat :: int
  MaxSequence :: int
  DictCheck :: bool
  UserCheck :: bool
  DigitCredit :: int
  UpperCredit :: int
  LowerCredit :: int
  OtherCredit :: int

definition pwquality :: "PwPolicy \<Rightarrow> bool" where
  "pwquality p \<longleftrightarrow>
     MaxRepeat p \<noteq> 0 \<or> MaxSequence p \<noteq> 0 \<or> DictCheck p \<or> UserCheck p \<or>
     DigitCredit p \<noteq> 0 \<or> UpperCredit p \<noteq> 0 \<or> LowerCredit p \<noteq> 0 \<or> OtherCredit p \<noteq> 0"

text \<open>\<open>UserPwPolicy\<close> and \<open>PwPolicyShow\<close> of the IPA client are arguments. Durations are not negative,
  so \<open>div\<close> is Go's division.\<close>

definition pwPolicyShow ::
    "(string \<Rightarrow> ipa_PwPolicy result) \<Rightarrow> (string \<Rightarrow> ipa_PwPolicy result) \<Rightarrow> string \<Rightarrow> PwPolicy result" where
  "pwPolicyShow ipa_UserPwPolicy ipa_PwPolicyShow username =
     (case (if username \<noteq> [] then ipa_UserPwPolicy username else ipa_PwPolicyShow []) of
        Err e \<Rightarrow> Err e
      | Ok p \<Rightarrow>
          Ok \<lparr>MinLength = ip_MinLength p, MinClasses = ip_MinClasses p, HistorySize = ip_HistoryLength p,
              MaxLifeDays = ip_MaxLife p div (24 * hour), MinLifeHours = ip_MinLife p div hour,
              MaxFailure = ip_MaxFailures p, MaxRepeat = ip_MaxRepeat p, MaxSequence = ip_MaxSequence p,
              DictCheck = ip_DictCheck p, UserCheck = ip_UserCheck p, DigitCredit = ip_DigitCredit p,
              UpperCredit = ip_UpperCredit p, LowerCredit = ip_LowerCredit p,
              OtherCredit = ip_OtherCredit p\<rparr>)"

definition userFailedLogins :: "int list result \<Rightarrow> int result" where
  "userFailedLogins replicas =
     (case replicas of Err e \<Rightarrow> Err e | Ok rs \<Rightarrow> Ok (fold (\<lambda>n failed. max failed n) rs 0))"

text \<open>The two lookups are evaluated only when reached; both are reads.\<close>

definition userLockedOut :: "PwPolicy result \<Rightarrow> int list result \<Rightarrow> bool" where
  "userLockedOut policy replicas =
     (case policy of
        Err _ \<Rightarrow> False
      | Ok p \<Rightarrow>
          if MaxFailure p \<le> 0 then False
          else (case userFailedLogins replicas of Err _ \<Rightarrow> False | Ok failed \<Rightarrow> failed \<ge> MaxFailure p))"

section \<open>Runs of characters\<close>

definition int8 :: "char \<Rightarrow> int" where
  "int8 c = (if code c < 128 then int (code c) else int (code c) - 256)"

definition longestRun :: "string \<Rightarrow> int \<Rightarrow> nat" where
  "longestRun b step =
     snd (fold (\<lambda>(p, c) (run, longest).
            let run' = (if int8 c - int8 p = step then run + 1 else 1) in (run', max longest run'))
          (zip b (tl b)) (1, min (length b) 1))"

section \<open>libpwquality\<close>

definition too_few :: "string \<Rightarrow> string \<Rightarrow> int \<Rightarrow> int \<Rightarrow> error option" where
  "too_few lang key count credit =
     (if count < - credit then Some (ETrans lang key []) else None)"

definition credit_of :: "int \<Rightarrow> int \<Rightarrow> int" where
  "credit_of count credit = (if credit > 0 then min count credit else 0)"

fun first_error :: "error option list \<Rightarrow> error option" where
  "first_error [] = None"
| "first_error (None # es) = first_error es"
| "first_error (Some e # es) = Some e"

definition checkPwquality :: "unicode \<Rightarrow> string \<Rightarrow> string \<Rightarrow> string \<Rightarrow> PwPolicy \<Rightarrow> error option" where
  "checkPwquality U lang pass username p =
     (let mono = map lower_char pass;
          digits = int (length (filter is_digit pass));
          uppers = int (length (filter is_upper pass));
          lowers = int (length (filter is_lower pass));
          others = int (length (filter (\<lambda>c. \<not> is_digit c \<and> \<not> is_upper c \<and> \<not> is_lower c) pass));
          classes = [(digits, DigitCredit p, ''password.too_few_digits''),
                     (uppers, UpperCredit p, ''password.too_few_upper''),
                     (lowers, LowerCredit p, ''password.too_few_lower''),
                     (others, OtherCredit p, ''password.too_few_special'')];
          size = int (length (runes pass)) + sum_list (map (\<lambda>(n, cr, _). credit_of n cr) classes);
          minLength = max (MinLength p) 6;
          user = ToLower U username
      in case first_error (map (\<lambda>(n, cr, key). too_few lang key n cr) classes) of
           Some e \<Rightarrow> Some e
         | None \<Rightarrow>
             if size < minLength then Some (ETrans lang ''password.min_length'' [minLength])
             else if mono = rev mono then Some (ETrans lang ''password.palindrome'' [])
             else if MaxRepeat p > 0 \<and> int (longestRun pass 0) > MaxRepeat p
             then Some (ETrans lang ''password.too_many_repeats'' [])
             else if MaxSequence p > 0 \<and>
               int (max (longestRun pass 1) (longestRun pass (- 1))) > MaxSequence p
             then Some (ETrans lang ''password.sequence'' [])
             else if UserCheck p \<and> length user \<ge> 4 \<and> (Contains mono user \<or> Contains mono (rev user))
             then Some (ETrans lang ''password.contains_username'' [])
             else None)"

section \<open>FreeIPA's classes\<close>

datatype rune_class = Digit | Lower | Upper | Special | EightBit

definition class_of :: "nat \<Rightarrow> rune_class" where
  "class_of r =
     (if 48 \<le> r \<and> r \<le> 57 then Digit
      else if 97 \<le> r \<and> r \<le> 122 then Lower
      else if 65 \<le> r \<and> r \<le> 90 then Upper
      else if r < 128 then Special
      else EightBit)"

record class_scan =
  has :: "rune_class \<Rightarrow> bool"
  prev :: "nat option"
  numRepeated :: int
  maxRepeated :: int

definition scan_rune :: "nat \<Rightarrow> class_scan \<Rightarrow> class_scan" where
  "scan_rune r st =
     (let num = (if prev st = Some r then numRepeated st + 1 else 0)
      in \<lparr>has = (has st)(class_of r := True), prev = Some r, numRepeated = num,
          maxRepeated = (if prev st = Some r \<and> num > maxRepeated st then num else maxRepeated st)\<rparr>)"

definition scan_runes :: "nat list \<Rightarrow> class_scan" where
  "scan_runes rs =
     fold scan_rune rs \<lparr>has = \<lambda>_. False, prev = None, numRepeated = 0, maxRepeated = 0\<rparr>"

definition checkPassword ::
    "config \<Rightarrow> unicode \<Rightarrow> string \<Rightarrow> string \<Rightarrow> string \<Rightarrow> PwPolicy option \<Rightarrow> error option" where
  "checkPassword cfg U lang pass username policy =
     (let quality = (case policy of None \<Rightarrow> False | Some p \<Rightarrow> pwquality p);
          minLength = (case policy of
             None \<Rightarrow> min_passwd_len (accounts cfg)
           | Some p \<Rightarrow> if \<not> quality \<and> MinLength p > min_passwd_len (accounts cfg) then MinLength p
                       else min_passwd_len (accounts cfg));
          minClasses = (case policy of
             None \<Rightarrow> min_passwd_classes (accounts cfg)
           | Some p \<Rightarrow> if MinClasses p > min_passwd_classes (accounts cfg) then MinClasses p
                       else min_passwd_classes (accounts cfg));
          l = int (length (runes pass));
          st = scan_runes (runes pass);
          categories = int (length (filter (has st) [Digit, Upper, Lower, Special, EightBit]));
          numCategories = (if maxRepeated st > 1 then categories - 1 else categories)
      in if l < minLength then Some (ETrans lang ''password.min_length'' [minLength])
         else if numCategories < minClasses then Some (ETrans lang ''password.policy_not_met'' [])
         else (case policy of
                 Some p \<Rightarrow> if quality then checkPwquality U lang pass username p else None
               | None \<Rightarrow> None))"

section \<open>Breached passwords\<close>

text \<open>
  Have I Been Pwned: \<open>hb_sha1\<close> is the hash (20 bytes), \<open>hb_range prefix\<close> the answer of the service:
  status code, status text, the lines of the body and the error that ended reading, if any.
\<close>

record hibp =
  hb_sha1 :: "string \<Rightarrow> string"
  hb_range :: "string \<Rightarrow> (int \<times> string \<times> string list \<times> error option) result"

text \<open>The hexadecimal digits are ASCII.\<close>

definition hash_hex :: "string \<Rightarrow> string" where
  "hash_hex bs = map upper_char (HexEncode bs)"

definition breach_line :: "string \<Rightarrow> string \<Rightarrow> bool" where
  "breach_line sfx text =
     (case Cut (TrimSpace text) '':'' of
        (s, count, ok) \<Rightarrow> ok \<and> s = sfx \<and> dropWhile (\<lambda>c. c = CHR ''0'') count \<noteq> [])"

definition passwordBreached :: "hibp \<Rightarrow> string \<Rightarrow> bool result" where
  "passwordBreached H password =
     (let hash = hash_hex (hb_sha1 H password)
      in case hb_range H (take 5 hash) of
           Err e \<Rightarrow> Err e
         | Ok (status_code, status, body, err) \<Rightarrow>
             if status_code \<noteq> 200 then Err (EText (''pwned passwords API returned '' @ status))
             else if list_ex (breach_line (drop 5 hash)) body then Ok True
             else (case err of Some e \<Rightarrow> Err e | None \<Rightarrow> Ok False))"

section \<open>Validation\<close>

definition validatePassword ::
    "config \<Rightarrow> unicode \<Rightarrow> hibp \<Rightarrow> string \<Rightarrow> string \<Rightarrow> string \<Rightarrow> string \<Rightarrow> PwPolicy option \<Rightarrow> error option" where
  "validatePassword cfg U H lang password passwordConfirm username policy =
     (if password = [] then Some (ETrans lang ''password.enter_new'' [])
      else if passwordConfirm = [] then Some (ETrans lang ''password.confirm_new'' [])
      else if password \<noteq> passwordConfirm
      then Some (EText ''Password do not match. Please confirm your password.'')
      else (case checkPassword cfg U lang password username policy of
              Some e \<Rightarrow> Some e
            | None \<Rightarrow>
                if check_breached_passwords (accounts cfg) then
                  (case passwordBreached H password of
                     Err _ \<Rightarrow> None
                   | Ok breached \<Rightarrow> if breached then Some (ETrans lang ''password.breached'' []) else None)
                else None))"

definition validatePasswordChange ::
    "config \<Rightarrow> unicode \<Rightarrow> hibp \<Rightarrow> string \<Rightarrow> string \<Rightarrow> string \<Rightarrow> string \<Rightarrow> string \<Rightarrow> PwPolicy option
      \<Rightarrow> error option" where
  "validatePasswordChange cfg U H lang passwordCurrent password passwordConfirm username policy =
     (if passwordCurrent = [] then Some (ETrans lang ''password.enter_current'' [])
      else if passwordCurrent = passwordConfirm then Some (ETrans lang ''password.same_as_new'' [])
      else validatePassword cfg U H lang password passwordConfirm username policy)"

section \<open>Who has a FreeIPA password\<close>

definition usesFreeIPAPassword :: "string list \<Rightarrow> bool" where
  "usesFreeIPAPassword types \<longleftrightarrow>
     types = [] \<or> list_ex (\<lambda>t. t = ''password'' \<or> t = ''otp'' \<or> t = ''hardened'') types"

text \<open>\<open>default_types\<close> is what \<open>defaultAuthTypes\<close> returns, nil when FreeIPA does not answer; the result is
  the message that explains where the password is managed.\<close>

definition passwordElsewhere :: "string \<Rightarrow> string list \<Rightarrow> string list \<Rightarrow> error option" where
  "passwordElsewhere lang default_types user_types =
     (let types = (if user_types = [] \<or> ''disabled'' \<in> set default_types
                   then filter (\<lambda>t. t \<noteq> ''disabled'') default_types else user_types)
      in if usesFreeIPAPassword types then None
         else if ''idp'' \<in> set types then Some (ETrans lang ''password.managed_by_idp'' [])
         else if ''radius'' \<in> set types then Some (ETrans lang ''password.managed_by_radius'' [])
         else Some (ETrans lang ''password.not_used'' []))"

definition defaultAuthTypes :: "string list option result \<Rightarrow> string list" where
  "defaultAuthTypes config_show =
     (case config_show of Err _ \<Rightarrow> [] | Ok None \<Rightarrow> [] | Ok (Some ts) \<Rightarrow> ts)"

definition ipaDomain :: "unicode \<Rightarrow> string \<Rightarrow> string" where
  "ipaDomain U realm = ToLower U realm"

definition adTrustUsername :: "unicode \<Rightarrow> string \<Rightarrow> string \<Rightarrow> bool" where
  "adTrustUsername U realm username =
     (if Contains username [CHR 0x5C] then True
      else (case LastIndex username CHR ''@'' of
              None \<Rightarrow> False
            | Some at \<Rightarrow> \<not> EqualFold U (drop (at + 1) username) (ipaDomain U realm)))"

section \<open>Longest runs\<close>

text \<open>The stretches of a text in which every byte is the previous one plus \<open>step\<close>.\<close>

definition stepped :: "int \<Rightarrow> string \<Rightarrow> bool" where
  "stepped step xs = successively (\<lambda>a b. int8 b - int8 a = step) xs"

definition run_state :: "string \<Rightarrow> int \<Rightarrow> nat \<times> nat" where
  "run_state b step =
     fold (\<lambda>(p, c) (run, longest).
            let run' = (if int8 c - int8 p = step then run + 1 else 1) in (run', max longest run'))
       (zip b (tl b)) (1, min (length b) 1)"

lemma run_state_snoc:
  assumes "b \<noteq> []"
  shows "run_state (b @ [x]) step =
    (let (run, longest) = run_state b step;
         run' = (if int8 x - int8 (last b) = step then run + 1 else 1)
     in (run', max longest run'))"
proof -
  have "zip (b @ [x]) (tl (b @ [x])) = zip b (tl b) @ [(last b, x)]" if "b \<noteq> []" for b :: string
    using that
  proof (induction b rule: list_nonempty_induct)
    case (cons y ys)
    then show ?case by (cases ys) auto
  qed simp
  moreover have "min (length (b @ [x])) 1 = min (length b) 1"
    using assms by (cases b) auto
  ultimately show ?thesis
    using assms by (simp add: run_state_def case_prod_unfold Let_def)
qed

lemma sublist_snoc: "sublist xs (ys @ [y]) \<longleftrightarrow> sublist xs ys \<or> suffix xs (ys @ [y])"
proof -
  have "sublist (rev xs) (y # rev ys) \<longleftrightarrow> prefix (rev xs) (y # rev ys) \<or> sublist (rev xs) (rev ys)"
    by (rule sublist_Cons_right)
  then show ?thesis
    by (metis rev.simps(2) rev_rev_ident sublist_rev suffix_to_prefix)
qed

lemma stepped_snoc: "stepped step (xs @ [x]) \<longleftrightarrow> stepped step xs \<and> (xs = [] \<or> int8 x - int8 (last xs) = step)"
  by (simp add: stepped_def successively_append_iff)

text \<open>The state of the loop: the longest stretch that ends here and the longest one so far.\<close>

lemma run_state_spec:
  assumes "b \<noteq> []" "run_state b step = (run, longest)"
  shows "(\<exists>xs. suffix xs b \<and> stepped step xs \<and> length xs = run) \<and> 0 < run
    \<and> (\<forall>xs. suffix xs b \<and> stepped step xs \<longrightarrow> length xs \<le> run)
    \<and> (\<exists>xs. sublist xs b \<and> stepped step xs \<and> length xs = longest)
    \<and> (\<forall>xs. sublist xs b \<and> stepped step xs \<longrightarrow> length xs \<le> longest)"
  using assms
proof (induction b arbitrary: run longest rule: rev_nonempty_induct)
  case (single x)
  then have "run = 1" "longest = 1" by (simp_all add: run_state_def)
  moreover have "stepped step [x]" by (simp add: stepped_def)
  ultimately show ?case
    by (auto simp: suffix_Cons sublist_Cons_right prefix_Cons intro!: exI [of _ "[x]"])
next
  case (snoc x b)
  obtain r l where st: "run_state b step = (r, l)" by fastforce
  note IH = snoc.IH [OF st]
  have run: "run = (if int8 x - int8 (last b) = step then r + 1 else 1)" and longest: "longest = max l run"
    using snoc.prems run_state_snoc [OF snoc.hyps, of x step] by (auto simp: st Let_def)
  have ends: "length xs \<le> run" if "suffix xs (b @ [x])" "stepped step xs" for xs
  proof (cases "xs = []")
    case False
    with that obtain ys where xs: "xs = ys @ [x]" and ys: "suffix ys b"
      by (auto simp: suffix_snoc)
    show ?thesis
    proof (cases "ys = []")
      case True
      then show ?thesis by (simp add: xs run)
    next
      case False
      with ys have "last ys = last b" by (metis last_appendR suffix_def)
      with that(2) False IH ys show ?thesis by (simp add: xs stepped_snoc run)
    qed
  qed simp
  have attained: "\<exists>xs. suffix xs (b @ [x]) \<and> stepped step xs \<and> length xs = run"
  proof (cases "int8 x - int8 (last b) = step")
    case True
    from IH obtain ys where ys: "suffix ys b" "stepped step ys" "length ys = r" "ys \<noteq> []" by auto
    moreover have "last ys = last b" using ys by (metis last_appendR suffix_def)
    ultimately show ?thesis
      using True by (intro exI [of _ "ys @ [x]"]) (simp add: run stepped_snoc)
  next
    case False
    then show ?thesis
      by (intro exI [of _ "[x]"]) (simp add: run stepped_def suffix_def)
  qed
  moreover have "0 < run" by (simp add: run)
  moreover have "length xs \<le> longest" if "sublist xs (b @ [x])" "stepped step xs" for xs
    using that ends [of xs] IH by (auto simp: sublist_snoc longest)
  moreover have "\<exists>xs. sublist xs (b @ [x]) \<and> stepped step xs \<and> length xs = longest"
    using attained IH by (auto simp: sublist_snoc longest max_def)
  ultimately show ?case using ends by auto
qed

lemma longestRun_Max:
  "longestRun b step = Max (length ` {xs. sublist xs b \<and> stepped step xs})"
proof -
  have fin: "finite (length ` {xs. sublist xs b \<and> stepped step xs})"
    by (rule finite_subset [of _ "{..length b}"]) (auto dest: sublist_length_le)
  show ?thesis
  proof (cases "b = []")
    case True
    then show ?thesis by (simp add: longestRun_def stepped_def)
  next
    case False
    obtain r l where st: "run_state b step = (r, l)" by fastforce
    note spec = run_state_spec [OF False st]
    have "longestRun b step = l" using st by (simp add: longestRun_def run_state_def)
    moreover have "Max (length ` {xs. sublist xs b \<and> stepped step xs}) = l"
      using spec fin by (intro Max_eqI) auto
    ultimately show ?thesis by simp
  qed
qed

section \<open>Classes and repetitions\<close>

definition thrice :: "nat list \<Rightarrow> bool" where
  "thrice rs \<longleftrightarrow> (\<exists>r. sublist [r, r, r] rs)"

lemma scan_runes_snoc: "scan_runes (rs @ [r]) = scan_rune r (scan_runes rs)"
  by (simp add: scan_runes_def)

lemma suffix_last: "suffix [a] rs \<longleftrightarrow> rs \<noteq> [] \<and> last rs = a"
  by (cases rs rule: rev_cases) (auto simp: suffix_def)

lemma suffix_twice: "suffix [a, a] (rs @ [r]) \<longleftrightarrow> a = r \<and> rs \<noteq> [] \<and> last rs = r"
  using snoc_suffix_snoc [of "[a]" a rs r] suffix_last [of a rs] by (simp only: append_Cons append_Nil) metis

lemma suffix_thrice: "suffix [a, a, a] (rs @ [r]) \<longleftrightarrow> a = r \<and> suffix [r, r] rs"
  using snoc_suffix_snoc [of "[a, a]" a rs r] by auto

lemma suffix_twice_last: "suffix [a, a] rs \<Longrightarrow> rs \<noteq> [] \<and> last rs = a"
  by (cases rs rule: rev_cases) (auto simp: suffix_twice)

lemma scan_inv:
  defines "st \<equiv> \<lambda>rs. scan_runes rs"
  shows "prev (st rs) = (if rs = [] then None else Some (last rs))
    \<and> 0 \<le> numRepeated (st rs) \<and> numRepeated (st rs) \<le> maxRepeated (st rs)
    \<and> (0 < numRepeated (st rs) \<longleftrightarrow> (\<exists>r. suffix [r, r] rs))
    \<and> (1 < maxRepeated (st rs) \<longleftrightarrow> thrice rs)"
proof (induction rs rule: rev_induct)
  case Nil
  then show ?case by (simp add: st_def scan_runes_def thrice_def)
next
  case (snoc r rs)
  let ?same = "rs \<noteq> [] \<and> last rs = r"
  have num: "numRepeated (st (rs @ [r])) = (if ?same then numRepeated (st rs) + 1 else 0)"
    using snoc by (auto simp: st_def scan_runes_snoc scan_rune_def Let_def)
  have mx: "maxRepeated (st (rs @ [r])) = max (maxRepeated (st rs)) (numRepeated (st (rs @ [r])))"
    using snoc num by (auto simp: st_def scan_runes_snoc scan_rune_def Let_def max_def)
  have twice: "(\<exists>a. suffix [a, a] (rs @ [r])) \<longleftrightarrow> ?same"
    unfolding suffix_twice by auto
  have "1 < numRepeated (st (rs @ [r])) \<longleftrightarrow> suffix [r, r] rs"
  proof
    assume "1 < numRepeated (st (rs @ [r]))"
    with num have "?same" "0 < numRepeated (st rs)" by (auto split: if_splits)
    with snoc obtain a where "suffix [a, a] rs" by blast
    with suffix_twice_last [OF this] \<open>?same\<close> show "suffix [r, r] rs" by simp
  next
    assume two: "suffix [r, r] rs"
    with snoc have "0 < numRepeated (st rs)" by blast
    with num suffix_twice_last [OF two] show "1 < numRepeated (st (rs @ [r]))" by simp
  qed
  then have "1 < numRepeated (st (rs @ [r])) \<longleftrightarrow> (\<exists>a. suffix [a, a, a] (rs @ [r]))"
    by (simp add: suffix_thrice)
  with mx snoc have "1 < maxRepeated (st (rs @ [r])) \<longleftrightarrow> thrice (rs @ [r])"
    by (auto simp: thrice_def sublist_snoc less_max_iff_disj)
  moreover have "prev (st (rs @ [r])) = Some r"
    by (simp add: st_def scan_runes_snoc scan_rune_def Let_def)
  ultimately show ?case
    using snoc num mx twice by auto
qed

lemma scan_has: "has (scan_runes rs) c \<longleftrightarrow> c \<in> class_of ` set rs"
proof (induction rs rule: rev_induct)
  case (snoc r rs)
  then show ?case by (auto simp: scan_runes_snoc scan_rune_def Let_def)
qed (simp add: scan_runes_def)

text \<open>The number of classes a password counts for.\<close>

definition class_count :: "nat list \<Rightarrow> int" where
  "class_count rs = int (card (class_of ` set rs)) - (if thrice rs then 1 else 0)"

lemma categories_card:
  "length (filter (has (scan_runes rs)) [Digit, Upper, Lower, Special, EightBit])
    = card (class_of ` set rs)"
proof -
  let ?all = "[Digit, Upper, Lower, Special, EightBit]"
  have "set ?all = UNIV" using rune_class.exhaust by auto
  then have "set (filter (has (scan_runes rs)) ?all) = class_of ` set rs"
    unfolding set_filter by (auto simp: scan_has)
  moreover have "distinct (filter (has (scan_runes rs)) ?all)"
    by (intro distinct_filter) simp
  ultimately show ?thesis by (metis distinct_card)
qed

section \<open>Properties\<close>

text \<open>
  C37. Longest runs. \<open>longestRun\<close>, which walks over the password once, is the greatest length of a
  contiguous part in which every byte is the previous one plus the step, on signed bytes.
\<close>

theorem longestRun_correct:
  "longestRun b step
    = Max (length ` {xs. sublist xs b \<and> successively (\<lambda>x y. int8 y - int8 x = step) xs})"
  using longestRun_Max [of b step] by (simp add: stepped_def)

definition min_length_for :: "config \<Rightarrow> PwPolicy option \<Rightarrow> int" where
  "min_length_for cfg policy =
     (case policy of
        None \<Rightarrow> min_passwd_len (accounts cfg)
      | Some p \<Rightarrow> if pwquality p then min_passwd_len (accounts cfg)
                  else max (MinLength p) (min_passwd_len (accounts cfg)))"

definition min_classes_for :: "config \<Rightarrow> PwPolicy option \<Rightarrow> int" where
  "min_classes_for cfg policy =
     (case policy of
        None \<Rightarrow> min_passwd_classes (accounts cfg)
      | Some p \<Rightarrow> max (MinClasses p) (min_passwd_classes (accounts cfg)))"

text \<open>
  The password check. A password is accepted exactly when it has at least the stricter minimum
  number of characters, falls into enough of the five classes, one class being lost when some
  character occurs three times in a row, and passes libpwquality where the policy uses it.
\<close>

theorem checkPassword_accepts:
  "checkPassword cfg U lang pass username policy = None \<longleftrightarrow>
     min_length_for cfg policy \<le> int (length (runes pass))
     \<and> min_classes_for cfg policy \<le> int (card (class_of ` set (runes pass)))
          - (if \<exists>r. sublist [r, r, r] (runes pass) then 1 else 0)
     \<and> (case policy of
           None \<Rightarrow> True
         | Some p \<Rightarrow> if pwquality p then checkPwquality U lang pass username p = None else True)"
proof -
  have rep: "(1 < maxRepeated (scan_runes (runes pass))) = (\<exists>r. sublist [r, r, r] (runes pass))"
    using scan_inv [of "runes pass"] by (simp add: thrice_def)
  show ?thesis
    unfolding checkPassword_def Let_def categories_card rep min_length_for_def min_classes_for_def
    by (cases policy) auto
qed

lemma first_error_None: "first_error es = None \<longleftrightarrow> (\<forall>e\<in>set es. e = None)"
  by (induction es rule: first_error.induct) auto

definition other_char :: "char \<Rightarrow> bool" where
  "other_char c \<longleftrightarrow> \<not> is_digit c \<and> \<not> is_upper c \<and> \<not> is_lower c"

definition count_of :: "(char \<Rightarrow> bool) \<Rightarrow> string \<Rightarrow> int" where
  "count_of P s = int (length (filter P s))"

lemma count_of_nonneg: "0 \<le> count_of P s"
  by (simp add: count_of_def)

lemma checkPwquality_None:
  "checkPwquality U lang pass username p = None \<longleftrightarrow>
     - DigitCredit p \<le> count_of is_digit pass \<and> - UpperCredit p \<le> count_of is_upper pass
     \<and> - LowerCredit p \<le> count_of is_lower pass \<and> - OtherCredit p \<le> count_of other_char pass
     \<and> max (MinLength p) 6 \<le> int (length (runes pass))
         + max 0 (min (count_of is_digit pass) (DigitCredit p)) + max 0 (min (count_of is_upper pass) (UpperCredit p))
         + max 0 (min (count_of is_lower pass) (LowerCredit p)) + max 0 (min (count_of other_char pass) (OtherCredit p))
     \<and> map lower_char pass \<noteq> rev (map lower_char pass)
     \<and> (0 < MaxRepeat p \<longrightarrow> int (longestRun pass 0) \<le> MaxRepeat p)
     \<and> (0 < MaxSequence p \<longrightarrow> int (longestRun pass 1) \<le> MaxSequence p \<and> int (longestRun pass (- 1)) \<le> MaxSequence p)
     \<and> (UserCheck p \<and> 4 \<le> length (ToLower U username) \<longrightarrow>
          \<not> Contains (map lower_char pass) (ToLower U username)
          \<and> \<not> Contains (map lower_char pass) (rev (ToLower U username)))"
proof -
  have credit: "credit_of n cr = max 0 (min n cr)" if "0 \<le> n" for n cr
    using that by (simp add: credit_of_def)
  have few: "too_few lang key n cr = None \<longleftrightarrow> - cr \<le> n" for key n cr
    by (auto simp: too_few_def)
  have some: "(case e of None \<Rightarrow> x | Some y \<Rightarrow> Some y) = None \<longleftrightarrow> e = None \<and> x = None" for e x :: "error option"
    by (cases e) auto
  have guard: "(if P then Some e else x) = None \<longleftrightarrow> \<not> P \<and> x = None" for P e and x :: "error option"
    by simp
  have bound: "int (max m n) \<le> k \<longleftrightarrow> int m \<le> k \<and> int n \<le> k" for m n k
    by (auto simp: max_def)
  show ?thesis
    unfolding checkPwquality_def Let_def some guard first_error_None count_of_def [symmetric]
      other_char_def [symmetric] de_Morgan_conj not_less bound
    by (simp only: list.map list.set ball_simps prod.case few credit count_of_nonneg sum_list.Cons sum_list.Nil
        add.assoc add_0_right conj_assoc simp_thms de_Morgan_disj de_Morgan_conj disj_assoc not_le not_less imp_conv_disj)
qed

text \<open>
  libpwquality. The emulation accepts a password exactly when every class has the characters its
  negative credit demands, the length with positive credits reaches the minimum of at least six,
  and the password is no palindrome (letter case aside), has no too long run of equal or
  consecutive bytes and does not contain the user name of four letters or more or its reverse.
\<close>

theorem checkPwquality_accepts:
  "checkPwquality U lang pass username p = None \<longleftrightarrow>
     - DigitCredit p \<le> count_of is_digit pass \<and> - UpperCredit p \<le> count_of is_upper pass
     \<and> - LowerCredit p \<le> count_of is_lower pass \<and> - OtherCredit p \<le> count_of other_char pass
     \<and> max (MinLength p) 6 \<le> int (length (runes pass))
         + max 0 (min (count_of is_digit pass) (DigitCredit p)) + max 0 (min (count_of is_upper pass) (UpperCredit p))
         + max 0 (min (count_of is_lower pass) (LowerCredit p)) + max 0 (min (count_of other_char pass) (OtherCredit p))
     \<and> map lower_char pass \<noteq> rev (map lower_char pass)
     \<and> \<not> (0 < MaxRepeat p \<and> MaxRepeat p < int (longestRun pass 0))
     \<and> \<not> (0 < MaxSequence p \<and> MaxSequence p < int (max (longestRun pass 1) (longestRun pass (- 1))))
     \<and> \<not> (UserCheck p \<and> 4 \<le> length (ToLower U username)
          \<and> (Contains (map lower_char pass) (ToLower U username)
               \<or> Contains (map lower_char pass) (rev (ToLower U username))))"
proof -
  have rep: "(0 < m \<longrightarrow> r \<le> m) \<longleftrightarrow> \<not> (0 < m \<and> m < r)" for m r :: int
    by auto
  have sq: "(0 < m \<longrightarrow> int x \<le> m \<and> int y \<le> m) \<longleftrightarrow> \<not> (0 < m \<and> m < int (max x y))" for m x y
    by auto
  have user: "(A \<and> B \<longrightarrow> \<not> C \<and> \<not> D) \<longleftrightarrow> \<not> (A \<and> B \<and> (C \<or> D))" for A B C D
    by blast
  show ?thesis
    by (simp only: checkPwquality_None rep sq user)
qed

text \<open>
  Breached passwords and failing open. With the check on, a password that passes the rules is
  refused exactly when the service answers and lists the rest of its hash with a count that is
  not zero; only the first five digits of the hash are sent, and no answer accepts the password.
\<close>

theorem breached_fails_open:
  assumes "check_breached_passwords (accounts cfg)" and "pw \<noteq> []"
    and "checkPassword cfg U lang pw username policy = None"
  shows "validatePassword cfg U H lang pw pw username policy \<noteq> None \<longleftrightarrow>
    (\<exists>status body err. hb_range H (take 5 (hash_hex (hb_sha1 H pw))) = Ok (200, status, body, err)
       \<and> (\<exists>l\<in>set body. breach_line (drop 5 (hash_hex (hb_sha1 H pw))) l))"
  using assms
  by (auto simp: validatePassword_def passwordBreached_def Let_def list_ex_iff
      split: sum.splits option.splits if_splits)

lemma fold_max: "fold (\<lambda>n failed. max failed n) rs (m :: int) \<ge> k \<longleftrightarrow> m \<ge> k \<or> (\<exists>n\<in>set rs. n \<ge> k)"
  by (induction rs arbitrary: m) (auto simp: le_max_iff_disj)

text \<open>
  Account lockout. A user counts as locked out exactly when the policy is known and sets a
  threshold, the replicas answer, and one of them has counted that many failures.
\<close>

theorem userLockedOut_iff:
  "userLockedOut policy replicas \<longleftrightarrow>
     (\<exists>p rs. policy = Ok p \<and> 0 < MaxFailure p \<and> replicas = Ok rs \<and> (\<exists>n\<in>set rs. MaxFailure p \<le> n))"
  by (auto simp: userLockedOut_def userFailedLogins_def fold_max split: sum.splits)

lemma Contains_char: "Contains s [c] \<longleftrightarrow> c \<in> set s"
  by (induction s) (auto simp: Contains_def)

lemma last_split: "u @ c # v = u' @ c # v' \<Longrightarrow> c \<notin> set v \<Longrightarrow> c \<notin> set v' \<Longrightarrow> v = v'"
  by (auto simp: append_eq_append_conv2 append_eq_Cons_conv Cons_eq_append_conv)

text \<open>
  Users of a trusted Active Directory. A name counts as one exactly when it contains a backslash
  or its part after the last at sign is, up to case, not the domain of the FreeIPA realm.
\<close>

theorem adTrustUsername_iff:
  "adTrustUsername U realm username \<longleftrightarrow>
     CHR 0x5C \<in> set username
     \<or> (\<exists>user dom. username = user @ CHR ''@'' # dom \<and> CHR ''@'' \<notin> set dom
          \<and> \<not> EqualFold U dom (ToLower U realm))"
proof (cases "LastIndex username CHR ''@''")
  case None
  then have "CHR ''@'' \<notin> set username" by (simp add: LastIndex_None)
  with None show ?thesis by (auto simp: adTrustUsername_def Contains_char)
next
  case (Some i)
  note at = LastIndex_Some [OF Some]
  have split: "username = take i username @ CHR ''@'' # drop (Suc i) username"
    using at id_take_nth_drop [of i username] by simp
  have uniq: "dom = drop (Suc i) username"
    if "username = user @ CHR ''@'' # dom" "CHR ''@'' \<notin> set dom" for user dom
    using that split at by (metis last_split)
  show ?thesis
    using Some split at uniq by (auto simp: adTrustUsername_def Contains_char ipaDomain_def)
qed


section \<open>Witnesses\<close>

text \<open>A service that knows one breached hash.\<close>

definition demo_hibp :: hibp where
  "demo_hibp = \<lparr>hb_sha1 = \<lambda>_. [CHR 0x5B, CHR 0xAA, CHR 0x61, CHR 0xE4],
     hb_range = \<lambda>pfx. if pfx = ''5BAA6'' then Ok (200, ''200 OK'', [''1E4:42''], None) else Err (EText ''down'')\<rparr>"

definition breach_config :: config where
  "breach_config = default_config\<lparr>accounts := (accounts default_config)\<lparr>check_breached_passwords := True,
     min_passwd_len := 0, min_passwd_classes := 0\<rparr>\<rparr>"

theorem breached_fails_open_witness:
  "checkPassword breach_config plain_unicode ''en'' ''x'' ''ann'' None = None \<and>
   (validatePassword breach_config plain_unicode demo_hibp ''en'' ''x'' ''x'' ''ann'' None \<noteq> None
    \<longleftrightarrow> (\<exists>status body err. hb_range demo_hibp (take 5 (hash_hex (hb_sha1 demo_hibp ''x''))) = Ok (200, status, body, err)
       \<and> (\<exists>l\<in>set body. breach_line (drop 5 (hash_hex (hb_sha1 demo_hibp ''x''))) l)))"
proof -
  have ok: "checkPassword breach_config plain_unicode ''en'' ''x'' ''ann'' None = None"
    by (simp add: checkPassword_def breach_config_def default_config_def Let_def runes_ascii ascii_def
        scan_runes_def scan_rune_def class_of_def)
  show ?thesis
    using ok breached_fails_open [of breach_config "''x''" plain_unicode "''en''" "''ann''" None demo_hibp]
    by (simp add: breach_config_def)
qed

end
