(* ===== verification/Store_Lock.thy ===== *)
theory Store_Lock
  imports Storage Tokens
begin

text \<open>
  The locks around read-modify-write cycles on the storage (\<open>storelock.go\<close>) and the counter of the
  audit trail. \<open>hold\<close> takes a mutex of the process and, on Redis, a lock key shared by all
  replicas: \<open>SET NX\<close> with an expiry to take it, a compare-and-delete script to release it.

  The operations come first, then a step relation of several replicas serving requests that hold
  the lock of one key, with the invariant that gives mutual exclusion.
\<close>

section \<open>The Redis client\<close>

text \<open>
  The calls the code makes on a Redis connection. \<open>rd_get\<close> and \<open>rd_del\<close> are the commands the unlock
  script runs, \<open>rd_eval\<close> runs a script atomically, and may fail before or after doing so.
\<close>

record 's redis =
  rd_get :: "'s \<Rightarrow> time \<Rightarrow> string \<Rightarrow> string option"
  rd_del :: "'s \<Rightarrow> time \<Rightarrow> string \<Rightarrow> 's"
  rd_setnx :: "'s \<Rightarrow> time \<Rightarrow> string \<Rightarrow> string \<Rightarrow> duration \<Rightarrow> bool result \<times> 's"
  rd_eval :: "'s \<Rightarrow> time \<Rightarrow> ('s \<Rightarrow> 's) \<Rightarrow> error option \<times> 's"
  rd_incr :: "'s \<Rightarrow> time \<Rightarrow> string \<Rightarrow> int result \<times> 's"

record 's storeLock =
  lk_storage :: "'s storage"
  lk_rdb :: "'s redis option"

definition storeLockPrefix :: string where "storeLockPrefix = ''lock-''"
definition storeLockTTL :: duration where "storeLockTTL = 5 * second"
definition storeLockWait :: duration where "storeLockWait = storeLockTTL + second"
definition errStoreLockTimeout :: error where
  "errStoreLockTimeout = EText ''timed out waiting for storage lock''"

definition millisecond :: duration where "millisecond = 1000000"

section \<open>Operations\<close>

definition storeUnlockScript :: "'s redis \<Rightarrow> time \<Rightarrow> string \<Rightarrow> string \<Rightarrow> 's \<Rightarrow> 's" where
  "storeUnlockScript R now key token s =
     (if rd_get R s now key = Some token then rd_del R s now key else s)"

text \<open>A failure is only logged.\<close>

definition release :: "'s redis \<Rightarrow> string \<Rightarrow> string \<Rightarrow> time \<Rightarrow> 's \<Rightarrow> 's" where
  "release R key token now s =
     snd (rd_eval R s now (storeUnlockScript R now (storeLockPrefix @ key) token))"

text \<open>
  One round of the polling loop of \<open>acquire\<close>: the answer it ends with, or \<open>None\<close> where the loop sleeps and tries again. It gives up
  at the first refusal after the deadline.
\<close>

definition acquire_round ::
    "'s redis \<Rightarrow> string \<Rightarrow> string \<Rightarrow> time \<Rightarrow> time \<Rightarrow> 's \<Rightarrow> string result option \<times> 's" where
  "acquire_round R key token deadline now s =
     (case rd_setnx R s now (storeLockPrefix @ key) token storeLockTTL of
        (Err e, s') \<Rightarrow> (Some (Err e), s')
      | (Ok ok, s') \<Rightarrow>
          (if ok then Some (Ok token) else if deadline < now then Some (Err errStoreLockTimeout) else None, s'))"

lemma acquire_round_again: "acquire_round R key token deadline now s = (None, s') \<Longrightarrow> now \<le> deadline"
  by (auto simp: acquire_round_def split: prod.splits sum.splits if_splits)

lemma acquire_round_set:
  "acquire_round R key token deadline now s = (r, s') \<Longrightarrow>
    \<exists>a. rd_setnx R s now (storeLockPrefix @ key) token storeLockTTL = (a, s')
      \<and> (\<forall>x. r = Some (Ok x) \<longrightarrow> x = token \<and> a = Ok True)"
  by (auto simp: acquire_round_def split: prod.splits sum.splits if_splits)

text \<open>
  The loop. Round \<open>i\<close> runs at \<open>now\<close>; while it sleeps, \<open>env i\<close> is what the other
  replicas do to the server, and the round takes \<open>lag i + 1\<close> nanoseconds longer than the sleep.
\<close>

function acquire_loop ::
    "'s redis \<Rightarrow> (nat \<Rightarrow> 's \<Rightarrow> 's) \<Rightarrow> (nat \<Rightarrow> nat) \<Rightarrow> string \<Rightarrow> string \<Rightarrow> time \<Rightarrow> nat \<Rightarrow> nat \<Rightarrow> time \<Rightarrow> 's
      \<Rightarrow> string result \<times> time \<times> 's" where
  "acquire_loop R env lag key token deadline i backoff now s =
     (case acquire_round R key token deadline now s of
        (Some r, s') \<Rightarrow> (r, now, s')
      | (None, s') \<Rightarrow>
          acquire_loop R env lag key token deadline (Suc i) (min (backoff * 2) (20 * nat millisecond))
            (now + int backoff + int (Suc (lag i))) (env i s'))"
  by pat_completeness auto
termination
  by (relation "measure (\<lambda>(R, env, lag, key, token, deadline, i, backoff, now, s). nat (deadline + 1 - now))")
    (auto dest: acquire_round_again [OF sym])

declare acquire_loop.simps [simp del]

text \<open>\<open>rand16\<close> is the outcome of reading 16 random bytes.\<close>

definition acquire ::
    "'s redis \<Rightarrow> string result \<Rightarrow> (nat \<Rightarrow> 's \<Rightarrow> 's) \<Rightarrow> (nat \<Rightarrow> nat) \<Rightarrow> string \<Rightarrow> time \<Rightarrow> 's
      \<Rightarrow> string result \<times> time \<times> 's" where
  "acquire R rand16 env lag key now s =
     (case rand16 of
        Err e \<Rightarrow> (Err e, now, s)
      | Ok b \<Rightarrow>
          acquire_loop R env lag key (HexEncode b) (now + storeLockWait) 0 (2 * nat millisecond) now s)"

text \<open>
  \<open>hold\<close> after the mutex of the process is taken: the token of the lock if it could be taken, and
  nothing otherwise, when the caller proceeds without it. \<open>hold_release\<close> is what the function it returns does on
  the server before it unlocks the mutex.
\<close>

definition held :: "string result \<Rightarrow> string option" where
  "held r = (case r of Err e \<Rightarrow> None | Ok token \<Rightarrow> Some token)"

definition hold ::
    "'s storeLock \<Rightarrow> string result \<Rightarrow> (nat \<Rightarrow> 's \<Rightarrow> 's) \<Rightarrow> (nat \<Rightarrow> nat) \<Rightarrow> string \<Rightarrow> time \<Rightarrow> 's
      \<Rightarrow> string option \<times> time \<times> 's" where
  "hold l rand16 env lag key now s =
     (case lk_rdb l of
        None \<Rightarrow> (None, now, s)
      | Some R \<Rightarrow> (case acquire R rand16 env lag key now s of (r, now', s') \<Rightarrow> (held r, now', s')))"

definition hold_release :: "'s storeLock \<Rightarrow> string \<Rightarrow> string option \<Rightarrow> time \<Rightarrow> 's \<Rightarrow> 's" where
  "hold_release l key taken now s =
     (case (lk_rdb l, taken) of (Some R, Some token) \<Rightarrow> release R key token now s | _ \<Rightarrow> s)"

text \<open>Increment of a counter: Redis does it atomically, else under the mutex of the key.\<close>

definition stored_number :: "blob option result \<Rightarrow> int" where
  "stored_number r =
     (case r of Ok (Some (Raw raw)) \<Rightarrow> ParseInt_value raw | _ \<Rightarrow> 0)"

definition incr :: "'s storeLock \<Rightarrow> string \<Rightarrow> time \<Rightarrow> 's \<Rightarrow> int \<times> error option \<times> 's" where
  "incr l key now s =
     (case lk_rdb l of
        Some R \<Rightarrow>
          (case rd_incr R s now key of (Err e, s') \<Rightarrow> (0, Some e, s') | (Ok n, s') \<Rightarrow> (n, None, s'))
      | None \<Rightarrow>
          (let seq = wrap64 (stored_number (st_get (lk_storage l) s now key) + 1);
               (e, s') = st_set (lk_storage l) s now key (Raw (FormatInt seq)) 0
           in (seq, e, s')))"

section \<open>What Redis promises of the lock key\<close>

text \<open>
  \<open>SET NX\<close> succeeds only on a free key, which then holds the token for its lifetime; on a key that is
  taken it changes nothing, whatever it answers. A script runs once or not at all, and has run when no error comes back.
\<close>

locale redis_server =
  fixes R :: "'s redis"
  assumes setnx_held: "rd_get R s now k = Some x \<Longrightarrow> rd_setnx R s now k v ttl = (r, s')
      \<Longrightarrow> r \<noteq> Ok True \<and> (\<forall>t. rd_get R s' t k = rd_get R s t k)"
    and setnx_taken: "rd_setnx R s now k v ttl = (Ok True, s') \<Longrightarrow> now \<le> t \<Longrightarrow> t < now + ttl
      \<Longrightarrow> rd_get R s' t k = Some v"
    and eval_once: "rd_eval R s now f = (e, s') \<Longrightarrow> s' = s \<or> s' = f s"
    and eval_ok: "rd_eval R s now f = (None, s') \<Longrightarrow> s' = f s"
    and del_free: "rd_get R (rd_del R s now k) t k = None"
begin

text \<open>\<open>release\<close> leaves a lock of another token alone.\<close>

lemma release_foreign:
  "rd_get R s now (storeLockPrefix @ key) = Some x \<Longrightarrow> x \<noteq> token \<Longrightarrow> release R key token now s = s"
  using eval_once [of s now "storeUnlockScript R now (storeLockPrefix @ key) token"]
  by (auto simp: release_def storeUnlockScript_def prod_eq_iff split: if_splits)

end

section \<open>Replicas and requests\<close>

text \<open>
  Requests \<open>(r, q)\<close> of replicas \<open>r\<close> that run \<open>hold\<close> for one key, and the function it returns, interleaved round by round. A request takes the
  mutex of its replica and draws its token, polls the server with \<open>acquire_round\<close>, and is in its critical section, with the token it took and
  the time it took it or without a lock, until it releases. Tokens of requests at work are distinct, as 16 random bytes are.
\<close>

datatype phase = Idle | Polling string time | Critical "(string \<times> time) option"

record 's lock_state =
  srv :: 's
  clock :: time
  mutex :: "nat \<Rightarrow> nat option"
  ph :: "nat \<times> nat \<Rightarrow> phase"

definition lock_start :: "'s \<Rightarrow> time \<Rightarrow> 's lock_state" where
  "lock_start s t = \<lparr>srv = s, clock = t, mutex = \<lambda>_. None, ph = \<lambda>_. Idle\<rparr>"

fun has_token :: "string \<Rightarrow> phase \<Rightarrow> bool" where
  "has_token x Idle = False"
| "has_token x (Polling token deadline) = (x = token)"
| "has_token x (Critical taken) = (x \<in> fst ` set_option taken)"

text \<open>The phase after \<open>acquire\<close> answered at \<open>t\<close>, and the one \<open>hold\<close> begins with.\<close>

definition answered :: "time \<Rightarrow> string result \<Rightarrow> phase" where
  "answered t r = Critical (map_option (\<lambda>token. (token, t)) (held r))"

definition entered :: "'s storeLock \<Rightarrow> string result \<Rightarrow> time \<Rightarrow> phase" where
  "entered l rand16 now =
     (case lk_rdb l of
        None \<Rightarrow> Critical None
      | Some R \<Rightarrow> (case rand16 of Err e \<Rightarrow> answered now (Err e) | Ok b \<Rightarrow> Polling (HexEncode b) (now + storeLockWait)))"

inductive lock_run :: "'s storeLock \<Rightarrow> string \<Rightarrow> 's lock_state \<Rightarrow> 's lock_state \<Rightarrow> bool"
  for l key z where
  start: "lock_run l key z z"
| tick: "lock_run l key z y \<Longrightarrow> clock y \<le> t \<Longrightarrow> lock_run l key z (y\<lparr>clock := t\<rparr>)"
| enter: "lock_run l key z y \<Longrightarrow> mutex y r = None \<Longrightarrow> (\<And>b p. rand16 = Ok b \<Longrightarrow> \<not> has_token (HexEncode b) (ph y p))
    \<Longrightarrow> lock_run l key z (y\<lparr>mutex := (mutex y)(r := Some q), ph := (ph y)((r, q) := entered l rand16 (clock y))\<rparr>)"
| poll: "lock_run l key z y \<Longrightarrow> ph y p = Polling token deadline \<Longrightarrow> lk_rdb l = Some R
    \<Longrightarrow> acquire_round R key token deadline (clock y) (srv y) = (a, s')
    \<Longrightarrow> lock_run l key z (y\<lparr>srv := s',
          ph := (ph y)(p := (case a of None \<Rightarrow> Polling token deadline | Some r \<Rightarrow> answered (clock y) r))\<rparr>)"
| leave: "lock_run l key z y \<Longrightarrow> ph y (r, q) = Critical taken
    \<Longrightarrow> lock_run l key z (y\<lparr>srv := hold_release l key (map_option fst taken) (clock y) (srv y),
          mutex := (mutex y)(r := None), ph := (ph y)((r, q) := Idle)\<rparr>)"

text \<open>Within a replica the mutex admits one request at a time.\<close>

lemma mutex_owner:
  assumes "lock_run l key (lock_start s t) y"
  shows "ph y (r, q) \<noteq> Idle \<Longrightarrow> mutex y r = Some q"
  using assms
proof (induction arbitrary: r q rule: lock_run.induct)
  case start
  then show ?case by (simp add: lock_start_def)
next
  case (leave y r' q' taken)
  then have "mutex y r' = Some q'" by simp
  with leave.prems leave.IH [of r q] show ?case by (cases "(r, q) = (r', q')") auto
qed (auto split: if_splits)

definition lock_inv :: "'s redis \<Rightarrow> string \<Rightarrow> 's lock_state \<Rightarrow> bool" where
  "lock_inv R key y \<longleftrightarrow>
     (\<forall>p token a. ph y p = Critical (Some (token, a)) \<longrightarrow>
        (\<forall>t. clock y \<le> t \<and> t < a + storeLockTTL
           \<longrightarrow> rd_get R (srv y) t (storeLockPrefix @ key) = Some token))
     \<and> (\<forall>p p' token. has_token token (ph y p) \<longrightarrow> has_token token (ph y p') \<longrightarrow> p = p')"

lemma lock_invD:
  "lock_inv R key y \<Longrightarrow> ph y p = Critical (Some (x, a)) \<Longrightarrow> clock y \<le> t \<Longrightarrow> t < a + storeLockTTL
    \<Longrightarrow> rd_get R (srv y) t (storeLockPrefix @ key) = Some x"
  unfolding lock_inv_def by blast

lemma lock_inv_same: "lock_inv R key y \<Longrightarrow> has_token x (ph y p) \<Longrightarrow> has_token x (ph y p') \<Longrightarrow> p = p'"
  unfolding lock_inv_def by blast

context redis_server
begin

lemma setnx_free: "rd_setnx R s now k v ttl = (Ok True, s') \<Longrightarrow> rd_get R s now k = None"
  using setnx_held by (cases "rd_get R s now k") blast+

text \<open>A round keeps what holders have: while one holds the lock, the server does not change.\<close>

lemma lock_inv_holders:
  assumes "lock_inv R key y" and "rd_setnx R (srv y) (clock y) (storeLockPrefix @ key) v ttl = (r, s')"
    and "ph y p = Critical (Some (x, a))" "clock y \<le> t" "t < a + storeLockTTL"
  shows "rd_get R s' t (storeLockPrefix @ key) = Some x \<and> r \<noteq> Ok True"
proof -
  have "rd_get R (srv y) (clock y) (storeLockPrefix @ key) = Some x"
    using lock_invD [OF assms(1,3)] assms(4,5) by simp
  from setnx_held [OF this assms(2)] lock_invD [OF assms(1,3-)] show ?thesis by simp
qed

lemma lock_inv_poll:
  assumes "lock_inv R key y" and "ph y p = Polling token deadline"
    and "acquire_round R key token deadline (clock y) (srv y) = (a, s')"
  shows "lock_inv R key (y\<lparr>srv := s',
    ph := (ph y)(p := (case a of None \<Rightarrow> Polling token deadline | Some r \<Rightarrow> answered (clock y) r))\<rparr>)" (is "lock_inv R key ?y")
proof -
  obtain o' where set: "rd_setnx R (srv y) (clock y) (storeLockPrefix @ key) token storeLockTTL = (o', s')"
    and tok: "\<And>x. a = Some (Ok x) \<Longrightarrow> x = token \<and> o' = Ok True"
    using acquire_round_set [OF assms(3)] by blast
  have new: "ph ?y p = Critical (Some (x, b)) \<Longrightarrow> a = Some (Ok token) \<and> x = token \<and> b = clock y" for x b
    using tok by (auto simp: answered_def held_def split: option.splits sum.splits)
  have "rd_get R s' t (storeLockPrefix @ key) = Some x"
    if "ph ?y p' = Critical (Some (x, b))" "clock y \<le> t" "t < b + storeLockTTL" for p' x b t
  proof (cases "p' = p")
    case True
    with new [of x b] that tok [of token] setnx_taken [of "srv y" "clock y"] set show ?thesis by auto
  qed (use that lock_inv_holders [OF assms(1) set] in auto)
  moreover have "has_token x (ph y p')" if "has_token x (ph ?y p')" for x p'
    using that assms(2) tok by (cases "p' = p") (auto simp: answered_def held_def split: option.splits sum.splits)
  ultimately show ?thesis
    using lock_inv_same [OF assms(1)] unfolding lock_inv_def by (simp del: fun_upd_apply) blast
qed

lemma lock_inv_run:
  assumes "lock_run l key (lock_start s t) y" and l: "lk_rdb l = Some R"
  shows "lock_inv R key y"
  using assms(1)
proof (induction rule: lock_run.induct)
  case start
  then show ?case by (simp add: lock_inv_def lock_start_def)
next
  case (enter y r rand16 q)
  then show ?case
    by (auto simp: lock_inv_def entered_def answered_def held_def l fun_upd_apply split: sum.splits if_splits)
next
  case (poll y p token deadline R' a s')
  then show ?case using lock_inv_poll l by simp
next
  case (leave y r q taken)
  have keep: "rd_get R (hold_release l key (map_option fst taken) (clock y) (srv y)) t (storeLockPrefix @ key) = Some x"
    if "ph y p' = Critical (Some (x, a'))" "p' \<noteq> (r, q)" "clock y \<le> t" "t < a' + storeLockTTL" for p' x a' t
  proof (cases taken)
    case (Some ta)
    from that(2) lock_inv_same [OF leave.IH, of "fst ta" "(r, q)" p'] leave.hyps(2) that(1) Some have "x \<noteq> fst ta" by auto
    moreover have "rd_get R (srv y) (clock y) (storeLockPrefix @ key) = Some x"
      using lock_invD [OF leave.IH that(1)] that by simp
    ultimately have "release R key (fst ta) (clock y) (srv y) = srv y" by (intro release_foreign)
    with lock_invD [OF leave.IH] that Some show ?thesis by (simp add: hold_release_def l)
  qed (use lock_invD [OF leave.IH] that in \<open>simp add: hold_release_def l\<close>)
  with leave.IH show ?case by (auto simp: lock_inv_def fun_upd_apply)
qed (auto simp: lock_inv_def)

end

section \<open>The loop and the counter\<close>

lemma acquire_loop_token:
  "acquire_loop R env lag key token deadline i backoff now s = (Ok tok, t, s') \<Longrightarrow>
    tok = token \<and> (\<exists>s0. rd_setnx R s0 t (storeLockPrefix @ key) token storeLockTTL = (Ok True, s'))"
proof (induction R env lag key token deadline i backoff now s rule: acquire_loop.induct)
  case (1 R env lag key token deadline i backoff now s)
  then show ?case
    by (subst (asm) (2) acquire_loop.simps) (auto split: prod.splits option.splits dest!: acquire_round_set)
qed

text \<open>
  Polling ends: where every round takes at most \<open>L\<close> beyond its pause, the answer comes at most one
  pause of 20 ms and \<open>L\<close> after the deadline; and the loop does not time out before the deadline.
\<close>

lemma acquire_loop_ends:
  assumes "\<And>i. int (Suc (lag i)) \<le> L"
    and "acquire_loop R env lag key token deadline i backoff now s = (r, t, s')"
    and "int backoff \<le> 20 * millisecond" and "now \<le> deadline + 20 * millisecond + L"
  shows "t \<le> deadline + 20 * millisecond + L"
  using assms
proof (induction R env lag key token deadline i backoff now s rule: acquire_loop.induct)
  case (1 R env lag key token deadline i backoff now s)
  obtain a s1 where set: "acquire_round R key token deadline now s = (a, s1)" by fastforce
  show ?case
  proof (cases a)
    case None
    let ?next = "now + int backoff + int (Suc (lag i))"
    have "acquire_loop R env lag key token deadline (Suc i) (min (backoff * 2) (20 * nat millisecond))
        ?next (env i s1) = (r, t, s')"
      using "1.prems"(2) set None by (simp add: acquire_loop.simps [of R env lag key token deadline i])
    moreover have "int (min (backoff * 2) (20 * nat millisecond)) \<le> 20 * millisecond"
      by (simp add: millisecond_def)
    moreover have "?next \<le> deadline + 20 * millisecond + L"
      using acquire_round_again [OF set [unfolded None]] "1.prems"(3) "1.prems"(1) [of i] by linarith
    ultimately show ?thesis
      using "1.IH" [OF set [symmetric] None] "1.prems"(1) by auto
  next
    case (Some x)
    with "1.prems" set show ?thesis
      by (auto simp: acquire_loop.simps [of R env lag key token deadline i])
  qed
qed

lemma incr_local:
  assumes "lk_rdb l = None" "st_get (lk_storage l) s now key = Ok (Some (Raw (FormatInt n)))"
    "int64_min \<le> n" "n < int64_max"
  shows "fst (incr l key now s) = n + 1"
  using assms
  by (auto simp: incr_def stored_number_def case_prod_unfold Let_def go_simps)

section \<open>Properties\<close>

lemma loop_is_run:
  assumes "acquire_loop R env lag key token deadline i backoff now s = (a, t, s')"
    and "lk_rdb l = Some R" and "lock_run l key z y" and "ph y p = Polling token deadline" and "srv y = s" and "clock y = now"
    and "\<And>i y1. lock_run l key z y1 \<Longrightarrow> ph y1 p = Polling token deadline
      \<Longrightarrow> \<exists>y2. lock_run l key z y2 \<and> srv y2 = env i (srv y1) \<and> clock y2 = clock y1 \<and> ph y2 p = ph y1 p"
  shows "\<exists>y'. lock_run l key z y' \<and> srv y' = s' \<and> clock y' = t \<and> ph y' p = answered t a"
  using assms
proof (induction R env lag key token deadline i backoff now s arbitrary: y rule: acquire_loop.induct)
  case (1 R env lag key token deadline i backoff now s)
  obtain o' s1 where r: "acquire_round R key token deadline now s = (o', s1)" by fastforce
  note step = lock_run.poll [OF "1.prems"(3,4,2) r [folded "1.prems"(5,6)]]
  show ?case
  proof (cases o')
    case None
    let ?next = "now + int backoff + int (Suc (lag i))"
    have loop: "acquire_loop R env lag key token deadline (Suc i) (min (backoff * 2) (20 * nat millisecond)) ?next (env i s1) = (a, t, s')"
      using "1.prems"(1) r None by (simp add: acquire_loop.simps [of R env lag key token deadline i])
    from "1.prems"(7) [OF step, of i] None obtain y2 where y2: "lock_run l key z y2" "srv y2 = env i s1" "clock y2 = now"
      "ph y2 p = Polling token deadline" using "1.prems"(6) by auto
    have "lock_run l key z (y2\<lparr>clock := ?next\<rparr>)" by (rule lock_run.tick [OF y2(1)]) (simp add: y2(3))
    then show ?thesis
      by (rule "1.IH" [OF r [symmetric] None loop "1.prems"(2) _ _ _ _ "1.prems"(7)]) (simp_all add: y2)
  next
    case (Some x)
    then have "(a, t, s') = (x, now, s1)"
      using "1.prems"(1) r by (simp add: acquire_loop.simps [of R env lag key token deadline i])
    with Some "1.prems"(6) step show ?thesis by (intro exI [of _ "y\<lparr>srv := s1, ph := (ph y)(p := answered now x)\<rparr>"]) simp
  qed
qed


text \<open>
  C21. Mutual exclusion of the storage lock. Among all requests of all replicas that run \<open>hold\<close> on one key, interleaved round by round,
  at most one is inside its critical section with a lock that has not outlived its five seconds, however requests enter, poll, fail, time
  out and leave; and a release that reaches the server frees the key for the next one.
\<close>

theorem lock_mutual_exclusion:
  assumes "redis_server R" and "lk_rdb l = Some R" and "lock_run l key (lock_start s t) y"
    and "ph y p = Critical (Some (x, a))" and "clock y < a + storeLockTTL"
  shows "(\<forall>p' x' a'. ph y p' = Critical (Some (x', a')) \<longrightarrow> clock y < a' + storeLockTTL \<longrightarrow> p' = p)
    \<and> (fst (rd_eval R (srv y) (clock y) (storeUnlockScript R (clock y) (storeLockPrefix @ key) x)) = None
        \<longrightarrow> rd_get R (hold_release l key (Some x) (clock y) (srv y)) (clock y) (storeLockPrefix @ key) = None)"
proof -
  note inv = redis_server.lock_inv_run [OF assms(1,3,2)]
  note mine = lock_invD [OF inv assms(4) order_refl assms(5)]
  have "p' = p" if "ph y p' = Critical (Some (x', a'))" "clock y < a' + storeLockTTL" for p' x' a'
    using lock_invD [OF inv that(1) order_refl that(2)] mine lock_inv_same [OF inv, of x p' p] that(1) assms(4) by simp
  moreover have "rd_get R (hold_release l key (Some x) (clock y) (srv y)) (clock y) (storeLockPrefix @ key) = None"
    if "fst (rd_eval R (srv y) (clock y) (storeUnlockScript R (clock y) (storeLockPrefix @ key) x)) = None"
  proof -
    have "release R key x (clock y) (srv y) = rd_del R (srv y) (clock y) (storeLockPrefix @ key)"
      using redis_server.eval_ok [OF assms(1), of "srv y" "clock y"] that mine
      by (simp add: release_def storeUnlockScript_def prod_eq_iff)
    then show ?thesis by (simp add: hold_release_def assms(2) redis_server.del_free [OF assms(1)])
  qed
  ultimately show ?thesis by blast
qed

text \<open>
  One request per replica. On a backend without a shared lock the mutex alone keeps the
  critical sections of a key apart.
\<close>

theorem mutex_exclusion:
  assumes "lock_run l key (lock_start s t) y" and "ph y (r, q) \<noteq> Idle" and "ph y (r, q') \<noteq> Idle"
  shows "q = q'"
  using mutex_owner [OF assms(1,2)] mutex_owner [OF assms(1,3)] by simp

text \<open>
  C22. Taking the lock ends. Where a round of polling takes at most \<open>L\<close> longer than its pause,
  \<open>acquire\<close> answers within six seconds, one pause and \<open>L\<close>; when it answers with a token, \<open>SET NX\<close> has
  just succeeded for it.
\<close>

theorem acquire_bounded:
  assumes "\<And>i. int (Suc (lag i)) \<le> L" and "0 \<le> L"
    and "acquire R rand16 env lag key now s = (r, t, s')"
  shows "t \<le> now + storeLockWait + 20 * millisecond + L
    \<and> (\<forall>token. r = Ok token \<longrightarrow>
         (\<exists>s0. rd_setnx R s0 t (storeLockPrefix @ key) token storeLockTTL = (Ok True, s')))"
proof (cases rand16)
  case (Inl e)
  with assms show ?thesis
    by (auto simp: acquire_def storeLockWait_def storeLockTTL_def millisecond_def second_def)
next
  case (Inr b)
  then have l: "acquire_loop R env lag key (HexEncode b) (now + storeLockWait) 0 (2 * nat millisecond) now s
      = (r, t, s')"
    using assms(3) by (simp add: acquire_def)
  have "t \<le> now + storeLockWait + 20 * millisecond + L"
    by (rule acquire_loop_ends [OF assms(1) l])
      (use assms(2) in \<open>simp_all add: millisecond_def storeLockWait_def storeLockTTL_def second_def\<close>)
  then show ?thesis using acquire_loop_token [of R env lag key] l by blast
qed

section \<open>Witnesses\<close>

text \<open>A Redis server that holds keys with expiry.\<close>

definition live :: "(string \<Rightarrow> (string \<times> time) option) \<Rightarrow> time \<Rightarrow> string \<Rightarrow> string option" where
  "live c t k = (case c k of None \<Rightarrow> None | Some (v, e) \<Rightarrow> if t < e then Some v else None)"

definition mem_redis :: "(string \<Rightarrow> (string \<times> time) option) redis" where
  "mem_redis =
     \<lparr>rd_get = live,
      rd_del = (\<lambda>c now k. c(k := None)),
      rd_setnx = (\<lambda>c now k v ttl.
        if live c now k = None then (Ok True, c(k := Some (v, now + ttl))) else (Ok False, c)),
      rd_eval = (\<lambda>c now f. (None, f c)),
      rd_incr = (\<lambda>c now k. (Err (EText ''redis''), c))\<rparr>"

interpretation mem_redis: redis_server mem_redis
  by unfold_locales (auto simp: mem_redis_def live_def split: option.splits if_splits)

text \<open>Two replicas: the first has the lock, the second has asked for it and waits.\<close>

definition demo_lock :: "(string \<Rightarrow> (string \<times> time) option) storeLock" where
  "demo_lock = \<lparr>lk_storage = \<lparr>st_get = \<lambda>_ _ _. Ok None, st_set = \<lambda>s _ _ _ _. (None, s), st_delete = \<lambda>s _ _. (None, s)\<rparr>,
     lk_rdb = Some mem_redis\<rparr>"

definition lock_demo :: "(string \<Rightarrow> (string \<times> time) option) lock_state" where
  "lock_demo =
     \<lparr>srv = Map.empty(''lock-k'' \<mapsto> (''61'', storeLockTTL)), clock = 0, mutex = (\<lambda>_. None)(0 := Some 1, 1 := Some 7),
      ph = (\<lambda>_. Idle)((0, 1) := Critical (Some (''61'', 0)), (1, 7) := Polling ''62'' storeLockWait)\<rparr>"

lemma demo_hex: "HexEncode ''a'' = ''61''" "HexEncode ''b'' = ''62''"
  by code_simp+

lemma lock_demo_run: "lock_run demo_lock ''k'' (lock_start Map.empty 0) lock_demo"
proof -
  let ?z = "lock_start Map.empty 0 :: (string \<Rightarrow> (string \<times> time) option) lock_state"
  let ?taken = "Map.empty(''lock-k'' \<mapsto> (''61'', storeLockTTL))"
  have "lock_run demo_lock ''k'' ?z
      (?z\<lparr>mutex := (\<lambda>_. None)(0 := Some 1), ph := (\<lambda>_. Idle)((0, 1) := Polling ''61'' storeLockWait)\<rparr>)"
    using lock_run.enter [OF lock_run.start, of ?z 0 "Ok ''a''" demo_lock "''k''" 1]
    by (simp add: lock_start_def entered_def demo_lock_def demo_hex)
  then have "lock_run demo_lock ''k'' ?z (?z\<lparr>mutex := (\<lambda>_. None)(0 := Some 1, 1 := Some 7),
      ph := (\<lambda>_. Idle)((0, 1) := Polling ''61'' storeLockWait, (1, 7) := entered demo_lock (Ok ''b'') (clock ?z))\<rparr>)"
    by (rule lock_run.enter [where r = 1 and ?rand16.0 = "Ok ''b''" and q = 7, THEN back_subst [where P = "lock_run demo_lock ''k'' ?z"]])
      (auto simp: lock_start_def demo_hex)
  then have "lock_run demo_lock ''k'' ?z (?z\<lparr>mutex := (\<lambda>_. None)(0 := Some 1, 1 := Some 7),
      ph := (\<lambda>_. Idle)((0, 1) := Polling ''61'' storeLockWait, (1, 7) := Polling ''62'' storeLockWait)\<rparr>)"
    by (simp add: lock_start_def entered_def demo_lock_def demo_hex)
  from lock_run.poll [OF this, of "(0, 1)" "''61''" storeLockWait mem_redis] 
  have "lock_run demo_lock ''k'' ?z (?z\<lparr>srv := ?taken, mutex := (\<lambda>_. None)(0 := Some 1, 1 := Some 7),
      ph := (\<lambda>_. Idle)((0, 1) := Critical (Some (''61'', 0)), (1, 7) := Polling ''62'' storeLockWait)\<rparr>)"
    by (simp add: lock_start_def demo_lock_def acquire_round_def mem_redis_def live_def storeLockPrefix_def answered_def held_def fun_upd_twist)
  from lock_run.poll [OF this, of "(1, 7)" "''62''" storeLockWait mem_redis] show ?thesis
    by (simp add: lock_start_def lock_demo_def demo_lock_def acquire_round_def mem_redis_def live_def storeLockPrefix_def storeLockTTL_def
        storeLockWait_def second_def fun_upd_idem)
qed

theorem lock_mutual_exclusion_witness:
  "{p. \<exists>x a. ph lock_demo p = Critical (Some (x, a)) \<and> clock lock_demo < a + storeLockTTL} = {(0, 1)}
    \<and> live (hold_release demo_lock ''k'' (Some ''61'') 0 (srv lock_demo)) 0 ''lock-k'' = None"
proof -
  have "lk_rdb demo_lock = Some mem_redis" "ph lock_demo (0, 1) = Critical (Some (''61'', 0))" "clock lock_demo < 0 + storeLockTTL"
    by (simp_all add: demo_lock_def lock_demo_def storeLockTTL_def second_def)
  note ex = lock_mutual_exclusion [OF mem_redis.redis_server_axioms this(1) lock_demo_run this(2,3)]
  have "live (hold_release demo_lock ''k'' (Some ''61'') 0 (srv lock_demo)) 0 ''lock-k'' = None"
    using ex by (simp add: mem_redis_def storeLockPrefix_def lock_demo_def)
  moreover have "{p. \<exists>x a. ph lock_demo p = Critical (Some (x, a)) \<and> clock lock_demo < a + storeLockTTL} = {(0, 1)}"
    using ex by (auto simp: lock_demo_def storeLockTTL_def second_def)
  ultimately show ?thesis by blast
qed


theorem mutex_exclusion_witness: "(1 :: nat) = 1 \<and> ph lock_demo (0, 1) \<noteq> Idle"
  using mutex_exclusion [OF lock_demo_run, of 0 1 1] by (simp add: lock_demo_def)

theorem acquire_bounded_witness:
  "fst (snd (acquire mem_redis (Ok ''r'') (\<lambda>_ s. s) (\<lambda>_. 0) ''k'' 0 Map.empty))
     \<le> storeLockWait + 20 * millisecond + 1"
  using acquire_bounded [of "\<lambda>_. 0" 1 mem_redis "Ok ''r''" "\<lambda>_ s. s" "''k''" 0 Map.empty]
  by (metis One_nat_def add_0 int_ops(2) order_refl prod.collapse zero_le_one)

end
