(* ===== verification/Audit_Log.thy ===== *)
theory Audit_Log
  imports Store_Lock Logging Queues
begin

text \<open>
  The audit trail (\<open>audit.go\<close>), the webhooks that forward it (\<open>webhooks.go\<close>) and the API that pages
  through it (\<open>api.go\<close>). Every log record that starts with AUDIT becomes an event with a sequence
  number, kept in a ring of \<open>auditRingSize\<close> storage keys. The last part shows that the ring is
  the end of an unbounded log: recording appends, and the three queries read it.
\<close>

section \<open>Events\<close>

definition auditRingSize :: int where "auditRingSize = 1000"
definition auditSeqKey :: string where "auditSeqKey = ''audit-seq''"
definition auditEntryKey :: string where "auditEntryKey = ''audit-entry-''"
definition auditRetention :: duration where "auditRetention = 90 * 24 * hour"

record AuditEvent =
  ae_Seq :: int
  ae_Time :: time
  ae_Level :: string
  ae_Message :: string
  ae_Username :: string
  ae_Actor :: string
  ae_IP :: string
  ae_Attrs :: "(string \<times> string) list"

text \<open>Members with \<open>omitempty\<close> are left out when empty.\<close>

definition nonempty_member :: "string \<Rightarrow> string \<Rightarrow> (string \<times> json) list" where
  "nonempty_member k v = (if v = [] then [] else [(k, JStr v)])"

definition marshal_AuditEvent :: "AuditEvent \<Rightarrow> json" where
  "marshal_AuditEvent e =
     JObj ([(''seq'', JInt (ae_Seq e)), (''time'', JTime (ae_Time e))]
       @ nonempty_member ''level'' (ae_Level e) @ [(''message'', JStr (ae_Message e))]
       @ nonempty_member ''username'' (ae_Username e) @ nonempty_member ''actor'' (ae_Actor e)
       @ nonempty_member ''ip'' (ae_IP e)
       @ (if ae_Attrs e = [] then []
          else [(''attrs'', JObj (map (\<lambda>(k, v). (k, JStr v)) (ae_Attrs e)))]))"

fun attr_value :: "string \<times> json \<Rightarrow> (string \<times> string) option" where
  "attr_value (k, JStr v) = Some (k, v)"
| "attr_value (k, JNull) = Some (k, [])"
| "attr_value _ = None"

definition member_attrs :: "(string \<times> json) list \<Rightarrow> string \<Rightarrow> (string \<times> string) list option" where
  "member_attrs ms k =
     (case map_of ms k of
        None \<Rightarrow> Some []
      | Some JNull \<Rightarrow> Some []
      | Some (JObj kvs) \<Rightarrow> sequence (map attr_value kvs)
      | Some _ \<Rightarrow> None)"

fun unmarshal_AuditEvent :: "blob \<Rightarrow> AuditEvent option" where
  "unmarshal_AuditEvent (Doc (JObj ms)) =
     (case (member_int ms ''seq'', member_time ms ''time'', member_str ms ''level'',
            member_str ms ''message'', member_str ms ''username'', member_str ms ''actor'',
            member_str ms ''ip'', member_attrs ms ''attrs'') of
        (Some sq, Some ti, Some lv, Some msg, Some u, Some a, Some ip, Some at) \<Rightarrow>
          Some \<lparr>ae_Seq = sq, ae_Time = ti, ae_Level = lv, ae_Message = msg, ae_Username = u,
                ae_Actor = a, ae_IP = ip, ae_Attrs = at\<rparr>
      | _ \<Rightarrow> None)"
| "unmarshal_AuditEvent (Doc JNull) =
     Some \<lparr>ae_Seq = 0, ae_Time = zero_time, ae_Level = [], ae_Message = [], ae_Username = [],
           ae_Actor = [], ae_IP = [], ae_Attrs = []\<rparr>"
| "unmarshal_AuditEvent _ = None"

section \<open>Recording\<close>

record slog_record =
  lr_Time :: time
  lr_Level :: int
  lr_Message :: string
  lr_Attrs :: "slog_attr list"

text \<open>\<open>slog.Level.String\<close>: the name of the level and the distance from it, if any.\<close>

definition level_offset :: "string \<Rightarrow> int \<Rightarrow> string" where
  "level_offset base v =
     (if v = 0 then base else if v > 0 then base @ ''+'' @ FormatInt v else base @ FormatInt v)"

definition level_string :: "int \<Rightarrow> string" where
  "level_string l =
     (if l < 0 then level_offset ''DEBUG'' (l + 4)
      else if l < 4 then level_offset ''INFO'' l
      else if l < 8 then level_offset ''WARN'' (l - 4)
      else level_offset ''ERROR'' (l - 8))"

text \<open>The map from attribute names to values, later values replacing earlier ones.\<close>

definition put_attr :: "unicode \<Rightarrow> slog_attr \<Rightarrow> (string \<times> string) list \<Rightarrow> (string \<times> string) list" where
  "put_attr U a d =
     (case redactAttr U a of (k, v) \<Rightarrow>
        if v = VGroup then d else (k, value_string v) # filter (\<lambda>(k', _). k' \<noteq> k) d)"

definition attr :: "(string \<times> string) list \<Rightarrow> string \<Rightarrow> string" where
  "attr d k = (case map_of d k of None \<Rightarrow> [] | Some v \<Rightarrow> v)"

record webhookTarget =
  wt_URL :: string
  wt_Secret :: string
  wt_Events :: "string list"
  wt_Format :: string
  wt_queue :: "AuditEvent list"

record 's auditHandler =
  ah_lock :: "'s storeLock"
  ah_attrs :: "slog_attr list"
  ah_hooks :: "webhookTarget list"

definition WithAttrs :: "'s auditHandler \<Rightarrow> slog_attr list \<Rightarrow> 's auditHandler" where
  "WithAttrs h attrs = h\<lparr>ah_attrs := ah_attrs h @ attrs\<rparr>"

definition make_event :: "unicode \<Rightarrow> slog_attr list \<Rightarrow> slog_record \<Rightarrow> AuditEvent" where
  "make_event U attrs r =
     (let data = fold (put_attr U) (attrs @ lr_Attrs r) [];
          actor = (if attr data ''invited_by'' \<noteq> [] then attr data ''invited_by'' else attr data ''admin'');
          username = (if attr data ''username'' = [] then attr data ''email'' else attr data ''username'')
      in \<lparr>ae_Seq = 0, ae_Time = lr_Time r, ae_Level = level_string (lr_Level r),
          ae_Message = redactURLs (TrimSpace (TrimPrefix (lr_Message r) ''AUDIT'')),
          ae_Username = username, ae_Actor = actor, ae_IP = attr data ''ip'', ae_Attrs = data\<rparr>)"

definition entry_key :: "int \<Rightarrow> string" where
  "entry_key i = auditEntryKey @ FormatInt (i mod auditRingSize)"

text \<open>\<open>store_event\<close> is \<open>record\<close> from the point where the event is built.\<close>

definition store_event ::
    "'s storeLock \<Rightarrow> AuditEvent \<Rightarrow> time \<Rightarrow> 's \<Rightarrow> AuditEvent \<times> error option \<times> 's" where
  "store_event l event now s =
     (case incr l auditSeqKey now s of
        (_, Some e, s1) \<Rightarrow> (event, Some e, s1)
      | (seq, None, s1) \<Rightarrow>
          (let event' = event\<lparr>ae_Seq := seq\<rparr>;
               (e, s2) = st_set (lk_storage l) s1 now (entry_key seq)
                           (Doc (marshal_AuditEvent event')) auditRetention
           in (event', e, s2)))"

definition record_event ::
    "unicode \<Rightarrow> 's auditHandler \<Rightarrow> slog_record \<Rightarrow> time \<Rightarrow> 's \<Rightarrow> AuditEvent \<times> error option \<times> 's" where
  "record_event U h r now s = store_event (ah_lock h) (make_event U (ah_attrs h) r) now s"

section \<open>Webhooks\<close>

definition webhookQueueSize :: nat where "webhookQueueSize = 100"
definition webhookAttempts :: nat where "webhookAttempts = 3"

definition wants :: "unicode \<Rightarrow> webhookTarget \<Rightarrow> string \<Rightarrow> bool" where
  "wants U t message \<longleftrightarrow>
     wt_Events t = [] \<or> list_ex (\<lambda>e. Contains (ToLower U message) (ToLower U e)) (wt_Events t)"

text \<open>A full queue drops the event (and logs that); nothing blocks.\<close>

definition send_one :: "unicode \<Rightarrow> AuditEvent \<Rightarrow> webhookTarget \<Rightarrow> webhookTarget" where
  "send_one U event t =
     (if \<not> wants U t (ae_Message event) then t
      else if length (wt_queue t) < webhookQueueSize then t\<lparr>wt_queue := wt_queue t @ [event]\<rparr>
      else t)"

definition send :: "unicode \<Rightarrow> webhookTarget list \<Rightarrow> AuditEvent \<Rightarrow> webhookTarget list" where
  "send U ts event = map (send_one U event) ts"

text \<open>\<open>newWebhooks\<close>: the targets, or the first configuration error.\<close>

fun check_targets :: "nat \<Rightarrow> webhookTarget list \<Rightarrow> webhookTarget list result" where
  "check_targets i [] = Ok []"
| "check_targets i (cfg # cfgs) =
     (if \<not> HasPrefix (wt_URL cfg) ''https://'' \<and> \<not> HasPrefix (wt_URL cfg) ''http://''
      then Err (EText (''webhooks['' @ FormatInt (int i) @ ''].url must be an http(s) URL''))
      else if wt_Format cfg \<noteq> [] \<and> wt_Format cfg \<noteq> ''slack''
      then Err (EText (''webhooks['' @ FormatInt (int i) @ ''].format must be empty or \"slack\"''))
      else (case check_targets (Suc i) cfgs of
              Err e \<Rightarrow> Err e
            | Ok ts \<Rightarrow> Ok (cfg\<lparr>wt_queue := []\<rparr> # ts)))"

definition newWebhooks :: "webhookTarget list \<Rightarrow> webhookTarget list result" where
  "newWebhooks cfgs = check_targets 0 cfgs"

definition hook_body :: "webhookTarget \<Rightarrow> AuditEvent \<Rightarrow> json" where
  "hook_body t event =
     (if wt_Format t \<noteq> ''slack'' then marshal_AuditEvent event
      else (let text = ''mokey: '' @ ae_Message event @
                  concat (map (\<lambda>(k, v). if v \<noteq> [] then '' '' @ k @ ''='' @ v else [])
                    [(''user'', ae_Username event), (''by'', ae_Actor event), (''ip'', ae_IP event)])
            in JObj [(''text'', JStr text)]))"

text \<open>
  The worker of a target: \<open>http_post target body attempt\<close> is the outcome of one request. The result
  lists the attempts made and whether the event was delivered.
\<close>

function deliver :: "(nat \<Rightarrow> error option) \<Rightarrow> nat \<Rightarrow> nat \<times> bool" where
  "deliver http_post attempt =
     (if http_post attempt = None then (attempt, True)
      else if attempt \<ge> webhookAttempts then (attempt, False)
      else deliver http_post (Suc attempt))"
  by pat_completeness auto
termination
  by (relation "measure (\<lambda>(f, a). webhookAttempts - a)") auto

declare deliver.simps [simp del]

text \<open>\<open>Handle\<close>: audit records of level INFO and above are recorded and sent on. The error of storing
  is logged, the record goes to the next handler in any case.\<close>

definition Handle ::
    "unicode \<Rightarrow> 's auditHandler \<Rightarrow> slog_record \<Rightarrow> time \<Rightarrow> 's \<Rightarrow> error option \<times> 's auditHandler \<times> 's" where
  "Handle U h r now s =
     (if 0 \<le> lr_Level r \<and> HasPrefix (lr_Message r) ''AUDIT'' then
        (case record_event U h r now s of
           (event, e, s') \<Rightarrow> (e, h\<lparr>ah_hooks := send U (ah_hooks h) event\<rparr>, s'))
      else (None, h, s))"

section \<open>Reading\<close>

text \<open>The loop body shared by the queries: the entry at position \<open>i\<close>, if there is one that decodes.\<close>

definition read_entry :: "'s storage \<Rightarrow> time \<Rightarrow> 's \<Rightarrow> int \<Rightarrow> AuditEvent option" where
  "read_entry S now s i =
     (case st_get S s now (entry_key i) of
        Ok (Some raw) \<Rightarrow> unmarshal_AuditEvent raw
      | _ \<Rightarrow> None)"

text \<open>Run over positions until \<open>n\<close> events are collected.\<close>

fun scan :: "(int \<Rightarrow> AuditEvent option) \<Rightarrow> nat \<Rightarrow> int list \<Rightarrow> AuditEvent list \<Rightarrow> AuditEvent list" where
  "scan get n [] events = events"
| "scan get n (i # is) events =
     (if length events < n then
        (case get i of
           None \<Rightarrow> scan get n is events
         | Some e \<Rightarrow> scan get n is (events @ [e]))
      else events)"

definition auditRecent :: "'s storage \<Rightarrow> nat \<Rightarrow> time \<Rightarrow> 's \<Rightarrow> AuditEvent list" where
  "auditRecent S n now s =
     (let seq = stored_number (st_get S s now auditSeqKey)
      in scan (read_entry S now s) n (rev [max 1 (seq - auditRingSize + 1)..seq]) [])"

definition auditUserRecent :: "'s storage \<Rightarrow> string \<Rightarrow> nat \<Rightarrow> time \<Rightarrow> 's \<Rightarrow> AuditEvent list" where
  "auditUserRecent S username n now s =
     (let seq = stored_number (st_get S s now auditSeqKey)
      in scan (\<lambda>i. case read_entry S now s i of
                  None \<Rightarrow> None
                | Some e \<Rightarrow> if ae_Username e = username \<or> ae_Actor e = username then Some e else None)
           n (rev [max 1 (seq - auditRingSize + 1)..seq]) [])"

definition auditAfter :: "'s storage \<Rightarrow> int \<Rightarrow> nat \<Rightarrow> time \<Rightarrow> 's \<Rightarrow> AuditEvent list" where
  "auditAfter S after n now s =
     (let seq = stored_number (st_get S s now auditSeqKey);
          after' = (if after > seq \<or> after < 0 then 0 else after)
      in scan (\<lambda>i. case read_entry S now s i of
                  None \<Rightarrow> None
                | Some e \<Rightarrow>
                    (let e' = (if ae_Seq e = 0 then e\<lparr>ae_Seq := i\<rparr> else e)
                     in if ae_Seq e' = i then Some e' else None))
           n [max after' (seq - auditRingSize) + 1..seq] [])"

section \<open>The ring is the end of a log\<close>

lemma attrs_json: "sequence (map attr_value (map (\<lambda>(k, v). (k, JStr v)) kvs)) = Some kvs"
  by (induction kvs) auto

lemma AuditEvent_json [json_simps]: "unmarshal_AuditEvent (Doc (marshal_AuditEvent e)) = Some e"
  using attrs_json [of "ae_Attrs e"]
  by (simp add: marshal_AuditEvent_def nonempty_member_def member_attrs_def)

lemma scan_take:
  "length acc \<le> n \<Longrightarrow> scan get n is acc = take n (acc @ List.map_filter get is)"
proof (induction "is" arbitrary: acc)
  case Nil
  then show ?case by (simp add: List.map_filter_def)
next
  case (Cons i "is")
  then show ?case
    by (cases "get i") (auto simp: List.map_filter_simps Suc_diff_Suc [symmetric])
qed

lemma audit_keys [simp]: "auditSeqKey \<noteq> []" "entry_key i \<noteq> []" "entry_key i \<noteq> auditSeqKey"
  "auditSeqKey \<noteq> entry_key i"
  by (simp_all add: auditSeqKey_def entry_key_def auditEntryKey_def)

lemma entry_key_iff: "entry_key i = entry_key j \<longleftrightarrow> i mod auditRingSize = j mod auditRingSize"
  by (auto simp: entry_key_def auditRingSize_def dest!: FormatInt_inj)

lemma entry_key_apart: "i < j \<Longrightarrow> j < i + auditRingSize \<Longrightarrow> entry_key i \<noteq> entry_key j"
proof
  assume ij: "i < j" "j < i + auditRingSize" and "entry_key i = entry_key j"
  then have "auditRingSize dvd j - i"
    by (simp add: entry_key_iff mod_eq_dvd_iff dvd_diff_commute)
  with ij show False
    using zdvd_imp_le [of auditRingSize "j - i"] by simp
qed

text \<open>The events of a log that the ring still holds.\<close>

definition ring :: "AuditEvent list \<Rightarrow> AuditEvent list" where
  "ring evs = drop (length evs - nat auditRingSize) evs"

definition numbered :: "AuditEvent list \<Rightarrow> bool" where
  "numbered evs \<longleftrightarrow> (\<forall>i < length evs. ae_Seq (evs ! i) = int i + 1)"

lemma numbered_snoc:
  "numbered evs \<Longrightarrow> numbered (evs @ [e\<lparr>ae_Seq := int (length evs) + 1\<rparr>])"
  by (auto simp: numbered_def nth_append less_Suc_eq)

lemma ring_positions:
  "map (\<lambda>i. evs ! nat (i - 1)) [max 0 (int (length evs) - auditRingSize) + 1..int (length evs)] = ring evs"
proof (rule nth_equalityI)
  fix k
  assume k: "k < length (map (\<lambda>i. evs ! nat (i - 1))
    [max 0 (int (length evs) - auditRingSize) + 1..int (length evs)])"
  then have "nat (max 0 (int (length evs) - auditRingSize) + int k) = length evs - nat auditRingSize + k"
    by (simp add: auditRingSize_def)
  with k show "map (\<lambda>i. evs ! nat (i - 1)) [max 0 (int (length evs) - auditRingSize) + 1..int (length evs)] ! k
      = ring evs ! k"
    by (simp add: ring_def nth_upto)
qed (simp add: ring_def auditRingSize_def)

lemma numbered_ring_nth:
  "numbered evs \<Longrightarrow> k < length (ring evs)
    \<Longrightarrow> ae_Seq (ring evs ! k) = int (length evs - nat auditRingSize + k) + 1"
  by (simp add: numbered_def ring_def)

lemma numbered_ring_sorted: "numbered evs \<Longrightarrow> sorted_wrt (\<lambda>x y. ae_Seq x < ae_Seq y) (ring evs)"
  by (auto simp: sorted_wrt_iff_nth_less numbered_ring_nth)

lemma numbered_ring_bound: "numbered evs \<Longrightarrow> x \<in> set (ring evs) \<Longrightarrow> ae_Seq x \<le> int (length evs)"
  by (auto simp: in_set_conv_nth numbered_ring_nth) (simp add: ring_def)

lemma filter_after_last:
  assumes "sorted_wrt (\<lambda>x y. f x < (f y :: int)) xs" "take n xs \<noteq> []"
  shows "filter (\<lambda>x. f (last (take n xs)) < f x) xs = drop n xs"
proof -
  define a b where "a = butlast (take n xs)" and "b = last (take n xs)"
  have xs: "xs = (a @ [b]) @ drop n xs"
    using assms(2) by (simp add: a_def b_def)
  have "sorted_wrt (\<lambda>x y. f x < f y) ((a @ [b]) @ drop n xs)"
    using assms(1) xs by simp
  then have "\<And>x. x \<in> set a \<Longrightarrow> f x < f b" "\<And>x. x \<in> set (drop n xs) \<Longrightarrow> f b < f x"
    by (auto simp: sorted_wrt_append)
  then have "filter (\<lambda>x. f b < f x) ((a @ [b]) @ drop n xs) = drop n xs"
    by (auto simp: filter_empty_conv) (force simp: filter_id_conv)+
  with xs show ?thesis by (simp add: b_def)
qed

text \<open>
  \<open>audit_log view now T evs s\<close>: the backend holds the end of the log \<open>evs\<close>, as seen at every instant from
  \<open>now\<close> until \<open>T\<close>.
\<close>

definition audit_log ::
    "('s \<Rightarrow> time \<Rightarrow> string \<Rightarrow> blob option) \<Rightarrow> time \<Rightarrow> time \<Rightarrow> AuditEvent list \<Rightarrow> 's \<Rightarrow> bool" where
  "audit_log view now T evs s \<longleftrightarrow>
     numbered evs \<and>
     (\<forall>t. now \<le> t \<and> t < T \<longrightarrow>
        view s t auditSeqKey = (if evs = [] then None else Some (Raw (FormatInt (int (length evs)))))
      \<and> (\<forall>i. int (length evs) - auditRingSize < i \<and> 0 < i \<and> i \<le> int (length evs)
           \<longrightarrow> view s t (entry_key i) = Some (Doc (marshal_AuditEvent (evs ! nat (i - 1))))))"

context reliable_store
begin

abbreviation local_lock :: "'a storeLock" where
  "local_lock \<equiv> \<lparr>lk_storage = S, lk_rdb = None\<rparr>"

lemma audit_log_seq:
  assumes "audit_log view now T evs s" "now \<le> t" "t < T" "int (length evs) \<le> int64_max"
  shows "stored_number (st_get S s t auditSeqKey) = int (length evs)"
proof -
  have "ParseInt (FormatInt (int (length evs))) = Some (int (length evs))"
    using assms(4) by (intro ParseInt_FormatInt) (simp_all add: int64_min_def)
  from ParseInt_value_ok [OF this] show ?thesis
    using assms(1-3) by (auto simp: audit_log_def stored_number_def get_ok)
qed

lemma audit_log_entry:
  assumes "audit_log view now T evs s" "now \<le> t" "t < T"
    "int (length evs) - auditRingSize < i" "0 < i" "i \<le> int (length evs)"
  shows "read_entry S t s i = Some (evs ! nat (i - 1))"
  using assms by (auto simp: audit_log_def read_entry_def get_ok json_simps)

lemma store_event_log:
  fixes e :: AuditEvent
  assumes log: "audit_log view now T evs s" and "now \<le> t" "t < T" "T \<le> t + auditRetention"
    and "int (length evs) < int64_max"
  defines "e' \<equiv> e\<lparr>ae_Seq := int (length evs) + 1\<rparr>"
  shows "\<exists>s'. store_event local_lock e t s = (e', None, s') \<and> audit_log view t T (evs @ [e']) s'"
proof -
  let ?n = "int (length evs) + 1"
  have seq: "stored_number (st_get S s t auditSeqKey) = int (length evs)"
    by (rule audit_log_seq [OF log]) (use assms in auto)
  have wrap: "wrap64 ?n = ?n" using assms(5) by (intro wrap64_id) (auto simp: int64_min_def)
  obtain s1 where s1: "st_set S s t auditSeqKey (Raw (FormatInt ?n)) 0 = (None, s1)"
    by (metis set_ok prod.collapse)
  obtain s2 where s2: "st_set S s1 t (entry_key ?n) (Doc (marshal_AuditEvent e')) auditRetention = (None, s2)"
    by (metis set_ok prod.collapse)
  have st: "store_event local_lock e t s = (e', None, s2)"
    using s1 s2 by (simp add: store_event_def incr_def seq wrap Let_def e'_def)
  have v1: "view s2 x auditSeqKey = Some (Raw (FormatInt ?n))" if "t \<le> x" for x
    using set_same [OF s1, of x] set_other [OF s2, of auditSeqKey x] that
    by (simp add: FormatInt_def)
  have v2: "view s2 x (entry_key ?n) = Some (Doc (marshal_AuditEvent e'))" if "t \<le> x" "x < T" for x
    using set_same [OF s2, of x] that assms(4) by simp
  have v3: "view s2 x (entry_key i) = view s x (entry_key i)" if "?n - auditRingSize < i" "i < ?n" for x i
    using set_other [OF s2, of "entry_key i" x] set_other [OF s1, of "entry_key i" x]
      entry_key_apart [of i ?n] that by simp
  have entry: "view s2 x (entry_key i) = Some (Doc (marshal_AuditEvent ((evs @ [e']) ! nat (i - 1))))"
    if "t \<le> x" "x < T" "?n - auditRingSize < i" "0 < i" "i \<le> ?n" for x i
  proof (cases "i = ?n")
    case False
    with that have "nat (i - 1) < length evs" "i < ?n" by auto
    with v3 [of i x] log that assms(2) show ?thesis by (simp add: audit_log_def nth_append)
  qed (use v2 that in simp)
  have "numbered (evs @ [e'])"
    using numbered_snoc [of evs e] log by (simp add: audit_log_def e'_def)
  with v1 entry have "audit_log view t T (evs @ [e']) s2"
    by (simp add: audit_log_def add.commute)
  with st show ?thesis by blast
qed

lemma filter_upto: "filter (\<lambda>i. a < i) [l..m] = [max (a + 1) l..m]"
  by (rule sorted_distinct_set_unique) (auto simp: sorted_wrt_filter)

lemma recent_positions:
  "max 1 (int (length evs) - auditRingSize + 1) = max 0 (int (length evs) - auditRingSize) + 1"
  by (simp add: max_def auditRingSize_def)

lemma map_filter_Some:
  "(\<And>i. i \<in> set is \<Longrightarrow> get i = Some (f i)) \<Longrightarrow> List.map_filter get is = map f is"
  by (induction "is") (auto simp: List.map_filter_simps)

lemma map_filter_if:
  "(\<And>i. i \<in> set is \<Longrightarrow> get i = (if P (f i) then Some (f i) else None))
    \<Longrightarrow> List.map_filter get is = filter P (map f is)"
  by (induction "is") (auto simp: List.map_filter_simps)

lemma recent_log:
  assumes "audit_log view now T evs s" "now \<le> t" "t < T" "int (length evs) \<le> int64_max"
  shows "auditRecent S n t s = take n (rev (ring evs))"
    and "auditUserRecent S u n t s = take n (filter (\<lambda>e. ae_Username e = u \<or> ae_Actor e = u) (rev (ring evs)))"
proof -
  let ?is = "rev [max 0 (int (length evs) - auditRingSize) + 1..int (length evs)]"
  let ?f = "\<lambda>i. evs ! nat (i - 1)"
  have read: "read_entry S t s i = Some (?f i)" if "i \<in> set ?is" for i
    using that by (intro audit_log_entry [OF assms(1-3)]) auto
  have all: "map ?f ?is = rev (ring evs)"
    by (simp add: rev_map [symmetric] ring_positions)
  show "auditRecent S n t s = take n (rev (ring evs))"
    using map_filter_Some [of ?is "read_entry S t s" ?f] read all
    by (simp add: auditRecent_def audit_log_seq [OF assms] recent_positions scan_take)
  show "auditUserRecent S u n t s
      = take n (filter (\<lambda>e. ae_Username e = u \<or> ae_Actor e = u) (rev (ring evs)))"
    using map_filter_if [of ?is _ "\<lambda>e. ae_Username e = u \<or> ae_Actor e = u" ?f] read all
    by (simp add: auditUserRecent_def audit_log_seq [OF assms] recent_positions scan_take)
qed

lemma after_log:
  assumes "audit_log view now T evs s" "now \<le> t" "t < T" "int (length evs) \<le> int64_max"
  shows "auditAfter S after n t s
    = take n (filter (\<lambda>e. (if after > int (length evs) then 0 else after) < ae_Seq e) (ring evs))"
proof -
  define a where "a = (if after > int (length evs) \<or> after < 0 then 0 else after)"
  let ?low = "max 0 (int (length evs) - auditRingSize)"
  let ?is = "[?low + 1..int (length evs)]"
  let ?f = "\<lambda>i. evs ! nat (i - 1)"
  have seq: "ae_Seq (?f i) = i" if "i \<in> set ?is" for i
    using that assms(1) by (auto simp: audit_log_def numbered_def)
  have a: "0 \<le> a" "a \<le> int (length evs)" by (auto simp: a_def)
  have tail: "[max a (int (length evs) - auditRingSize) + 1..int (length evs)] = filter (\<lambda>i. a < i) ?is"
    using a by (simp add: filter_upto max_def)
  have read: "read_entry S t s i = Some (?f i)" if "i \<in> set ?is" for i
    using that by (intro audit_log_entry [OF assms(1-3)]) auto
  have "auditAfter S after n t s = take n (map ?f (filter (\<lambda>i. a < i) ?is))"
    unfolding auditAfter_def audit_log_seq [OF assms] Let_def a_def [symmetric]
    by (subst scan_take, simp, subst tail, subst map_filter_Some [where f = ?f])
      (auto simp: read seq)
  also have "map ?f (filter (\<lambda>i. a < i) ?is) = filter (\<lambda>e. a < ae_Seq e) (map ?f ?is)"
    unfolding filter_map o_def using seq by (intro arg_cong [where f = "map ?f"] filter_cong) auto
  also have "\<dots> = filter (\<lambda>e. (if after > int (length evs) then 0 else after) < ae_Seq e) (map ?f ?is)"
    using seq by (intro filter_cong refl) (auto simp: a_def)
  finally show ?thesis by (simp add: ring_positions)
qed

end

section \<open>Properties\<close>

text \<open>
  C18. The ring refines an unbounded log. Recording an event on a backend that holds the end of a log
  appends it to the log under the next sequence number, and within the retention time the queries
  read the last 1000 events of the log: the newest first, those that involve a user, and those
  after a cursor in order (from the start where the cursor is ahead of the counter).
\<close>

theorem audit_ring_refines:
  assumes "reliable_store S view" and "audit_log view now T evs s"
    and "now \<le> t" and "t < T" and "T \<le> t + auditRetention" and "int (length evs) < int64_max"
    and "e' = e\<lparr>ae_Seq := int (length evs) + 1\<rparr>"
  shows "\<exists>s'. store_event \<lparr>lk_storage = S, lk_rdb = None\<rparr> e t s = (e', None, s')
    \<and> audit_log view t T (evs @ [e']) s'
    \<and> auditRecent S n t s' = take n (rev (ring (evs @ [e'])))
    \<and> auditUserRecent S u n t s'
        = take n (filter (\<lambda>x. ae_Username x = u \<or> ae_Actor x = u) (rev (ring (evs @ [e']))))
    \<and> auditAfter S after n t s'
        = take n (filter (\<lambda>x. (if after > int (length evs) + 1 then 0 else after) < ae_Seq x) (ring (evs @ [e'])))"
proof -
  obtain s' where s': "store_event \<lparr>lk_storage = S, lk_rdb = None\<rparr> e t s = (e', None, s')"
    and log: "audit_log view t T (evs @ [e']) s'"
    using reliable_store.store_event_log [OF assms(1-6)] assms(7) by blast
  have len: "int (length (evs @ [e'])) \<le> int64_max" using assms(6) by simp
  note q = reliable_store.recent_log [OF assms(1) log order_refl assms(4) len]
    reliable_store.after_log [OF assms(1) log order_refl assms(4) len]
  from s' log q show ?thesis by (simp add: add.commute)
qed

text \<open>
  Paging with the cursor. A client that asks for the events after the last sequence number it has
  seen gets the log piece by piece: the pages of sizes \<open>n\<close> and \<open>m\<close> one after the other are the page of
  size \<open>n + m\<close>, with nothing lost or repeated.
\<close>

theorem audit_paging:
  assumes "reliable_store S view" and "audit_log view now T evs s" and "now \<le> t" and "t < T"
    and "int (length evs) \<le> int64_max" and "0 \<le> after" and "after \<le> int (length evs)"
    and "auditAfter S after n t s = page" and "page \<noteq> []"
  shows "auditAfter S after (n + m) t s = page @ auditAfter S (ae_Seq (last page)) m t s"
proof -
  note q = reliable_store.after_log [OF assms(1-5)]
  let ?L = "filter (\<lambda>e. after < ae_Seq e) (ring evs)"
  have num: "numbered evs" using assms(2) by (simp add: audit_log_def)
  have page: "page = take n ?L" using q [of after n] assms(7,8) by simp
  have srt: "sorted_wrt (\<lambda>x y. ae_Seq x < ae_Seq y) ?L"
    by (intro sorted_wrt_filter numbered_ring_sorted num)
  have in_L: "last page \<in> set ?L"
    using last_in_set [OF assms(9)] in_set_takeD [of "last page" n ?L] by (simp only: page)
  then have after: "after < ae_Seq (last page)" by simp
  have bound: "ae_Seq (last page) \<le> int (length evs)"
    using numbered_ring_bound [OF num] in_L by simp
  have "filter (\<lambda>e. ae_Seq (last page) < ae_Seq e) (ring evs)
      = filter (\<lambda>e. ae_Seq (last page) < ae_Seq e) ?L"
    using after by (auto intro!: filter_cong)
  also have "\<dots> = drop n ?L"
    using filter_after_last [OF srt] assms(9) page by simp
  finally show ?thesis
    using q [of after "n + m"] q [of "ae_Seq (last page)" m] assms(7) bound page
    by (simp add: take_add)
qed

lemma wants_queue [simp]: "wants U (t\<lparr>wt_queue := q\<rparr>) = wants U t"
  by (simp add: wants_def fun_eq_iff)

lemma fold_send_one:
  "length (wt_queue t) \<le> webhookQueueSize \<Longrightarrow> fold (send_one U) evs t
    = t\<lparr>wt_queue := take webhookQueueSize (wt_queue t @ filter (\<lambda>e. wants U t (ae_Message e)) evs)\<rparr>"
proof (induction evs arbitrary: t)
  case (Cons e evs)
  have "length (wt_queue (send_one U e t)) \<le> webhookQueueSize"
    using Cons.prems by (simp add: send_one_def)
  from Cons.IH [OF this] Cons.prems show ?case
    by (auto simp: send_one_def Suc_diff_Suc [symmetric])
qed simp

lemma fold_send: "fold (\<lambda>e ts. send U ts e) evs ts = map (fold (send_one U) evs) ts"
  by (induction evs arbitrary: ts) (simp_all add: send_def o_def)

text \<open>
  Webhook queues. Whatever events are sent, the queue of a target takes the events it wants, in
  order, until it is full at 100 and drops the others; the other settings of the targets stay.
\<close>

theorem webhook_queues:
  assumes "\<And>t. t \<in> set ts \<Longrightarrow> length (wt_queue t) \<le> webhookQueueSize"
  shows "fold (\<lambda>e ts. send U ts e) evs ts
    = map (\<lambda>t. t\<lparr>wt_queue := take webhookQueueSize
        (wt_queue t @ filter (\<lambda>e. wants U t (ae_Message e)) evs)\<rparr>) ts"
  using assms by (simp add: fold_send fold_send_one)

text \<open>A delivery makes at most three attempts, and fails only when all three did.\<close>

theorem webhook_attempts:
  "deliver http_post 1 =
     (if http_post 1 = None then (1, True) else if http_post 2 = None then (2, True)
      else (3, http_post 3 = None))"
  using deliver.simps [of http_post "Suc 0"] deliver.simps [of http_post "Suc (Suc 0)"]
    deliver.simps [of http_post "Suc (Suc (Suc 0))"]
  by (simp add: webhookAttempts_def numeral_eq_Suc)

section \<open>Witnesses\<close>

definition demo_event :: AuditEvent where
  "demo_event = \<lparr>ae_Seq = 0, ae_Time = 0, ae_Level = ''INFO'', ae_Message = ''User logged in'',
     ae_Username = ''alice'', ae_Actor = [], ae_IP = ''10.0.0.1'', ae_Attrs = [(''ip'', ''10.0.0.1'')]\<rparr>"

lemma demo_log: "audit_log sound_view 0 auditRetention [] Map.empty"
  by (simp add: audit_log_def numbered_def sound_view_def mem_view_def)

definition demo_audit :: cells where
  "demo_audit = snd (snd (store_event \<lparr>lk_storage = sound_storage, lk_rdb = None\<rparr> demo_event 1 Map.empty))"

theorem audit_ring_refines_witness:
  "auditRecent sound_storage 5 1 demo_audit = [demo_event\<lparr>ae_Seq := 1\<rparr>]"
  using audit_ring_refines [OF sound.reliable_store_axioms demo_log, of 1 "demo_event\<lparr>ae_Seq := 1\<rparr>" demo_event 5 "[]" 0]
  by (auto simp: demo_audit_def auditRetention_def time_units int64_max_def ring_def auditRingSize_def)

theorem audit_paging_witness:
  "auditAfter sound_storage 0 (1 + 1) 1 demo_audit
    = [demo_event\<lparr>ae_Seq := 1\<rparr>] @ auditAfter sound_storage 1 1 1 demo_audit"
proof -
  let ?e = "demo_event\<lparr>ae_Seq := 1\<rparr>"
  have log: "audit_log sound_view 1 auditRetention [?e] demo_audit"
    using sound.store_event_log [OF demo_log, of 1 demo_event]
    by (auto simp: demo_audit_def auditRetention_def time_units int64_max_def)
  have one: "auditAfter sound_storage 0 1 1 demo_audit = [?e]"
    using sound.after_log [OF log, of 1 0 1]
    by (simp add: auditRetention_def time_units int64_max_def ring_def auditRingSize_def)
  show ?thesis
    using audit_paging [OF sound.reliable_store_axioms log _ _ _ _ _ one, of 1]
    by (simp add: auditRetention_def time_units int64_max_def)
qed


definition demo_target :: webhookTarget where
  "demo_target = \<lparr>wt_URL = ''https://hooks.example.com'', wt_Secret = [], wt_Events = [''login''],
     wt_Format = [], wt_queue = []\<rparr>"

theorem webhook_queues_witness:
  "fold (\<lambda>e ts. send plain_unicode ts e) [demo_event] [demo_target\<lparr>wt_Events := []\<rparr>]
    = [demo_target\<lparr>wt_Events := [], wt_queue := [demo_event]\<rparr>]"
  using webhook_queues [of "[demo_target\<lparr>wt_Events := []\<rparr>]" plain_unicode "[demo_event]"]
  by (simp add: demo_target_def wants_def webhookQueueSize_def)

end
