(* ===== verification/Portal_Types.thy ===== *)
theory Portal_Types
  imports Sessions Queues Password_Policy Audit_Log
begin

text \<open>
  The values handlers and mails are made of: texts for the user, the accounts of FreeIPA, the
  variables of page and mail templates, and mails. Texts stay symbolic, as the language and the
  key of a translation.
\<close>

section \<open>Texts, users\<close>

datatype msg = Tx string | Tr string string "int list" | Cat msg msg

fun error_text :: "error \<Rightarrow> msg" where
  "error_text (EText s) = Tx s"
| "error_text (ETrans lang key args) = Tr lang key args"
| "error_text (EIpa c m) = Tx m"
| "error_text (ESentinel s) = Tx s"
| "error_text (EPanic s) = Tx s"
| "error_text (EMember fs) = Tx []"

text \<open>
  An SSH key as goipa keeps it, and the fields of \<open>ipa.User\<close> the portal uses; \<open>MemberOf\<close> and \<open>IndirectMemberOf\<close> are its \<open>Groups\<close> and
  \<open>IndirectGroups\<close>.
\<close>

record ssh_key =
  sk_Key :: string
  sk_Comment :: string
  sk_Fingerprint :: string

record user =
  Username :: string
  First :: string
  Last :: string
  DisplayName :: string
  Email :: string
  Mobile :: string
  TelephoneNumber :: string
  Shell :: string
  HomeDir :: string
  Category :: string
  Locked :: bool
  AuthTypes :: "string list"
  MemberOf :: "string list"
  IndirectMemberOf :: "string list"
  PasswdExpire :: time
  PreferredLanguage :: string
  Passkeys :: "string list"
  SSHAuthKeys :: "ssh_key list"

definition empty_user :: user where
  "empty_user =
     \<lparr>Username = [], First = [], Last = [], DisplayName = [], Email = [], Mobile = [],
      TelephoneNumber = [], Shell = [], HomeDir = [], Category = [], Locked = False,
      AuthTypes = [], MemberOf = [], IndirectMemberOf = [], PasswdExpire = zero_time,
      PreferredLanguage = [], Passkeys = [], SSHAuthKeys = []\<rparr>"

definition UserCategoryUnverified :: string where "UserCategoryUnverified = ''mokey-user-unverified''"
definition UserCategoryPending :: string where "UserCategoryPending = ''mokey-user-pending''"

text \<open>An OTP token of FreeIPA, and an OAuth client the user has granted consent to (\<open>hydra.go\<close>).\<close>

record otp_token =
  ot_UUID :: string
  ot_Enabled :: bool
  ot_Description :: string
  ot_Type :: string
  ot_Algorithm :: string
  ot_NotBefore :: time
  ot_URI :: string

record connectedApp =
  ca_ClientID :: string
  ca_Name :: string
  ca_Scope :: "string list"
  ca_GrantedAt :: time

text \<open>
  Groups as goipa returns them and as the portal keeps them (\<open>ipa_group.go\<close>), with the requests a
  manager sees (\<open>groups.go\<close>).
\<close>

record ipa_Group =
  ig_Name :: string
  ig_Description :: string
  ig_Users :: "string list"
  ig_ManagerUsers :: "string list"
  ig_ManagerGroups :: "string list"

record ipaGroup =
  Name :: string
  Description :: string
  Members :: "string list"
  ManagerUsers :: "string list"
  ManagerGroups :: "string list"

record managedGroup =
  mg_Group :: ipaGroup
  mg_Requests :: "GroupRequest list"

text \<open>A raw entry of \<open>user_find\<close> with the attributes the help desk reads, and a line of its report
  (\<open>helpdesk.go\<close>); a missing date is \<open>zero_time\<close>.\<close>

record user_entry =
  ue_uid :: string
  ue_givenname :: string
  ue_sn :: string
  ue_mail :: string
  ue_nsaccountlock :: bool
  ue_krbpasswordexpiration :: time
  ue_krbloginfailedcount :: int
  ue_krblastfailedauth :: time
  ue_krblastsuccessfulauth :: time

record helpdeskRow =
  hr_Username :: string
  hr_Name :: string
  hr_Email :: string
  hr_Date :: time
  hr_Disabled :: bool

text \<open>
  HBAC and sudo rules as goipa returns them and as the portal keeps them (\<open>ipa_access.go\<close>), the result of a
  test, an app of the catalog (\<open>apps.go\<close>) and a range of subordinate ids (\<open>ipa_subid.go\<close>).
\<close>

record ipa_HBACRule =
  ih_Name :: string
  ih_Description :: string
  ih_Enabled :: bool
  ih_UserCategory :: string
  ih_HostCategory :: string
  ih_ServiceCategory :: string
  ih_Users :: "string list"
  ih_Groups :: "string list"
  ih_Hosts :: "string list"
  ih_HostGroups :: "string list"
  ih_Services :: "string list"

record hbacRule =
  hb_Name :: string
  hb_Description :: string
  hb_Enabled :: bool
  hb_UserCategory :: string
  hb_HostCategory :: string
  hb_ServiceCategory :: string
  hb_MemberUsers :: "string list"
  hb_MemberGroups :: "string list"
  hb_MemberHosts :: "string list"
  hb_MemberHostgroups :: "string list"
  hb_MemberServices :: "string list"

record ipa_SudoRule =
  is_Name :: string
  is_Description :: string
  is_Enabled :: bool
  is_UserCategory :: string
  is_HostCategory :: string
  is_CmdCategory :: string
  is_Users :: "string list"
  is_Groups :: "string list"
  is_Hosts :: "string list"
  is_HostGroups :: "string list"
  is_AllowCommands :: "string list"
  is_DenyCommands :: "string list"
  is_RunAsUsers :: "string list"
  is_RunAsGroups :: "string list"

record sudoRule =
  su_Name :: string
  su_Description :: string
  su_Enabled :: bool
  su_UserCategory :: string
  su_HostCategory :: string
  su_CmdCategory :: string
  su_MemberUsers :: "string list"
  su_MemberGroups :: "string list"
  su_MemberHosts :: "string list"
  su_MemberHostgroups :: "string list"
  su_AllowCommands :: "string list"
  su_DenyCommands :: "string list"
  su_RunAsUsers :: "string list"
  su_RunAsGroups :: "string list"

record hbacTestResult =
  ht_Granted :: bool
  ht_Matched :: "string list"
  ht_NotMatched :: "string list"

record catalogApp =
  ct_ClientID :: string
  ct_Name :: string
  ct_URI :: string
  ct_State :: string
  ct_Group :: string

record subidRange =
  SubUID :: int
  SubGID :: int
  Count :: int

section \<open>Templates and mails\<close>

datatype pvar =
    PStr string | PText msg | PTime time | PBool bool | PInt int | PUser user | PPolicy PwPolicy | PClaims Token
  | PStrs "string list" | PUsers "user list" | PSessions "UserSession list" | POtps "otp_token list"
  | PEvents "AuditEvent list" | PApps "connectedApp list" | PGroups "ipaGroup list" | PManaged "managedGroup list"
  | PMyRequests "(string \<times> string) list" | PRecoveries "(user \<times> time) list" | PRows "helpdeskRow list"
  | PCounts "(string \<times> int) list" | PKeys "ssh_key list" | PHbac "hbacRule list" | PSudo "sudoRule list"
  | PCatalog "catalogApp list" | PPasskeys "(string \<times> string) list" | PSubid "subidRange option"

type_synonym vars = "(string \<times> pvar) list"

text \<open>Setting a variable of a page replaces an earlier value; \<open>drop_var\<close> deletes it.\<close>

definition put_var :: "string \<Rightarrow> pvar \<Rightarrow> vars \<Rightarrow> vars" where
  "put_var k v vs = (k, v) # filter (\<lambda>(k', _). k' \<noteq> k) vs"

definition drop_var :: "string \<Rightarrow> vars \<Rightarrow> vars" where
  "drop_var k vs = filter (\<lambda>(k', _). k' \<noteq> k) vs"

text \<open>
  A mail as \<open>sendEmail\<close> gets it: recipient, the language whose set of templates is used (none for the default set),
  subject, template and its own variables, the base address of the links in it, and system and browser of the request.
\<close>

record mail =
  ml_user :: user
  ml_lang :: "string option"
  ml_subject :: msg
  ml_template :: string
  ml_vars :: vars
  ml_base :: string
  ml_os :: string
  ml_browser :: string

end
