(* ===== verification/Mime.thy ===== *)
theory Mime
  imports Go_Strings
begin

text \<open>
  The text of a mail (\<open>sendEmail\<close> and \<open>quotedBody\<close> of \<open>email.go\<close>): the quoted-printable writer of
  \<open>mime/quotedprintable\<close>, the parts written by \<open>mime/multipart\<close>, and the header. A reader for all three is the reference:
  what it reads back is what was written, and no line of a body is too long for a mail server.
\<close>

abbreviation CR :: char where "CR \<equiv> CHR 0x0D"
abbreviation LF :: char where "LF \<equiv> CHR 0x0A"

definition crlf :: string where "crlf = [CR, LF]"

section \<open>Quoted-printable\<close>

text \<open>The writer: what is flushed, the line in its buffer, and whether the last byte was a carriage return.\<close>

record qp_writer =
  qp_out :: string
  qp_line :: string
  qp_cr :: bool

definition lineMaxLen :: nat where "lineMaxLen = 76"

definition insertCRLF :: "qp_writer \<Rightarrow> qp_writer" where
  "insertCRLF w = w\<lparr>qp_out := qp_out w @ qp_line w @ crlf, qp_line := []\<rparr>"

definition insertSoftLineBreak :: "qp_writer \<Rightarrow> qp_writer" where
  "insertSoftLineBreak w = insertCRLF (w\<lparr>qp_line := qp_line w @ ''=''\<rparr>)"

definition hex_byte :: "char \<Rightarrow> string" where
  "hex_byte b = [CHR ''='', upper_hex (code b div 16), upper_hex (code b mod 16)]"

definition qp_encode :: "char \<Rightarrow> qp_writer \<Rightarrow> qp_writer" where
  "qp_encode b w =
     (let w' = (if lineMaxLen - 1 - length (qp_line w) < 3 then insertSoftLineBreak w else w)
      in w'\<lparr>qp_line := qp_line w' @ hex_byte b\<rparr>)"

definition isWhitespace :: "char \<Rightarrow> bool" where
  "isWhitespace b \<longleftrightarrow> b = CHR '' '' \<or> b = CHR 0x09"

definition checkLastByte :: "qp_writer \<Rightarrow> qp_writer" where
  "checkLastByte w =
     (if qp_line w \<noteq> [] \<and> isWhitespace (last (qp_line w))
      then qp_encode (last (qp_line w)) (w\<lparr>qp_line := butlast (qp_line w)\<rparr>) else w)"

definition qp_write :: "char \<Rightarrow> qp_writer \<Rightarrow> qp_writer" where
  "qp_write b w =
     (if b = LF \<or> b = CR then
        (if qp_cr w \<and> b = LF then w\<lparr>qp_cr := False\<rparr>
         else let w' = insertCRLF (checkLastByte w) in if b = CR then w'\<lparr>qp_cr := True\<rparr> else w')
      else
        (let w' = (if length (qp_line w) = lineMaxLen - 1 then insertSoftLineBreak w else w)
         in w'\<lparr>qp_line := qp_line w' @ [b], qp_cr := False\<rparr>))"

text \<open>Which bytes are written as they are; \<open>Write\<close> collects runs of them, with the same effect.\<close>

definition qp_plain :: "char \<Rightarrow> bool" where
  "qp_plain b \<longleftrightarrow> (33 \<le> code b \<and> code b \<le> 126 \<and> b \<noteq> CHR ''='') \<or> isWhitespace b \<or> b = LF \<or> b = CR"

definition qp_step :: "char \<Rightarrow> qp_writer \<Rightarrow> qp_writer" where
  "qp_step b w = (if qp_plain b then qp_write b w else qp_encode b w)"

definition quotedBody :: "string \<Rightarrow> string" where
  "quotedBody body =
     (let w = checkLastByte (fold qp_step body \<lparr>qp_out = [], qp_line = [], qp_cr = False\<rparr>)
      in qp_out w @ qp_line w)"

text \<open>The reader. Line breaks of a text are those of a mail.\<close>

fun qp_decode :: "string \<Rightarrow> string option" where
  "qp_decode [] = Some []"
| "qp_decode (c # s) =
     (if c = CHR ''='' then
        (case s of
           a # b # s' \<Rightarrow>
             if a = CR \<and> b = LF then qp_decode s'
             else (case (unhex a, unhex b) of
                     (Some x, Some y) \<Rightarrow> map_option ((#) (char_of (16 * x + y))) (qp_decode s')
                   | _ \<Rightarrow> None)
         | _ \<Rightarrow> None)
      else map_option ((#) c) (qp_decode s))"

definition mail_lines :: "string \<Rightarrow> string" where
  "mail_lines s = concat (map (\<lambda>c. if c = LF then crlf else [c]) s)"

section \<open>The writer and the reader agree\<close>

text \<open>What the writer puts out is made of plain bytes, bytes in hexadecimal and soft line breaks.\<close>

datatype qp_token = Lit char | Hex char | Soft

fun tok_text :: "qp_token \<Rightarrow> string" where
  "tok_text (Lit c) = [c]"
| "tok_text (Hex c) = hex_byte c"
| "tok_text Soft = ''='' @ crlf"

fun tok_mean :: "qp_token \<Rightarrow> string" where
  "tok_mean (Lit c) = [c]"
| "tok_mean (Hex c) = [c]"
| "tok_mean Soft = []"

abbreviation texts :: "qp_token list \<Rightarrow> string" where "texts ts \<equiv> concat (map tok_text ts)"
abbreviation means :: "qp_token list \<Rightarrow> string" where "means ts \<equiv> concat (map tok_mean ts)"

lemma hex_not_break: "n < 16 \<Longrightarrow> upper_hex n \<notin> {CR, LF, CHR '' '', CHR 0x09, CHR ''=''}"
proof -
  have "\<forall>n\<in>set [0..<16]. upper_hex n \<notin> {CR, LF, CHR '' '', CHR 0x09, CHR ''=''}" by code_simp
  then show "n < 16 \<Longrightarrow> ?thesis" by simp
qed

lemma hex_byte_free: "CR \<notin> set (hex_byte b)" "LF \<notin> set (hex_byte b)" "\<not> isWhitespace (last (hex_byte b))" "hex_byte b \<noteq> []"
  using hex_not_break [OF nibbles(1), of b] hex_not_break [OF nibbles(2), of b] by (auto simp: hex_byte_def isWhitespace_def)

lemma decode_texts: "Lit CHR ''='' \<notin> set ts \<Longrightarrow> qp_decode (texts ts) = Some (means ts)"
proof (induction ts)
  case (Cons t ts)
  show ?case
  proof (cases t)
    case (Hex c)
    with Cons show ?thesis using nibbles [of c] hex_not_break [of "code c div 16"]
      by (simp add: hex_byte_def unhex_hex)
  qed (use Cons in \<open>auto simp: crlf_def\<close>)
qed simp

text \<open>The state of the writer, by the tokens that are flushed and those in the buffer.\<close>

definition in_line :: "qp_token \<Rightarrow> bool" where
  "in_line t \<longleftrightarrow> (case t of Lit c \<Rightarrow> c \<notin> {CHR ''='', CR, LF} | Hex c \<Rightarrow> True | Soft \<Rightarrow> False)"

definition qp_inv :: "string \<Rightarrow> qp_writer \<Rightarrow> bool" where
  "qp_inv s w \<longleftrightarrow> \<not> qp_cr w \<and> length (qp_line w) \<le> 75
     \<and> (\<exists>ts us ls. qp_out w = texts ts \<and> qp_line w = texts us \<and> means (ts @ us) = s \<and> Lit CHR ''='' \<notin> set ts
          \<and> list_all in_line us \<and> texts ts = concat (map (\<lambda>l. l @ [LF]) ls) \<and> (\<forall>l\<in>set ls. LF \<notin> set l \<and> length l \<le> 77))"

lemma qp_invI:
  assumes "\<not> qp_cr w" "length (qp_line w) \<le> 75" "qp_out w = texts ts" "qp_line w = texts us" "means (ts @ us) = s"
    "Lit CHR ''='' \<notin> set ts" "list_all in_line us" "texts ts = concat (map (\<lambda>l. l @ [LF]) ls)" "\<forall>l\<in>set ls. LF \<notin> set l \<and> length l \<le> 77"
  shows "qp_inv s w"
  unfolding qp_inv_def using assms by blast

lemma qp_invE:
  assumes "qp_inv s w"
  obtains ts us ls where "\<not> qp_cr w" "length (qp_line w) \<le> 75" "qp_out w = texts ts" "qp_line w = texts us" "means (ts @ us) = s"
    "Lit CHR ''='' \<notin> set ts" "list_all in_line us" "texts ts = concat (map (\<lambda>l. l @ [LF]) ls)" "\<forall>l\<in>set ls. LF \<notin> set l \<and> length l \<le> 77"
  using assms unfolding qp_inv_def by blast

lemma line_free: "list_all in_line us \<Longrightarrow> LF \<notin> set (texts us)"
proof (induction us)
  case (Cons u us)
  have "LF \<notin> set (tok_text u)" if "in_line u"
    using that by (cases u) (auto simp: in_line_def hex_byte_free)
  with Cons show ?case by simp
qed simp

lemma in_line_plain: "list_all in_line us \<Longrightarrow> Lit CHR ''='' \<notin> set us"
  by (auto simp: list_all_iff in_line_def)

text \<open>Flushing a line, with a soft break or a hard one.\<close>

lemma qp_inv_soft: "qp_inv s w \<Longrightarrow> qp_inv s (insertSoftLineBreak w)"
proof -
  assume "qp_inv s w"
  then obtain ts us ls where w: "\<not> qp_cr w" "length (qp_line w) \<le> 75" "qp_out w = texts ts" "qp_line w = texts us" "means (ts @ us) = s"
    "Lit CHR ''='' \<notin> set ts" "list_all in_line us" "texts ts = concat (map (\<lambda>l. l @ [LF]) ls)" "\<forall>l\<in>set ls. LF \<notin> set l \<and> length l \<le> 77"
    by (rule qp_invE)
  show ?thesis
    by (rule qp_invI [where ts = "ts @ us @ [Soft]" and us = "[]" and ls = "ls @ [texts us @ ''='' @ [CR]]"])
      (use w line_free [OF w(7)] in_line_plain [OF w(7)] in \<open>auto simp: insertSoftLineBreak_def insertCRLF_def crlf_def\<close>)
qed

lemma qp_inv_hard: "qp_inv s w \<Longrightarrow> qp_inv (s @ crlf) (insertCRLF w)"
proof -
  assume "qp_inv s w"
  then obtain ts us ls where w: "\<not> qp_cr w" "length (qp_line w) \<le> 75" "qp_out w = texts ts" "qp_line w = texts us" "means (ts @ us) = s"
    "Lit CHR ''='' \<notin> set ts" "list_all in_line us" "texts ts = concat (map (\<lambda>l. l @ [LF]) ls)" "\<forall>l\<in>set ls. LF \<notin> set l \<and> length l \<le> 77"
    by (rule qp_invE)
  show ?thesis
    by (rule qp_invI [where ts = "ts @ us @ [Lit CR, Lit LF]" and us = "[]" and ls = "ls @ [texts us @ [CR]]"])
      (use w line_free [OF w(7)] in_line_plain [OF w(7)] in \<open>auto simp: insertCRLF_def crlf_def\<close>)
qed

lemma qp_inv_put:
  assumes "qp_inv s w" and "in_line t" and "length (qp_line w) + length (tok_text t) \<le> 75"
  shows "qp_inv (s @ tok_mean t) (w\<lparr>qp_line := qp_line w @ tok_text t\<rparr>)"
proof -
  obtain ts us ls where w: "\<not> qp_cr w" "length (qp_line w) \<le> 75" "qp_out w = texts ts" "qp_line w = texts us" "means (ts @ us) = s"
    "Lit CHR ''='' \<notin> set ts" "list_all in_line us" "texts ts = concat (map (\<lambda>l. l @ [LF]) ls)" "\<forall>l\<in>set ls. LF \<notin> set l \<and> length l \<le> 77"
    using assms(1) unfolding qp_inv_def by blast
  show ?thesis
    by (rule qp_invI [where ts = ts and us = "us @ [t]" and ls = ls]) (use w assms(2,3) in auto)
qed

lemma qp_inv_encode: "qp_inv s w \<Longrightarrow> qp_inv (s @ [b]) (qp_encode b w)"
proof -
  assume w: "qp_inv s w"
  let ?w = "if lineMaxLen - 1 - length (qp_line w) < 3 then insertSoftLineBreak w else w"
  have "qp_inv s ?w" using w qp_inv_soft by auto
  moreover have "length (qp_line ?w) + 3 \<le> 75" by (auto simp: lineMaxLen_def insertSoftLineBreak_def insertCRLF_def)
  ultimately have "qp_inv (s @ tok_mean (Hex b)) (?w\<lparr>qp_line := qp_line ?w @ tok_text (Hex b)\<rparr>)"
    by (intro qp_inv_put) (simp_all add: in_line_def hex_byte_def)
  then show ?thesis by (simp add: qp_encode_def Let_def)
qed

lemma qp_inv_last: "qp_inv s w \<Longrightarrow> qp_inv s (checkLastByte w)"
proof -
  assume "qp_inv s w"
  then obtain ts us ls where w: "\<not> qp_cr w" "length (qp_line w) \<le> 75" "qp_out w = texts ts" "qp_line w = texts us" "means (ts @ us) = s"
    "Lit CHR ''='' \<notin> set ts" "list_all in_line us" "texts ts = concat (map (\<lambda>l. l @ [LF]) ls)" "\<forall>l\<in>set ls. LF \<notin> set l \<and> length l \<le> 77"
    by (rule qp_invE)
  show ?thesis
  proof (cases "qp_line w \<noteq> [] \<and> isWhitespace (last (qp_line w))")
    case True
    from True w(4) obtain us' t where us: "us = us' @ [t]" by (cases us rule: rev_cases) auto
    obtain b where t: "t = Lit b"
      using True w(4,7) by (cases t) (auto simp: us in_line_def hex_byte_free last_append)
    have line: "qp_line w = texts us' @ [b]" using w(4) by (simp add: us t)
    have "qp_inv (means (ts @ us')) (w\<lparr>qp_line := butlast (qp_line w)\<rparr>)"
      by (rule qp_invI [where ts = ts and us = us' and ls = ls]) (use w in \<open>simp_all add: us t\<close>)
    from qp_inv_encode [OF this, of b] w(5) show ?thesis
      using True by (simp add: checkLastByte_def us t line)
  qed (use \<open>qp_inv s w\<close> in \<open>auto simp: checkLastByte_def\<close>)
qed

lemma qp_inv_step:
  assumes "qp_inv s w" and "b \<noteq> CR"
  shows "qp_inv (s @ mail_lines [b]) (qp_step b w)"
proof -
  have cr: "\<not> qp_cr w" using assms(1) by (simp add: qp_inv_def)
  consider (other) "\<not> qp_plain b" | (break) "b = LF" | (plain) "qp_plain b" "b \<noteq> LF" by blast
  then show ?thesis
  proof cases
    case other
    then have "b \<noteq> LF" by (auto simp: qp_plain_def)
    with other show ?thesis using qp_inv_encode [OF assms(1)] by (simp add: qp_step_def mail_lines_def)
  next
    case break
    then show ?thesis using qp_inv_hard [OF qp_inv_last [OF assms(1)]] cr
      by (simp add: qp_step_def qp_plain_def qp_write_def mail_lines_def Let_def)
  next
    case plain
    let ?w = "if length (qp_line w) = lineMaxLen - 1 then insertSoftLineBreak w else w"
    have w: "qp_inv s ?w" using assms(1) qp_inv_soft by auto
    have "length (qp_line w) \<le> 75" using assms(1) by (simp add: qp_inv_def)
    then have "length (qp_line ?w) + 1 \<le> 75" by (auto simp: lineMaxLen_def insertSoftLineBreak_def insertCRLF_def)
    then have "qp_inv (s @ tok_mean (Lit b)) (?w\<lparr>qp_line := qp_line ?w @ tok_text (Lit b)\<rparr>)"
      using w plain assms(2) by (intro qp_inv_put) (auto simp: in_line_def qp_plain_def isWhitespace_def)
    moreover have "?w\<lparr>qp_line := qp_line ?w @ [b], qp_cr := False\<rparr> = ?w\<lparr>qp_line := qp_line ?w @ [b]\<rparr>"
      using cr by (simp add: insertSoftLineBreak_def insertCRLF_def)
    ultimately show ?thesis using plain assms(2) by (simp add: qp_step_def qp_write_def mail_lines_def Let_def)
  qed
qed

lemma qp_inv_fold: "CR \<notin> set body \<Longrightarrow> qp_inv s w \<Longrightarrow> qp_inv (s @ mail_lines body) (fold qp_step body w)"
proof (induction body arbitrary: s w)
  case (Cons b body)
  then have "qp_inv (s @ mail_lines [b]) (qp_step b w)" by (intro qp_inv_step) auto
  from Cons.IH [OF _ this] Cons.prems show ?case by (simp add: mail_lines_def)
qed (simp add: mail_lines_def)

lemma quoted_inv: "CR \<notin> set body \<Longrightarrow>
  qp_inv (mail_lines body) (checkLastByte (fold qp_step body \<lparr>qp_out = [], qp_line = [], qp_cr = False\<rparr>))"
proof -
  have "qp_inv [] \<lparr>qp_out = [], qp_line = [], qp_cr = False\<rparr>"
    by (rule qp_invI [where ts = "[]" and us = "[]" and ls = "[]"]) simp_all
  then show "CR \<notin> set body \<Longrightarrow> ?thesis" using qp_inv_last qp_inv_fold by fastforce
qed

lemma quoted_decodes: "CR \<notin> set body \<Longrightarrow> qp_decode (quotedBody body) = Some (mail_lines body)"
proof -
  assume "CR \<notin> set body"
  from quoted_inv [OF this] show ?thesis
  proof (rule qp_invE)
    let ?w = "checkLastByte (fold qp_step body \<lparr>qp_out = [], qp_line = [], qp_cr = False\<rparr>)"
    fix ts us
    assume w: "qp_out ?w = texts ts" "qp_line ?w = texts us" "means (ts @ us) = mail_lines body"
      and plain: "Lit CHR ''='' \<notin> set ts" "list_all in_line us"
    then have "Lit CHR ''='' \<notin> set (ts @ us)" using in_line_plain by auto
    from decode_texts [OF this] w show ?thesis by (simp add: quotedBody_def Let_def)
  qed
qed

lemma Split_lines: "\<forall>l\<in>set ls. LF \<notin> set l \<Longrightarrow> Split (concat (map (\<lambda>l. l @ [LF]) ls) @ s) LF = ls @ Split s LF"
  by (induction ls) (simp_all add: Split_once)

lemma quoted_lines: "CR \<notin> set body \<Longrightarrow> l \<in> set (Split (quotedBody body) LF) \<Longrightarrow> length l \<le> 77"
proof -
  assume "CR \<notin> set body"
  from quoted_inv [OF this] obtain us ls line where out: "quotedBody body = concat (map (\<lambda>l. l @ [LF]) ls) @ line"
    and line: "line = texts us" "list_all in_line us" "length line \<le> 75" and ls: "\<forall>l\<in>set ls. LF \<notin> set l \<and> length l \<le> 77"
    unfolding qp_inv_def quotedBody_def Let_def by fastforce
  assume "l \<in> set (Split (quotedBody body) LF)"
  then show ?thesis using out ls line Split_plain [of LF line] line_free [of us] by (auto simp: Split_lines)
qed

section \<open>Fields and parts\<close>

definition write_fields :: "(string \<times> string) list \<Rightarrow> string" where
  "write_fields hs = concat (map (\<lambda>(k, v). k @ '': '' @ v @ crlf) hs)"

text \<open>\<open>CreatePart\<close> prints the fields of a part in the order of their names; \<open>Close\<close> ends the last one.\<close>

definition CreatePart :: "string \<Rightarrow> bool \<Rightarrow> (string \<times> string) list \<Rightarrow> string" where
  "CreatePart boundary first hs =
     (if first then [] else crlf) @ ''--'' @ boundary @ crlf @ write_fields hs @ crlf"

definition close_parts :: "string \<Rightarrow> string" where
  "close_parts boundary = crlf @ ''--'' @ boundary @ ''--'' @ crlf"

definition part_fields :: "string \<Rightarrow> (string \<times> string) list" where
  "part_fields kind = [(''Content-Transfer-Encoding'', ''quoted-printable''), (''Content-Type'', kind @ ''; charset=utf-8'')]"

definition multipart_body :: "string \<Rightarrow> string \<Rightarrow> string \<Rightarrow> string" where
  "multipart_body boundary txt html =
     CreatePart boundary True (part_fields ''text/plain'') @ quotedBody txt
     @ CreatePart boundary False (part_fields ''text/html'') @ quotedBody html
     @ close_parts boundary"

text \<open>
  The reader: a field ends at a line break that no blank follows; the fields end at an empty line. Parts stand between the lines with the
  boundary, and the last of these ends with two hyphens.
\<close>

fun cut_field :: "string \<Rightarrow> string \<times> string" where
  "cut_field [] = ([], [])"
| "cut_field (c # s) =
     (if HasPrefix (c # s) crlf
      then (if tl s \<noteq> [] \<and> isWhitespace (hd (tl s)) then cut_field (tl s) else ([], tl s))
      else (case cut_field s of (f, r) \<Rightarrow> (c # f, r)))"

lemma cut_field_shorter: "s \<noteq> [] \<Longrightarrow> length (snd (cut_field s)) < length s"
proof (induction "length s" arbitrary: s rule: less_induct)
  case less
  then obtain c s' where s: "s = c # s'" by (cases s) auto
  have shorter: "length (snd (cut_field r)) \<le> length r" if "length r < length s" for r
    using less.hyps [OF that] by (cases "r = []") auto
  have "length (snd (cut_field s')) < length s" "length (snd (cut_field (tl s'))) < length s" "length (tl s') < length s"
    using shorter [of s'] shorter [of "tl s'"] by (simp_all add: s less_Suc_eq_le)
  then show ?case by (simp add: s case_prod_unfold)
qed

function read_fields :: "string \<Rightarrow> (string \<times> string) list \<times> string" where
  "read_fields s =
     (if s = [] then ([], [])
      else if HasPrefix s crlf then ([], drop 2 s)
      else (case cut_field s of (f, r) \<Rightarrow>
             (case Cut f '': '' of (k, v, _) \<Rightarrow> (case read_fields r of (hs, body) \<Rightarrow> ((k, v) # hs, body)))))"
  by pat_completeness auto
termination
  by (relation "measure length", simp) (metis cut_field_shorter in_measure snd_conv)

declare read_fields.simps [simp del]

text \<open>A value that may be folded once, and what is read for it.\<close>

definition field_ok :: "string \<times> string \<Rightarrow> bool" where
  "field_ok h \<longleftrightarrow> fst h \<noteq> [] \<and> CHR '':'' \<notin> set (fst h) \<and> CR \<notin> set (fst h) \<and> \<not> isWhitespace (hd (fst h))
     \<and> (CR \<notin> set (snd h) \<or> (\<exists>a b. snd h = a @ crlf @ '' '' @ b \<and> CR \<notin> set a \<and> CR \<notin> set b))"

definition unfolded :: "string \<times> string \<Rightarrow> string \<times> string" where
  "unfolded h = (fst h, fst (cut_field (snd h)))"

lemma cut_field_plain: "CR \<notin> set f \<Longrightarrow> cut_field (f @ s) = (case cut_field s of (g, r) \<Rightarrow> (f @ g, r))"
  by (induction f) (auto simp: crlf_def split: prod.splits)

lemma cut_field_end: "CR \<notin> set f \<Longrightarrow> \<not> (s \<noteq> [] \<and> isWhitespace (hd s)) \<Longrightarrow> cut_field (f @ crlf @ s) = (f, s)"
  by (subst cut_field_plain) (auto simp: crlf_def)

lemma cut_field_fold: "CR \<notin> set f \<Longrightarrow> cut_field (f @ crlf @ '' '' @ s) = (case cut_field ('' '' @ s) of (g, r) \<Rightarrow> (f @ g, r))"
  by (subst cut_field_plain) (auto simp: crlf_def isWhitespace_def)

lemma cut_field_absent: "CR \<notin> set f \<Longrightarrow> cut_field f = (f, [])"
  using cut_field_plain [of f "[]"] by simp

lemma field_ok_plain:
  "k \<noteq> [] \<Longrightarrow> CHR '':'' \<notin> set k \<Longrightarrow> CR \<notin> set k \<Longrightarrow> \<not> isWhitespace (hd k) \<Longrightarrow> CR \<notin> set v \<Longrightarrow> field_ok (k, v)"
  by (simp add: field_ok_def)

lemma unfolded_plain: "CR \<notin> set v \<Longrightarrow> unfolded (k, v) = (k, v)"
  by (simp add: unfolded_def cut_field_absent)

lemma cut_field_ok:
  assumes "field_ok (k, v)" and "\<not> (s \<noteq> [] \<and> isWhitespace (hd s))"
  shows "cut_field (k @ '': '' @ v @ crlf @ s) = (k @ '': '' @ snd (unfolded (k, v)), s)"
proof -
  have key: "CR \<notin> set (k @ '': '')" using assms(1) by (simp add: field_ok_def)
  show ?thesis
  proof (cases "CR \<in> set v")
    case False
    then show ?thesis using cut_field_end [of "k @ '': '' @ v" s] key assms(2) by (simp add: unfolded_def cut_field_absent)
  next
    case True
    with assms(1) obtain a b where v: "v = a @ crlf @ '' '' @ b" "CR \<notin> set a" "CR \<notin> set b" by (auto simp: field_ok_def)
    have "cut_field ((k @ '': '' @ a) @ crlf @ '' '' @ b @ crlf @ s) = (k @ '': '' @ a @ '' '' @ b, s)"
      using v key assms(2) cut_field_end [of "'' '' @ b" s] by (subst cut_field_fold) auto
    moreover have "cut_field v = (a @ '' '' @ b, [])"
      using v cut_field_absent [of "'' '' @ b"] by (simp only: v(1), subst cut_field_fold) auto
    ultimately show ?thesis by (simp add: unfolded_def v(1))
  qed
qed

lemma Cut_field: "CHR '':'' \<notin> set k \<Longrightarrow> Cut (k @ '': '' @ v) '': '' = (k, v, True)"
proof -
  have "CHR '':'' \<notin> set k \<Longrightarrow> Index (k @ '': '' @ v) '': '' = Some (length k)" by (induction k) auto
  then show "CHR '':'' \<notin> set k \<Longrightarrow> ?thesis" by (simp add: Cut_def)
qed

lemma read_fields_end: "read_fields (crlf @ body) = ([], body)"
  by (subst read_fields.simps) (simp add: crlf_def)

lemma read_fields_Cons:
  assumes "field_ok (k, v)" and "\<not> (s \<noteq> [] \<and> isWhitespace (hd s))"
  shows "read_fields (k @ '': '' @ v @ crlf @ s) = (case read_fields s of (hs, body) \<Rightarrow> (unfolded (k, v) # hs, body))"
proof -
  have "\<not> HasPrefix (k @ '': '' @ v @ crlf @ s) crlf" using assms(1) by (cases k) (auto simp: field_ok_def crlf_def)
  then show ?thesis
    using assms(1) Cut_field [of k "snd (unfolded (k, v))"] cut_field_ok [OF assms]
    by (subst read_fields.simps) (simp add: field_ok_def unfolded_def)
qed

lemma write_fields_simps [simp]:
  "write_fields [] = []" "write_fields ((k, v) # hs) = k @ '': '' @ v @ crlf @ write_fields hs"
  by (simp_all add: write_fields_def)

lemma read_write_fields: "list_all field_ok hs \<Longrightarrow> read_fields (write_fields hs @ crlf @ body) = (map unfolded hs, body)"
proof (induction hs)
  case (Cons h hs)
  obtain k v where h: "h = (k, v)" by fastforce
  have next_line: "\<not> (write_fields hs @ crlf @ body \<noteq> [] \<and> isWhitespace (hd (write_fields hs @ crlf @ body)))"
    using Cons.prems by (cases hs) (auto simp: crlf_def isWhitespace_def field_ok_def)
  have "field_ok (k, v)" using Cons.prems by (simp add: h)
  from read_fields_Cons [OF this next_line] Cons show ?case by (simp add: h)
qed (simp add: read_fields_end)

section \<open>Reading parts\<close>

definition read_part :: "string \<Rightarrow> (string \<times> string) list \<times> string option" where
  "read_part s = (case read_fields s of (hs, body) \<Rightarrow> (hs, qp_decode body))"

function read_rest :: "string \<Rightarrow> string \<Rightarrow> ((string \<times> string) list \<times> string option) list option" where
  "read_rest boundary s =
     (case Cut s (crlf @ ''--'' @ boundary) of
        (p, r, found) \<Rightarrow>
          if \<not> found then None
          else if HasPrefix r (''--'' @ crlf) then Some [read_part p]
          else if HasPrefix r crlf then map_option ((#) (read_part p)) (read_rest boundary (drop 2 r))
          else None)"
  by pat_completeness auto
termination
proof (relation "measure (\<lambda>(_, s). length s)")
  fix boundary s p r r' found
  assume "(p, r') = Cut s (crlf @ ''--'' @ boundary)" "(r, found) = r'" "\<not> \<not> found"
  then have "length r < length s" by (cases s) (auto simp: Cut_def crlf_def split: option.splits)
  then show "((boundary, drop 2 r), boundary, s) \<in> measure (\<lambda>(_, s). length s)" by simp
qed simp

declare read_rest.simps [simp del]

definition read_parts :: "string \<Rightarrow> string \<Rightarrow> ((string \<times> string) list \<times> string option) list option" where
  "read_parts boundary s =
     (case CutPrefix s (''--'' @ boundary @ crlf) of None \<Rightarrow> None | Some r \<Rightarrow> read_rest boundary r)"

text \<open>A separator whose first byte is nowhere else in it is found where it was put, if it is not in the text before.\<close>

lemma Index_sep:
  assumes "Index s (c # sep) = None" and "c \<notin> set sep"
  shows "Index (s @ (c # sep) @ t) (c # sep) = Some (length s)"
  using assms(1)
proof (induction s)
  case (Cons x s)
  have "HasPrefix (x # s) (c # sep)" if p: "HasPrefix (x # s @ (c # sep) @ t) (c # sep)"
  proof -
    from p obtain r where r: "s @ (c # sep) @ t = sep @ r" "x = c" by (auto simp: HasPrefix_iff)
    then have "length sep \<le> length s"
    proof (rule_tac ccontr)
      assume long: "\<not> length sep \<le> length s"
      then have "sep ! length s = c" using r(1) by (metis append_Cons nth_append nth_append_length not_le)
      then show False using long assms(2) by (auto simp: not_le in_set_conv_nth)
    qed
    moreover have "take (length sep) (s @ (c # sep) @ t) = sep" using r(1) by simp
    ultimately have "s = sep @ drop (length sep) s" by (metis append_take_drop_id diff_is_0_eq take0 take_append append_Nil2)
    with r(2) show ?thesis by (auto simp: HasPrefix_iff)
  qed
  with Cons show ?case by (auto split: if_splits)
qed simp

lemma Cut_sep: "Index s (c # sep) = None \<Longrightarrow> c \<notin> set sep \<Longrightarrow> Cut (s @ (c # sep) @ t) (c # sep) = (s, t, True)"
  using Index_sep [of s c sep t] by (simp add: Cut_def)

lemma part_fields_plain:
  assumes "kind \<in> {''text/plain'', ''text/html''}"
  shows "read_part (write_fields (part_fields kind) @ crlf @ body) = (part_fields kind, qp_decode body)"
proof -
  have "list_all field_ok (part_fields kind)" "map unfolded (part_fields kind) = part_fields kind"
    using assms by (auto simp: part_fields_def isWhitespace_def unfolded_plain intro!: field_ok_plain)
  then show ?thesis by (simp add: read_part_def read_write_fields)
qed

lemma Contains_iff: "Contains s sub \<longleftrightarrow> (\<exists>a b. s = a @ sub @ b)"
proof -
  have "Index s sub \<noteq> None \<longleftrightarrow> (\<exists>a b. s = a @ sub @ b)"
  proof (induction s)
    case (Cons c s)
    have "(\<exists>a b. c # s = a @ sub @ b) \<longleftrightarrow> HasPrefix (c # s) sub \<or> (\<exists>a b. s = a @ sub @ b)"
      by (auto simp: HasPrefix_iff Cons_eq_append_conv)
    with Cons show ?case by auto
  qed simp
  then show ?thesis by (simp add: Contains_def)
qed

text \<open>Where the boundary is not in an encoded body, the reader finds the end of its part.\<close>

lemma boundary_absent:
  assumes "\<not> Contains q (''--'' @ boundary)" and "kind \<in> {''text/plain'', ''text/html''}"
  shows "Index (write_fields (part_fields kind) @ crlf @ q) (crlf @ ''--'' @ boundary) = None"
proof -
  have "\<not> HasPrefix q (''--'' @ boundary)" using assms(1) unfolding Contains_iff HasPrefix_iff by (metis append_Nil)
  moreover have "Index q (crlf @ ''--'' @ boundary) = None"
  proof -
    have "Contains q (''--'' @ boundary)" if "q = a @ (crlf @ ''--'' @ boundary) @ b" for a b
      unfolding Contains_iff by (rule exI [of _ "a @ crlf"], rule exI [of _ b]) (simp add: that)
    with assms(1) have "\<not> Contains q (crlf @ ''--'' @ boundary)" using Contains_iff by blast
    then show ?thesis by (simp add: Contains_def)
  qed
  ultimately show ?thesis
    using assms(2) by (auto simp: part_fields_def crlf_def)
qed

lemma read_rest_part:
  assumes "CR \<notin> set boundary" and "\<not> Contains q (''--'' @ boundary)" and "kind \<in> {''text/plain'', ''text/html''}"
  shows "read_rest boundary (write_fields (part_fields kind) @ crlf @ q @ crlf @ ''--'' @ boundary @ r)
    = (if HasPrefix r (''--'' @ crlf) then Some [(part_fields kind, qp_decode q)]
       else if HasPrefix r crlf then map_option ((#) (part_fields kind, qp_decode q)) (read_rest boundary (drop 2 r)) else None)"
proof -
  have sep: "crlf @ ''--'' @ boundary = CR # LF # ''--'' @ boundary" by (simp add: crlf_def)
  have "Cut ((write_fields (part_fields kind) @ crlf @ q) @ (crlf @ ''--'' @ boundary) @ r) (crlf @ ''--'' @ boundary)
      = (write_fields (part_fields kind) @ crlf @ q, r, True)"
    using boundary_absent [OF assms(2,3)] assms(1) unfolding sep by (intro Cut_sep) auto
  then show ?thesis
    by (subst read_rest.simps) (simp add: part_fields_plain [OF assms(3)])
qed

lemma read_multipart:
  assumes "CR \<notin> set boundary" and "CR \<notin> set txt" "CR \<notin> set html"
    and "\<not> Contains (quotedBody txt) (''--'' @ boundary)" "\<not> Contains (quotedBody html) (''--'' @ boundary)"
  shows "read_parts boundary (multipart_body boundary txt html)
    = Some [(part_fields ''text/plain'', Some (mail_lines txt)), (part_fields ''text/html'', Some (mail_lines html))]"
proof -
  note part = read_rest_part [OF assms(1)]
  have second: "read_rest boundary (write_fields (part_fields ''text/html'') @ crlf @ quotedBody html @ close_parts boundary)
      = Some [(part_fields ''text/html'', Some (mail_lines html))]"
    using part [OF assms(5), of "''text/html''" "''--'' @ crlf"] assms(3) unfolding close_parts_def by (simp add: quoted_decodes) (simp add: crlf_def)
  let ?rest = "write_fields (part_fields ''text/html'') @ crlf @ quotedBody html @ close_parts boundary"
  have "read_rest boundary (write_fields (part_fields ''text/plain'') @ crlf @ quotedBody txt @ crlf @ ''--'' @ boundary @ crlf @ ?rest)
      = Some [(part_fields ''text/plain'', Some (mail_lines txt)), (part_fields ''text/html'', Some (mail_lines html))]"
    using part [OF assms(4), of "''text/plain''" "crlf @ ?rest"] second assms(2) by (simp add: quoted_decodes crlf_def)
  then show ?thesis
    unfolding read_parts_def multipart_body_def CreatePart_def by (simp add: CutPrefix_def HasPrefix_iff)
qed

end
