(* ===== verification/Smtp.thy ===== *)
theory Smtp
  imports Portal_Types Mime "HOL-Library.Multiset"
begin

text \<open>
  Delivery of a mail (\<open>sendEmail\<close>, \<open>smtpAuth\<close> and \<open>loginAuth\<close> of \<open>email.go\<close>): rendering, connecting,
  writing the message, authenticating and handing it over. What the templates render and what the network and the server answer is a
  record; the result is the error and the list of the commands sent, in order. The theorems
  show where credentials may travel, that an error is reported exactly when the message was
  not accepted, and that a reader finds in the message what was rendered.
\<close>

section \<open>Mechanisms\<close>

definition isLocalSMTPHost :: "string \<Rightarrow> bool" where
  "isLocalSMTPHost name \<longleftrightarrow> name = ''localhost'' \<or> name = ''127.0.0.1'' \<or> name = ''::1''"

datatype mechanism = PlainAuth string string string | LoginAuth string string string

text \<open>\<open>strings.Fields\<close> of the advertised list, which is ASCII.\<close>

fun fields_loop :: "string \<Rightarrow> string \<Rightarrow> string list" where
  "fields_loop [] w = (if w = [] then [] else [rev w])"
| "fields_loop (c # cs) w =
     (if code c \<in> {9, 10, 11, 12, 13, 32}
      then (if w = [] then fields_loop cs [] else rev w # fields_loop cs [])
      else fields_loop cs (c # w))"

definition Fields :: "string \<Rightarrow> string list" where
  "Fields s = fields_loop s []"

text \<open>What the server offers is left out of the last error.\<close>

definition smtpAuth :: "unicode \<Rightarrow> string \<Rightarrow> string \<Rightarrow> string \<Rightarrow> string \<Rightarrow> bool \<Rightarrow> mechanism result" where
  "smtpAuth U advertised username password host encrypted =
     (if \<not> encrypted \<and> \<not> isLocalSMTPHost host
      then Err (EText (''refusing to send SMTP credentials over an unencrypted connection to '' @ host
                  @ '': set email.smtp_tls to \"starttls\" or \"on\"''))
      else
        (let mechs = Fields (ToUpper U advertised)
         in if mechs = [] \<or> ''PLAIN'' \<in> set mechs then Ok (PlainAuth username password host)
            else if ''LOGIN'' \<in> set mechs then Ok (LoginAuth username password host)
            else Err (EText ''no SMTP AUTH mechanism in common: mokey supports PLAIN and LOGIN'')))"

text \<open>\<open>loginAuth.Start\<close> and \<open>loginAuth.Next\<close>. A prompt is recognised by its leading word: the characters
  before the first letter are dropped; those after the last one do not matter for the comparison.\<close>

definition Start :: "string \<Rightarrow> bool \<Rightarrow> string \<Rightarrow> string result" where
  "Start host tls name =
     (if \<not> tls \<and> \<not> isLocalSMTPHost name
      then Err (EText ''refusing to send SMTP credentials over an unencrypted connection'')
      else if name \<noteq> host then Err (EText ''wrong host name'')
      else Ok ''LOGIN'')"

function drop_nonletters :: "unicode \<Rightarrow> string \<Rightarrow> string" where
  "drop_nonletters U [] = []"
| "drop_nonletters U (c # cs) =
     (case decode_rune (map of_char (c # cs)) of
        (r, n) \<Rightarrow> if u_letter U r then c # cs else drop_nonletters U (drop (n - 1) cs))"
  by pat_completeness auto
termination
  by (relation "measure (\<lambda>(U, s). length s)") auto

definition Login_Next :: "unicode \<Rightarrow> string \<Rightarrow> string \<Rightarrow> string \<Rightarrow> bool \<Rightarrow> string option result" where
  "Login_Next U username password fromServer expect =
     (if \<not> expect then Ok None
      else
        (let prompt = ToLower U (drop_nonletters U fromServer)
         in if HasPrefix prompt ''user'' then Ok (Some username)
            else if HasPrefix prompt ''pass'' then Ok (Some password)
            else Err (EText ''unexpected SMTP LOGIN challenge'')))"

section \<open>Delivery\<close>

text \<open>
  The outside of a delivery: the templates of a language, the clock as a time and as printed for the header, the boundary \<open>multipart.NewWriter\<close> draws, the texts
  of translations, the order in which a Go map is traversed, and the answers of network and server.
\<close>

record smtp =
  sm_render :: "string option \<Rightarrow> string \<Rightarrow> vars \<Rightarrow> string result"
  sm_now :: time
  sm_date :: string
  sm_boundary :: string
  sm_say :: "msg \<Rightarrow> string"
  sm_order :: "(string \<times> string) list \<Rightarrow> (string \<times> string) list"
  sm_dial :: "bool \<Rightarrow> error option"
  sm_client :: "error option"
  sm_starttls :: "error option"
  sm_advertised :: string
  sm_auth :: "error option"
  sm_mail :: "error option"
  sm_rcpt :: "error option"
  sm_data :: "error option"
  sm_write :: "error option"
  sm_close :: "error option"
  sm_unicode :: unicode
  sm_quit :: "error option"

datatype smtp_cmd =
    Dial bool | StartTLS | Auth mechanism | MailFrom string | RcptTo string
  | Message string | Accepted | Quit | SlackMessage string msg

definition mail_subject :: "config \<Rightarrow> msg \<Rightarrow> msg" where
  "mail_subject cf subject =
     Cat (Tx (case subject_prefix (email cf) of
                None \<Rightarrow> ''['' @ site_name (site cf) @ ''] ''
              | Some p \<Rightarrow> p))
       (Cat subject (Tx (subject_suffix (email cf))))"

definition mail_data :: "config \<Rightarrow> time \<Rightarrow> mail \<Rightarrow> vars" where
  "mail_data cf now m =
     fold (\<lambda>(k, v). put_var k v)
       [(''os'', PStr (ml_os m)), (''browser'', PStr (ml_browser m)), (''user'', PUser (ml_user m)), (''date'', PTime now),
        (''contact'', PStr (email_from (email cf))), (''sig'', PStr (email_signature (email cf))),
        (''site_name'', PStr (site_name (site cf))), (''help_url'', PStr (help_url (site cf))),
        (''homepage'', PStr (site_homepage (site cf))), (''base_url'', PStr (ml_base m))]
       (ml_vars m)"

definition mail_header :: "config \<Rightarrow> smtp \<Rightarrow> mail \<Rightarrow> (string \<times> string) list" where
  "mail_header cf N m =
     [(''Mime-Version'', ''1.0''), (''Date'', sm_date N), (''To'', Email (ml_user m)),
      (''Subject'', sm_say N (mail_subject cf (ml_subject m))), (''From'', email_from (email cf)),
      (''Content-Type'', ''multipart/alternative;'' @ crlf @ '' boundary='' @ sm_boundary N)]"

text \<open>\<open>Mail\<close> and \<open>Rcpt\<close> of \<open>net/smtp\<close> refuse an address with a line break before they send anything.\<close>

definition validateLine :: "string \<Rightarrow> error option" where
  "validateLine s =
     (if CR \<in> set s \<or> LF \<in> set s then Some (EText ''smtp: A line must not contain CR or LF'') else None)"

text \<open>
  The copy to Slack, after the mail was accepted; whether Slack takes it is only logged. \<open>said\<close> prints a
  variable with \<open>%s\<close>; the variables of the messages are strings and texts.
\<close>

fun said :: "pvar option \<Rightarrow> msg" where
  "said (Some (PStr s)) = Tx s"
| "said (Some (PText t)) = t"
| "said _ = Tx ''%!s(<nil>)''"

definition slackMessageFor :: "config \<Rightarrow> string \<Rightarrow> msg \<Rightarrow> vars \<Rightarrow> user \<Rightarrow> msg" where
  "slackMessageFor cf tmpl subject vs u =
     (let name = site_name (site cf); home = site_homepage (site cf); nl = [CHR 0x0A]; stars = ''****************'';
          notice = Cat (Tx (''Notification from '' @ name @ '': '')) subject
      in if tmpl = ''password-reset'' then
           Cat (Tx (''['' @ name @ ''] (<'' @ home @ ''|'' @ name @ ''>)'' @ nl @ nl @ stars @ nl @ ''Hi '' @ First u @ '','' @ nl @ stars @ nl @ nl
             @ ''You recently requested to reset your password for your ['' @ name
             @ ''] account. Use the link below to reset it. This password reset is only valid for the next ''))
           (Cat (said (map_of vs ''link_expires''))
           (Cat (Tx (''.'' @ nl @ nl @ ''Reset your password: <''))
           (Cat (said (map_of vs ''link'')) (Tx (''|Reset Link>'' @ nl)))))
         else if tmpl = ''account-updated'' then Tx ''Your password has been reset successfully.''
         else if tmpl = ''password-elsewhere'' then Cat notice (Cat (Tx (nl @ nl)) (said (map_of vs ''reason'')))
         else if tmpl = ''username-reminder'' then
           Cat notice (Tx (nl @ nl @ join_sep nl (case map_of vs ''usernames'' of Some (PStrs us) \<Rightarrow> us | _ \<Rightarrow> [])))
         else notice)"

text \<open>\<open>slack.go\<close>: the notifier holds the token; a message goes to the Slack user with the address of the mail.\<close>

definition NewSlackNotifier :: "config \<Rightarrow> string option" where
  "NewSlackNotifier cf = (if slack_token cf = [] then None else Some (slack_token cf))"

record slack_client =
  sl_GetUserByEmail :: "string \<Rightarrow> string result"
  sl_PostMessage :: "string \<Rightarrow> msg \<Rightarrow> (string \<times> string) result"

definition SendSlackMessage :: "slack_client \<Rightarrow> string \<Rightarrow> msg \<Rightarrow> error option" where
  "SendSlackMessage S eaddr message =
     (case sl_GetUserByEmail S eaddr of
        Err e \<Rightarrow> Some e
      | Ok u \<Rightarrow> (case sl_PostMessage S u message of Err e \<Rightarrow> Some e | Ok _ \<Rightarrow> None))"

definition slack_copy :: "config \<Rightarrow> mail \<Rightarrow> smtp_cmd list" where
  "slack_copy cf m =
     (if NewSlackNotifier cf = None then []
      else [SlackMessage (Email (ml_user m))
              (slackMessageFor cf (ml_template m) (ml_subject m) (ml_vars m) (ml_user m))])"

text \<open>From the authenticated connection on; \<open>body\<close> is the body with its parts.\<close>

definition hand_over :: "config \<Rightarrow> smtp \<Rightarrow> mail \<Rightarrow> string \<Rightarrow> error option \<times> smtp_cmd list" where
  "hand_over cf N m body =
     (let c1 = [MailFrom (email_from (email cf))]; c2 = c1 @ [RcptTo (Email (ml_user m))];
          c3 = c2 @ [Message (write_fields (sm_order N (mail_header cf N m)) @ crlf @ body)]
      in case validateLine (email_from (email cf)) of Some e \<Rightarrow> (Some e, []) | None \<Rightarrow>
        (case sm_mail N of Some e \<Rightarrow> (Some e, c1) | None \<Rightarrow>
        (case validateLine (Email (ml_user m)) of Some e \<Rightarrow> (Some e, c1) | None \<Rightarrow>
        (case sm_rcpt N of Some e \<Rightarrow> (Some e, c2) | None \<Rightarrow>
        (case sm_data N of Some e \<Rightarrow> (Some e, c2) | None \<Rightarrow>
        (case sm_write N of Some e \<Rightarrow> (Some e, c3) | None \<Rightarrow>
        (case sm_close N of Some e \<Rightarrow> (Some e, c3) | None \<Rightarrow>
           (None, c3 @ [Accepted, Quit] @ slack_copy cf m))))))))"

definition authenticate :: "config \<Rightarrow> smtp \<Rightarrow> bool \<Rightarrow> mail \<Rightarrow> string \<Rightarrow> error option \<times> smtp_cmd list" where
  "authenticate cf N encrypted m body =
     (let username = smtp_username (email cf); password = smtp_password (email cf)
      in if username \<noteq> [] \<and> password \<noteq> [] then
           (case smtpAuth (sm_unicode N) (sm_advertised N) username password (smtp_host (email cf)) encrypted of
              Err e \<Rightarrow> (Some e, [])
            | Ok a \<Rightarrow>
                (case sm_auth N of
                   Some e \<Rightarrow> (Some e, [Auth a])
                 | None \<Rightarrow> (case hand_over cf N m body of (e, cs) \<Rightarrow> (e, Auth a # cs))))
         else hand_over cf N m body)"

definition sendEmail :: "config \<Rightarrow> smtp \<Rightarrow> mail \<Rightarrow> error option \<times> smtp_cmd list" where
  "sendEmail cf N m =
     (let tlsMode = smtp_tls (email cf); direct = (tlsMode = ''on''); vs = mail_data cf (sm_now N) m
      in case sm_render N (ml_lang m) (ml_template m @ ''.txt'') vs of Err e \<Rightarrow> (Some e, []) | Ok txt \<Rightarrow>
        (case sm_render N (ml_lang m) (ml_template m @ ''.html'') vs of Err e \<Rightarrow> (Some e, []) | Ok html \<Rightarrow>
          if tlsMode \<noteq> ''on'' \<and> tlsMode \<noteq> ''off'' \<and> tlsMode \<noteq> ''starttls''
          then (Some (EText (''invalid config value for smtp_tls: '' @ tlsMode)), [])
          else
            (case sm_dial N direct of Some e \<Rightarrow> (Some e, [Dial direct]) | None \<Rightarrow>
            (case sm_client N of Some e \<Rightarrow> (Some e, [Dial direct]) | None \<Rightarrow>
              if tlsMode = ''starttls'' then
                (case sm_starttls N of
                   Some e \<Rightarrow> (Some e, [Dial direct, StartTLS])
                 | None \<Rightarrow> (case authenticate cf N True m (multipart_body (sm_boundary N) txt html) of (e, cs) \<Rightarrow> (e, Dial direct # StartTLS # cs)))
              else (case authenticate cf N direct m (multipart_body (sm_boundary N) txt html) of (e, cs) \<Rightarrow> (e, Dial direct # cs))))))"

section \<open>Properties\<close>

lemma hand_over_no_auth: "Auth a \<notin> set (snd (hand_over cf N m body))"
  by (auto simp: hand_over_def slack_copy_def NewSlackNotifier_def Let_def split: option.splits)

lemma authenticate_auth:
  "Auth a \<in> set (snd (authenticate cf N enc m body)) \<Longrightarrow> enc \<or> isLocalSMTPHost (smtp_host (email cf))"
  using hand_over_no_auth [of a cf N m body]
  by (auto simp: authenticate_def smtpAuth_def Let_def split: sum.splits option.splits if_splits prod.splits)

text \<open>
  C38. Credentials stay on encrypted connections. Whatever the server answers and advertises, the SMTP
  user name and password are sent only on a connection opened with TLS, after a successful
  STARTTLS, or to the local host.
\<close>

theorem smtp_credentials_protected:
  assumes "snd (sendEmail cf N m) = before @ Auth a # rest"
  shows "Dial True \<in> set before \<or> (StartTLS \<in> set before \<and> sm_starttls N = None)
    \<or> isLocalSMTPHost (smtp_host (email cf))"
proof -
  have auth: "enc \<or> isLocalSMTPHost (smtp_host (email cf))"
    if "authenticate cf N enc m body = (e, xs @ Auth a # rest)" for enc body e xs
    using authenticate_auth [of a cf N enc m body] that by simp
  show ?thesis
    using assms
    by (auto simp: sendEmail_def Let_def Cons_eq_append_conv split: option.splits sum.splits if_splits prod.splits
        dest: auth)
qed

text \<open>
  Delivery errors. Sending reports success exactly when the server accepted the message after
  its end was sent; a failing goodbye after that is no error.
\<close>

theorem smtp_reports_rejection: "fst (sendEmail cf N m) = None \<longleftrightarrow> Accepted \<in> set (snd (sendEmail cf N m))"
proof -
  have h: "fst (hand_over cf N m body) = None \<longleftrightarrow> Accepted \<in> set (snd (hand_over cf N m body))" for body
    by (simp add: hand_over_def slack_copy_def NewSlackNotifier_def Let_def split: option.splits)
  have a: "fst (authenticate cf N enc m body) = None \<longleftrightarrow> Accepted \<in> set (snd (authenticate cf N enc m body))" for enc body
    using h by (simp add: authenticate_def Let_def case_prod_unfold split: sum.splits option.splits)
  show ?thesis
    using a by (simp add: sendEmail_def Let_def case_prod_unfold split: option.splits sum.splits)
qed

text \<open>Slack hears only of mails that were accepted, and at the address they went to.\<close>

lemma slack_after_mail:
  assumes "SlackMessage a t \<in> set (snd (sendEmail cf N m))"
  shows "fst (sendEmail cf N m) = None \<and> slack_token cf \<noteq> [] \<and> a = Email (ml_user m)"
proof -
  let ?ok = "\<lambda>r. SlackMessage a t \<in> set (snd r) \<longrightarrow> fst r = None \<and> slack_token cf \<noteq> [] \<and> a = Email (ml_user m)"
  have h: "?ok (hand_over cf N m body)" for body
    by (simp add: hand_over_def slack_copy_def NewSlackNotifier_def Let_def split: option.split)
  have "?ok (authenticate cf N enc m body)" for enc body
    using h by (simp add: authenticate_def Let_def case_prod_unfold split: option.split sum.split)
  then have "?ok (sendEmail cf N m)"
    by (simp add: sendEmail_def Let_def case_prod_unfold split: option.split sum.split)
  with assms show ?thesis by blast
qed

section \<open>What is sent\<close>

lemma validateLine_None: "validateLine s = None \<longleftrightarrow> CR \<notin> set s \<and> LF \<notin> set s"
  by (simp add: validateLine_def)

lemma hand_over_message:
  assumes "Message t \<in> set (snd (hand_over cf N m body))"
  shows "t = write_fields (sm_order N (mail_header cf N m)) @ crlf @ body
    \<and> validateLine (email_from (email cf)) = None \<and> validateLine (Email (ml_user m)) = None"
  using assms by (auto simp: hand_over_def slack_copy_def NewSlackNotifier_def Let_def split: option.splits if_splits)

lemma sendEmail_message:
  assumes "Message t \<in> set (snd (sendEmail cf N m))"
    and "sm_render N (ml_lang m) (ml_template m @ ''.txt'') (mail_data cf (sm_now N) m) = Ok txt"
    and "sm_render N (ml_lang m) (ml_template m @ ''.html'') (mail_data cf (sm_now N) m) = Ok html"
  shows "t = write_fields (sm_order N (mail_header cf N m)) @ crlf @ multipart_body (sm_boundary N) txt html
    \<and> validateLine (email_from (email cf)) = None \<and> validateLine (Email (ml_user m)) = None"
proof -
  have "Message t \<in> set (snd (hand_over cf N m body))" if "Message t \<in> set (snd (authenticate cf N enc m body))" for enc body
    using that by (auto simp: authenticate_def Let_def case_prod_unfold split: sum.splits option.splits if_splits)
  with assms have "Message t \<in> set (snd (hand_over cf N m (multipart_body (sm_boundary N) txt html)))"
    by (auto simp: sendEmail_def Let_def case_prod_unfold split: option.splits if_splits)
  then show ?thesis by (rule hand_over_message)
qed

definition header_read :: "config \<Rightarrow> smtp \<Rightarrow> mail \<Rightarrow> (string \<times> string) list" where
  "header_read cf N m =
     [(''Mime-Version'', ''1.0''), (''Date'', sm_date N), (''To'', Email (ml_user m)),
      (''Subject'', sm_say N (mail_subject cf (ml_subject m))), (''From'', email_from (email cf)),
      (''Content-Type'', ''multipart/alternative; boundary='' @ sm_boundary N)]"

lemma header_reads:
  assumes "CR \<notin> set (sm_date N)" "CR \<notin> set (Email (ml_user m))" "CR \<notin> set (sm_say N (mail_subject cf (ml_subject m)))"
    "CR \<notin> set (email_from (email cf))" "CR \<notin> set (sm_boundary N)"
  shows "list_all field_ok (mail_header cf N m) \<and> map unfolded (mail_header cf N m) = header_read cf N m"
proof -
  let ?type = "''multipart/alternative;'' @ crlf @ '' '' @ (''boundary='' @ sm_boundary N)"
  have "field_ok (''Content-Type'', ?type)"
    unfolding field_ok_def fst_conv snd_conv
    by (intro conjI disjI2 exI [of _ "''multipart/alternative;''"] exI [of _ "''boundary='' @ sm_boundary N"])
      (use assms(5) in \<open>simp_all add: isWhitespace_def\<close>)
  moreover have "unfolded (''Content-Type'', ?type) = (''Content-Type'', ''multipart/alternative; boundary='' @ sm_boundary N)"
    using cut_field_fold [of "''multipart/alternative;''" "''boundary='' @ sm_boundary N"]
      cut_field_absent [of "'' boundary='' @ sm_boundary N"] assms(5) by (simp add: unfolded_def)
  ultimately show ?thesis
    using assms by (simp add: mail_header_def header_read_def isWhitespace_def unfolded_plain field_ok_plain)
qed

text \<open>
  C35. A mail arrives as it was rendered. Whatever order the header is written in, a reader of a message that was sent finds the six fields of the header, recipient and
  sender among them, and the two texts the templates gave, with the line breaks of a mail. Nothing in a field or a text adds a field or a part:
  addresses with line breaks are not sent, and the boundary is one that does not occur in the texts. A subject must not hold a line break.
\<close>

theorem mail_round_trip:
  assumes "Message t \<in> set (snd (sendEmail cf N m))"
    and "sm_render N (ml_lang m) (ml_template m @ ''.txt'') (mail_data cf (sm_now N) m) = Ok txt"
    and "sm_render N (ml_lang m) (ml_template m @ ''.html'') (mail_data cf (sm_now N) m) = Ok html"
    and "CR \<notin> set txt" "CR \<notin> set html"
    and "mset (sm_order N (mail_header cf N m)) = mset (mail_header cf N m)"
    and "validateLine (sm_say N (mail_subject cf (ml_subject m))) = None" "validateLine (sm_date N) = None" "validateLine (sm_boundary N) = None"
    and "\<not> Contains (quotedBody txt) (''--'' @ sm_boundary N)" "\<not> Contains (quotedBody html) (''--'' @ sm_boundary N)"
  shows "\<exists>hs body. read_fields t = (hs, body) \<and> mset hs = mset (header_read cf N m)
    \<and> read_parts (sm_boundary N) body
      = Some [(part_fields ''text/plain'', Some (mail_lines txt)), (part_fields ''text/html'', Some (mail_lines html))]"
proof -
  note sent = sendEmail_message [OF assms(1-3)]
  have free: "CR \<notin> set (sm_boundary N)" using assms(9) by (simp add: validateLine_None)
  have ok: "list_all field_ok (mail_header cf N m)" "map unfolded (mail_header cf N m) = header_read cf N m"
    using header_reads [of N m cf] sent assms(7-9) by (simp_all add: validateLine_None)
  have "list_all field_ok (sm_order N (mail_header cf N m))"
    using ok(1) arg_cong [OF assms(6), of set_mset] by (simp add: list_all_iff)
  then have "read_fields t = (map unfolded (sm_order N (mail_header cf N m)), multipart_body (sm_boundary N) txt html)"
    using sent by (simp add: read_write_fields)
  moreover have "mset (map unfolded (sm_order N (mail_header cf N m))) = mset (header_read cf N m)"
    using assms(6) ok(2) by (metis mset_map)
  ultimately show ?thesis using read_multipart [OF free assms(4,5,10,11)] by blast
qed

text \<open>
  Lines fit. No line of an encoded text is longer than 76 bytes before its line break (77 with the carriage return), however long the lines of the text are.
\<close>

theorem mail_lines_fit:
  assumes "CR \<notin> set body" and "l \<in> set (Split (quotedBody body) LF)"
  shows "length l \<le> 77"
  by (rule quoted_lines [OF assms])

section \<open>Witness\<close>

definition demo_smtp :: smtp where
  "demo_smtp = \<lparr>sm_render = \<lambda>_ t _. Ok t, sm_now = 0, sm_date = ''Thu, 01 Jan 1970 00:00:00 +0000'', sm_boundary = ''b'',
     sm_say = \<lambda>_. ''Hi'', sm_order = rev, sm_dial = \<lambda>_. None, sm_client = None, sm_starttls = None,
     sm_advertised = ''PLAIN'', sm_auth = None, sm_mail = None, sm_rcpt = None, sm_data = None,
     sm_write = None, sm_close = None, sm_unicode = plain_unicode, sm_quit = None\<rparr>"

definition demo_mail :: mail where
  "demo_mail = \<lparr>ml_user = empty_user\<lparr>Email := ''ann@example.com''\<rparr>, ml_lang = None, ml_subject = Tx ''Hi'',
     ml_template = ''welcome'', ml_vars = [], ml_base = [], ml_os = [], ml_browser = []\<rparr>"

definition mail_config :: config where
  "mail_config = default_config\<lparr>email := (email default_config)\<lparr>smtp_tls := ''on'', smtp_username := ''u'',
     smtp_password := ''p''\<rparr>\<rparr>"

theorem smtp_credentials_protected_witness:
  "\<exists>before rest. snd (sendEmail mail_config demo_smtp demo_mail) = before @ Auth (PlainAuth ''u'' ''p'' ''localhost'') # rest
    \<and> (Dial True \<in> set before \<or> (StartTLS \<in> set before \<and> sm_starttls demo_smtp = None)
        \<or> isLocalSMTPHost (smtp_host (email mail_config)))"
proof -
  have "\<exists>rest. snd (sendEmail mail_config demo_smtp demo_mail)
      = [Dial True] @ Auth (PlainAuth ''u'' ''p'' ''localhost'') # rest"
    by (simp add: sendEmail_def authenticate_def hand_over_def smtpAuth_def mail_config_def default_config_def
        demo_smtp_def Let_def isLocalSMTPHost_def Fields_def ToUpper_def ascii_def upper_char_def is_lower_def validateLine_def case_prod_unfold)
  then obtain rest where r: "snd (sendEmail mail_config demo_smtp demo_mail)
      = [Dial True] @ Auth (PlainAuth ''u'' ''p'' ''localhost'') # rest" by blast
  from smtp_credentials_protected [OF r] r show ?thesis by blast
qed

theorem mail_lines_fit_witness: "length ''=3D'' \<le> 77"
proof -
  have "''=3D'' \<in> set (Split (quotedBody ''='') LF)" by code_simp
  with mail_lines_fit [of "''=''" "''=3D''"] show ?thesis by simp
qed

lemma demo_message:
  "Message (write_fields (rev (mail_header default_config demo_smtp demo_mail)) @ crlf @ multipart_body ''b'' ''welcome.txt'' ''welcome.html'')
    \<in> set (snd (sendEmail default_config demo_smtp demo_mail))"
  by (simp add: sendEmail_def authenticate_def hand_over_def default_config_def demo_smtp_def demo_mail_def Let_def validateLine_def case_prod_unfold)

theorem mail_round_trip_witness:
  "\<exists>t hs body. Message t \<in> set (snd (sendEmail default_config demo_smtp demo_mail)) \<and> read_fields t = (hs, body)
     \<and> (''To'', ''ann@example.com'') \<in> set hs
     \<and> read_parts ''b'' body = Some [(part_fields ''text/plain'', Some ''welcome.txt''), (part_fields ''text/html'', Some ''welcome.html'')]"
proof -
  have free: "\<not> Contains (quotedBody ''welcome.txt'') (''--'' @ ''b'')" "\<not> Contains (quotedBody ''welcome.html'') (''--'' @ ''b'')"
    by code_simp+
  have lines: "mail_lines ''welcome.txt'' = ''welcome.txt''" "mail_lines ''welcome.html'' = ''welcome.html''" by code_simp+
  have demo: "sm_boundary demo_smtp = ''b''" "ml_template demo_mail = ''welcome''" "sm_render demo_smtp l t vs = Ok t" "sm_order demo_smtp = rev"
    "validateLine (sm_say demo_smtp x) = None" "validateLine (sm_date demo_smtp) = None" for l t vs x
    by (simp_all add: demo_smtp_def demo_mail_def validateLine_def)
  have "\<exists>hs body. read_fields (write_fields (rev (mail_header default_config demo_smtp demo_mail)) @ crlf @ multipart_body ''b'' ''welcome.txt'' ''welcome.html'') = (hs, body)
    \<and> mset hs = mset (header_read default_config demo_smtp demo_mail) \<and> read_parts (sm_boundary demo_smtp) body
      = Some [(part_fields ''text/plain'', Some (mail_lines ''welcome.txt'')), (part_fields ''text/html'', Some (mail_lines ''welcome.html''))]"
    by (rule mail_round_trip [OF demo_message])
      (use free in \<open>simp_all add: demo, simp_all add: validateLine_def\<close>)
  then obtain hs body where "read_fields (write_fields (rev (mail_header default_config demo_smtp demo_mail)) @ crlf @ multipart_body ''b'' ''welcome.txt'' ''welcome.html'') = (hs, body)"
    and "mset hs = mset (header_read default_config demo_smtp demo_mail)"
    and "read_parts ''b'' body = Some [(part_fields ''text/plain'', Some ''welcome.txt''), (part_fields ''text/html'', Some ''welcome.html'')]"
    unfolding demo lines by blast
  moreover have "(''To'', ''ann@example.com'') \<in> set (header_read default_config demo_smtp demo_mail)"
    by (simp add: header_read_def demo_mail_def)
  ultimately show ?thesis using demo_message mset_eq_setD by blast
qed

end
