(* ===== verification/Phone.thy ===== *)
theory Phone
  imports Go_Strings
begin

text \<open>
  Phone numbers (\<open>phone.go\<close>): the two fields of the form are stored as one value and recovered from
  it for the next form. The main result is the round trip of everything \<open>joinPhone\<close> accepts. The
  table of countries comes from a library and is an argument of \<open>PhoneFlag\<close>.
\<close>

section \<open>Operations\<close>

definition digitsOnly :: "string \<Rightarrow> string" where
  "digitsOnly s = map char_of (filter (\<lambda>r. 48 \<le> r \<and> r \<le> 57) (runes s))"

definition isPhoneish :: "string \<Rightarrow> bool" where
  "isPhoneish s \<longleftrightarrow>
     list_all (\<lambda>r. (48 \<le> r \<and> r \<le> 57) \<or> r = 32 \<or> r = 45 \<or> r = 46 \<or> r = 40 \<or> r = 41) (runes s)
     \<and> list_ex (\<lambda>r. 48 \<le> r \<and> r \<le> 57) (runes s)"

definition isDigits :: "string \<Rightarrow> bool" where
  "isDigits s \<longleftrightarrow> (if s = [] then False else digitsOnly s = s)"

definition isE164 :: "string \<Rightarrow> bool" where
  "isE164 s =
     (case CutPrefix s ''+'' of
        None \<Rightarrow> False
      | Some d \<Rightarrow> length d \<ge> 2 \<and> length d \<le> 15 \<and> hd d \<noteq> CHR ''0'' \<and> isDigits d)"

definition compactPhone :: "string \<Rightarrow> string" where
  "compactPhone s = ''+'' @ digitsOnly s"

text \<open>The slice expressions are in range: \<open>splitCompact\<close> is called on numbers of two digits or more.\<close>

definition splitCompact :: "string \<Rightarrow> string \<times> string" where
  "splitCompact compact =
     (let digits = TrimPrefix compact ''+'' in (take 1 digits, drop 1 digits))"

definition splitPhone :: "string \<Rightarrow> string \<times> string" where
  "splitPhone s =
     (let stored = TrimSpace s
      in if \<not> HasPrefix stored ''+'' then ([], stored)
         else (case Cut (drop 1 stored) '' '' of
                 (cc, national, found) \<Rightarrow>
                   if \<not> found \<or> cc = [] \<or> \<not> isDigits cc then ([], stored)
                   else (cc, TrimSpace national)))"

definition joinPhone :: "string \<Rightarrow> string \<Rightarrow> string \<Rightarrow> string result" where
  "joinPhone lang cc0 national0 =
     (let cc = TrimPrefix (TrimSpace cc0) ''+''; national = TrimSpace national0
      in if national = [] then Ok []
         else if cc = [] then
           (if HasPrefix national ''+'' \<and> isPhoneish (drop 1 national) \<and> isE164 (compactPhone national)
            then (case splitCompact (compactPhone national) of (c, n) \<Rightarrow> Ok (''+'' @ c @ '' '' @ n))
            else Err (ETrans lang ''account.phone_needs_country_code'' []))
         else if \<not> isDigits cc \<or> length cc > 4
         then Err (ETrans lang ''account.phone_invalid_country_code'' [])
         else if \<not> isPhoneish national \<or> \<not> isE164 (''+'' @ cc @ digitsOnly national)
         then Err (ETrans lang ''account.phone_invalid'' [])
         else Ok (''+'' @ cc @ '' '' @ national))"

definition PhoneCode :: "string \<Rightarrow> string" where
  "PhoneCode stored = fst (splitPhone stored)"

definition PhoneNumber :: "string \<Rightarrow> string" where
  "PhoneNumber stored = snd (splitPhone stored)"

record PhoneCountry =
  pc_Name :: string
  pc_Alpha2 :: string
  pc_Code :: string
  pc_Flag :: string

definition primaryForSharedCode :: "(string \<times> string) list" where
  "primaryForSharedCode =
     [(''1'', ''US''), (''7'', ''RU''), (''47'', ''NO''), (''61'', ''AU''), (''64'', ''NZ''), (''212'', ''MA''),
      (''500'', ''FK''), (''590'', ''GP''), (''672'', ''NF'')]"

fun flag_loop :: "string \<Rightarrow> string \<Rightarrow> PhoneCountry list \<Rightarrow> string \<Rightarrow> string" where
  "flag_loop cc primary [] first = first"
| "flag_loop cc primary (c # cs) first =
     (if pc_Code c \<noteq> cc then flag_loop cc primary cs first
      else if pc_Alpha2 c = primary then pc_Flag c
      else flag_loop cc primary cs (if first = [] then pc_Flag c else first))"

definition PhoneFlag :: "PhoneCountry list \<Rightarrow> string \<Rightarrow> string" where
  "PhoneFlag phoneCountries cc =
     flag_loop cc (case map_of primaryForSharedCode cc of None \<Rightarrow> [] | Some p \<Rightarrow> p) phoneCountries []"

section \<open>Bytes and runes\<close>

definition phone_char :: "char \<Rightarrow> bool" where
  "phone_char c \<longleftrightarrow> is_digit c \<or> c \<in> {CHR '' '', CHR ''-'', CHR ''.'', CHR ''('', CHR '')''}"

lemma char_code: "code d = n \<Longrightarrow> c = d \<longleftrightarrow> code c = n"
  by auto

lemma digitsOnly_bytes: "digitsOnly s = filter is_digit s"
proof -
  have "filter (\<lambda>r. 48 \<le> r \<and> r \<le> 57) (runes s) = map of_char (filter is_digit s)"
    by (subst runes_filter) (auto simp: is_digit_def [abs_def])
  then show ?thesis by (simp add: digitsOnly_def o_def)
qed

lemma isPhoneish_bytes: "isPhoneish s \<longleftrightarrow> list_all phone_char s \<and> list_ex is_digit s"
proof (cases "ascii s")
  case True
  then have r: "runes s = map of_char s" by (rule runes_ascii)
  have p: "phone_char c \<longleftrightarrow> (48 \<le> code c \<and> code c \<le> 57) \<or> code c = 32 \<or> code c = 45 \<or> code c = 46
      \<or> code c = 40 \<or> code c = 41" for c
  proof -
    have eq: "c = CHR '' '' \<longleftrightarrow> code c = 32" "c = CHR ''-'' \<longleftrightarrow> code c = 45" "c = CHR ''.'' \<longleftrightarrow> code c = 46"
      "c = CHR ''('' \<longleftrightarrow> code c = 40" "c = CHR '')'' \<longleftrightarrow> code c = 41"
      by (rule char_code, simp)+
    show ?thesis by (simp add: phone_char_def is_digit_def eq)
  qed
  show ?thesis
    by (simp add: isPhoneish_def r list_all_iff list_ex_iff p is_digit_def)
next
  case False
  then have "\<not> list_all (\<lambda>r. r < 128) (runes s)" by (simp add: runes_narrow)
  then have "\<not> isPhoneish s" by (fastforce simp: isPhoneish_def list_all_iff)
  moreover from False have "\<not> list_all phone_char s"
    by (fastforce simp: ascii_def list_all_iff phone_char_def is_digit_def)
  ultimately show ?thesis by simp
qed

lemma isDigits_bytes: "isDigits s \<longleftrightarrow> s \<noteq> [] \<and> list_all is_digit s"
  by (simp add: isDigits_def digitsOnly_bytes filter_id_conv list_all_iff)

lemma isE164_bytes:
  "isE164 (CHR ''+'' # d) \<longleftrightarrow> 2 \<le> length d \<and> length d \<le> 15 \<and> hd d \<noteq> CHR ''0'' \<and> list_all is_digit d"
  by (auto simp: isE164_def CutPrefix_def isDigits_bytes)

lemma digits_phone: "list_all is_digit s \<Longrightarrow> list_all phone_char s"
  by (auto simp: list_all_iff phone_char_def)

lemma digits_phoneish: "list_all is_digit s \<Longrightarrow> s \<noteq> [] \<Longrightarrow> isPhoneish s"
  by (cases s) (auto simp: isPhoneish_bytes digits_phone phone_char_def)

section \<open>The round trip\<close>

lemma visible_digit: "is_digit c \<Longrightarrow> 32 < code c \<and> code c < 127"
  by (simp add: is_digit_def)

lemma phone_char_visible: "phone_char c \<Longrightarrow> c \<noteq> CHR '' '' \<Longrightarrow> 32 < code c \<and> code c < 127"
  by (auto simp: phone_char_def is_digit_def)

lemma trimmed_ends:
  assumes "trimmed s" "s \<noteq> []"
  shows "hd s \<noteq> CHR '' ''" "last s \<noteq> CHR '' ''"
proof -
  have sp: "[CHR '' ''] \<in> set space_encodings" 
  proof -
    have "code CHR '' '' = 32" by simp
    then have "char_of (32 :: nat) = CHR '' ''" by (metis char_of_char)
    then show ?thesis by (simp add: space_encodings_def)
  qed
  from assms(2) obtain a x where s: "s = a # x" by (cases s) auto
  from assms(2) obtain y b where s': "s = y @ [b]" by (cases s rule: rev_cases) auto
  show "hd s \<noteq> CHR '' ''" using assms(1) sp by (auto simp: trimmed_def s)
  show "last s \<noteq> CHR '' ''" using assms(1) sp by (auto simp: trimmed_def HasSuffix_def s')
qed

text \<open>A stored number: a dial code of digits and a trimmed national part.\<close>

definition stored_number_ok :: "string \<Rightarrow> string \<Rightarrow> bool" where
  "stored_number_ok cc n \<longleftrightarrow>
     cc \<noteq> [] \<and> list_all is_digit cc \<and> length cc \<le> 4 \<and> n \<noteq> [] \<and> trimmed n \<and> isPhoneish n
     \<and> isE164 (''+'' @ cc @ digitsOnly n)"

lemma split_stored:
  assumes "stored_number_ok cc n"
  shows "splitPhone (''+'' @ cc @ '' '' @ n) = (cc, n)"
proof -
  have n: "trimmed n" "n \<noteq> []" "list_all phone_char n" "list_all is_digit cc" "cc \<noteq> []"
    using assms by (auto simp: stored_number_ok_def isPhoneish_bytes)
  have "phone_char (last n)" using n(2,3) by (simp add: list_all_iff)
  with phone_char_visible trimmed_ends(2) [OF n(1,2)] have v: "32 < code (last n)" "code (last n) < 127"
    by blast+
  have t: "TrimSpace (''+'' @ cc @ '' '' @ n) = ''+'' @ cc @ '' '' @ n"
    by (rule trimmed_TrimSpace, rule trimmedI) (use v n(2) in simp_all)
  have sp: "CHR '' '' \<notin> set cc" using n(4) by (auto simp: list_all_iff is_digit_def)
  then show ?thesis
    using t n Cut_first [OF sp, of n]
    by (simp add: splitPhone_def Let_def isDigits_bytes trimmed_TrimSpace)
qed

lemma join_stored:
  assumes "stored_number_ok cc n"
  shows "joinPhone lang cc n = Ok (''+'' @ cc @ '' '' @ n)"
proof -
  have c: "cc \<noteq> []" "list_all is_digit cc" "length cc \<le> 4"
    and n: "n \<noteq> []" "trimmed n" "isPhoneish n" "isE164 (''+'' @ cc @ digitsOnly n)"
    using assms by (auto simp: stored_number_ok_def)
  have "trimmed cc"
    using c(1,2) by (intro trimmedI) (auto simp: list_all_iff dest: visible_digit)
  moreover have "TrimPrefix cc ''+'' = cc"
    using c(1,2) by (cases cc) (auto simp: TrimPrefix_def is_digit_def)
  ultimately show ?thesis
    using c n by (simp add: joinPhone_def Let_def trimmed_TrimSpace isDigits_bytes)
qed

lemma join_gives_stored:
  assumes "joinPhone lang c0 n0 = Ok s" "s \<noteq> []"
  obtains cc n where "stored_number_ok cc n" "s = ''+'' @ cc @ '' '' @ n"
proof -
  define cc n where "cc = TrimPrefix (TrimSpace c0) ''+''" and "n = TrimSpace n0"
  have n: "n \<noteq> []" "trimmed n"
    using assms TrimSpace_trimmed [of n0] by (auto simp: joinPhone_def Let_def n_def)
  show thesis
  proof (cases "cc = []")
    case False
    with assms n that [of cc n] show thesis
      by (auto simp: joinPhone_def Let_def cc_def n_def stored_number_ok_def isDigits_bytes split: if_splits)
  next
    case True
    define d where "d = filter is_digit n"
    have dg: "list_all is_digit d" by (simp add: d_def list_all_iff)
    have e: "isE164 (CHR ''+'' # d)" and s: "s = ''+'' @ take 1 d @ '' '' @ drop 1 d"
      using assms True n by (auto simp: joinPhone_def Let_def cc_def n_def compactPhone_def d_def
          digitsOnly_bytes splitCompact_def TrimPrefix_def split: if_splits)
    from e have len: "2 \<le> length d" "length d \<le> 15" "hd d \<noteq> CHR ''0''" by (auto simp: isE164_bytes)
    obtain x y r where d: "d = x # y # r"
      using len(1) by (metis One_nat_def Suc_1 Suc_le_length_iff)
    have "trimmed (y # r)"
      using dg by (intro trimmedI) (auto simp: d list_all_iff dest: visible_digit)
    with e dg have "stored_number_ok (take 1 d) (drop 1 d)"
      by (simp add: stored_number_ok_def d digits_phoneish digitsOnly_bytes filter_id_conv list_all_iff)
    with s that show thesis by blast
  qed
qed

text \<open>
  Phone round trip. Whatever \<open>joinPhone\<close> accepts as a number, \<open>splitPhone\<close> recovers two fields from
  the stored value that make up that value, and submitting them again unchanged stores the same
  value; the digits form an E.164 number of 2 to 15 digits that does not start with 0.
\<close>

theorem phone_round_trip:
  assumes "joinPhone lang code0 national0 = Ok s" and "s \<noteq> []"
  shows "case splitPhone s of (cc, n) \<Rightarrow>
    s = ''+'' @ cc @ '' '' @ n \<and> joinPhone lang' cc n = Ok s
    \<and> 2 \<le> length (filter is_digit s) \<and> length (filter is_digit s) \<le> 15
    \<and> hd (filter is_digit s) \<noteq> CHR ''0''"
proof -
  obtain cc n where ok: "stored_number_ok cc n" and s: "s = ''+'' @ cc @ '' '' @ n"
    using join_gives_stored [OF assms] by blast
  have "filter is_digit cc = cc"
    using ok by (simp add: stored_number_ok_def filter_id_conv list_all_iff)
  then have "filter is_digit s = cc @ digitsOnly n"
    by (simp add: s digitsOnly_bytes is_digit_def)
  with ok split_stored [OF ok] join_stored [OF ok] s show ?thesis
    by (auto simp: stored_number_ok_def isE164_bytes)
qed

text \<open>A value in another format, as the directory may hold, is shown whole as the national number.\<close>

theorem foreign_phone_shown:
  assumes "fst (splitPhone s) = []"
  shows "snd (splitPhone s) = TrimSpace s"
  using assms by (auto simp: splitPhone_def Let_def split: prod.splits if_splits)

theorem phone_round_trip_witness:
  "splitPhone ''+49 (30) 1234'' = (''49'', ''(30) 1234'')"
proof -
  have "stored_number_ok ''49'' ''(30) 1234''"
    by (auto simp: stored_number_ok_def is_digit_def isPhoneish_bytes phone_char_def isE164_bytes
        digitsOnly_bytes intro!: trimmedI)
  from join_stored [OF this, of "''en''"] have "joinPhone ''en'' ''49'' ''(30) 1234'' = Ok ''+49 (30) 1234''"
    by simp
  from phone_round_trip [OF this] split_stored [OF \<open>stored_number_ok _ _\<close>] show ?thesis by simp
qed

theorem foreign_phone_shown_witness: "snd (splitPhone ''555'') = TrimSpace ''555''"
  by (rule foreign_phone_shown)
    (simp add: splitPhone_def Let_def trimmed_TrimSpace trimmedI)

end
