(* ===== verification/Translations.thy ===== *)
theory Translations
  imports Go_Strings
begin

text \<open>
  Languages (\<open>translations.go\<close>): the lookup of a translated text with its fallbacks, and the choice of
  a language from an Accept-Language style list. The tables loaded from the translation files
  are arguments: \<open>tr lang key\<close> is a text, \<open>langs\<close> the offered languages with their tags, the default
  first. Weights are of any ordered type with 0 and 1; \<open>pf\<close> reads one from its decimal text.
\<close>

definition TL :: "unicode \<Rightarrow> (string \<Rightarrow> string \<Rightarrow> string option) \<Rightarrow> string \<Rightarrow> string \<Rightarrow> string" where
  "TL U tr lang key0 =
     (let key = ToLower U key0
      in case tr lang key of
           Some v \<Rightarrow> v
         | None \<Rightarrow> (case tr ''english'' key of Some v \<Rightarrow> v | None \<Rightarrow> key))"

definition defaultLanguage :: "string \<Rightarrow> string" where
  "defaultLanguage configured = (if configured = [] then ''english'' else configured)"

text \<open>\<open>LoadTranslations\<close> after the files are read: the languages offered, or a configuration error.\<close>

definition offered :: "(string \<times> string) list \<Rightarrow> string \<Rightarrow> string list \<Rightarrow> string list result" where
  "offered codes dflt extra =
     (if dflt \<notin> fst ` set codes
      then Err (EText (''no translations found for configured default_language: '' @ dflt))
      else (case filter (\<lambda>l. l \<notin> fst ` set codes) extra of
              l # _ \<Rightarrow> Err (EText (''no translations found for language '' @ l @ '' in site.languages''))
            | [] \<Rightarrow>
                (let ls = fold (\<lambda>l acc. if l \<in> set acc then acc else acc @ [l]) extra [dflt]
                 in if length ls > 1 then
                      (case filter (\<lambda>l. map_of codes l = Some []) ls of
                         l # _ \<Rightarrow> Err (EText (''language '' @ l @ '' has no language_code, set one in its translation file''))
                       | [] \<Rightarrow> Ok ls)
                    else Ok ls)))"

definition offeredLanguage :: "(string \<times> string) list \<Rightarrow> string \<Rightarrow> string" where
  "offeredLanguage langs tag =
     (let primary = fst (Cut tag ''-'')
      in case find (\<lambda>(l, t). t = tag) langs of
           Some (l, _) \<Rightarrow> l
         | None \<Rightarrow> (case find (\<lambda>(l, t). t = primary) langs of Some (l, _) \<Rightarrow> l | None \<Rightarrow> []))"

text \<open>The weight of an item: the last parameter \<open>q=\<close>, 0 where it does not parse, 1 where there is none.\<close>

definition weight :: "(string \<Rightarrow> 'q option) \<Rightarrow> string \<Rightarrow> 'q :: {linorder, zero, one}" where
  "weight pf params =
     fold (\<lambda>param q. case CutPrefix (TrimSpace param) ''q='' of
                       None \<Rightarrow> q
                     | Some v \<Rightarrow> (case pf v of None \<Rightarrow> 0 | Some q' \<Rightarrow> q'))
       (Split params CHR '';'') 1"

definition item_choice ::
    "unicode \<Rightarrow> (string \<Rightarrow> 'q option) \<Rightarrow> (string \<times> string) list \<Rightarrow> string \<Rightarrow> string \<times> 'q :: {linorder, zero, one}" where
  "item_choice U pf langs item =
     (case Cut item '';'' of (tag, params, _) \<Rightarrow>
        (offeredLanguage langs (ToLower U (TrimSpace tag)), weight pf params))"

definition matchLanguage ::
    "unicode \<Rightarrow> (string \<Rightarrow> ('q :: {linorder, zero, one}) option) \<Rightarrow> (string \<times> string) list \<Rightarrow> string \<Rightarrow> string" where
  "matchLanguage U pf langs ls =
     fst (fold (\<lambda>item (best, bestQ).
            case item_choice U pf langs item of (lang, q) \<Rightarrow>
              if \<not> q > bestQ then (best, bestQ)
              else if lang \<noteq> [] then (lang, q) else (best, bestQ))
          (Split ls CHR '','') ([], 0))"

definition userLanguage :: "(string \<Rightarrow> string) \<Rightarrow> string \<Rightarrow> string \<Rightarrow> string" where
  "userLanguage pref configured preferred =
     (if pref preferred \<noteq> [] then pref preferred else defaultLanguage configured)"

definition SetLanguage :: "(string \<Rightarrow> string) \<Rightarrow> string \<Rightarrow> nat \<Rightarrow> string \<Rightarrow> string" where
  "SetLanguage pref configured n accept =
     (if n > 1 \<and> pref accept \<noteq> [] then pref accept else defaultLanguage configured)"

section \<open>Durations\<close>

definition durationUnits :: "(string \<times> duration) list" where
  "durationUnits =
     [(''year'', 365 * 24 * hour), (''month'', 30 * 24 * hour), (''week'', 7 * 24 * hour),
      (''day'', 24 * hour), (''hour'', hour), (''minute'', minute), (''second'', second)]"

definition pluralForm :: "(string \<Rightarrow> string) \<Rightarrow> string \<Rightarrow> int \<Rightarrow> string" where
  "pluralForm codes lang n =
     (let c = fst (Cut (codes lang) ''-'')
      in if c = ''ru'' \<or> c = ''uk'' then
           (if n mod 10 = 1 \<and> n mod 100 \<noteq> 11 then ''one''
            else if n mod 10 \<ge> 2 \<and> n mod 10 \<le> 4 \<and> (n mod 100 < 12 \<or> n mod 100 > 14) then ''few''
            else ''many'')
         else if n = 1 then ''one'' else ''other'')"

text \<open>The unit a duration is shown in, and the key of its text with the number put into it.\<close>

definition duration_unit :: "duration \<Rightarrow> string \<times> duration" where
  "duration_unit d =
     (case find (\<lambda>(_, sz). d \<ge> sz) durationUnits of Some u \<Rightarrow> u | None \<Rightarrow> (''second'', second))"

definition formatDuration ::
    "(string \<Rightarrow> string) \<Rightarrow> (string \<Rightarrow> string \<Rightarrow> string option) \<Rightarrow> string \<Rightarrow> duration \<Rightarrow> string \<times> int" where
  "formatDuration codes tr lang d0 =
     (let d = abs d0; (name, sz) = duration_unit d; n = d div sz;
          key = ''duration.'' @ name @ ''_''
      in case tr lang (key @ pluralForm codes lang n) of
           Some _ \<Rightarrow> (key @ pluralForm codes lang n, n)
         | None \<Rightarrow> (key @ pluralForm codes ''english'' n, n))"

text \<open>\<open>timeAgo\<close>: the key of the sentence and the duration in it, none for the present.\<close>

definition timeAgo ::
    "(string \<Rightarrow> string) \<Rightarrow> (string \<Rightarrow> string \<Rightarrow> string option) \<Rightarrow> string \<Rightarrow> time \<Rightarrow> time \<Rightarrow> string \<times> (string \<times> int) option" where
  "timeAgo codes tr lang now t =
     (let d = now - t
      in if abs d < second then (''duration.now'', None)
         else if d < 0 then (''duration.from_now'', Some (formatDuration codes tr lang d))
         else (''duration.ago'', Some (formatDuration codes tr lang d)))"

section \<open>The best match\<close>

lemma offeredLanguage_offered: "offeredLanguage langs tag \<noteq> [] \<Longrightarrow> offeredLanguage langs tag \<in> fst ` set langs"
proof -
  have f: "l \<in> fst ` set langs" if "find P langs = Some (l, t)" for P l t
    using that by (metis find_Some_iff fst_conv image_eqI nth_mem)
  assume "offeredLanguage langs tag \<noteq> []"
  then show ?thesis
    by (auto simp: offeredLanguage_def Let_def split: option.splits dest: f)
qed

definition pick :: "(string \<times> 'q :: {linorder, zero, one}) list \<Rightarrow> string \<times> 'q" where
  "pick cs = fold (\<lambda>(lang, q) (best, bestQ).
      if \<not> q > bestQ then (best, bestQ) else if lang \<noteq> [] then (lang, q) else (best, bestQ)) cs ([], 0)"

lemma pick_snoc:
  "pick (cs @ [(lang, q)]) = (if q > snd (pick cs) \<and> lang \<noteq> [] then (lang, q) else pick cs)"
  by (auto simp: pick_def split: prod.splits)

lemma pick_best:
  "(pick cs = ([], 0) \<or> (fst (pick cs) \<noteq> [] \<and> pick cs \<in> set cs \<and> 0 < snd (pick cs)))
    \<and> (\<forall>(lang, q)\<in>set cs. lang \<noteq> [] \<longrightarrow> q \<le> snd (pick cs) )"
proof (induction cs rule: rev_induct)
  case Nil
  then show ?case by (simp add: pick_def)
next
  case (snoc c cs)
  obtain lang q where c: "c = (lang, q)" by fastforce
  show ?case
  proof (cases "q > snd (pick cs) \<and> lang \<noteq> []")
    case True
    then have p: "pick (cs @ [c]) = (lang, q)" by (simp add: c pick_snoc)
    have "0 < q" using True snoc by auto
    moreover have "q' \<le> q" if "(l', q') \<in> set cs" "l' \<noteq> []" for l' q'
      using snoc that True by fastforce
    ultimately show ?thesis using True by (simp add: p) (auto simp: c)
  next
    case False
    then have p: "pick (cs @ [c]) = pick cs" by (auto simp: c pick_snoc)
    from snoc False show ?thesis by (simp only: p) (auto simp: c)
  qed
qed

lemma matchLanguage_pick: "matchLanguage U pf langs ls = fst (pick (map (item_choice U pf langs) (Split ls CHR '','')))"
  by (simp add: matchLanguage_def pick_def fold_map o_def case_prod_unfold)

text \<open>
  The language of a request. The choice from an Accept-Language list is either none, when no
  acceptable item names an offered language, or the offered language of an item whose weight is
  positive and at least that of every other item naming an offered language.
\<close>

theorem matchLanguage_best:
  fixes pf :: "string \<Rightarrow> ('q :: {linorder, zero, one}) option"
    and U :: unicode and langs :: "(string \<times> string) list" and ls :: string
  defines "choices \<equiv> set (map (item_choice U pf langs) (Split ls CHR '',''))"
  shows "(matchLanguage U pf langs ls = [] \<and> (\<forall>(lang, q)\<in>choices. lang \<noteq> [] \<longrightarrow> q \<le> 0))
    \<or> (matchLanguage U pf langs ls \<in> fst ` set langs
       \<and> (\<exists>q > 0. (matchLanguage U pf langs ls, q) \<in> choices
            \<and> (\<forall>(lang', q')\<in>choices. lang' \<noteq> [] \<longrightarrow> q' \<le> q)))"
proof -
  let ?cs = "map (item_choice U pf langs) (Split ls CHR '','')"
  note best = pick_best [of ?cs]
  show ?thesis
  proof (cases "pick ?cs = ([], 0)")
    case True
    then show ?thesis using best by (auto simp: matchLanguage_pick choices_def)
  next
    case False
    with best have p: "fst (pick ?cs) \<noteq> []" "pick ?cs \<in> set ?cs" "0 < snd (pick ?cs)" by auto
    then obtain item where "pick ?cs = item_choice U pf langs item" by auto
    then have "fst (pick ?cs) = offeredLanguage langs (ToLower U (TrimSpace (fst (Cut item '';''))))"
      by (simp add: item_choice_def case_prod_unfold)
    with p(1) have "fst (pick ?cs) \<in> fst ` set langs"
      using offeredLanguage_offered by metis
    with p best show ?thesis
      unfolding matchLanguage_pick choices_def
      by (intro disjI2 conjI exI [of _ "snd (pick ?cs)"]) auto
  qed
qed

theorem matchLanguage_best_witness:
  "matchLanguage plain_unicode (\<lambda>_. Some (1 :: int)) [(''english'', ''en''), (''dutch'', ''nl'')] ''nl'' \<in> {[], ''english'', ''dutch''}"
  using matchLanguage_best [of plain_unicode "\<lambda>_. Some (1 :: int)" "[(''english'', ''en''), (''dutch'', ''nl'')]" "''nl''"]
  by auto


lemma unit_bounds:
  "duration_unit d = (name, sz) \<Longrightarrow> 0 \<le> d \<Longrightarrow> 0 < sz \<and> (second \<le> d \<longrightarrow> sz \<le> d) \<and> (d < second \<longrightarrow> sz = second)"
  by (auto simp: duration_unit_def durationUnits_def time_units split: if_splits)

text \<open>
  Durations. A duration is shown floored to its largest whole unit: the number shown counts the
  units that fit, and is at least one for durations of a second or more.
\<close>

theorem formatDuration_floor:
  assumes "formatDuration codes tr lang d = (key, n)"
  shows "\<exists>name sz. duration_unit \<bar>d\<bar> = (name, sz) \<and> n * sz \<le> \<bar>d\<bar> \<and> \<bar>d\<bar> < (n + 1) * sz
    \<and> (second \<le> \<bar>d\<bar> \<longrightarrow> 1 \<le> n)"
proof -
  obtain name sz where u: "duration_unit \<bar>d\<bar> = (name, sz)" by fastforce
  note b = unit_bounds [OF u]
  have n: "n = \<bar>d\<bar> div sz"
    using assms u by (auto simp: formatDuration_def Let_def split: option.splits)
  have sz: "0 < sz" using b by simp
  have "n * sz \<le> \<bar>d\<bar>" "\<bar>d\<bar> < (n + 1) * sz"
    using div_mult_mod_eq [of "\<bar>d\<bar>" sz] pos_mod_sign [OF sz, of "\<bar>d\<bar>"] pos_mod_bound [OF sz, of "\<bar>d\<bar>"]
    unfolding n distrib_right by linarith+
  moreover have "1 \<le> n" if "second \<le> \<bar>d\<bar>"
    using that b sz by (simp add: n pos_imp_zdiv_pos_iff int_one_le_iff_zero_less)
  ultimately show ?thesis using u by blast
qed

theorem formatDuration_floor_witness:
  "\<exists>name sz. duration_unit \<bar>90 * second\<bar> = (name, sz) \<and> 1 * sz \<le> \<bar>90 * second\<bar>"
  using formatDuration_floor [of "\<lambda>_. ''en''" "\<lambda>_ _. None" "''english''" "90 * second"]
  by (auto simp: formatDuration_def duration_unit_def durationUnits_def Let_def time_units pluralForm_def)

end
