(* ===== verification/Web.thy ===== *)
theory Web
  imports Smtp Audit_Log Phone Translations "HOL-Library.State_Monad"
begin

text \<open>
  The world the request handlers work in. A handler takes the request context and runs in the
  state monad over a \<open>world\<close>: the storage backend, everything outside the process (FreeIPA, the mail
  server, Hydra), the webhook queues, the readings taken from the clock and the counters.

  What the portal does not implement itself is an argument, gathered in the record \<open>env\<close>: the
  storage, the session middleware, the branca codec, the IPA client, the address parser of net/mail
  (\<open>addr\<close>), the WebAuthn library (\<open>wan\<close>), the translation tables (\<open>lcode\<close>, \<open>trn\<close>) and \<open>matchLanguage\<close> on them (\<open>pref\<close>), the readings of the
  clock and of the random source. Reads of FreeIPA are
  functions of the outside state, calls that change something return the new one. Messages to the
  user stay symbolic, as the language and the key of a translation.
\<close>

section \<open>Requests and responses\<close>

text \<open>
  What handlers read of a request: the language chosen for it and the remote address are already
  determined. \<open>rq_HX\<close> is whether the header HX-Request is \<open>true\<close>.
\<close>

record request =
  rq_Method :: string
  rq_Path :: string
  rq_HX :: bool
  rq_form :: "string \<Rightarrow> string"
  rq_query :: "string \<Rightarrow> string"
  rq_params :: "string \<Rightarrow> string"
  rq_lang :: string
  rq_ip :: string
  rq_browser :: string
  rq_os :: string
  rq_base :: string
  rq_cookie :: string
  rq_csrf :: string
  rq_scheme :: string
  rq_host :: string
  rq_body :: string
  rq_authorization :: string

text \<open>The locals \<open>isLoggedIn\<close> sets: the user and the FreeIPA session its client works with.\<close>

record ctx =
  req :: request
  lc_username :: string
  lc_user :: user
  lc_client :: string

datatype body = NoBody | Say msg | Page string vars | JsonBody json | File string | Plain string

record response =
  rs_status :: int
  rs_headers :: "(string \<times> string) list"
  rs_body :: body

text \<open>How a handler ends: with a response, with an error for the error handler, or by handing on to
  the next handler of the route. A handler that calls a listing which never ends \<open>Hangs\<close>.\<close>

datatype outcome = Reply response | Fail error | Next ctx | Hangs

definition reply :: "int \<Rightarrow> msg \<Rightarrow> outcome" where
  "reply st t = Reply \<lparr>rs_status = st, rs_headers = [], rs_body = Say t\<rparr>"

definition status_only :: "int \<Rightarrow> outcome" where
  "status_only st = Reply \<lparr>rs_status = st, rs_headers = [], rs_body = NoBody\<rparr>"

definition render :: "string \<Rightarrow> vars \<Rightarrow> outcome" where
  "render page vs = Reply \<lparr>rs_status = 200, rs_headers = [], rs_body = Page page vs\<rparr>"

definition hx_redirect :: "string \<Rightarrow> outcome" where
  "hx_redirect url = Reply \<lparr>rs_status = 204, rs_headers = [(''HX-Redirect'', url)], rs_body = NoBody\<rparr>"

definition redirect :: "string \<Rightarrow> outcome" where
  "redirect url = Reply \<lparr>rs_status = 302, rs_headers = [(''Location'', url)], rs_body = NoBody\<rparr>"

definition with_header :: "string \<Rightarrow> string \<Rightarrow> outcome \<Rightarrow> outcome" where
  "with_header k v r =
     (case r of
        Reply p \<Rightarrow> Reply (p\<lparr>rs_headers := rs_headers p @ [(k, v)]\<rparr>)
      | _ \<Rightarrow> r)"

abbreviation TC :: "ctx \<Rightarrow> string \<Rightarrow> msg" where
  "TC c key \<equiv> Tr (rq_lang (req c)) key []"

abbreviation form :: "ctx \<Rightarrow> string \<Rightarrow> string" where
  "form c k \<equiv> rq_form (req c) k"

abbreviation is_get :: "ctx \<Rightarrow> bool" where
  "is_get c \<equiv> rq_Method (req c) = ''GET''"

section \<open>The session middleware\<close>

datatype sval = SStr string | SBool bool | SInt int | SOther

record sess =
  ss_id :: string
  ss_data :: "(string \<times> sval) list"
  ss_idle :: duration

definition sess_get :: "sess \<Rightarrow> string \<Rightarrow> sval option" where
  "sess_get s k = map_of (ss_data s) k"

definition sess_set :: "string \<Rightarrow> sval \<Rightarrow> sess \<Rightarrow> sess" where
  "sess_set k v s = s\<lparr>ss_data := (k, v) # filter (\<lambda>(k', _). k' \<noteq> k) (ss_data s)\<rparr>"

definition SessionKeyAuthenticated :: string where "SessionKeyAuthenticated = ''authenticated''"
definition SessionKeySID :: string where "SessionKeySID = ''sid''"
definition SessionKeyUsername :: string where "SessionKeyUsername = ''user''"
definition SessionKeyCSRF :: string where "SessionKeyCSRF = ''csrf''"
definition SessionKeyLoginTime :: string where "SessionKeyLoginTime = ''login_time''"

text \<open>
  The session store of fiber over the same storage: fetching the session of a cookie (a fresh one
  where there is none), saving, changing the id (the fresh id comes from \<open>nat\<close>, the position in
  the random stream) and destroying it. \<open>fs_old\<close> and \<open>fs_new\<close> are the two encodings of session data.
\<close>

record 's fiber_sessions =
  fs_get :: "'s \<Rightarrow> time \<Rightarrow> string \<Rightarrow> sess result"
  fs_save :: "'s \<Rightarrow> time \<Rightarrow> sess \<Rightarrow> error option \<times> 's"
  fs_regenerate :: "'s \<Rightarrow> time \<Rightarrow> nat \<Rightarrow> sess \<Rightarrow> sess result \<times> 's"
  fs_destroy :: "'s \<Rightarrow> time \<Rightarrow> sess \<Rightarrow> error option \<times> 's"
  fs_old :: "blob \<Rightarrow> (string \<times> sval) list option"
  fs_new :: "(string \<times> sval) list \<Rightarrow> blob option"

section \<open>The outside\<close>

text \<open>Who a call to FreeIPA is made for: the service account or the session of a user.\<close>

datatype client = Admin | AsUser string

text \<open>The options of \<open>UserFind\<close> the portal passes.\<close>

datatype user_query = ByMail string | Everyone | SizeLimit int | ByUserclass string

record 'x outside =
  ip_new :: "'x \<Rightarrow> error option"
  ip_session :: "'x \<Rightarrow> string \<Rightarrow> error option"
  ip_UserShow :: "'x \<Rightarrow> client \<Rightarrow> string \<Rightarrow> user result"
  ip_UserFind :: "'x \<Rightarrow> user_query \<Rightarrow> user list result"
  ip_OTPOnly :: "user \<Rightarrow> bool"
  ip_Realm :: "'x \<Rightarrow> string"
  ip_Ping :: "'x \<Rightarrow> string \<Rightarrow> error option"
  ip_AdminPing :: "'x \<Rightarrow> error option"
  ip_UserPwPolicy :: "'x \<Rightarrow> string \<Rightarrow> ipa_PwPolicy result"
  ip_PwPolicyShow :: "'x \<Rightarrow> string \<Rightarrow> ipa_PwPolicy result"
  ip_UserStatus :: "'x \<Rightarrow> string \<Rightarrow> int list result"
  ip_config_auth :: "'x \<Rightarrow> string list option result"
  ip_RemoteLogin :: "'x \<Rightarrow> string \<Rightarrow> string \<Rightarrow> string result \<times> 'x"
  ip_ChangePassword :: "'x \<Rightarrow> client \<Rightarrow> string \<Rightarrow> string \<Rightarrow> string \<Rightarrow> string \<Rightarrow> error option \<times> 'x"
  ip_ResetPassword :: "'x \<Rightarrow> string \<Rightarrow> string result \<times> 'x"
  ip_SetPassword :: "'x \<Rightarrow> string \<Rightarrow> string \<Rightarrow> string \<Rightarrow> string \<Rightarrow> error option \<times> 'x"
  ip_UserMod :: "'x \<Rightarrow> user \<Rightarrow> user result \<times> 'x"
  ip_UserAddWithPassword :: "'x \<Rightarrow> user \<Rightarrow> string \<Rightarrow> user result \<times> 'x"
  ip_UserDelete :: "'x \<Rightarrow> bool \<Rightarrow> bool \<Rightarrow> string \<Rightarrow> error option \<times> 'x"
  ip_UserEnable :: "'x \<Rightarrow> string \<Rightarrow> error option \<times> 'x"
  ip_UserDisable :: "'x \<Rightarrow> string \<Rightarrow> error option \<times> 'x"
  ip_UserUnlock :: "'x \<Rightarrow> string \<Rightarrow> error option \<times> 'x"
  ip_SetAuthTypes :: "'x \<Rightarrow> string \<Rightarrow> string list \<Rightarrow> error option \<times> 'x"
  ip_StageUserShow :: "'x \<Rightarrow> string \<Rightarrow> user result"
  ip_StageUserAdd :: "'x \<Rightarrow> user \<Rightarrow> string \<Rightarrow> error option \<times> 'x"
  ip_StageUserSetCategory :: "'x \<Rightarrow> string \<Rightarrow> string \<Rightarrow> error option \<times> 'x"
  ip_StageUserActivate :: "'x \<Rightarrow> string \<Rightarrow> error option \<times> 'x"
  ip_StageUserFind :: "'x \<Rightarrow> int \<Rightarrow> user list result"
  ip_StageUserDelete :: "'x \<Rightarrow> string \<Rightarrow> error option \<times> 'x"
  ip_SetPasswordExpiration :: "'x \<Rightarrow> string \<Rightarrow> time option \<Rightarrow> error option \<times> 'x"
  ip_FetchOTPTokens :: "'x \<Rightarrow> client \<Rightarrow> string \<Rightarrow> otp_token list result"
  ip_TokenTypeTOTP :: string
  ip_TokenName :: "otp_token \<Rightarrow> string"
  ip_AddOTPToken :: "'x \<Rightarrow> client \<Rightarrow> otp_token \<Rightarrow> otp_token result \<times> 'x"
  ip_RemoveOTPToken :: "'x \<Rightarrow> client \<Rightarrow> string \<Rightarrow> error option \<times> 'x"
  ip_EnableOTPToken :: "'x \<Rightarrow> client \<Rightarrow> string \<Rightarrow> error option \<times> 'x"
  ip_DisableOTPToken :: "'x \<Rightarrow> client \<Rightarrow> string \<Rightarrow> error option \<times> 'x"
  ip_HasGroup :: "user \<Rightarrow> string \<Rightarrow> bool"
  ip_GroupFind :: "'x \<Rightarrow> client \<Rightarrow> int \<Rightarrow> ipa_Group list result"
  ip_GroupShow :: "'x \<Rightarrow> client \<Rightarrow> string \<Rightarrow> ipa_Group result"
  ip_GroupAddMember :: "'x \<Rightarrow> client \<Rightarrow> string \<Rightarrow> string \<Rightarrow> error option \<times> 'x"
  ip_GroupRemoveMember :: "'x \<Rightarrow> client \<Rightarrow> string \<Rightarrow> string \<Rightarrow> error option \<times> 'x"
  ip_FindUsers :: "'x \<Rightarrow> int \<Rightarrow> (user_entry list \<times> bool) result"
  ip_ConfigStrings :: "'x \<Rightarrow> string list result"
  ip_HBACRuleFind :: "'x \<Rightarrow> client \<Rightarrow> int \<Rightarrow> ipa_HBACRule list result"
  ip_SudoRuleFind :: "'x \<Rightarrow> client \<Rightarrow> int \<Rightarrow> ipa_SudoRule list result"
  ip_HBACTest :: "'x \<Rightarrow> client \<Rightarrow> string \<Rightarrow> string \<Rightarrow> string \<Rightarrow> (bool \<times> string list \<times> string list) result"
  ip_SubIDFind :: "'x \<Rightarrow> string \<Rightarrow> (int \<times> int \<times> int) list result"
  ip_SubIDGenerate :: "'x \<Rightarrow> string \<Rightarrow> error option \<times> 'x"
  ip_NewSSHAuthorizedKey :: "string \<Rightarrow> ssh_key result"
  ip_AddSSHAuthorizedKey :: "user \<Rightarrow> ssh_key \<Rightarrow> user"
  ip_RemoveSSHAuthorizedKey :: "user \<Rightarrow> string \<Rightarrow> user"
  ip_UserAddPasskey :: "'x \<Rightarrow> client \<Rightarrow> string \<Rightarrow> string \<Rightarrow> error option \<times> 'x"
  ip_UserRemovePasskey :: "'x \<Rightarrow> client \<Rightarrow> string \<Rightarrow> string \<Rightarrow> error option \<times> 'x"
  ip_AddPasskeyClass :: "'x \<Rightarrow> string \<Rightarrow> error option \<times> 'x"
  ip_ErrACI :: "error \<Rightarrow> bool"
  ip_ErrEmptyModlist :: "error \<Rightarrow> bool"
  x_otp_key :: "string \<Rightarrow> string result"
  x_otp_image :: "string \<Rightarrow> string result"
  x_RawQuery :: "string \<Rightarrow> string result"
  x_metrics :: "(string \<Rightarrow> nat) \<Rightarrow> string"
  x_totp :: "string \<Rightarrow> string \<Rightarrow> time \<Rightarrow> string \<Rightarrow> bool"
  x_smtp :: "'x \<Rightarrow> mail \<Rightarrow> smtp \<times> 'x"
  x_captcha :: "'x \<Rightarrow> string \<Rightarrow> string \<Rightarrow> bool \<times> 'x"
  x_new_captcha :: "'x \<Rightarrow> string \<times> 'x"
  x_captcha_reload :: "'x \<Rightarrow> string \<Rightarrow> 'x"
  x_captcha_image :: "'x \<Rightarrow> string \<Rightarrow> string result"
  x_xsrf :: "time \<Rightarrow> string \<Rightarrow> string"

text \<open>
  The admin API of Hydra. The page of consent sessions comes with the values of its \<open>Link\<close> header;
  \<open>hy_page\<close> is \<open>url.Parse\<close> and the query value \<open>page_token\<close> of a link. A consent is accepted with the
  scope and the user whose claims go into the id token; a login with the subject and, when it is to
  be remembered, for how long.
\<close>

record consent_request =
  co_Subject :: string
  co_Client :: string
  co_Scope :: "string list"

record consent_session =
  cs_Client :: "(string \<times> string) option"
  cs_Scope :: "string list"
  cs_HandledAt :: "time option"

record oauth_client =
  oc_ClientId :: string
  oc_ClientName :: string
  oc_ClientUri :: string
  oc_GrantTypes :: "string list"

record 'x hydra_api =
  hy_consent :: "'x \<Rightarrow> string \<Rightarrow> consent_request result"
  hy_reject_consent :: "'x \<Rightarrow> string \<Rightarrow> error option \<times> 'x"
  hy_accept_consent :: "'x \<Rightarrow> string \<Rightarrow> string list \<Rightarrow> user \<Rightarrow> string result \<times> 'x"
  hy_login :: "'x \<Rightarrow> string \<Rightarrow> (bool \<times> string) result"
  hy_accept_login :: "'x \<Rightarrow> string \<Rightarrow> string \<Rightarrow> int option \<Rightarrow> string result \<times> 'x"
  hy_logout :: "'x \<Rightarrow> string \<Rightarrow> string result"
  hy_accept_logout :: "'x \<Rightarrow> string \<Rightarrow> string result \<times> 'x"
  hy_revoke_login :: "'x \<Rightarrow> string \<Rightarrow> error option \<times> 'x"
  hy_consents :: "'x \<Rightarrow> string \<Rightarrow> string \<Rightarrow> (consent_session list \<times> string list) result"
  hy_revoke_consent :: "'x \<Rightarrow> string \<Rightarrow> string \<Rightarrow> error option \<times> 'x"
  hy_page :: "string \<Rightarrow> string option"
  hy_clients :: "'x \<Rightarrow> string \<Rightarrow> (oauth_client list \<times> string list) result"

text \<open>
  The WebAuthn library, with the relying party id and the origin it is configured with. \<open>wa_begin\<close> gives the
  options for the browser and the session data in JSON; \<open>wa_session\<close> and \<open>wa_response\<close> tell whether stored
  session data and a response body decode, and \<open>wa_create\<close> gives the id and the COSE key of the new credential.
  A COSE key decodes to one of the kinds below; \<open>wa_spki_ec\<close> and its like give the PKIX encoding of a key, for a
  curve only where the point is on it.
\<close>

datatype cose_key = EC2Key int string string | RSAKey string string | OKPKey string | OtherKey string

record 'x webauthn =
  wa_New :: "string \<Rightarrow> string \<Rightarrow> error option"
  wa_begin :: "'x \<Rightarrow> string \<times> string \<Rightarrow> string \<Rightarrow> string \<Rightarrow> (json \<times> string) result \<times> 'x"
  wa_session :: "string \<Rightarrow> bool"
  wa_response :: "string \<Rightarrow> bool"
  wa_create :: "string \<times> string \<Rightarrow> string \<Rightarrow> string \<Rightarrow> string \<Rightarrow> string \<Rightarrow> (string \<times> string) result"
  wa_ParsePublicKey :: "string \<Rightarrow> cose_key result"
  wa_spki_ec :: "int \<Rightarrow> string \<Rightarrow> string result"
  wa_spki_rsa :: "string \<Rightarrow> string \<Rightarrow> string result"
  wa_spki_okp :: "string \<Rightarrow> string result"

section \<open>The world\<close>

record ('s, 'x) world =
  sto :: 's
  ext :: 'x
  hooks :: "webhookTarget list"
  tick :: nat
  counter :: "string \<Rightarrow> nat"

record ('s, 'x) env =
  cfg :: config
  stg :: "'s storage"
  rdb :: "'s redis option"
  fib :: "'s fiber_sessions"
  brn :: branca
  uni :: unicode
  hib :: hibp
  ipa :: "'x outside"
  hyd :: "'x hydra_api"
  wan :: "'x webauthn"
  sha256 :: "string \<Rightarrow> string"
  addr :: "string \<Rightarrow> string option"
  lcode :: "string \<Rightarrow> string"
  trn :: "string \<Rightarrow> string \<Rightarrow> string option"
  pref :: "string \<Rightarrow> string"
  langs :: "string list"
  clk :: "nat \<Rightarrow> time"
  rnd :: "nat \<Rightarrow> string"

type_synonym ('s, 'x, 'a) act = "(('s, 'x) world, 'a) state"

definition reads :: "('w \<Rightarrow> 'a) \<Rightarrow> ('w, 'a) state" where
  "reads f = State (\<lambda>w. (f w, w))"

definition on_sto :: "('s \<Rightarrow> 'a \<times> 's) \<Rightarrow> ('s, 'x, 'a) act" where
  "on_sto f = State (\<lambda>w. case f (sto w) of (a, s) \<Rightarrow> (a, w\<lparr>sto := s\<rparr>))"

definition on_ext :: "('x \<Rightarrow> 'a \<times> 'x) \<Rightarrow> ('s, 'x, 'a) act" where
  "on_ext f = State (\<lambda>w. case f (ext w) of (a, x) \<Rightarrow> (a, w\<lparr>ext := x\<rparr>))"

text \<open>\<open>time.Now\<close> and the random source: each use takes the next value.\<close>

definition Now :: "('s, 'x) env \<Rightarrow> ('s, 'x, time) act" where
  "Now E = State (\<lambda>w. (clk E (tick w), w\<lparr>tick := Suc (tick w)\<rparr>))"

definition draw :: "('s, 'x, nat) act" where
  "draw = State (\<lambda>w. (tick w, w\<lparr>tick := Suc (tick w)\<rparr>))"

definition Inc :: "string \<Rightarrow> ('s, 'x, unit) act" where
  "Inc m = State (\<lambda>w. ((), w\<lparr>counter := (counter w)(m := Suc (counter w m))\<rparr>))"

text \<open>An AUDIT log record goes through the audit handler: it is stored and handed to the webhooks.
  Log records that do not start with AUDIT leave the modelled state alone and are left out.\<close>

definition audit :: "('s, 'x) env \<Rightarrow> int \<Rightarrow> string \<Rightarrow> (string \<times> string) list \<Rightarrow> ('s, 'x, unit) act" where
  "audit E level msg attrs =
     do {
       t \<leftarrow> Now E;
       State (\<lambda>w.
         let h = \<lparr>ah_lock = \<lparr>lk_storage = stg E, lk_rdb = rdb E\<rparr>, ah_attrs = [], ah_hooks = hooks w\<rparr>;
             r = \<lparr>lr_Time = t, lr_Level = level, lr_Message = ''AUDIT '' @ msg,
                  lr_Attrs = map (\<lambda>(k, v). (k, VString v)) attrs\<rparr>
         in case Handle (uni E) h r t (sto w) of
              (_, h', s) \<Rightarrow> ((), w\<lparr>sto := s, hooks := ah_hooks h'\<rparr>))
     }"

abbreviation audit_info where "audit_info E \<equiv> audit E 0"
abbreviation audit_warn where "audit_warn E \<equiv> audit E 4"
abbreviation audit_error where "audit_error E \<equiv> audit E 8"

section \<open>Running\<close>

lemma reply_inject [simp]: "reply a b = reply c d \<longleftrightarrow> a = c \<and> b = d"
  by (simp add: reply_def)

lemma render_inject [simp]: "render a b = render c d \<longleftrightarrow> a = c \<and> b = d"
  by (simp add: render_def)

lemmas outcome_defs = reply_def render_def status_only_def hx_redirect_def redirect_def

lemma outcome_distinct [simp]:
  "render a b \<noteq> reply n t" "reply n t \<noteq> render a b" "render a b \<noteq> status_only n" "status_only n \<noteq> render a b"
  "render a b \<noteq> Fail e" "render a b \<noteq> Next c" "render a b \<noteq> Hangs" "reply n t \<noteq> status_only m" "status_only m \<noteq> reply n t"
  "reply n t \<noteq> Fail e" "reply n t \<noteq> Next c" "render a b \<noteq> hx_redirect u" "hx_redirect u \<noteq> render a b"
  "render a b \<noteq> redirect u" "redirect u \<noteq> render a b" "Fail e \<noteq> render a b"
  by (simp_all add: outcome_defs)

declare run_state_bind [simp del]

lemma run_bind [simp]: "run_state (State_Monad.bind m f) w = (case run_state m w of (a, w') \<Rightarrow> run_state (f a) w')"
  by (simp add: run_state_bind Let_def)

lemma run_reads [simp]: "run_state (reads f) w = (f w, w)"
  by (simp add: reads_def)

lemma run_if [simp]: "run_state (if b then m else n) w = (if b then run_state m w else run_state n w)"
  by simp

lemma run_on_sto [simp]: "run_state (on_sto f) w = (fst (f (sto w)), w\<lparr>sto := snd (f (sto w))\<rparr>)"
  by (simp add: on_sto_def case_prod_unfold)

lemma run_on_ext [simp]: "run_state (on_ext f) w = (fst (f (ext w)), w\<lparr>ext := snd (f (ext w))\<rparr>)"
  by (simp add: on_ext_def case_prod_unfold)

lemma run_Now [simp]: "run_state (Now E) w = (clk E (tick w), w\<lparr>tick := Suc (tick w)\<rparr>)"
  by (simp add: Now_def)

lemma run_draw [simp]: "run_state draw w = (tick w, w\<lparr>tick := Suc (tick w)\<rparr>)"
  by (simp add: draw_def)

lemma run_Inc [simp]: "run_state (Inc m) w = ((), w\<lparr>counter := (counter w)(m := Suc (counter w m))\<rparr>)"
  by (simp add: Inc_def)

text \<open>
  Properties of handlers are weakest preconditions: \<open>wp m Q w\<close> says that running \<open>m\<close> in \<open>w\<close> ends with a
  result and a world that satisfy \<open>Q\<close>. The rules for single actions are collected in \<open>wp_rules\<close>.
\<close>

definition wp :: "('w, 'a) state \<Rightarrow> ('a \<Rightarrow> 'w \<Rightarrow> bool) \<Rightarrow> 'w \<Rightarrow> bool" where
  "wp m Q w \<longleftrightarrow> (case run_state m w of (a, w') \<Rightarrow> Q a w')"

named_theorems wp_rules

lemma wp_bind [simp]: "wp (State_Monad.bind m f) Q w \<longleftrightarrow> wp m (\<lambda>a. wp (f a) Q) w"
  by (simp add: wp_def case_prod_unfold)

lemma wp_return [simp]: "wp (State_Monad.return a) Q w \<longleftrightarrow> Q a w"
  by (simp add: wp_def)

lemma wp_reads [simp]: "wp (reads f) Q w \<longleftrightarrow> Q (f w) w"
  by (simp add: wp_def)

lemma wp_on_sto [simp]: "wp (on_sto f) Q w \<longleftrightarrow> Q (fst (f (sto w))) (w\<lparr>sto := snd (f (sto w))\<rparr>)"
  by (simp add: wp_def)

lemma wp_on_ext [simp]: "wp (on_ext f) Q w \<longleftrightarrow> Q (fst (f (ext w))) (w\<lparr>ext := snd (f (ext w))\<rparr>)"
  by (simp add: wp_def)

lemma wp_Now [simp]: "wp (Now E) Q w \<longleftrightarrow> Q (clk E (tick w)) (w\<lparr>tick := Suc (tick w)\<rparr>)"
  by (simp add: wp_def)

lemma wp_draw [simp]: "wp draw Q w \<longleftrightarrow> Q (tick w) (w\<lparr>tick := Suc (tick w)\<rparr>)"
  by (simp add: wp_def)

lemma wp_Inc [simp]: "wp (Inc m) Q w \<longleftrightarrow> Q () (w\<lparr>counter := (counter w)(m := Suc (counter w m))\<rparr>)"
  by (simp add: wp_def)

lemma wp_if [simp]: "wp (if b then m else n) Q w \<longleftrightarrow> (if b then wp m Q w else wp n Q w)"
  by simp

lemma wp_run: "wp m Q w \<Longrightarrow> run_state m w = (a, w') \<Longrightarrow> Q a w'"
  by (simp add: wp_def)

lemma wp_runI: "(\<And>a w'. run_state m w = (a, w') \<Longrightarrow> Q a w') \<Longrightarrow> wp m Q w"
  by (simp add: wp_def split: prod.split)

lemma wp_mono: "wp m Q w \<Longrightarrow> (\<And>a w'. Q a w' \<Longrightarrow> R a w') \<Longrightarrow> wp m R w"
  by (auto simp: wp_def)

lemma wp_conj: "wp m (\<lambda>a w'. Q a w' \<and> R a w') w \<longleftrightarrow> wp m Q w \<and> wp m R w"
  by (simp add: wp_def case_prod_unfold)

lemma wp_audit [wp_rules]:
  "(\<And>s h t. Q () (w\<lparr>tick := t, sto := s, hooks := h\<rparr>)) \<Longrightarrow> wp (audit E l m as) Q w"
  by (simp add: audit_def wp_def Let_def case_prod_unfold)

section \<open>An example\<close>

text \<open>
  An environment over the memory store in which FreeIPA knows no users and mail is accepted, and
  where it is always seven seconds past the epoch.
\<close>

definition nobody :: "'a result" where "nobody = Err (EIpa 4001 ''not found'')"

definition demo_outside :: "unit outside" where
  "demo_outside =
     \<lparr>ip_new = (\<lambda>_. None), ip_session = (\<lambda>_ _. None), ip_UserShow = (\<lambda>_ _ _. nobody),
      ip_UserFind = (\<lambda>_ _. Ok []), ip_OTPOnly = (\<lambda>_. False), ip_Realm = (\<lambda>_. ''EXAMPLE.COM''),
      ip_Ping = (\<lambda>_ _. None), ip_AdminPing = (\<lambda>_. None), ip_UserPwPolicy = (\<lambda>_ _. nobody), ip_PwPolicyShow = (\<lambda>_ _. nobody),
      ip_UserStatus = (\<lambda>_ _. Ok []), ip_config_auth = (\<lambda>_. Ok None),
      ip_RemoteLogin = (\<lambda>x _ _. (nobody, x)), ip_ChangePassword = (\<lambda>x _ _ _ _ _. (None, x)),
      ip_ResetPassword = (\<lambda>x _. (nobody, x)), ip_SetPassword = (\<lambda>x _ _ _ _. (None, x)),
      ip_UserMod = (\<lambda>x u. (Ok u, x)), ip_UserAddWithPassword = (\<lambda>x u _. (Ok u, x)),
      ip_UserDelete = (\<lambda>x _ _ _. (None, x)), ip_UserEnable = (\<lambda>x _. (None, x)),
      ip_UserDisable = (\<lambda>x _. (None, x)), ip_UserUnlock = (\<lambda>x _. (None, x)),
      ip_SetAuthTypes = (\<lambda>x _ _. (None, x)), ip_StageUserShow = (\<lambda>_ _. nobody),
      ip_StageUserAdd = (\<lambda>x _ _. (None, x)), ip_StageUserSetCategory = (\<lambda>x _ _. (None, x)),
      ip_StageUserActivate = (\<lambda>x _. (None, x)), ip_StageUserFind = (\<lambda>_ _. Ok []),
      ip_StageUserDelete = (\<lambda>x _. (None, x)), ip_SetPasswordExpiration = (\<lambda>x _ _. (None, x)),
      ip_FetchOTPTokens = (\<lambda>_ _ _. Ok []), ip_TokenTypeTOTP = ''totp'', ip_TokenName = ot_UUID, ip_AddOTPToken = (\<lambda>x _ t. (Ok t, x)), ip_RemoveOTPToken = (\<lambda>x _ _. (None, x)),
      ip_EnableOTPToken = (\<lambda>x _ _. (None, x)), ip_DisableOTPToken = (\<lambda>x _ _. (None, x)),
      ip_HasGroup = (\<lambda>u g. g \<in> set (MemberOf u)), ip_GroupFind = (\<lambda>_ _ _. Ok []), ip_GroupShow = (\<lambda>_ _ _. nobody),
      ip_GroupAddMember = (\<lambda>x _ _ _. (None, x)), ip_GroupRemoveMember = (\<lambda>x _ _ _. (None, x)),
      ip_FindUsers = (\<lambda>_ _. Ok ([], False)), ip_ConfigStrings = (\<lambda>_. Ok []),
      ip_HBACRuleFind = (\<lambda>_ _ _. Ok []), ip_SudoRuleFind = (\<lambda>_ _ _. Ok []), ip_HBACTest = (\<lambda>_ _ _ _ _. Ok (False, [], [])),
      ip_SubIDFind = (\<lambda>_ _. Ok []), ip_SubIDGenerate = (\<lambda>x _. (None, x)),
      ip_NewSSHAuthorizedKey = (\<lambda>k. Ok \<lparr>sk_Key = k, sk_Comment = [], sk_Fingerprint = k\<rparr>),
      ip_AddSSHAuthorizedKey = (\<lambda>u k. u\<lparr>SSHAuthKeys := SSHAuthKeys u @ [k]\<rparr>),
      ip_RemoveSSHAuthorizedKey = (\<lambda>u fp. u\<lparr>SSHAuthKeys := filter (\<lambda>k. sk_Fingerprint k \<noteq> fp) (SSHAuthKeys u)\<rparr>),
      ip_UserAddPasskey = (\<lambda>x _ _ _. (None, x)), ip_UserRemovePasskey = (\<lambda>x _ _ _. (None, x)),
      ip_AddPasskeyClass = (\<lambda>x _. (None, x)), ip_ErrACI = (\<lambda>e. e = EIpa 2100 ''aci''),
      ip_ErrEmptyModlist = (\<lambda>e. e = EIpa 4202 ''empty''),
      x_otp_key = Ok, x_otp_image = Ok, x_RawQuery = (\<lambda>_. Ok ''secret=A''), x_metrics = (\<lambda>_. []),
      x_totp = (\<lambda>c k _ _. c = k),
      x_smtp = (\<lambda>x _. (demo_smtp, x)),
      x_captcha = (\<lambda>x _ _. (True, x)), x_new_captcha = (\<lambda>x. (''cap'', x)),
      x_captcha_reload = (\<lambda>x _. x), x_captcha_image = (\<lambda>_ _. nobody),
      x_xsrf = (\<lambda>_ _. ''xsrf'')\<rparr>"

definition demo_hydra :: "unit hydra_api" where
  "demo_hydra =
     \<lparr>hy_consent = (\<lambda>_ _. Ok \<lparr>co_Subject = ''alice'', co_Client = ''wiki'', co_Scope = [''openid'']\<rparr>),
      hy_reject_consent = (\<lambda>x _. (None, x)), hy_accept_consent = (\<lambda>x _ _ _. (Ok ''/done'', x)),
      hy_login = (\<lambda>_ _. Ok (False, [])), hy_accept_login = (\<lambda>x _ _ _. (Ok ''/done'', x)),
      hy_logout = (\<lambda>_ _. Ok []), hy_accept_logout = (\<lambda>x _. (Ok ''/bye'', x)),
      hy_revoke_login = (\<lambda>x _. (None, x)), hy_consents = (\<lambda>_ _ _. Ok ([], [])),
      hy_revoke_consent = (\<lambda>x _ _. (None, x)), hy_page = (\<lambda>_. None),
      hy_clients = (\<lambda>_ _. Ok ([], []))\<rparr>"

definition demo_sessions :: "cells fiber_sessions" where
  "demo_sessions =
     \<lparr>fs_get = (\<lambda>s t k. Ok \<lparr>ss_id = k, ss_data = [], ss_idle = 0\<rparr>), fs_save = (\<lambda>s t x. (None, s)),
      fs_regenerate = (\<lambda>s t n x. (Ok (x\<lparr>ss_id := ''fresh''\<rparr>), s)), fs_destroy = (\<lambda>s t x. (None, s)),
      fs_old = (\<lambda>_. None), fs_new = (\<lambda>_. None)\<rparr>"

definition demo_webauthn :: "unit webauthn" where
  "demo_webauthn =
     \<lparr>wa_New = (\<lambda>_ _. None),
      wa_begin = (\<lambda>x _ _ _. (Ok (JObj [], ''challenge''), x)), wa_session = (\<lambda>_. True), wa_response = (\<lambda>_. True),
      wa_create = (\<lambda>_ _ _ _ _. Ok (''id'', ''key'')), wa_ParsePublicKey = (\<lambda>k. Ok (OKPKey k)),
      wa_spki_ec = (\<lambda>_. Ok), wa_spki_rsa = (\<lambda>_. Ok), wa_spki_okp = Ok\<rparr>"

definition demo_env :: "(cells, unit) env" where
  "demo_env =
     \<lparr>cfg = default_config, stg = sound_storage, rdb = None, fib = demo_sessions, brn = demo_branca,
      uni = plain_unicode, hib = demo_hibp, ipa = demo_outside, hyd = demo_hydra, wan = demo_webauthn, sha256 = id, addr = Some, lcode = (\<lambda>_. ''en''),
      trn = (\<lambda>_ _. None), pref = (\<lambda>_. []), langs = [''english''], clk = (\<lambda>_. t7), rnd = (\<lambda>_. [])\<rparr>"

definition demo_world :: "(cells, unit) world" where
  "demo_world = \<lparr>sto = Map.empty, ext = (), hooks = [], tick = 0, counter = \<lambda>_. 0\<rparr>"

definition demo_ctx :: ctx where
  "demo_ctx =
     \<lparr>req = \<lparr>rq_Method = ''POST'', rq_Path = ''/'', rq_HX = True, rq_form = \<lambda>_. [], rq_query = \<lambda>_. [],
        rq_params = \<lambda>_. [], rq_lang = ''english'', rq_ip = ''10.0.0.1'', rq_browser = [], rq_os = [],
        rq_base = ''https://portal'', rq_cookie = ''s1'', rq_csrf = [], rq_scheme = ''https'', rq_host = ''portal.example.com'',
        rq_body = [], rq_authorization = []\<rparr>,
      lc_username = [], lc_user = empty_user, lc_client = []\<rparr>"

end
