(* ===== verification/Email.thy ===== *)
theory Email
  imports Web
begin

text \<open>
  The mails of the portal (\<open>email.go\<close>). Each \<open>Send\<close> function builds a mail and delivers it; those that
  carry a token issue it first and take the issued marker back when delivery fails. An optional
  context is that of the request a mail belongs to; background jobs have none.
\<close>

section \<open>Delivering\<close>

definition BaseURL :: "('s, 'x) env \<Rightarrow> ctx option \<Rightarrow> string" where
  "BaseURL E c =
     (case c of
        Some c' \<Rightarrow> if base_url (email (cfg E)) = [] then rq_base (req c') else base_url (email (cfg E))
      | None \<Rightarrow> base_url (email (cfg E)))"

definition emailLanguage :: "('s, 'x) env \<Rightarrow> user \<Rightarrow> ctx option \<Rightarrow> string" where
  "emailLanguage E u c =
     (case c of
        Some c' \<Rightarrow> rq_lang (req c')
      | None \<Rightarrow> userLanguage (pref E) (default_language (site (cfg E))) (PreferredLanguage u))"

definition linkExpires :: "('s, 'x) env \<Rightarrow> string \<Rightarrow> msg" where
  "linkExpires E lang =
     (case formatDuration (lcode E) (trn E) lang (token_max_age (email (cfg E)) * second) of
        (key, n) \<Rightarrow> Tr lang key [n])"

definition deliver_mail ::
    "('s, 'x) env \<Rightarrow> user \<Rightarrow> ctx option \<Rightarrow> string \<Rightarrow> msg \<Rightarrow> string \<Rightarrow> vars \<Rightarrow> ('s, 'x, error option) act" where
  "deliver_mail E u c lang subject tmpl vs =
     (let m = \<lparr>ml_user = u, ml_lang = (if lang \<in> set (langs E) then Some lang else None), ml_subject = subject,
               ml_template = tmpl, ml_vars = vs, ml_base = BaseURL E c,
               ml_os = (case c of Some c' \<Rightarrow> rq_os (req c') | None \<Rightarrow> []),
               ml_browser = (case c of Some c' \<Rightarrow> rq_browser (req c') | None \<Rightarrow> [])\<rparr>
      in do {
        N \<leftarrow> on_ext (\<lambda>x. x_smtp (ipa E) x m);
        State_Monad.return (fst (sendEmail (cfg E) N m))
      })"

definition issue_token ::
    "('s, 'x) env \<Rightarrow> string \<Rightarrow> string \<Rightarrow> string \<Rightarrow> ('s, 'x, string result) act" where
  "issue_token E username eaddr purpose =
     do {
       t \<leftarrow> Now E;
       k \<leftarrow> draw;
       on_sto (NewToken (stg E) (brn E) (cfg E) username eaddr purpose t (rnd E k))
     }"

definition sendTokenEmail ::
    "('s, 'x) env \<Rightarrow> user \<Rightarrow> string \<Rightarrow> string \<Rightarrow> ctx option \<Rightarrow> string \<Rightarrow> msg \<Rightarrow> string \<Rightarrow> vars
      \<Rightarrow> ('s, 'x, error option) act" where
  "sendTokenEmail E u tokenKey purpose c lang subject tmpl vs =
     do {
       err \<leftarrow> deliver_mail E u c lang subject tmpl vs;
       (if err \<noteq> None then
          do {
            t \<leftarrow> Now E;
            _ \<leftarrow> on_sto (\<lambda>s. st_delete (stg E) s t (issued_key purpose tokenKey));
            State_Monad.return err
          }
        else State_Monad.return err)
     }"

text \<open>The mails with a link: a token is issued to \<open>who\<close> for an address, and the link goes to \<open>u\<close>.\<close>

definition token_mail ::
    "('s, 'x) env \<Rightarrow> user \<Rightarrow> string \<Rightarrow> string \<Rightarrow> string \<Rightarrow> string \<Rightarrow> string \<Rightarrow> string \<Rightarrow> vars \<Rightarrow> ctx \<Rightarrow> ('s, 'x, error option) act" where
  "token_mail E u who eaddr purpose path subject tmpl vs c =
     (let lang = emailLanguage E u (Some c)
      in do {
        token \<leftarrow> issue_token E who eaddr purpose;
        (case token of
           Err e \<Rightarrow> State_Monad.return (Some e)
         | Ok tk \<Rightarrow>
             sendTokenEmail E u who purpose (Some c) lang (Tr lang subject []) tmpl
               ([(''link'', PStr (BaseURL E (Some c) @ path @ tk)), (''link_expires'', PText (linkExpires E lang))] @ vs))
      })"

definition SendPasswordResetEmail :: "('s, 'x) env \<Rightarrow> user \<Rightarrow> ctx \<Rightarrow> ('s, 'x, error option) act" where
  "SendPasswordResetEmail E u c =
     token_mail E u (Username u) (Email u) TokenPasswordReset ''/auth/resetpw/''
       ''email_template.password_reset_subject'' ''password-reset'' [] c"

definition SendAccountVerifyEmail :: "('s, 'x) env \<Rightarrow> user \<Rightarrow> ctx \<Rightarrow> ('s, 'x, error option) act" where
  "SendAccountVerifyEmail E u c =
     token_mail E u (Username u) (Email u) TokenAccountVerify ''/auth/verify/''
       ''email_template.account_verify_subject'' ''account-verify'' [] c"

definition SendOTPRecoveryConfirmEmail :: "('s, 'x) env \<Rightarrow> user \<Rightarrow> ctx \<Rightarrow> ('s, 'x, error option) act" where
  "SendOTPRecoveryConfirmEmail E u c =
     token_mail E u (Username u) (Email u) TokenOTPRecovery ''/auth/otprecovery/''
       ''email_template.otprecovery_confirm_subject'' ''otprecovery-confirm'' [] c"

definition SendEmailChangeConfirmEmail :: "('s, 'x) env \<Rightarrow> user \<Rightarrow> string \<Rightarrow> ctx \<Rightarrow> ('s, 'x, error option) act" where
  "SendEmailChangeConfirmEmail E u newEmail c =
     token_mail E (u\<lparr>Email := newEmail\<rparr>) (Username u) newEmail TokenEmailChange ''/auth/email/confirm/''
       ''email_template.email_change_subject'' ''email-change'' [(''new_email'', PStr newEmail)] c"

definition SendInviteEmail :: "('s, 'x) env \<Rightarrow> string \<Rightarrow> ctx \<Rightarrow> ('s, 'x, error option) act" where
  "SendInviteEmail E eaddr c =
     token_mail E (empty_user\<lparr>Email := eaddr\<rparr>) eaddr eaddr TokenInvite ''/auth/invite/''
       ''email_template.invite_subject'' ''invite'' [] c"

definition SendPasswordElsewhereEmail :: "('s, 'x) env \<Rightarrow> user \<Rightarrow> msg \<Rightarrow> ctx \<Rightarrow> ('s, 'x, error option) act" where
  "SendPasswordElsewhereEmail E u reason c =
     (let lang = emailLanguage E u (Some c); marker = issued_key TokenPasswordReset (Username u)
      in do {
        t \<leftarrow> Now E;
        sent \<leftarrow> reads (\<lambda>w. st_get (stg E) (sto w) t marker);
        (case sent of
           Err e \<Rightarrow> State_Monad.return (Some e)
         | Ok (Some _) \<Rightarrow> State_Monad.return None
         | Ok None \<Rightarrow>
             do {
               t' \<leftarrow> Now E;
               e \<leftarrow> on_sto (\<lambda>s. st_set (stg E) s t' marker (Raw ''true'')
                      (resend_cooldown (email (cfg E)) * second));
               (case e of
                  Some err \<Rightarrow> State_Monad.return (Some err)
                | None \<Rightarrow> deliver_mail E u (Some c) lang (Tr lang ''email_template.password_elsewhere_subject'' [])
                            ''password-elsewhere'' [(''reason'', PText reason)])
             })
      })"

section \<open>Notifications\<close>

text \<open>Mails without a token; \<open>event_mail\<close> tells of a change of the account.\<close>

definition event_mail :: "('s, 'x) env \<Rightarrow> user \<Rightarrow> ctx \<Rightarrow> (string \<Rightarrow> msg) \<Rightarrow> ('s, 'x, error option) act" where
  "event_mail E u c event =
     (let lang = emailLanguage E u (Some c)
      in deliver_mail E u (Some c) lang (event lang) ''account-updated'' [(''event'', PText (event lang))])"

definition SendEmailChangedNotification :: "('s, 'x) env \<Rightarrow> string \<Rightarrow> user \<Rightarrow> ctx \<Rightarrow> ('s, 'x, error option) act" where
  "SendEmailChangedNotification E oldEmail u c =
     event_mail E (u\<lparr>Email := oldEmail\<rparr>) c (\<lambda>lang. Tr lang ''email_template.email_changed_event'' [])"

definition SendMFAChangedEmail :: "('s, 'x) env \<Rightarrow> bool \<Rightarrow> user \<Rightarrow> ctx \<Rightarrow> ('s, 'x, error option) act" where
  "SendMFAChangedEmail E on u c =
     event_mail E u c (\<lambda>lang. Cat (Tr lang ''email_template.two_factor_auth_event'' [])
       (Tr lang (if on then ''email_template.two_factor_auth_enabled''
                 else ''email_template.two_factor_auth_disabled'') []))"

definition SendPasskeyUpdatedEmail :: "('s, 'x) env \<Rightarrow> bool \<Rightarrow> user \<Rightarrow> ctx \<Rightarrow> ('s, 'x, error option) act" where
  "SendPasskeyUpdatedEmail E added u c =
     event_mail E u c (\<lambda>lang. Cat (Tr lang ''email_template.passkey_event'' [])
       (Tr lang (if added then ''email_template.passkey_added'' else ''email_template.passkey_removed'') []))"

definition SendSSHKeyUpdatedEmail :: "('s, 'x) env \<Rightarrow> bool \<Rightarrow> user \<Rightarrow> ctx \<Rightarrow> ('s, 'x, error option) act" where
  "SendSSHKeyUpdatedEmail E added u c =
     event_mail E u c (\<lambda>lang. Cat (Tr lang ''email_template.ssh_key_event'' [])
       (Tr lang (if added then ''email_template.ssh_key_added'' else ''email_template.ssh_key_removed'') []))"

definition SendOTPTokenUpdatedEmail :: "('s, 'x) env \<Rightarrow> bool \<Rightarrow> user \<Rightarrow> ctx \<Rightarrow> ('s, 'x, error option) act" where
  "SendOTPTokenUpdatedEmail E added u c =
     event_mail E u c (\<lambda>lang. Cat (Tr lang ''email_template.otp_token_event'' [])
       (Tr lang (if added then ''email_template.otp_token_added'' else ''email_template.otp_token_removed'') []))"

definition SendPasswordChangedEmail :: "('s, 'x) env \<Rightarrow> user \<Rightarrow> ctx \<Rightarrow> ('s, 'x, error option) act" where
  "SendPasswordChangedEmail E u c =
     (let lang = emailLanguage E u (Some c)
      in if \<not> notify_password_change (email (cfg E)) then State_Monad.return None
         else deliver_mail E u (Some c) lang (Tr lang ''email_template.account_updated_subject'' [])
                ''account-updated'' [(''event'', PText (Tr lang ''email_template.password_changed_event'' []))])"

definition SendWelcomeEmail :: "('s, 'x) env \<Rightarrow> user \<Rightarrow> ctx \<Rightarrow> ('s, 'x, error option) act" where
  "SendWelcomeEmail E u c =
     (let lang = emailLanguage E u (Some c)
      in deliver_mail E u (Some c) lang
           (Cat (Tr lang ''email_template.welcome_subject'' []) (Tx (site_name (site (cfg E)))))
           ''welcome'' [(''getting_started_url'', PStr (getting_started_url (site (cfg E))))])"

definition SendUsernameReminderEmail :: "('s, 'x) env \<Rightarrow> string \<Rightarrow> string list \<Rightarrow> ctx \<Rightarrow> ('s, 'x, error option) act" where
  "SendUsernameReminderEmail E eaddr usernames c =
     (let u = empty_user\<lparr>Email := eaddr\<rparr>; lang = emailLanguage E u (Some c)
      in deliver_mail E u (Some c) lang (Tr lang ''email_template.username_reminder_subject'' [])
           ''username-reminder'' [(''usernames'', PStrs usernames)])"

definition SendNewLoginEmail :: "('s, 'x) env \<Rightarrow> user \<Rightarrow> string \<Rightarrow> string \<Rightarrow> string \<Rightarrow> ('s, 'x, error option) act" where
  "SendNewLoginEmail E u browser os ip =
     (let lang = emailLanguage E u None;
          event = Cat (Tr lang ''email_template.new_login_event_part1'' [])
                    (Cat (Tx (browser @ '' ('' @ os @ '')''))
                      (Cat (Tr lang ''email_template.new_login_event_part2'' []) (Tx ip)))
      in deliver_mail E u None lang (Tr lang ''email_template.new_login_subject'' [])
           ''account-updated'' [(''event'', PText event)])"

definition SendPasswordExpiryReminderEmail :: "('s, 'x) env \<Rightarrow> user \<Rightarrow> int \<Rightarrow> ('s, 'x, error option) act" where
  "SendPasswordExpiryReminderEmail E u days =
     (let lang = emailLanguage E u None
      in deliver_mail E u None lang (Tr lang ''email_template.password_expiry_subject'' [])
           ''password-expiry'' [(''days'', PInt days)])"

definition SendGroupRequestEmail ::
    "('s, 'x) env \<Rightarrow> user \<Rightarrow> string \<Rightarrow> string \<Rightarrow> string \<Rightarrow> ('s, 'x, error option) act" where
  "SendGroupRequestEmail E manager requester g reqType =
     (let lang = emailLanguage E manager None;
          subject = (if reqType = groupRequestLeave then Tr lang ''email_template.group_leave_request_subject'' []
                     else Tr lang ''email_template.group_request_subject'' [])
      in deliver_mail E manager None lang (Cat subject (Tx g)) ''group-request''
           [(''requester'', PStr requester), (''group'', PStr g), (''type'', PStr reqType)])"

definition SendGroupDecisionEmail ::
    "('s, 'x) env \<Rightarrow> user \<Rightarrow> string \<Rightarrow> bool \<Rightarrow> string \<Rightarrow> ('s, 'x, error option) act" where
  "SendGroupDecisionEmail E u g approved reqType =
     (let lang = emailLanguage E u None; leave = (reqType = groupRequestLeave);
          subject = (if approved \<and> leave then ''email_template.group_leave_approved_subject''
                     else if \<not> approved \<and> leave then ''email_template.group_leave_denied_subject''
                     else if approved then ''email_template.group_approved_subject''
                     else ''email_template.group_denied_subject'')
      in deliver_mail E u None lang (Cat (Tr lang subject []) (Tx g)) ''group-decision''
           [(''group'', PStr g), (''approved'', PBool approved), (''type'', PStr reqType)])"

definition SendGroupRemovedEmail :: "('s, 'x) env \<Rightarrow> user \<Rightarrow> string \<Rightarrow> ('s, 'x, error option) act" where
  "SendGroupRemovedEmail E u g =
     (let lang = emailLanguage E u None
      in deliver_mail E u None lang (Cat (Tr lang ''email_template.group_removed_subject'' []) (Tx g))
           ''group-removed'' [(''group'', PStr g)])"

definition SendOTPRecoveryDecisionEmail :: "('s, 'x) env \<Rightarrow> user \<Rightarrow> bool \<Rightarrow> ('s, 'x, error option) act" where
  "SendOTPRecoveryDecisionEmail E u approved =
     (let lang = emailLanguage E u None
      in deliver_mail E u None lang
           (Tr lang (if approved then ''email_template.otprecovery_approved_subject''
                     else ''email_template.otprecovery_denied_subject'') [])
           ''otprecovery-decision'' [(''approved'', PBool approved)])"

section \<open>The issued marker\<close>

lemma deliver_mail_sto [simp]: "sto (snd (run_state (deliver_mail E u c lang subject tmpl vs) w)) = sto w"
  "tick (snd (run_state (deliver_mail E u c lang subject tmpl vs) w)) = tick w"
  by (simp_all add: deliver_mail_def Let_def)

lemma sendTokenEmail_run:
  assumes "run_state (sendTokenEmail E u k p c lang subject tmpl vs) w = (r, w')"
  shows "sto w' = (if r = None then sto w else snd (st_delete (stg E) (sto w) (clk E (tick w)) (issued_key p k)))"
  using assms deliver_mail_sto [of E u c lang subject tmpl vs w]
  by (auto simp: sendTokenEmail_def case_prod_unfold split: if_splits)

lemma token_mail_run:
  assumes "run_state (token_mail E u who e p path subj tmpl vs c) w = (r, w')"
    and "NewToken (stg E) (brn E) (cfg E) who e p (clk E (tick w)) (rnd E (Suc (tick w))) (sto w) = (tk, s1)"
  shows "case tk of
      Err err \<Rightarrow> r = Some err \<and> sto w' = s1
    | Ok _ \<Rightarrow> sto w' = (if r = None then s1
        else snd (st_delete (stg E) s1 (clk E (Suc (Suc (tick w)))) (issued_key p who)))"
proof (cases tk)
  case (Inl err)
  with assms show ?thesis by (auto simp: token_mail_def issue_token_def Let_def)
next
  case (Inr t)
  with assms show ?thesis
    by (auto simp: token_mail_def issue_token_def Let_def dest!: sendTokenEmail_run)
qed

text \<open>
  Failed deliveries free the marker. After a mail with a link was sent, the resend cooldown of its
  purpose and user is in force; when its delivery failed, the marker is gone and the user can ask
  again at once. No other storage key changes either way.
\<close>

theorem token_mail_rollback:
  assumes "reliable_store (stg E) view"
    and "run_state (token_mail E u who e p path subj tmpl vs c) w = (r, w')"
    and "NewToken (stg E) (brn E) (cfg E) who e p (clk E (tick w)) (rnd E (Suc (tick w))) (sto w) = (Ok token, s1)"
  shows "(r \<noteq> None \<longrightarrow> (\<forall>t. view (sto w') t (issued_key p who) = None))
    \<and> (r = None \<longrightarrow> (\<forall>t. clk E (tick w) \<le> t \<and> t < clk E (tick w) + resend_cooldown (email (cfg E)) * second
          \<longrightarrow> view (sto w') t (issued_key p who) = Some (Raw ''true'')))
    \<and> (\<forall>k t. k \<noteq> issued_key p who \<longrightarrow> view (sto w') t k = view (sto w) t k)"
proof -
  note kv = reliable_store.axioms(1) [OF assms(1)]
  have sto: "sto w' = (if r = None then s1
      else snd (st_delete (stg E) s1 (clk E (Suc (Suc (tick w)))) (issued_key p who)))"
    using token_mail_run [OF assms(2,3)] by simp
  have frame: "view s1 t k = view (sto w) t k" if "k \<noteq> issued_key p who" for t k
    using kv_store.NewToken_frame [OF kv that, where s = "sto w"] assms(3) by (metis snd_conv)
  show ?thesis
    using sto frame kv_store.issued_marker_set [OF kv assms(3)]
    by (auto simp: reliable_store.delete_same_ok [OF assms(1)] kv_store.delete_other' [OF kv])
qed


definition demo_alice :: user where
  "demo_alice = empty_user\<lparr>Username := ''alice'', Email := ''alice@example.com''\<rparr>"

theorem token_mail_rollback_witness:
  "\<exists>r w'. run_state (SendPasswordResetEmail demo_env demo_alice demo_ctx) demo_world = (r, w')
    \<and> (r \<noteq> None \<longrightarrow> (\<forall>t. sound_view (sto w') t (issued_key TokenPasswordReset ''alice'') = None))"
proof -
  obtain r w' where run: "run_state (SendPasswordResetEmail demo_env demo_alice demo_ctx) demo_world = (r, w')"
    by fastforce
  then have run': "run_state (token_mail demo_env demo_alice ''alice'' ''alice@example.com'' TokenPasswordReset ''/auth/resetpw/''
       ''email_template.password_reset_subject'' ''password-reset'' [] demo_ctx) demo_world = (r, w')"
    by (simp add: SendPasswordResetEmail_def demo_alice_def)
  have rel: "reliable_store (stg demo_env) sound_view"
    by (simp add: demo_env_def sound.reliable_store_axioms)
  have "NewToken (stg demo_env) (brn demo_env) (cfg demo_env) ''alice'' ''alice@example.com'' TokenPasswordReset
      (clk demo_env (tick demo_world)) (rnd demo_env (Suc (tick demo_world))) (sto demo_world) = (Ok ''token-7'', issued_alice)"
    using NewToken_alice by (simp add: demo_env_def demo_world_def)
  from token_mail_rollback [OF rel run' this] run show ?thesis by blast
qed

end
