(* ===== verification/Login_State.thy ===== *)
theory Login_State
  imports Email
begin

text \<open>
  Who a request belongs to: fetching and saving the session (\<open>session.go\<close>), checking it and the guards in
  front of the handlers (\<open>auth.go\<close>, \<open>csrf.go\<close>, \<open>middleware.go\<close>), and the marker that ends the sessions a user had
  before a password change.
\<close>

section \<open>Fetching and saving\<close>

text \<open>Session data of the previous release is decoded, encoded again and stored.\<close>

definition migrateFiberV2Session :: "('s, 'x) env \<Rightarrow> ctx \<Rightarrow> ('s, 'x, bool) act" where
  "migrateFiberV2Session E c =
     (let sid = rq_cookie (req c)
      in if sid = [] then State_Monad.return False
         else do {
           t \<leftarrow> Now E;
           raw \<leftarrow> reads (\<lambda>w. st_get (stg E) (sto w) t sid);
           (case raw of
              Ok (Some b) \<Rightarrow>
                (case Option.bind (fs_old (fib E) b) (fs_new (fib E)) of
                   None \<Rightarrow> State_Monad.return False
                 | Some b' \<Rightarrow> do {
                     t' \<leftarrow> Now E;
                     err \<leftarrow> on_sto (\<lambda>s. st_set (stg E) s t' sid b'
                               (session_idle_timeout (server (cfg E)) * second));
                     State_Monad.return (err = None)
                   })
            | _ \<Rightarrow> State_Monad.return False)
         })"

definition session :: "('s, 'x) env \<Rightarrow> ctx \<Rightarrow> ('s, 'x, sess result) act" where
  "session E c =
     do {
       t \<leftarrow> Now E;
       r \<leftarrow> reads (\<lambda>w. fs_get (fib E) (sto w) t (rq_cookie (req c)));
       (case r of
          Ok s \<Rightarrow> State_Monad.return (Ok s)
        | Err e \<Rightarrow> do {
            migrated \<leftarrow> migrateFiberV2Session E c;
            (if migrated then do {
               t' \<leftarrow> Now E;
               reads (\<lambda>w. fs_get (fib E) (sto w) t' (rq_cookie (req c)))
             }
             else State_Monad.return (Err e))
          })
     }"

definition sessionSave :: "('s, 'x) env \<Rightarrow> sess \<Rightarrow> ('s, 'x, error option) act" where
  "sessionSave E x = do { t \<leftarrow> Now E; on_sto (\<lambda>s. fs_save (fib E) s t x) }"

text \<open>\<open>sess.Regenerate\<close> and \<open>sess.Destroy\<close> of the session middleware.\<close>

definition Regenerate :: "('s, 'x) env \<Rightarrow> sess \<Rightarrow> ('s, 'x, sess result) act" where
  "Regenerate E x = do { t \<leftarrow> Now E; k \<leftarrow> draw; on_sto (\<lambda>s. fs_regenerate (fib E) s t k x) }"

definition Destroy :: "('s, 'x) env \<Rightarrow> sess \<Rightarrow> ('s, 'x, error option) act" where
  "Destroy E x = do { t \<leftarrow> Now E; on_sto (\<lambda>s. fs_destroy (fib E) s t x) }"

section \<open>Password changes end sessions\<close>

definition sessionInvalidatedByPasswordChange :: "int \<Rightarrow> blob option \<Rightarrow> bool" where
  "sessionInvalidatedByPasswordChange loginTime marker =
     (case marker of
        None \<Rightarrow> False
      | Some (Doc _) \<Rightarrow> False
      | Some (Raw raw) \<Rightarrow>
          (case ParseInt raw of None \<Rightarrow> False | Some changedAt \<Rightarrow> loginTime < changedAt))"

definition invalidateUserSessions :: "('s, 'x) env \<Rightarrow> string \<Rightarrow> ('s, 'x, unit) act" where
  "invalidateUserSessions E username =
     (let ttl = session_idle_timeout (server (cfg E)) * second + minute
      in do {
        t \<leftarrow> Now E;
        _ \<leftarrow> on_sto (\<lambda>s. st_set (stg E) s t (pwchanged_key username) (Raw (FormatInt (unix t))) ttl);
        State_Monad.return ()
      })"

section \<open>The session check\<close>

text \<open>The part of \<open>isLoggedIn\<close> that reads the session: who it says it belongs to, or why it is refused.\<close>

definition session_claims :: "sess \<Rightarrow> (string \<times> string \<times> int) result" where
  "session_claims x =
     (case (sess_get x SessionKeySID, sess_get x SessionKeyUsername, sess_get x SessionKeyAuthenticated) of
        (Some sid, Some username, Some authenticated) \<Rightarrow>
          (case username of
             SStr u \<Rightarrow>
               (case sid of
                  SStr i \<Rightarrow>
                    if authenticated = SBool True
                    then Ok (u, i, case sess_get x SessionKeyLoginTime of Some (SInt n) \<Rightarrow> n | _ \<Rightarrow> 0)
                    else Err (EText ''User is not authenticated in session'')
                | _ \<Rightarrow> Err (EText ''Invalid sid in session''))
           | _ \<Rightarrow> Err (EText ''Invalid user in session''))
      | _ \<Rightarrow> Err (EText ''Invalid session''))"

definition isLoggedIn :: "('s, 'x) env \<Rightarrow> ctx \<Rightarrow> ('s, 'x, ctx result) act" where
  "isLoggedIn E c =
     do {
       sx \<leftarrow> session E c;
       (case sx of
          Err _ \<Rightarrow> State_Monad.return (Err (EText ''Failed to get session''))
        | Ok x \<Rightarrow>
            (case session_claims x of
               Err e \<Rightarrow> State_Monad.return (Err e)
             | Ok (username, sid, loginTime) \<Rightarrow> do {
                 t \<leftarrow> Now E;
                 marker \<leftarrow> reads (\<lambda>w. st_get (stg E) (sto w) t (pwchanged_key username));
                 (if sessionInvalidatedByPasswordChange loginTime (case marker of Ok m \<Rightarrow> m | Err _ \<Rightarrow> None)
                  then State_Monad.return (Err (EText ''Session invalidated by password change''))
                  else do {
                    cl \<leftarrow> reads (\<lambda>w. ip_session (ipa E) (ext w) sid);
                    (case cl of
                       Some e \<Rightarrow> State_Monad.return (Err e)
                     | None \<Rightarrow> do {
                         u \<leftarrow> reads (\<lambda>w. ip_UserShow (ipa E) (ext w) (AsUser sid) username);
                         (case u of
                            Err e \<Rightarrow> State_Monad.return (Err (EText ''Failed to refresh FreeIPA user session''))
                          | Ok user \<Rightarrow> do {
                              _ \<leftarrow> sessionSave E (x\<lparr>ss_idle := session_idle_timeout (server (cfg E)) * second\<rparr>);
                              State_Monad.return
                                (Ok (c\<lparr>lc_username := username, lc_user := user, lc_client := sid\<rparr>))
                            })
                       })
                  })
               }))
     }"

section \<open>Signing out\<close>

definition revokeHydraAuthenticationSession :: "('s, 'x) env \<Rightarrow> string \<Rightarrow> ('s, 'x, error option) act" where
  "revokeHydraAuthenticationSession E username = on_ext (\<lambda>x. hy_revoke_login (hyd E) x username)"

abbreviation hydra_set :: "('s, 'x) env \<Rightarrow> bool" where
  "hydra_set E \<equiv> hydra_admin_url (hydra (cfg E)) \<noteq> None"

definition logout :: "('s, 'x) env \<Rightarrow> ctx \<Rightarrow> ('s, 'x, unit) act" where
  "logout E c =
     do {
       sx \<leftarrow> session E c;
       (case sx of
          Err _ \<Rightarrow> State_Monad.return ()
        | Ok x \<Rightarrow>
            (let name = (case sess_get x SessionKeyUsername of Some (SStr n) \<Rightarrow> Some n | _ \<Rightarrow> None)
             in do {
               _ \<leftarrow> (case name of
                       Some n \<Rightarrow> do {
                         t \<leftarrow> Now E;
                         on_sto (\<lambda>s. ((), dropSessionFromIndex (stg E) n (ss_id x) t s))
                       }
                     | None \<Rightarrow> State_Monad.return ());
               _ \<leftarrow> Destroy E x;
               (case name of
                  Some n \<Rightarrow>
                    if hydra_set E
                    then do { _ \<leftarrow> revokeHydraAuthenticationSession E n; State_Monad.return () }
                    else State_Monad.return ()
                | None \<Rightarrow> State_Monad.return ())
             }))
     }"

definition redirectLogin :: "('s, 'x) env \<Rightarrow> ctx \<Rightarrow> ('s, 'x, outcome) act" where
  "redirectLogin E c =
     do {
       _ \<leftarrow> logout E c;
       State_Monad.return (if rq_HX (req c) then hx_redirect ''/auth/login'' else redirect ''/auth/login'')
     }"

section \<open>Guards\<close>

definition RequireNoLogin :: "('s, 'x) env \<Rightarrow> ctx \<Rightarrow> ('s, 'x, outcome) act" where
  "RequireNoLogin E c =
     do {
       r \<leftarrow> isLoggedIn E c;
       State_Monad.return
         (case r of
            Ok _ \<Rightarrow> if rq_HX (req c) then hx_redirect ''/'' else redirect ''/''
          | Err _ \<Rightarrow> Next c)
     }"

definition RequireLogin :: "('s, 'x) env \<Rightarrow> ctx \<Rightarrow> ('s, 'x, outcome) act" where
  "RequireLogin E c =
     do {
       r \<leftarrow> isLoggedIn E c;
       (case r of
          Err _ \<Rightarrow> redirectLogin E c
        | Ok c' \<Rightarrow> State_Monad.return (Next c'))
     }"

definition RequireMFA :: "('s, 'x) env \<Rightarrow> ctx \<Rightarrow> ('s, 'x, outcome) act" where
  "RequireMFA E c =
     State_Monad.return
       (if \<not> require_mfa (accounts (cfg E)) then Next c
        else if \<not> ip_OTPOnly (ipa E) (lc_user c)
        then reply 401 (TC c ''account.you_must_enable_two_factor_authentication_first'')
        else Next c)"

definition RequireHTMX :: "('s, 'x) env \<Rightarrow> ctx \<Rightarrow> ('s, 'x, outcome) act" where
  "RequireHTMX E c = State_Monad.return (if rq_HX (req c) then Next c else status_only 400)"

definition ErrForbidden :: error where "ErrForbidden = ESentinel ''Forbidden''"

definition safe_method :: "string \<Rightarrow> bool" where
  "safe_method m \<longleftrightarrow> m \<in> {''GET'', ''HEAD'', ''OPTIONS'', ''TRACE''}"

definition CSRF :: "('s, 'x) env \<Rightarrow> ctx \<Rightarrow> ('s, 'x, outcome) act" where
  "CSRF E c =
     do {
       sx \<leftarrow> session E c;
       (case sx of
          Err e \<Rightarrow> State_Monad.return (Fail e)
        | Ok x \<Rightarrow>
            (let token = (case sess_get x SessionKeyCSRF of Some (SStr k) \<Rightarrow> k | _ \<Rightarrow> [])
             in if safe_method (rq_Method (req c)) then
                  (if token = [] then do {
                     t \<leftarrow> Now E;
                     err \<leftarrow> sessionSave E (sess_set SessionKeyCSRF
                               (SStr (x_xsrf (ipa E) t (csrf_secret (server (cfg E))))) x);
                     State_Monad.return (case err of Some e \<Rightarrow> Fail e | None \<Rightarrow> Next c)
                   }
                   else State_Monad.return (Next c))
                else if token = [] \<or> token \<noteq> rq_csrf (req c)
                then State_Monad.return (Fail ErrForbidden)
                else State_Monad.return (Next c)))
     }"

text \<open>The response headers \<open>SecureHeaders\<close> sets, given the nonce.\<close>

definition SecureHeaders :: "string \<Rightarrow> request \<Rightarrow> (string \<times> string) list" where
  "SecureHeaders nonce r =
     [(''X-Content-Type-Options'', ''nosniff''), (''X-Frame-Options'', ''DENY''),
      (''Content-Security-Policy'',
       ''default-src 'self'; img-src 'self' data:; style-src 'self' 'unsafe-inline'; script-src 'self' 'nonce-'' @ nonce @ [CHR 0x27])]
     @ (if rq_scheme r = ''https'' then [(''Strict-Transport-Security'', ''max-age=31536000'')] else [])
     @ (if \<not> HasPrefix (rq_Path r) ''/static''
        then [(''Cache-Control'', ''no-store''), (''Pragma'', ''no-cache'')] else [])"

text \<open>
  The error handler. \<open>pages\<close> tells which templates render; errors of the framework carry their status.
\<close>

definition error_status :: "error \<Rightarrow> int" where
  "error_status e = (if e = ErrForbidden then 403 else 500)"

definition HTTPErrorHandler :: "(string \<Rightarrow> bool) \<Rightarrow> bool \<Rightarrow> request \<Rightarrow> error \<Rightarrow> response" where
  "HTTPErrorHandler pages noErrorTemplate r e =
     (let status = error_status e;
          page = FormatInt status @ (if rq_HX r then ''-partial.html'' else ''.html'')
      in \<lparr>rs_status = status, rs_headers = [],
          rs_body = (if noErrorTemplate \<or> \<not> pages page then NoBody else Page page [])\<rparr>)"

definition NotFoundHandler :: "(string \<Rightarrow> bool) \<Rightarrow> request \<Rightarrow> response" where
  "NotFoundHandler pages r =
     \<lparr>rs_status = 404, rs_headers = [],
      rs_body = (if rq_HX r then (if pages ''404-partial.html'' then Page ''404-partial.html'' [] else NoBody)
                 else Page ''404.html'' [])\<rparr>"

definition LimitReachedHandler :: outcome where
  "LimitReachedHandler = reply 429 (Tx ''Too many requests. Please try again later.'')"

section \<open>New logins\<close>

text \<open>
  \<open>recordUserSession\<close> with the clock, and \<open>notifyNewLogin\<close>. The mail is sent from a goroutine; here
  it is sent in place, before the handler goes on.
\<close>

definition record_session :: "('s, 'x) env \<Rightarrow> ctx \<Rightarrow> string \<Rightarrow> string \<Rightarrow> ('s, 'x, unit) act" where
  "record_session E c username sid =
     do {
       t \<leftarrow> Now E;
       on_sto (\<lambda>s. ((), recordUserSession (stg E) username sid (rq_ip (req c)) (rq_browser (req c)) (rq_os (req c)) t s))
     }"

definition notifyNewLogin :: "('s, 'x) env \<Rightarrow> ctx \<Rightarrow> string \<Rightarrow> ('s, 'x, unit) act" where
  "notifyNewLogin E c username =
     (if \<not> notify_new_login (email (cfg E)) then State_Monad.return ()
      else do {
        u \<leftarrow> reads (\<lambda>w. ip_UserShow (ipa E) (ext w) Admin username);
        (case u of
           Err _ \<Rightarrow> State_Monad.return ()
         | Ok user \<Rightarrow>
             if Email user = [] then State_Monad.return ()
             else do {
               _ \<leftarrow> SendNewLoginEmail E user (rq_browser (req c)) (rq_os (req c)) (rq_ip (req c));
               State_Monad.return ()
             })
      })"

section \<open>Properties\<close>

lemma marker_refuses:
  assumes "int64_min \<le> n" "n \<le> int64_max"
  shows "sessionInvalidatedByPasswordChange login (Some (Raw (FormatInt n))) \<longleftrightarrow> login < n"
  using assms by (simp add: sessionInvalidatedByPasswordChange_def ParseInt_FormatInt)

lemma pwchanged_key_inj [simp]: "pwchanged_key u = pwchanged_key v \<longleftrightarrow> u = v"
  by (simp add: pwchanged_key_def)

lemma run_invalidate:
  "run_state (invalidateUserSessions E u) w
    = ((), w\<lparr>tick := Suc (tick w),
         sto := snd (st_set (stg E) (sto w) (clk E (tick w)) (pwchanged_key u) (Raw (FormatInt (unix (clk E (tick w)))))
                 (session_idle_timeout (server (cfg E)) * second + minute))\<rparr>)"
  by (simp add: invalidateUserSessions_def Let_def)

lemma FormatInt_nonempty [simp]: "FormatInt n \<noteq> []"
  by (simp add: FormatInt_def)

lemma invalidated_marker:
  assumes "reliable_store (stg E) view" and "run_state (invalidateUserSessions E u) w = ((), w1)"
    and "clk E (tick w) \<le> t" "t < clk E (tick w) + session_idle_timeout (server (cfg E)) * second + minute"
  shows "view (sto w1) t (pwchanged_key u) = Some (Raw (FormatInt (unix (clk E (tick w)))))"
  using assms(2-) reliable_store.set_same_ok [OF assms(1), of "pwchanged_key u"]
  by (auto simp: run_invalidate)

lemma isLoggedIn_marked:
  assumes "reliable_store (stg E) view"
    and "run_state (session E c) w = (Ok x, w')" and "session_claims x = Ok (u, sid, login)"
    and "sessionInvalidatedByPasswordChange login (view (sto w') (clk E (tick w')) (pwchanged_key u))"
  shows "run_state (isLoggedIn E c) w
    = (Err (EText ''Session invalidated by password change''), w'\<lparr>tick := Suc (tick w')\<rparr>)"
  using assms(2-) by (simp add: isLoggedIn_def reliable_store.get_ok [OF assms(1)])

text \<open>
  C14. A password change ends older sessions. Once the sessions of a user were invalidated, every request
  on a session of that name whose login was in an earlier second is refused and sent to the login
  page, for as long as any such session can live: until the idle time and a minute have passed.
\<close>

theorem password_change_ends_sessions:
  assumes "reliable_store (stg E) view"
    and "run_state (invalidateUserSessions E u) w = ((), w1)"
    and "run_state (session E c) w2 = (Ok x, w3)" and "session_claims x = Ok (u, sid, login)"
    and "\<And>t. view (sto w3) t (pwchanged_key u) = view (sto w1) t (pwchanged_key u)"
    and "login < unix (clk E (tick w))" and "int64_min \<le> unix (clk E (tick w))" "unix (clk E (tick w)) \<le> int64_max"
    and "clk E (tick w) \<le> clk E (tick w3)"
    and "clk E (tick w3) < clk E (tick w) + session_idle_timeout (server (cfg E)) * second + minute"
  shows "fst (run_state (isLoggedIn E c) w2) = Err (EText ''Session invalidated by password change'')
    \<and> fst (run_state (RequireLogin E c) w2) \<in> {hx_redirect ''/auth/login'', redirect ''/auth/login''}"
proof -
  have "sessionInvalidatedByPasswordChange login (view (sto w3) (clk E (tick w3)) (pwchanged_key u))"
    using invalidated_marker [OF assms(1,2,9,10)] assms(5-8) by (simp add: marker_refuses)
  note refused = isLoggedIn_marked [OF assms(1,3,4) this]
  show ?thesis
    by (simp add: RequireLogin_def refused redirectLogin_def case_prod_unfold)
qed

text \<open>
  The marker is kept per spelling. Invalidating the sessions of one spelling of a name leaves a session
  that was opened under another spelling of it signed in, although FreeIPA, which compares names
  without regard to case, takes both for the same user.
\<close>

theorem invalidation_by_spelling:
  assumes "reliable_store (stg E) view"
    and "run_state (invalidateUserSessions E u) w = ((), w1)"
    and "run_state (session E c) w1 = (Ok x, w2)" and "session_claims x = Ok (u', sid, login)"
    and "\<And>t. view (sto w2) t (pwchanged_key u') = view (sto w1) t (pwchanged_key u')"
    and "u' \<noteq> u" and "\<And>t. view (sto w) t (pwchanged_key u') = None"
    and "ip_session (ipa E) (ext w2) sid = None"
    and "ip_UserShow (ipa E) (ext w2) (AsUser sid) u' = Ok user"
  shows "\<exists>w3. run_state (isLoggedIn E c) w1
    = (Ok (c\<lparr>lc_username := u', lc_user := user, lc_client := sid\<rparr>), w3)"
proof -
  have "view (sto w1) t (pwchanged_key u') = None" for t
    using assms(2,6,7) kv_store.set_other' [OF reliable_store.axioms(1) [OF assms(1)]]
    by (auto simp: run_invalidate)
  with assms(5) have "view (sto w2) t (pwchanged_key u') = None" for t by simp
  then show ?thesis
    using assms(3,4,8,9)
    by (simp add: isLoggedIn_def reliable_store.get_ok [OF assms(1)] sessionInvalidatedByPasswordChange_def
        case_prod_unfold)
qed

text \<open>
  Unless its method is one that changes nothing, a request passes exactly when its session loads, holds a token and the request repeats that token
  in its header.
\<close>

lemma CSRF_unsafe:
  assumes "rq_Method (req c) \<notin> {''GET'', ''HEAD'', ''OPTIONS'', ''TRACE''}"
  shows "run_state (CSRF E c) w =
    (case run_state (session E c) w of
       (Err e, w1) \<Rightarrow> (Fail e, w1)
     | (Ok x, w1) \<Rightarrow>
         (if rq_csrf (req c) \<noteq> [] \<and> sess_get x SessionKeyCSRF = Some (SStr (rq_csrf (req c))) then Next c else Fail ErrForbidden, w1))"
  using assms
  by (auto simp: CSRF_def safe_method_def Let_def case_prod_unfold split: sum.split option.split sval.split)

section \<open>Witnesses\<close>

definition demo_sess :: sess where
  "demo_sess = \<lparr>ss_id = ''s1'', ss_data = [(SessionKeySID, SStr ''ipa''), (SessionKeyUsername, SStr ''alice''),
     (SessionKeyAuthenticated, SBool True), (SessionKeyLoginTime, SInt 3)], ss_idle = 0\<rparr>"

definition login_env :: "(cells, unit) env" where
  "login_env = demo_env\<lparr>fib := demo_sessions\<lparr>fs_get := \<lambda>_ _ _. Ok demo_sess\<rparr>,
     ipa := demo_outside\<lparr>ip_UserShow := \<lambda>_ _ _. Ok demo_alice\<rparr>\<rparr>"

lemma login_env_simps [simp]:
  "stg login_env = sound_storage" "clk login_env n = t7" "cfg login_env = default_config"
  "fib login_env = demo_sessions\<lparr>fs_get := \<lambda>_ _ _. Ok demo_sess\<rparr>"
  "ipa login_env = demo_outside\<lparr>ip_UserShow := \<lambda>_ _ _. Ok demo_alice\<rparr>"
  by (simp_all add: login_env_def demo_env_def)

lemma demo_claims: "session_claims demo_sess = Ok (''alice'', ''ipa'', 3)"
  by (simp add: session_claims_def demo_sess_def sess_get_def SessionKeySID_def SessionKeyUsername_def
      SessionKeyAuthenticated_def SessionKeyLoginTime_def)

lemma demo_session: "run_state (session login_env c) w = (Ok demo_sess, w\<lparr>tick := Suc (tick w)\<rparr>)"
  by (simp add: session_def)

lemma sound_store: "reliable_store sound_storage sound_view"
  by (rule sound.reliable_store_axioms)

theorem password_change_ends_sessions_witness:
  "\<exists>w1. run_state (invalidateUserSessions login_env ''alice'') demo_world = ((), w1)
    \<and> fst (run_state (isLoggedIn login_env demo_ctx) w1) = Err (EText ''Session invalidated by password change'')"
proof -
  obtain w1 where w1: "run_state (invalidateUserSessions login_env ''alice'') demo_world = ((), w1)"
    by (simp add: run_invalidate)
  have "reliable_store (stg login_env) sound_view" by (simp add: sound_store)
  from password_change_ends_sessions [OF this w1 demo_session [of demo_ctx w1] demo_claims]
  show ?thesis
    using w1 by (simp add: t7_unix int64_min_def int64_max_def default_config_def time_units)
qed

theorem invalidation_by_spelling_witness:
  "\<exists>w1 w3. run_state (invalidateUserSessions login_env ''Alice'') demo_world = ((), w1)
    \<and> run_state (isLoggedIn login_env demo_ctx) w1
        = (Ok (demo_ctx\<lparr>lc_username := ''alice'', lc_user := demo_alice, lc_client := ''ipa''\<rparr>), w3)"
proof -
  obtain w1 where w1: "run_state (invalidateUserSessions login_env ''Alice'') demo_world = ((), w1)"
    by (simp add: run_invalidate)
  have rel: "reliable_store (stg login_env) sound_view" by (simp add: sound_store)
  have "sound_view (sto demo_world) t (pwchanged_key ''alice'') = None" for t
    by (simp add: demo_world_def sound_view_def mem_view_def)
  then show ?thesis
    using invalidation_by_spelling [OF rel w1 demo_session [of demo_ctx w1] demo_claims, of demo_alice] w1
    by (simp add: demo_outside_def)
qed

end
