(* ===== verification/Hydra.thy ===== *)
theory Hydra
  imports Login_State
begin

text \<open>
  The login and consent endpoints for Ory Hydra (\<open>hydra.go\<close>) and the revocation of consents a user's
  groups no longer admit (\<open>hydra_consent.go\<close>). Listing consent sessions follows page tokens until a page
  names no further one; nothing bounds the number of pages, so the loop is a partial function and
  a caller whose listing never ends \<open>Hangs\<close>.
\<close>

section \<open>Who may use a client\<close>

definition memberOf :: "user \<Rightarrow> string list" where
  "memberOf u = MemberOf u @ IndirectMemberOf u"

fun policies_allow :: "unicode \<Rightarrow> string \<Rightarrow> user \<Rightarrow> bool \<Rightarrow> hydraClientPolicy list \<Rightarrow> bool" where
  "policies_allow U clientID u deny [] = (\<not> deny)"
| "policies_allow U clientID u deny (p # ps) =
     (if ClientID p = [] then False
      else if ClientID p \<noteq> clientID then policies_allow U clientID u deny ps
      else list_ex (\<lambda>want. list_ex (EqualFold U want) (memberOf u)) (Groups p))"

definition clientAllowed :: "config \<Rightarrow> unicode \<Rightarrow> string \<Rightarrow> user \<Rightarrow> bool" where
  "clientAllowed cf U clientID u =
     (case hydra_clients (hydra cf) of
        None \<Rightarrow> False
      | Some ps \<Rightarrow> policies_allow U clientID u (default_deny (hydra cf)) ps)"

definition clientGroupsEnforced :: "config \<Rightarrow> bool" where
  "clientGroupsEnforced cf =
     (case hydra_clients (hydra cf) of
        None \<Rightarrow> False
      | Some ps \<Rightarrow> list_all (\<lambda>p. ClientID p \<noteq> []) ps \<and> (ps \<noteq> [] \<or> default_deny (hydra cf)))"

section \<open>Paging\<close>

fun join_comma :: "string list \<Rightarrow> string" where
  "join_comma [] = []"
| "join_comma [l] = l"
| "join_comma (l # ls) = l @ '','' @ join_comma ls"

definition trim_angles :: "string \<Rightarrow> string" where
  "trim_angles s =
     (let angle = (\<lambda>c. c = CHR ''<'' \<or> c = CHR ''>'')
      in rev (dropWhile angle (rev (dropWhile angle s))))"

text \<open>\<open>page\<close> parses a link and gives its query value, \<open>None\<close> where the link is no URL.\<close>

fun next_link :: "(string \<Rightarrow> string option) \<Rightarrow> string list \<Rightarrow> string" where
  "next_link page [] = []"
| "next_link page (link # links) =
     (case Cut link '';'' of
        (target, params, ok) \<Rightarrow>
          if \<not> ok \<or> \<not> Contains params ''rel=\"next\"'' then next_link page links
          else (case page (trim_angles (TrimSpace target)) of None \<Rightarrow> [] | Some token \<Rightarrow> token))"

definition nextPageToken :: "(string \<Rightarrow> string option) \<Rightarrow> string list \<Rightarrow> string" where
  "nextPageToken page header = next_link page (Split (join_comma header) CHR '','')"

definition add_clients :: "consent_session list \<Rightarrow> string list \<Rightarrow> string list" where
  "add_clients sessions ids =
     fold (\<lambda>x acc. case cs_Client x of
                     None \<Rightarrow> acc
                   | Some (cid, _) \<Rightarrow> if cid \<in> set acc then acc else acc @ [cid]) sessions ids"

partial_function (option) consent_pages ::
    "(string \<Rightarrow> (consent_session list \<times> string list) result) \<Rightarrow> (string \<Rightarrow> string option) \<Rightarrow> string list \<Rightarrow> string
      \<Rightarrow> string list result option" where
  "consent_pages fetch page ids token =
     (case fetch token of
        Err e \<Rightarrow> Some (Err e)
      | Ok (sessions, header) \<Rightarrow>
          (let ids' = add_clients sessions ids; next = nextPageToken page header
           in if next = [] \<or> next = token then Some (Ok ids')
              else consent_pages fetch page ids' next))"

definition consentClientIDs :: "('s, 'x) env \<Rightarrow> 'x \<Rightarrow> string \<Rightarrow> string list result option" where
  "consentClientIDs E x username =
     consent_pages (hy_consents (hyd E) x username) (hy_page (hyd E)) [] []"

definition listConnectedApps :: "('s, 'x) env \<Rightarrow> 'x \<Rightarrow> string \<Rightarrow> connectedApp list result" where
  "listConnectedApps E x username =
     (case hy_consents (hyd E) x username [] of
        Err e \<Rightarrow> Err e
      | Ok (sessions, _) \<Rightarrow>
          Ok (map (\<lambda>cs. \<lparr>ca_ClientID = (case cs_Client cs of Some (i, _) \<Rightarrow> i | None \<Rightarrow> []),
                     ca_Name = (case cs_Client cs of Some (i, n) \<Rightarrow> if n = [] then i else n | None \<Rightarrow> []),
                     ca_Scope = cs_Scope cs,
                     ca_GrantedAt = (case cs_HandledAt cs of Some t \<Rightarrow> t | None \<Rightarrow> zero_time)\<rparr>) sessions))"

section \<open>Revoking\<close>

definition revokeConnectedApp :: "('s, 'x) env \<Rightarrow> string \<Rightarrow> string \<Rightarrow> ('s, 'x, error option) act" where
  "revokeConnectedApp E username clientID = on_ext (\<lambda>x. hy_revoke_consent (hyd E) x username clientID)"

fun revoke_loop :: "('s, 'x) env \<Rightarrow> user \<Rightarrow> string list \<Rightarrow> nat \<Rightarrow> ('s, 'x, nat) act" where
  "revoke_loop E u [] revoked = State_Monad.return revoked"
| "revoke_loop E u (cid # ids) revoked =
     (if clientAllowed (cfg E) (uni E) cid u then revoke_loop E u ids revoked
      else do {
        err \<leftarrow> revokeConnectedApp E (Username u) cid;
        (if err \<noteq> None then revoke_loop E u ids revoked
         else do {
           _ \<leftarrow> audit_info E ''OAuth2 consent revoked, user no longer in an allowed group''
                 [(''username'', Username u), (''client'', cid)];
           revoke_loop E u ids (Suc revoked)
         })
      })"

text \<open>\<open>None\<close>: the listing does not end.\<close>

definition revokeDisallowedConsents :: "('s, 'x) env \<Rightarrow> user \<Rightarrow> ('s, 'x, nat option) act" where
  "revokeDisallowedConsents E u =
     do {
       ids \<leftarrow> reads (\<lambda>w. consentClientIDs E (ext w) (Username u));
       (case ids of
          None \<Rightarrow> State_Monad.return None
        | Some (Err _) \<Rightarrow> State_Monad.return (Some 0)
        | Some (Ok is) \<Rightarrow> do { n \<leftarrow> revoke_loop E u is 0; State_Monad.return (Some n) })
     }"

definition revokeConsentsOf :: "('s, 'x) env \<Rightarrow> string \<Rightarrow> ('s, 'x, nat option) act" where
  "revokeConsentsOf E username =
     (if \<not> hydra_set E \<or> \<not> clientGroupsEnforced (cfg E) then State_Monad.return (Some 0)
      else do {
        u \<leftarrow> reads (\<lambda>w. ip_UserShow (ipa E) (ext w) Admin username);
        (case u of Err _ \<Rightarrow> State_Monad.return (Some 0) | Ok user \<Rightarrow> revokeDisallowedConsents E user)
      })"

definition consentSweepInterval :: "('s, 'x) env \<Rightarrow> duration" where
  "consentSweepInterval E =
     (if \<not> hydra_set E \<or> \<not> clientGroupsEnforced (cfg E) then 0
      else consent_sweep_interval (hydra (cfg E)))"

fun sweep_loop :: "('s, 'x) env \<Rightarrow> user list \<Rightarrow> nat \<Rightarrow> ('s, 'x, nat option) act" where
  "sweep_loop E [] revoked = State_Monad.return (Some revoked)"
| "sweep_loop E (u # us) revoked =
     do {
       n \<leftarrow> revokeDisallowedConsents E u;
       (case n of None \<Rightarrow> State_Monad.return None | Some k \<Rightarrow> sweep_loop E us (revoked + k))
     }"

definition consentSweep :: "('s, 'x) env \<Rightarrow> ('s, 'x, nat option) act" where
  "consentSweep E =
     do {
       us \<leftarrow> reads (\<lambda>w. ip_UserFind (ipa E) (ext w) Everyone);
       (case us of Err _ \<Rightarrow> State_Monad.return (Some 0) | Ok users \<Rightarrow> sweep_loop E users 0)
     }"

section \<open>Handlers\<close>

definition hydra_failed :: "int \<Rightarrow> msg \<Rightarrow> ('s, 'x, outcome) act" where
  "hydra_failed st t = do { _ \<leftarrow> Inc ''hydra_failed_logins''; State_Monad.return (reply st t) }"

definition accept_consent ::
    "('s, 'x) env \<Rightarrow> ctx \<Rightarrow> string \<Rightarrow> consent_request \<Rightarrow> user \<Rightarrow> ('s, 'x, outcome) act" where
  "accept_consent E c challenge consent u =
     do {
       r \<leftarrow> on_ext (\<lambda>x. hy_accept_consent (hyd E) x challenge (co_Scope consent) u);
       (case r of
          Err _ \<Rightarrow> hydra_failed 500 (TC c ''hydra.failed_to_accept_consent'')
        | Ok url \<Rightarrow> do {
            _ \<leftarrow> audit_info E ''User logged in via Hydra OAuth2 successfully'' [(''username'', co_Subject consent)];
            _ \<leftarrow> Inc ''hydra_logins'';
            State_Monad.return (with_header ''HX-Redirect'' url (redirect url))
          })
     }"

definition reject_consent ::
    "('s, 'x) env \<Rightarrow> ctx \<Rightarrow> string \<Rightarrow> consent_request \<Rightarrow> user \<Rightarrow> ('s, 'x, outcome) act" where
  "reject_consent E c challenge consent u =
     do {
       _ \<leftarrow> on_ext (\<lambda>x. hy_reject_consent (hyd E) x challenge);
       swept \<leftarrow> (if clientGroupsEnforced (cfg E) then revokeDisallowedConsents E u else State_Monad.return (Some 0));
       (case swept of
          None \<Rightarrow> State_Monad.return Hangs
        | Some _ \<Rightarrow> do {
            _ \<leftarrow> audit_warn E ''OAuth2 client denied, user not in an allowed group''
                  [(''username'', co_Subject consent), (''client'', co_Client consent), (''ip'', rq_ip (req c))];
            hydra_failed 403 (TC c ''hydra.client_not_allowed'')
          })
     }"

definition ConsentGet :: "('s, 'x) env \<Rightarrow> ctx \<Rightarrow> ('s, 'x, outcome) act" where
  "ConsentGet E c =
     (let challenge = rq_query (req c) ''consent_challenge''
      in if challenge = [] then hydra_failed 400 (TC c ''hydra.consent_without_challenge'')
         else do {
           cr \<leftarrow> reads (\<lambda>w. hy_consent (hyd E) (ext w) challenge);
           (case cr of
              Err _ \<Rightarrow> hydra_failed 500 (TC c ''hydra.failed_to_validate_consent'')
            | Ok consent \<Rightarrow> do {
                ur \<leftarrow> reads (\<lambda>w. ip_UserShow (ipa E) (ext w) Admin (co_Subject consent));
                (case ur of
                   Err _ \<Rightarrow> hydra_failed 500 (TC c ''hydra.failed_to_validate_consent'')
                 | Ok u \<Rightarrow>
                     if require_mfa (accounts (cfg E)) \<and> \<not> ip_OTPOnly (ipa E) u
                     then hydra_failed 401 (TC c ''hydra.access_denied'')
                     else if \<not> clientAllowed (cfg E) (uni E) (co_Client consent) u
                     then reject_consent E c challenge consent u
                     else accept_consent E c challenge consent u)
              })
         })"

definition LoginOAuthPost :: "('s, 'x) env \<Rightarrow> string \<Rightarrow> string \<Rightarrow> ctx \<Rightarrow> ('s, 'x, outcome) act" where
  "LoginOAuthPost E username challenge c =
     do {
       r \<leftarrow> on_ext (\<lambda>x. hy_accept_login (hyd E) x challenge username (Some (login_timeout (hydra (cfg E)))));
       State_Monad.return
         (case r of
            Err _ \<Rightarrow> reply 500 (TC c ''hydra.failed_to_accept_login'')
          | Ok url \<Rightarrow> if rq_HX (req c) then hx_redirect url else redirect url)
     }"

definition skip_login :: "('s, 'x) env \<Rightarrow> ctx \<Rightarrow> string \<Rightarrow> string \<Rightarrow> ('s, 'x, outcome) act" where
  "skip_login E c challenge subject =
     do {
       ur \<leftarrow> reads (\<lambda>w. ip_UserShow (ipa E) (ext w) Admin subject);
       (case ur of
          Err _ \<Rightarrow> hydra_failed 500 (TC c ''hydra.failed_to_validate_login'')
        | Ok u \<Rightarrow>
            if require_mfa (accounts (cfg E)) \<and> \<not> ip_OTPOnly (ipa E) u
            then hydra_failed 401 (TC c ''hydra.access_denied'')
            else do {
              r \<leftarrow> on_ext (\<lambda>x. hy_accept_login (hyd E) x challenge subject None);
              (case r of
                 Err _ \<Rightarrow> hydra_failed 500 (TC c ''hydra.failed_to_accept_login'')
               | Ok url \<Rightarrow> State_Monad.return (with_header ''HX-Redirect'' url (redirect url)))
            })
     }"

definition LoginOAuthGet :: "('s, 'x) env \<Rightarrow> ctx \<Rightarrow> ('s, 'x, outcome) act" where
  "LoginOAuthGet E c =
     (let challenge = rq_query (req c) ''login_challenge''
      in if challenge = [] then State_Monad.return (reply 400 (TC c ''hydra.login_without_challenge''))
         else do {
           lr \<leftarrow> reads (\<lambda>w. hy_login (hyd E) (ext w) challenge);
           (case lr of
              Err _ \<Rightarrow> State_Monad.return (reply 500 (TC c ''hydra.failed_to_validate_login''))
            | Ok (skip, subject) \<Rightarrow>
                if skip then skip_login E c challenge subject
                else do {
                  li \<leftarrow> isLoggedIn E c;
                  (case li of
                     Ok c' \<Rightarrow> LoginOAuthPost E (lc_username c') challenge c'
                   | Err _ \<Rightarrow> State_Monad.return (render ''login.html'' [(''challenge'', PStr challenge)]))
                })
         })"

definition HydraError :: "ctx \<Rightarrow> outcome" where
  "HydraError c = reply 500 (TC c ''hydra.oauth2_error'')"

definition HydraLogout :: "('s, 'x) env \<Rightarrow> ctx \<Rightarrow> ('s, 'x, outcome) act" where
  "HydraLogout E c =
     (let challenge = rq_query (req c) ''logout_challenge''
      in do {
        lr \<leftarrow> reads (\<lambda>w. hy_logout (hyd E) (ext w) challenge);
        (case lr of
           Err _ \<Rightarrow> State_Monad.return (reply 500 (TC c ''hydra.failed_to_validate_logout''))
         | Ok _ \<Rightarrow> do {
             _ \<leftarrow> logout E c;
             r \<leftarrow> on_ext (\<lambda>x. hy_accept_logout (hyd E) x challenge);
             State_Monad.return
               (case r of
                  Err _ \<Rightarrow> reply 500 (TC c ''hydra.failed_to_accept_logout'')
                | Ok url \<Rightarrow> redirect url)
           })
      })"

section \<open>Properties\<close>

lemma ex_split_Cons:
  "(\<exists>before q rest. p # ps = before @ q # rest \<and> C before q) \<longleftrightarrow>
     C [] p \<or> (\<exists>before q rest. ps = before @ q # rest \<and> C (p # before) q)"
  by (auto simp: Cons_eq_append_conv)

abbreviation in_group :: "unicode \<Rightarrow> user \<Rightarrow> hydraClientPolicy \<Rightarrow> bool" where
  "in_group U u p \<equiv> list_ex (\<lambda>want. list_ex (EqualFold U want) (memberOf u)) (Groups p)"

lemma policies_allow_iff:
  "policies_allow U cid u deny ps \<longleftrightarrow>
     (\<exists>before p rest. ps = before @ p # rest \<and>
        (ClientID p = cid \<and> cid \<noteq> [] \<and> [] \<notin> ClientID ` set before \<and> cid \<notin> ClientID ` set before \<and> in_group U u p))
     \<or> ([] \<notin> ClientID ` set ps \<and> cid \<notin> ClientID ` set ps \<and> deny = False)"
proof (induction ps)
  case (Cons p ps)
  show ?case
    unfolding ex_split_Cons
    by (cases "ClientID p = []"; cases "ClientID p = cid") (simp_all add: Cons eq_commute [of "[]"])
qed simp

text \<open>
  C26. Admission to OAuth clients. A user may use a client exactly when the policies are readable and either the
  first entry that names the client, with no nameless entry before it, lists a group the user is in,
  directly or nested and in any letter case; or no entry names the client, none is nameless, and
  unlisted clients are open.
\<close>

theorem clientAllowed_iff:
  "clientAllowed cf U clientID u \<longleftrightarrow>
     (\<exists>ps. hydra_clients (hydra cf) = Some ps \<and>
       ((\<exists>before p rest. ps = before @ p # rest \<and> ClientID p = clientID \<and> clientID \<noteq> []
           \<and> [] \<notin> ClientID ` set before \<and> clientID \<notin> ClientID ` set before
           \<and> (\<exists>want\<in>set (Groups p). \<exists>has\<in>set (memberOf u). EqualFold U want has))
        \<or> ([] \<notin> ClientID ` set ps \<and> clientID \<notin> ClientID ` set ps \<and> default_deny (hydra cf) = False)))"
  by (simp only: clientAllowed_def policies_allow_iff list_ex_iff conj_assoc split: option.split) auto

subsection \<open>Listing\<close>

text \<open>The pages a listing goes through from a token, up to one that names no further page.\<close>

inductive pages ::
    "(string \<Rightarrow> ('a list \<times> string list) result) \<Rightarrow> (string \<Rightarrow> string option) \<Rightarrow> string \<Rightarrow> 'a list list \<Rightarrow> bool"
  for fetch page where
  last_page: "fetch token = Ok (ss, header) \<Longrightarrow> nextPageToken page header \<in> {[], token} \<Longrightarrow> pages fetch page token [ss]"
| more_pages: "fetch token = Ok (ss, header) \<Longrightarrow> nextPageToken page header \<notin> {[], token}
    \<Longrightarrow> pages fetch page (nextPageToken page header) pss \<Longrightarrow> pages fetch page token (ss # pss)"

lemma add_clients_append [simp]: "add_clients (xs @ ys) ids = add_clients ys (add_clients xs ids)"
  by (simp add: add_clients_def)

lemma consent_pages_ends:
  "pages fetch page token pss \<Longrightarrow> consent_pages fetch page ids token = Some (Ok (add_clients (concat pss) ids))"
proof (induction arbitrary: ids rule: pages.induct)
  case (last_page token ss header)
  then show ?case by (subst consent_pages.simps) (auto simp: Let_def)
next
  case (more_pages token ss header pss)
  then show ?case by (subst consent_pages.simps) (auto simp: Let_def)
qed

lemma add_clients_rec [simp]:
  "add_clients [] ids = ids"
  "add_clients (x # ss) ids =
     add_clients ss (case cs_Client x of None \<Rightarrow> ids | Some (cid, _) \<Rightarrow> if cid \<in> set ids then ids else ids @ [cid])"
  by (simp_all add: add_clients_def)

lemma set_add_clients: "set (add_clients ss ids) = set ids \<union> {i. \<exists>x\<in>set ss. \<exists>n. cs_Client x = Some (i, n)}"
  by (induction ss arbitrary: ids) (auto split: option.splits if_splits)

lemma distinct_add_clients: "distinct ids \<Longrightarrow> distinct (add_clients ss ids)"
  by (induction ss arbitrary: ids) (auto split: option.splits)

text \<open>
  Listing consents. When Hydra's pages form a finite chain, the listing ends, and names every client of every
  page, and no other, once.
\<close>

theorem consent_listing_complete:
  assumes "pages (hy_consents (hyd E) x username) (hy_page (hyd E)) [] pss"
  shows "\<exists>ids. consentClientIDs E x username = Some (Ok ids) \<and> distinct ids
    \<and> set ids = {i. \<exists>cs\<in>set (concat pss). \<exists>n. cs_Client cs = Some (i, n)}"
  using consent_pages_ends [OF assms, of "[]"] set_add_clients [of "concat pss" "[]"]
    distinct_add_clients [of "[]" "concat pss"]
  by (simp add: consentClientIDs_def)

text \<open>
  A listing that goes in circles. The loop only notices a page that names itself: when two pages name each
  other, the listing, and with it the request that needs it, never ends.
\<close>

theorem consent_listing_cycles:
  assumes "fetch a = Ok (ss, ha)" "nextPageToken page ha = b" "fetch b = Ok (ss', hb)" "nextPageToken page hb = a"
    and "a \<noteq> []" "b \<noteq> []" "a \<noteq> b"
  shows "consent_pages fetch page ids a = None"
proof -
  have "fetch = fetch \<and> page = page \<longrightarrow> a \<notin> {a, b}" if "consent_pages fetch page ids a = Some y" for y
    by (rule consent_pages.raw_induct [where P = "\<lambda>f p ids token y. f = fetch \<and> p = page \<longrightarrow> token \<notin> {a, b}",
          OF _ that]) (use assms in \<open>auto simp: Let_def; blast\<close>)
  then show ?thesis by (cases "consent_pages fetch page ids a") auto
qed

subsection \<open>Refused clients\<close>

text \<open>An environment in which accepting a consent does something else: code that runs the same in both
  does not accept.\<close>

abbreviation other_accept ::
    "('s, 'x) env \<Rightarrow> ('x \<Rightarrow> string \<Rightarrow> string list \<Rightarrow> user \<Rightarrow> string result \<times> 'x) \<Rightarrow> ('s, 'x) env" where
  "other_accept E f \<equiv> E\<lparr>hyd := (hyd E)\<lparr>hy_accept_consent := f\<rparr>\<rparr>"

lemma audit_other [simp]: "audit (other_accept E f) = audit E"
  by (simp add: audit_def fun_eq_iff Now_def)

lemma revoke_loop_other [simp]: "revoke_loop (other_accept E f) u ids n = revoke_loop E u ids n"
  by (induction ids arbitrary: n) (simp_all add: revokeConnectedApp_def cong: if_cong)

lemma revokeDisallowed_other [simp]: "revokeDisallowedConsents (other_accept E f) u = revokeDisallowedConsents E u"
  by (simp add: revokeDisallowedConsents_def consentClientIDs_def cong: option.case_cong sum.case_cong)

lemma reject_consent_outcome:
  "wp (reject_consent E c challenge consent u) (\<lambda>r _. r = reply 403 (TC c ''hydra.client_not_allowed'') \<or> r = Hangs) w"
  by (auto simp: reject_consent_def hydra_failed_def wp_def case_prod_unfold split: option.split)

text \<open>
  C27. Refused clients. A consent request for a client the user is not admitted to is answered with 403 (or 401
  where two-factor login is missing, and not at all when the listing of consents never ends), and the
  handler runs as it would if accepting did anything else: Hydra is never told to accept.
\<close>

theorem consent_denied:
  assumes "rq_query (req c) ''consent_challenge'' \<noteq> []"
    and "hy_consent (hyd E) (ext w) (rq_query (req c) ''consent_challenge'') = Ok consent"
    and "ip_UserShow (ipa E) (ext w) Admin (co_Subject consent) = Ok u"
    and "\<not> clientAllowed (cfg E) (uni E) (co_Client consent) u"
  shows "fst (run_state (ConsentGet E c) w)
      \<in> {reply 401 (TC c ''hydra.access_denied''), reply 403 (TC c ''hydra.client_not_allowed''), Hangs}
    \<and> run_state (ConsentGet (other_accept E f) c) w = run_state (ConsentGet E c) w"
proof -
  have "reject_consent (other_accept E f) c ch consent u = reject_consent E c ch consent u" for ch
    by (simp add: reject_consent_def cong: if_cong option.case_cong)
  moreover have "fst (run_state (reject_consent E c ch consent u) w')
      \<in> {reply 403 (TC c ''hydra.client_not_allowed''), Hangs}" for ch w'
    using reject_consent_outcome [of E c ch consent u w'] by (simp add: wp_def case_prod_unfold)
  ultimately show ?thesis
    using assms by (auto simp: ConsentGet_def Let_def hydra_failed_def)
qed

section \<open>Witnesses\<close>

definition wiki_env :: "(cells, unit) env" where
  "wiki_env = demo_env\<lparr>cfg := default_config\<lparr>hydra := (hydra default_config)\<lparr>hydra_admin_url := Some ''http://hydra'',
       hydra_clients := Some [\<lparr>ClientID = ''wiki'', Groups = [''staff'']\<rparr>]\<rparr>\<rparr>,
     ipa := demo_outside\<lparr>ip_UserShow := \<lambda>_ _ _. Ok demo_alice\<rparr>\<rparr>"

definition consent_ctx :: ctx where
  "consent_ctx = demo_ctx\<lparr>req := (req demo_ctx)\<lparr>rq_query := \<lambda>_. ''ch''\<rparr>\<rparr>"

theorem consent_denied_witness:
  "clientAllowed (cfg wiki_env) (uni wiki_env) ''wiki'' demo_alice = False
    \<and> fst (run_state (ConsentGet wiki_env consent_ctx) demo_world)
      \<in> {reply 401 (TC consent_ctx ''hydra.access_denied''), reply 403 (TC consent_ctx ''hydra.client_not_allowed''), Hangs}"
proof -
  have deny: "\<not> clientAllowed (cfg wiki_env) (uni wiki_env) (co_Client \<lparr>co_Subject = ''alice'', co_Client = ''wiki'', co_Scope = [''openid'']\<rparr>) demo_alice"
    by (simp add: wiki_env_def clientAllowed_def memberOf_def demo_alice_def empty_user_def)
  show ?thesis
    using consent_denied [OF _ _ _ deny, of consent_ctx demo_world] deny
    by (simp add: consent_ctx_def wiki_env_def demo_env_def demo_hydra_def)
qed

theorem consent_listing_complete_witness:
  "\<exists>ids. consentClientIDs demo_env () ''alice'' = Some (Ok ids) \<and> distinct ids"
proof -
  have "pages (hy_consents (hyd demo_env) () ''alice'') (hy_page (hyd demo_env)) [] [[]]"
    by (rule pages.last_page [of _ _ _ "[]"]) (simp_all add: demo_env_def demo_hydra_def nextPageToken_def Cut_def)
  from consent_listing_complete [OF this] show ?thesis by blast
qed

definition cycle_fetch :: "string \<Rightarrow> (consent_session list \<times> string list) result" where
  "cycle_fetch token = Ok ([], [if token = ''a'' then ''b;rel=\"next\"'' else ''a;rel=\"next\"''])"

theorem consent_listing_cycles_witness: "consent_pages cycle_fetch Some [] ''a'' = None"
proof -
  have "nextPageToken Some [''b;rel=\"next\"''] = ''b''" "nextPageToken Some [''a;rel=\"next\"''] = ''a''"
    by (simp_all add: nextPageToken_def Cut_def Contains_def trimmed_TrimSpace trimmedI trim_angles_def ascii_def)
  then show ?thesis
    using consent_listing_cycles [of cycle_fetch "''a''" "[]" "[''b;rel=\"next\"'']" Some "''b''" "[]" "[''a;rel=\"next\"'']"]
    by (simp add: cycle_fetch_def)
qed

end
