(* ===== verification/Usernames.thy ===== *)
theory Usernames
  imports Email
begin

text \<open>
  User names, addresses and the forgotten-name form (\<open>usernames.go\<close>), with the block list of \<open>auth.go\<close>
  and the captcha of \<open>captcha.go\<close>. The parser of net/mail is the field \<open>addr\<close> of the environment: the
  address of a text that parses. The regular expressions are matched as predicates; the one
  for domains works on code points and is characterised as its source text reads in
  \<open>rxEmailDomain_regexp\<close>.
\<close>

section \<open>Addresses\<close>

definition domain_rune :: "unicode \<Rightarrow> nat \<Rightarrow> bool" where
  "domain_rune U r \<longleftrightarrow> u_letter U r \<or> u_number U r"

abbreviation dot :: nat where "dot \<equiv> 46"

definition label_inner :: "unicode \<Rightarrow> nat \<Rightarrow> bool" where
  "label_inner U r \<longleftrightarrow> domain_rune U r \<or> r \<in> {46, 95, 126, 45}"

definition top_inner :: "unicode \<Rightarrow> nat \<Rightarrow> bool" where
  "top_inner U r \<longleftrightarrow> domain_rune U r \<or> r \<in> {95, 126, 45}"

text \<open>\<open>x(?:y*x)?\<close> for classes of characters x and y.\<close>

definition enclosed :: "(nat \<Rightarrow> bool) \<Rightarrow> (nat \<Rightarrow> bool) \<Rightarrow> nat list \<Rightarrow> bool" where
  "enclosed outer inner rs \<longleftrightarrow>
     rs \<noteq> [] \<and> outer (hd rs) \<and> outer (last rs) \<and> list_all inner (butlast (tl rs))"

text \<open>
  Labels may contain dots, so a name matches exactly when the part before its last dot is one label
  and the part after it is a top-level name.
\<close>

definition rxEmailDomain :: "unicode \<Rightarrow> string \<Rightarrow> bool" where
  "rxEmailDomain U s \<longleftrightarrow>
     (let rs = runes s; top = takeWhile (\<lambda>r. r \<noteq> dot) (rev rs); rest = dropWhile (\<lambda>r. r \<noteq> dot) (rev rs)
      in rest \<noteq> [] \<and> enclosed (domain_rune U) (label_inner U) (rev (tl rest))
         \<and> enclosed (u_letter U) (top_inner U) (rev top))"

definition after_at :: "string \<Rightarrow> string" where
  "after_at s = (case LastIndex s CHR ''@'' of None \<Rightarrow> s | Some at \<Rightarrow> drop (Suc at) s)"

definition isEmail :: "(string \<Rightarrow> string option) \<Rightarrow> unicode \<Rightarrow> string \<Rightarrow> bool" where
  "isEmail ad U s \<longleftrightarrow>
     (case ad s of
        None \<Rightarrow> False
      | Some a \<Rightarrow> a = s \<and> rxEmailDomain U (after_at s))"

section \<open>User names\<close>

definition username_char :: "char \<Rightarrow> bool" where
  "username_char c \<longleftrightarrow> is_lower c \<or> is_upper c \<or> is_digit c \<or> c \<in> {CHR ''_'', CHR ''.'', CHR ''-''}"

definition usernameRegx :: "string \<Rightarrow> bool" where
  "usernameRegx s \<longleftrightarrow>
     s \<noteq> [] \<and> hd s \<noteq> CHR ''-'' \<and> length s \<le> 32 \<and> list_all username_char s"

text \<open>\<open>rxUsername\<close> replaces every other character by nothing.\<close>

definition rxUsername :: "string \<Rightarrow> string" where
  "rxUsername s = filter username_char s"

definition defaultUsernameGenerator :: "string \<Rightarrow> string" where
  "defaultUsernameGenerator username = rxUsername username"

text \<open>Slicing up to position -1 panics; a byte outside ASCII taken as first letter is removed again.\<close>

definition flastUsernameGenerator :: "string \<Rightarrow> string result" where
  "flastUsernameGenerator username =
     (case Index username ''.'' of
        None \<Rightarrow> Err (EPanic ''slice bounds out of range'')
      | Some dotpos \<Rightarrow>
          (let first = take dotpos username; last_part = drop (Suc dotpos) username
           in Ok (rxUsername (if first \<noteq> [] then hd first # last_part else last_part))))"

definition ErrDomainNotAllowed :: string where "ErrDomainNotAllowed = ''Email domain not allowed''"
definition ErrInvalidUsername :: string where
  "ErrInvalidUsername = ''Username is invalid. May only include letters, numbers, _, -, .''"

definition checked_name :: "user \<Rightarrow> string \<Rightarrow> user result" where
  "checked_name u name =
     (if name = [] then Err (EText (ErrInvalidUsername @ '': '' @ Email u)) else Ok (u\<lparr>Username := name\<rparr>))"

definition generateUsernameFromEmail :: "unicode \<Rightarrow> user \<Rightarrow> (string \<times> string) list \<Rightarrow> user result" where
  "generateUsernameFromEmail U u allowedDomains =
     (case LastIndex (Email u) CHR ''@'' of
        None \<Rightarrow> Err (EPanic ''slice bounds out of range'')
      | Some at \<Rightarrow>
          (let username = take at (Email u); domain = ToLower U (drop (Suc at) (Email u))
           in if allowedDomains = [] then checked_name u (defaultUsernameGenerator username)
              else
                (case map_of allowedDomains domain of
                   None \<Rightarrow> Err (EText (ErrDomainNotAllowed @ '': '' @ domain))
                 | Some kind \<Rightarrow>
                     if kind = ''flast'' then
                       (case flastUsernameGenerator username of
                          Err e \<Rightarrow> Err e
                        | Ok name \<Rightarrow> checked_name u name)
                     else checked_name u (defaultUsernameGenerator username))))"

definition validateEmail ::
    "(string \<Rightarrow> string option) \<Rightarrow> unicode \<Rightarrow> string \<Rightarrow> (string \<times> string) list \<Rightarrow> error option" where
  "validateEmail ad U em allowedDomains =
     (if \<not> isEmail ad U em then Some (EText ''Please provide a valid email address'')
      else if allowedDomains \<noteq> [] \<and> map_of allowedDomains (ToLower U (after_at em)) = None
      then Some (EText (ErrDomainNotAllowed @ '': '' @ ToLower U (after_at em)))
      else None)"

definition isBlocked :: "config \<Rightarrow> string \<Rightarrow> bool" where
  "isBlocked cf username \<longleftrightarrow> list_ex (\<lambda>u. username = u) (block_users (accounts cf))"

definition checkUsername :: "config \<Rightarrow> unicode \<Rightarrow> user \<Rightarrow> user result" where
  "checkUsername cf U u =
     (if \<not> usernameRegx (Username u) then Err (EText (ErrInvalidUsername @ '': '' @ Username u))
      else if isDigits (Username u) then Err (EText ''Username must include at least one letter'')
      else if isBlocked cf (Username u)
      then Err (EText ''Username not allowed. Please try different username or contact the administrator'')
      else Ok (u\<lparr>Username := ToLower U (Username u)\<rparr>))"

definition validateUsername :: "config \<Rightarrow> (string \<Rightarrow> string option) \<Rightarrow> unicode \<Rightarrow> user \<Rightarrow> user result" where
  "validateUsername cf ad U u =
     (let allowedDomains = allowed_domains (accounts cf)
      in case validateEmail ad U (Email u) allowedDomains of
           Some e \<Rightarrow> Err e
         | None \<Rightarrow>
             if username_from_email (accounts cf) then
               (case generateUsernameFromEmail U u allowedDomains of
                  Err e \<Rightarrow> Err e
                | Ok u' \<Rightarrow> checkUsername cf U u')
             else checkUsername cf U u)"

section \<open>The captcha\<close>

definition newCaptchaID :: "('s, 'x) env \<Rightarrow> ('s, 'x, string) act" where
  "newCaptchaID E =
     (if \<not> enable_captcha (accounts (cfg E)) then State_Monad.return []
      else on_ext (x_new_captcha (ipa E)))"

definition verifyCaptcha :: "('s, 'x) env \<Rightarrow> string \<Rightarrow> string \<Rightarrow> ('s, 'x, error option) act" where
  "verifyCaptcha E cid sol =
     (if \<not> enable_captcha (accounts (cfg E)) then State_Monad.return None
      else if cid = [] then State_Monad.return (Some (EText ''Invalid captcha provided''))
      else if sol = []
      then State_Monad.return (Some (EText ''Please type in the numbers you see in the picture''))
      else do {
        ok \<leftarrow> on_ext (\<lambda>x. x_captcha (ipa E) x cid sol);
        State_Monad.return
          (if ok then None else Some (EText ''The numbers you typed in do not match the image''))
      })"

text \<open>The image; \<open>captcha.WriteImage\<close> fails for an id that is not known.\<close>

definition Captcha :: "('s, 'x) env \<Rightarrow> ctx \<Rightarrow> ('s, 'x, outcome) act" where
  "Captcha E c =
     (let cid = rq_params (req c) ''id'';
          headers = [(''Cache-Control'', ''no-cache, no-store, must-revalidate''), (''Pragma'', ''no-cache''), (''Expires'', ''0''),
                     (''Content-Type'', ''image/png'')]
      in if cid = [] then State_Monad.return (status_only 404)
         else do {
           _ \<leftarrow> (if form c ''reload'' \<noteq> [] then on_ext (\<lambda>x. ((), x_captcha_reload (ipa E) x cid)) else State_Monad.return ());
           img \<leftarrow> reads (\<lambda>w. x_captcha_image (ipa E) (ext w) cid);
           State_Monad.return
             (case img of
                Err _ \<Rightarrow> Reply \<lparr>rs_status = 404, rs_headers = headers, rs_body = NoBody\<rparr>
              | Ok content \<Rightarrow> Reply \<lparr>rs_status = 200, rs_headers = headers, rs_body = Say (Tx content)\<rparr>)
         })"

text \<open>A refused captcha: the page is told to load the new image \<open>cid\<close>.\<close>

definition captcha_refused :: "string \<Rightarrow> error \<Rightarrow> outcome" where
  "captcha_refused cid e =
     with_header ''HX-Trigger'' (''{\"reloadCaptcha\":\"'' @ cid @ ''\"}'') (reply 400 (error_text e))"

section \<open>The handler\<close>

definition reminded :: "('s, 'x) env \<Rightarrow> string \<Rightarrow> user list \<Rightarrow> string list" where
  "reminded E em us =
     map Username
       (filter (\<lambda>u. EqualFold (uni E) (Email u) em \<and> \<not> Locked u \<and> \<not> isBlocked (cfg E) (Username u)) us)"

definition UsernameForgot :: "('s, 'x) env \<Rightarrow> ctx \<Rightarrow> ('s, 'x, outcome) act" where
  "UsernameForgot E c =
     (let sent = render ''username-forgot-success.html'' []
      in if is_get c then
           do {
             cid \<leftarrow> newCaptchaID E;
             State_Monad.return (render ''username-forgot.html'' [(''captchaID'', PStr cid)])
           }
         else do {
           err \<leftarrow> verifyCaptcha E (form c ''captcha_id'') (form c ''captcha_sol'');
           (case err of
              Some e \<Rightarrow> do { cid \<leftarrow> newCaptchaID E; State_Monad.return (captcha_refused cid e) }
            | None \<Rightarrow>
                (let em = TrimSpace (ToLower (uni E) (form c ''email''))
                 in if em = [] \<or> \<not> isEmail (addr E) (uni E) em then State_Monad.return sent
                    else do {
                      found \<leftarrow> reads (\<lambda>w. ip_UserFind (ipa E) (ext w) (ByMail em));
                      (case found of
                         Err _ \<Rightarrow> State_Monad.return sent
                       | Ok us \<Rightarrow>
                           if reminded E em us \<noteq> [] then do {
                             failed \<leftarrow> SendUsernameReminderEmail E em (reminded E em us) c;
                             _ \<leftarrow> (if failed = None
                                   then audit_info E ''Username reminder email sent'' [(''email'', em)]
                                   else State_Monad.return ());
                             State_Monad.return sent
                           }
                           else State_Monad.return sent)
                    }))
         })"

section \<open>The expression for domains\<close>

lemma enclosed_iff:
  assumes "\<And>r. outer r \<Longrightarrow> inner r"
  shows "enclosed outer inner rs \<longleftrightarrow> rs \<noteq> [] \<and> outer (hd rs) \<and> outer (last rs) \<and> list_all inner rs"
proof (cases rs)
  case (Cons r rs')
  then show ?thesis
    using assms by (cases rs' rule: rev_cases) (auto simp: enclosed_def)
qed (simp add: enclosed_def)

lemma enclosed_labels:
  assumes "ls \<noteq> []" "\<forall>l\<in>set ls. enclosed (domain_rune U) (label_inner U) l"
  shows "\<exists>l. concat (map (\<lambda>l. l @ [dot]) ls) = l @ [dot] \<and> enclosed (domain_rune U) (label_inner U) l"
  using assms
proof (induction ls rule: list_nonempty_induct)
  case (cons l ls)
  then obtain l' where l': "concat (map (\<lambda>l. l @ [dot]) ls) = l' @ [dot]"
      "enclosed (domain_rune U) (label_inner U) l'" by auto
  have sub: "\<And>r. domain_rune U r \<Longrightarrow> label_inner U r" by (simp add: label_inner_def)
  have "label_inner U dot" by (simp add: label_inner_def)
  then have "enclosed (domain_rune U) (label_inner U) (l @ dot # l')"
    using cons.prems l'(2) by (simp add: enclosed_iff [OF sub])
  with l'(1) show ?case by (intro exI [of _ "l @ dot # l'"]) simp
qed auto

text \<open>The predicate matches exactly what the regular expression does: labels followed by dots, then a
  top-level name.\<close>

lemma rxEmailDomain_regexp:
  assumes "\<not> domain_rune U dot"
  shows "rxEmailDomain U s \<longleftrightarrow>
    (\<exists>ls top. ls \<noteq> [] \<and> (\<forall>l\<in>set ls. enclosed (domain_rune U) (label_inner U) l)
       \<and> enclosed (u_letter U) (top_inner U) top \<and> runes s = concat (map (\<lambda>l. l @ [dot]) ls) @ top)"
    (is "?match \<longleftrightarrow> ?regexp")
proof
  assume ?match
  then obtain top rest where split: "rev (runes s) = top @ dot # rest"
    and l: "enclosed (domain_rune U) (label_inner U) (rev rest)"
    and t: "enclosed (u_letter U) (top_inner U) (rev top)"
    by (cases "dropWhile (\<lambda>r. r \<noteq> dot) (rev (runes s))")
      (auto simp: rxEmailDomain_def Let_def dropWhile_eq_Cons_conv)
  from split have "rev (rev (runes s)) = rev (top @ dot # rest)" by simp
  then have "runes s = rev rest @ [dot] @ rev top" by simp
  with l t show ?regexp by (intro exI [of _ "[rev rest]"] exI [of _ "rev top"]) simp
next
  assume ?regexp
  then obtain l top where l: "enclosed (domain_rune U) (label_inner U) l"
    and t: "enclosed (u_letter U) (top_inner U) top" and s: "runes s = l @ dot # top"
    using enclosed_labels by (metis append.assoc append_Cons append_Nil)
  have "list_all (top_inner U) top"
    using t by (simp add: enclosed_iff top_inner_def domain_rune_def)
  then have "\<forall>r\<in>set top. r \<noteq> dot"
    using assms by (auto simp: list_all_iff top_inner_def)
  then have "takeWhile (\<lambda>r. r \<noteq> dot) (rev top @ dot # rev l) = rev top"
      "dropWhile (\<lambda>r. r \<noteq> dot) (rev top @ dot # rev l) = dot # rev l"
    by (subst takeWhile_append2 dropWhile_append2; simp)+
  then show ?match
    using l t s by (simp only: rxEmailDomain_def Let_def rev_append rev.simps append.simps append.assoc
        list.sel rev_rev_ident list.distinct simp_thms)
qed

section \<open>Accepted names\<close>

lemma username_char_lower: "username_char c \<Longrightarrow> username_char (lower_char c)"
  by (auto simp: username_char_def lower_char_def is_upper_def is_lower_def is_digit_def)

lemma username_char_ascii: "list_all username_char s \<Longrightarrow> ascii s"
  by (auto simp: ascii_def list_all_iff username_char_def is_upper_def is_lower_def is_digit_def)

lemma lower_char_dash: "lower_char c = CHR ''-'' \<longleftrightarrow> c = CHR ''-''"
  by (auto simp: lower_char_def is_upper_def dest!: arg_cong [where f = code] split: if_splits)

lemma isDigits_lower: "isDigits (map lower_char s) \<longleftrightarrow> isDigits s"
proof -
  have "is_digit (lower_char c) \<longleftrightarrow> is_digit c" for c
    by (auto simp: lower_char_def is_upper_def is_digit_def)
  then show ?thesis by (simp add: isDigits_bytes list_all_iff)
qed

lemma usernameRegx_lower: "usernameRegx s \<Longrightarrow> usernameRegx (ToLower U s)"
  by (auto simp: usernameRegx_def username_char_ascii ToLower_ascii hd_map lower_char_dash
      list_all_iff username_char_lower)

lemma checkUsername_Ok:
  "checkUsername cf U u = Ok u' \<longleftrightarrow>
     usernameRegx (Username u) \<and> \<not> isDigits (Username u) \<and> \<not> isBlocked cf (Username u)
     \<and> u' = u\<lparr>Username := ToLower U (Username u)\<rparr>"
  by (auto simp: checkUsername_def)

lemma generated_name:
  "generateUsernameFromEmail U u ds = Ok u' \<Longrightarrow> \<exists>n. u' = u\<lparr>Username := n\<rparr>"
  by (auto simp: generateUsernameFromEmail_def checked_name_def Let_def split: option.splits if_splits sum.splits)

lemma accepted_user:
  assumes "validateUsername cf ad U u = Ok u'"
  shows "usernameRegx (Username u') \<and> ToLower U (Username u') = Username u' \<and> \<not> isDigits (Username u')
    \<and> isEmail ad U (Email u')
    \<and> (allowed_domains (accounts cf) = []
        \<or> ToLower U (after_at (Email u')) \<in> fst ` set (allowed_domains (accounts cf)))
    \<and> u' = u\<lparr>Username := Username u'\<rparr>"
proof -
  have em: "validateEmail ad U (Email u) (allowed_domains (accounts cf)) = None"
    using assms by (simp add: validateUsername_def Let_def split: option.splits)
  obtain v n where v: "checkUsername cf U v = Ok u'" "v = u\<lparr>Username := n\<rparr>"
    using assms generated_name [of U u "allowed_domains (accounts cf)"] that [of u "Username u"]
    by (fastforce simp: validateUsername_def Let_def em split: if_splits sum.splits)
  have names: "usernameRegx (Username v)" "\<not> isDigits (Username v)" "u' = v\<lparr>Username := ToLower U (Username v)\<rparr>"
    using v(1) by (simp_all add: checkUsername_Ok)
  then have a: "ascii (Username v)" by (simp add: usernameRegx_def username_char_ascii)
  have "Email u' = Email u" "u' = u\<lparr>Username := Username u'\<rparr>"
    by (simp_all add: names(3) v(2))
  then show ?thesis
    using names em usernameRegx_lower [OF names(1), of U] ToLower_ascii_idem [OF a, of U]
      isDigits_lower [of "Username v"] ToLower_ascii [OF a, of U]
    by (auto simp: validateEmail_def map_of_eq_None_iff split: if_splits)
qed

text \<open>
  Accepted user names. A name that passes validation is in lower case, has 1 to 32 characters out of
  letters, digits, underscore, dot and dash, does not start with a dash and is no number; the address
  is valid and of an allowed domain, and nothing else of the user changed.
\<close>

theorem validateUsername_accepts:
  assumes "validateUsername cf ad U u = Ok u'"
  shows "usernameRegx (Username u') \<and> ToLower U (Username u') = Username u' \<and> \<not> isDigits (Username u')
    \<and> isEmail ad U (Email u')
    \<and> (allowed_domains (accounts cf) = []
        \<or> ToLower U (after_at (Email u')) \<in> fst ` set (allowed_domains (accounts cf)))
    \<and> u' = u\<lparr>Username := Username u'\<rparr>"
  by (rule accepted_user [OF assms])

text \<open>
  The block list is compared before the name is put in lower case: a name that is not itself on the
  list is accepted although its lower-case form, the name of the new account, may be.
\<close>

theorem blocked_name_by_case:
  assumes "validateEmail ad U (Email u) (allowed_domains (accounts cf)) = None"
    and "\<not> username_from_email (accounts cf)"
    and "usernameRegx (Username u)" and "\<not> isDigits (Username u)" and "\<not> isBlocked cf (Username u)"
  shows "validateUsername cf ad U u = Ok (u\<lparr>Username := map lower_char (Username u)\<rparr>)"
  using assms
  by (simp add: validateUsername_def checkUsername_def usernameRegx_def username_char_ascii ToLower_ascii)

section \<open>The form tells nothing\<close>

text \<open>
  What a form answers that must not tell whether an account exists: after a refused captcha its
  error with the image \<open>new\<close> gives, and one fixed page otherwise. No part of it reads the directory.
\<close>

definition captcha_form :: "('s, 'x) env \<Rightarrow> ctx \<Rightarrow> ('s, 'x, string) act \<Rightarrow> outcome \<Rightarrow> ('s, 'x) world \<Rightarrow> outcome" where
  "captcha_form E c new page w =
     (case run_state (verifyCaptcha E (form c ''captcha_id'') (form c ''captcha_sol'')) w of
        (Some e, w') \<Rightarrow> captcha_refused (fst (run_state new w')) e
      | (None, w') \<Rightarrow> page)"

lemma captcha_formI:
  assumes "\<And>w'. wp m (\<lambda>r _. r = page) w'"
  shows "wp (State_Monad.bind (verifyCaptcha E (form c ''captcha_id'') (form c ''captcha_sol''))
      (\<lambda>err. case err of
          Some e \<Rightarrow> State_Monad.bind new (\<lambda>cid. State_Monad.return (captcha_refused cid e))
        | None \<Rightarrow> m))
    (\<lambda>r _. r = captcha_form E c new page w) w"
proof -
  obtain err w' where v: "run_state (verifyCaptcha E (form c ''captcha_id'') (form c ''captcha_sol'')) w = (err, w')"
    by fastforce
  show ?thesis
    using assms [of w'] v by (cases err) (simp_all add: wp_def captcha_form_def case_prod_unfold)
qed

lemma UsernameForgot_form:
  assumes "\<not> is_get c"
  shows "wp (UsernameForgot E c) (\<lambda>r _. r = captcha_form E c (newCaptchaID E) (render ''username-forgot-success.html'' []) w) w"
  by (simp only: UsernameForgot_def Let_def assms if_False, rule captcha_formI)
    (auto split: sum.splits simp: wp_def case_prod_unfold)

section \<open>Witnesses\<close>

definition block_config :: config where
  "block_config = default_config\<lparr>accounts := (accounts default_config)\<lparr>block_users := [''admin'']\<rparr>\<rparr>"

definition demo_signup :: user where
  "demo_signup = empty_user\<lparr>Username := ''Admin'', Email := ''x@ab.cd''\<rparr>"

lemma demo_email: "validateEmail Some plain_unicode ''x@ab.cd'' [] = None"
  by (simp add: validateEmail_def isEmail_def after_at_def rxEmailDomain_def Let_def runes_ascii ascii_def
      enclosed_def domain_rune_def label_inner_def top_inner_def plain_unicode_def)

lemma block_config_accounts [simp]:
  "allowed_domains (accounts block_config) = []" "block_users (accounts block_config) = [''admin'']"
  "\<not> username_from_email (accounts block_config)"
  by (simp_all add: block_config_def default_config_def)

lemmas name_defs = usernameRegx_def username_char_def is_lower_def is_upper_def is_digit_def isDigits_bytes
  isBlocked_def

lemma lower_demo [simp]:
  "lower_char CHR ''A'' = CHR ''a''" "lower_char CHR ''d'' = CHR ''d''" "lower_char CHR ''m'' = CHR ''m''"
  "lower_char CHR ''i'' = CHR ''i''" "lower_char CHR ''n'' = CHR ''n''"
  by code_simp+

theorem blocked_name_by_case_witness:
  "validateUsername block_config Some plain_unicode demo_signup = Ok (demo_signup\<lparr>Username := ''admin''\<rparr>)
   \<and> isBlocked block_config ''admin''"
  using blocked_name_by_case [of Some plain_unicode demo_signup block_config] demo_email
  by (simp add: demo_signup_def name_defs)

theorem validateUsername_accepts_witness:
  "\<exists>u'. validateUsername block_config Some plain_unicode demo_signup = Ok u' \<and> usernameRegx (Username u')"
proof -
  have "validateUsername block_config Some plain_unicode demo_signup = Ok (demo_signup\<lparr>Username := ''admin''\<rparr>)"
    using demo_email
    by (simp add: validateUsername_def checkUsername_def demo_signup_def name_defs ToLower_def ascii_def)
  from validateUsername_accepts [OF this] this show ?thesis by blast
qed

end
