(* ===== verification/Session_Store.thy ===== *)
theory Session_Store
  imports Login_State
begin

text \<open>
  What the handlers rely on of the storage backend under the log and of fiber's session middleware, as
  locales: writing an audit record leaves every other key alone, a session that was saved is found
  again, and session ids are none of the portal's own keys: the middleware generates ids, and takes one from a cookie only where
  session data decodes under it, which neither a JSON document nor a mark of the portal does. An in-memory middleware satisfies them.
\<close>

section \<open>The portal's keys\<close>

definition audit_key :: "string \<Rightarrow> bool" where
  "audit_key k \<longleftrightarrow> k = auditSeqKey \<or> (\<exists>i. k = entry_key i)"

definition portal_key :: "string \<Rightarrow> bool" where
  "portal_key k \<longleftrightarrow> audit_key k \<or> (\<exists>u. k = sessions_key u) \<or> (\<exists>u. k = pwchanged_key u)
     \<or> (\<exists>p\<in>set token_purposes. \<exists>x. k = used_key p x \<or> k = issued_key p x)
     \<or> (\<exists>g. k = groupRequests_key g) \<or> k = otpRecoveryKey"

lemmas audit_prefix = audit_key_def entry_key_def auditSeqKey_def auditEntryKey_def

lemma not_audit_key [simp]:
  "\<not> audit_key (pwchanged_key u)" "\<not> audit_key (sessions_key u)" "\<not> audit_key (groupRequests_key g)" "\<not> audit_key otpRecoveryKey"
  "p \<in> set token_purposes \<Longrightarrow> \<not> audit_key (used_key p x)"
  "p \<in> set token_purposes \<Longrightarrow> \<not> audit_key (issued_key p x)"
  by (auto simp: audit_prefix pwchanged_key_def sessions_key_def userSessionsPrefix_def used_key_def issued_key_def
      groupRequests_key_def groupRequestsPrefix_def otpRecoveryKey_def key_defs purpose_cases)

lemma portal_keys [simp]:
  "portal_key (pwchanged_key u)" "portal_key (sessions_key u)" "portal_key (groupRequests_key g)" "portal_key otpRecoveryKey"
  "p \<in> set token_purposes \<Longrightarrow> portal_key (used_key p x)"
  "p \<in> set token_purposes \<Longrightarrow> portal_key (issued_key p x)"
  by (auto simp: portal_key_def)

lemma audit_portal [simp]: "audit_key k \<Longrightarrow> portal_key k"
  by (simp add: portal_key_def)

section \<open>The backend under the log\<close>

text \<open>On Redis, counting up one key leaves the others alone.\<close>

locale portal_store = reliable_store "stg E" view
  for E :: "('s, 'x) env" and view :: "'s \<Rightarrow> time \<Rightarrow> string \<Rightarrow> blob option" +
  assumes incr_other: "rdb E = Some R \<Longrightarrow> k' \<noteq> k \<Longrightarrow> view (snd (rd_incr R s now k)) t k' = view s t k'"
begin

lemma incr_frame:
  assumes "k \<noteq> key"
  shows "view (snd (snd (incr \<lparr>lk_storage = stg E, lk_rdb = rdb E\<rparr> key now s))) t k = view s t k"
proof (cases "rdb E")
  case None
  then show ?thesis using set_other' [OF assms] by (simp add: incr_def Let_def case_prod_unfold)
next
  case (Some R)
  then show ?thesis using incr_other [OF Some assms]
    by (simp add: incr_def case_prod_unfold split: sum.split)
qed

lemma store_event_frame:
  assumes "\<not> audit_key k"
  shows "view (snd (snd (store_event \<lparr>lk_storage = stg E, lk_rdb = rdb E\<rparr> ev now s))) t k = view s t k"
proof -
  have "k \<noteq> auditSeqKey" "\<And>i. k \<noteq> entry_key i" using assms by (auto simp: audit_key_def)
  then show ?thesis
    using incr_frame [of k auditSeqKey now s t]
    by (auto simp: store_event_def Let_def case_prod_unfold set_other' split: prod.splits option.splits)
qed

lemma audit_frame:
  "wp (audit E l m as)
     (\<lambda>_ w'. ext w' = ext w \<and> tick w' = Suc (tick w) \<and> counter w' = counter w
        \<and> (\<forall>k t. \<not> audit_key k \<longrightarrow> view (sto w') t k = view (sto w) t k)) w"
  by (auto simp: audit_def wp_def Let_def Handle_def record_event_def store_event_frame case_prod_unfold)

end

section \<open>Sessions\<close>

abbreviation idle_time :: "('s, 'x) env \<Rightarrow> duration" where
  "idle_time E \<equiv> session_idle_timeout (server (cfg E)) * second"

locale session_middleware = portal_store E view
  for E :: "('s, 'x) env" and view :: "'s \<Rightarrow> time \<Rightarrow> string \<Rightarrow> blob option" +
  assumes get_cong: "(\<And>t. view s t k = view s' t k) \<Longrightarrow> fs_get (fib E) s t k = fs_get (fib E) s' t k"
    and get_id: "fs_get (fib E) s t k = Ok x \<Longrightarrow> \<not> portal_key (ss_id x)"
    and save_get: "fs_save (fib E) s now x = (None, s') \<Longrightarrow> \<not> portal_key (ss_id x) \<Longrightarrow> now \<le> t
      \<Longrightarrow> t < now + idle_time E \<Longrightarrow> fs_get (fib E) s' t (ss_id x) = Ok x"
    and save_frame: "k \<noteq> ss_id x \<Longrightarrow> view (snd (fs_save (fib E) s now x)) t k = view s t k"
    and regenerate_id: "fs_regenerate (fib E) s now n x = (Ok x', s') \<Longrightarrow> \<not> portal_key (ss_id x') \<and> ss_data x' = ss_data x"
    and regenerate_other: "k \<noteq> ss_id x \<Longrightarrow> view (snd (fs_regenerate (fib E) s now n x)) t k = view s t k"
    and destroy_other: "k \<noteq> ss_id x \<Longrightarrow> view (snd (fs_destroy (fib E) s now x)) t k = view s t k"
begin

text \<open>Handling a session leaves the portal's own keys alone.\<close>

lemma portal_frame:
  assumes "portal_key k" "\<not> portal_key (ss_id x)"
  shows "view (snd (fs_save (fib E) s now x)) t k = view s t k"
    "view (snd (fs_regenerate (fib E) s now n x)) t k = view s t k"
    "view (snd (fs_destroy (fib E) s now x)) t k = view s t k"
  using assms save_frame regenerate_other destroy_other by metis+

end

section \<open>An in-memory middleware\<close>

fun sval_json :: "sval \<Rightarrow> json" where
  "sval_json (SStr s) = JStr s"
| "sval_json (SBool b) = JBool b"
| "sval_json (SInt n) = JInt n"
| "sval_json SOther = JNull"

fun json_sval :: "json \<Rightarrow> sval" where
  "json_sval (JStr s) = SStr s"
| "json_sval (JBool b) = SBool b"
| "json_sval (JInt n) = SInt n"
| "json_sval _ = SOther"

lemma json_sval_inverse [simp]: "json_sval (sval_json v) = v"
  by (cases v) simp_all

definition sess_blob :: "sess \<Rightarrow> blob" where
  "sess_blob x = Doc (JArr [JInt (ss_idle x), JObj (map (\<lambda>(k, v). (k, sval_json v)) (ss_data x))])"

fun blob_sess :: "string \<Rightarrow> blob \<Rightarrow> sess result" where
  "blob_sess k (Doc (JArr [JInt idle, JObj ms])) =
     Ok \<lparr>ss_id = k, ss_data = map (\<lambda>(k, v). (k, json_sval v)) ms, ss_idle = idle\<rparr>"
| "blob_sess k _ = Err (EText ''decode'')"

lemma blob_sess_inverse: "blob_sess (ss_id x) (sess_blob x) = Ok x"
  by (simp add: sess_blob_def o_def case_prod_unfold)

text \<open>Ids start with \<open>sid-\<close>; a cookie with another id gets a fresh session.\<close>

definition sid_key :: "string \<Rightarrow> bool" where
  "sid_key k \<longleftrightarrow> HasPrefix k ''sid-''"

lemma sid_not_portal: "sid_key k \<Longrightarrow> \<not> portal_key k"
  by (auto simp: sid_key_def portal_key_def audit_prefix pwchanged_key_def sessions_key_def userSessionsPrefix_def
      used_key_def issued_key_def groupRequests_key_def groupRequestsPrefix_def otpRecoveryKey_def key_defs purpose_cases)

definition mem_sessions :: "cells fiber_sessions" where
  "mem_sessions =
     \<lparr>fs_get = (\<lambda>s t k.
        let k' = (if sid_key k then k else ''sid-new'')
        in case (if sid_key k then sound_view s t k else None) of
             None \<Rightarrow> Ok \<lparr>ss_id = k', ss_data = [], ss_idle = 900 * second\<rparr>
           | Some b \<Rightarrow> blob_sess k' b),
      fs_save = (\<lambda>s now x. if sid_key (ss_id x) then st_set sound_storage s now (ss_id x) (sess_blob x) (900 * second)
                   else (Some (EText ''id''), s)),
      fs_regenerate = (\<lambda>s now n x. (Ok (x\<lparr>ss_id := ''sid-'' @ FormatInt (int n)\<rparr>), snd (st_delete sound_storage s now (ss_id x)))),
      fs_destroy = (\<lambda>s now x. st_delete sound_storage s now (ss_id x)),
      fs_old = (\<lambda>_. None), fs_new = (\<lambda>_. None)\<rparr>"

definition mem_env :: "(cells, unit) env" where
  "mem_env = demo_env\<lparr>fib := mem_sessions,
     ipa := demo_outside\<lparr>ip_UserShow := \<lambda>_ _ _. Ok demo_alice, ip_RemoteLogin := \<lambda>x _ _. (Ok ''ipa'', x)\<rparr>\<rparr>"

lemma mem_env_simps [simp]:
  "stg mem_env = sound_storage" "rdb mem_env = None" "fib mem_env = mem_sessions" "cfg mem_env = default_config"
  "clk mem_env n = t7"
  "ipa mem_env = demo_outside\<lparr>ip_UserShow := \<lambda>_ _ _. Ok demo_alice, ip_RemoteLogin := \<lambda>x _ _. (Ok ''ipa'', x)\<rparr>"
  by (simp_all add: mem_env_def demo_env_def)

lemma blob_sess_id: "blob_sess k b = Ok x \<Longrightarrow> ss_id x = k"
  by (cases "(k, b)" rule: blob_sess.cases) auto

lemma mem_middleware:
  assumes [simp]: "stg E = sound_storage" "rdb E = None" "fib E = mem_sessions"
    and idle: "session_idle_timeout (server (cfg E)) = 900"
  shows "session_middleware E sound_view"
proof (intro session_middleware.intro portal_store.intro portal_store_axioms.intro session_middleware_axioms.intro)
  show "reliable_store (stg E) sound_view" by (simp add: sound_store)
  show "\<not> portal_key (ss_id x)" if "fs_get (fib E) s t k = Ok x" for s t k x
    using that
    by (auto simp: mem_sessions_def Let_def sid_not_portal sid_key_def split: if_splits option.splits
        dest!: blob_sess_id)
  show "fs_get (fib E) s' t (ss_id x) = Ok x"
    if "fs_save (fib E) s now x = (None, s')" "\<not> portal_key (ss_id x)" "now \<le> t" "t < now + idle_time E"
    for s now x s' t
  proof -
    have "sid_key (ss_id x)" "s' = snd (st_set sound_storage s now (ss_id x) (sess_blob x) (900 * second))"
      using that(1) by (auto simp: mem_sessions_def split: if_splits)
    moreover have "idle_time E = 900 * second" by (simp add: idle)
    ultimately have "sound_view s' t (ss_id x) = Some (sess_blob x)"
      using that(3,4) sound.set_same_ok [of "ss_id x" "sess_blob x" now t "900 * second" s]
      by (cases "ss_id x") (auto simp: sess_blob_def sid_key_def)
    with \<open>sid_key (ss_id x)\<close> show ?thesis by (simp add: mem_sessions_def blob_sess_inverse)
  qed
  show "\<not> portal_key (ss_id x') \<and> ss_data x' = ss_data x"
    if "fs_regenerate (fib E) s now n x = (Ok x', s')" for s now n x x' s'
    using that by (auto simp: mem_sessions_def intro!: sid_not_portal) (simp add: sid_key_def)
qed (auto simp: mem_sessions_def sound.set_other' sound.delete_other' split: option.split)

interpretation mem_portal: session_middleware mem_env sound_view
  by (rule mem_middleware) (simp_all add: default_config_def)

end
