(* ===== verification/Auth.thy ===== *)
theory Auth
  imports Hydra Usernames Session_Store
begin

text \<open>
  Signing in and out (\<open>auth.go\<close>): the two steps of the login form, the login itself and the
  logout. The reads of FreeIPA that several handlers share come first.
\<close>

section \<open>Reading the directory\<close>

definition UserShow :: "('s, 'x) env \<Rightarrow> string \<Rightarrow> ('s, 'x, user result) act" where
  "UserShow E name = reads (\<lambda>w. ip_UserShow (ipa E) (ext w) Admin name)"

definition policy_of :: "('s, 'x) env \<Rightarrow> string \<Rightarrow> ('s, 'x, PwPolicy result) act" where
  "policy_of E name =
     reads (\<lambda>w. pwPolicyShow (ip_UserPwPolicy (ipa E) (ext w)) (ip_PwPolicyShow (ipa E) (ext w)) name)"

definition elsewhere :: "('s, 'x) env \<Rightarrow> ctx \<Rightarrow> user \<Rightarrow> ('s, 'x, error option) act" where
  "elsewhere E c u =
     reads (\<lambda>w. passwordElsewhere (rq_lang (req c)) (defaultAuthTypes (ip_config_auth (ipa E) (ext w))) (AuthTypes u))"

definition ad_user :: "('s, 'x) env \<Rightarrow> string \<Rightarrow> ('s, 'x, bool) act" where
  "ad_user E name = reads (\<lambda>w. adTrustUsername (uni E) (ip_Realm (ipa E) (ext w)) name)"

definition locked_out :: "('s, 'x) env \<Rightarrow> string \<Rightarrow> ('s, 'x, bool) act" where
  "locked_out E name =
     reads (\<lambda>w. userLockedOut
              (pwPolicyShow (ip_UserPwPolicy (ipa E) (ext w)) (ip_PwPolicyShow (ipa E) (ext w)) name)
              (ip_UserStatus (ipa E) (ext w) name))"

lemma wp_directory [simp]:
  "wp (UserShow E n) Q w \<longleftrightarrow> Q (ip_UserShow (ipa E) (ext w) Admin n) w"
  "wp (policy_of E n) Q2 w \<longleftrightarrow>
     Q2 (pwPolicyShow (ip_UserPwPolicy (ipa E) (ext w)) (ip_PwPolicyShow (ipa E) (ext w)) n) w"
  "wp (elsewhere E c u) Q3 w \<longleftrightarrow>
     Q3 (passwordElsewhere (rq_lang (req c)) (defaultAuthTypes (ip_config_auth (ipa E) (ext w))) (AuthTypes u)) w"
  "wp (ad_user E n) Q4 w \<longleftrightarrow> Q4 (adTrustUsername (uni E) (ip_Realm (ipa E) (ext w)) n) w"
  by (simp_all add: UserShow_def policy_of_def elsewhere_def ad_user_def)

lemma run_directory [simp]:
  "run_state (UserShow E n) w = (ip_UserShow (ipa E) (ext w) Admin n, w)"
  "run_state (policy_of E n) w =
     (pwPolicyShow (ip_UserPwPolicy (ipa E) (ext w)) (ip_PwPolicyShow (ipa E) (ext w)) n, w)"
  "run_state (elsewhere E c u) w =
     (passwordElsewhere (rq_lang (req c)) (defaultAuthTypes (ip_config_auth (ipa E) (ext w))) (AuthTypes u), w)"
  "run_state (ad_user E n) w = (adTrustUsername (uni E) (ip_Realm (ipa E) (ext w)) n, w)"
  "run_state (locked_out E n) w =
     (userLockedOut (pwPolicyShow (ip_UserPwPolicy (ipa E) (ext w)) (ip_PwPolicyShow (ipa E) (ext w)) n)
        (ip_UserStatus (ipa E) (ext w) n), w)"
  by (simp_all add: UserShow_def policy_of_def elsewhere_def ad_user_def locked_out_def)

section \<open>The login page\<close>

text \<open>The sentinel errors of the IPA client.\<close>

definition ErrExpiredPassword :: error where "ErrExpiredPassword = ESentinel ''ErrExpiredPassword''"
definition ErrPasswordPolicy :: error where "ErrPasswordPolicy = ESentinel ''ErrPasswordPolicy''"
definition ErrInvalidPassword :: error where "ErrInvalidPassword = ESentinel ''ErrInvalidPassword''"
definition ErrUserExists :: error where "ErrUserExists = ESentinel ''ErrUserExists''"

definition Login :: outcome where
  "Login = render ''login.html'' []"

definition Logout :: "('s, 'x) env \<Rightarrow> ctx \<Rightarrow> ('s, 'x, outcome) act" where
  "Logout E c =
     (if hydra_set E \<and> rq_query (req c) ''logout_challenge'' \<noteq> [] then HydraLogout E c
      else if is_get c then State_Monad.return (redirect ''/auth/login'')
      else redirectLogin E c)"

definition login_form :: "ctx \<Rightarrow> user \<Rightarrow> outcome" where
  "login_form c u = render ''login-form.html'' [(''user'', PUser u), (''challenge'', PStr (form c ''challenge''))]"

definition failed_login :: "outcome \<Rightarrow> ('s, 'x, outcome) act" where
  "failed_login r = do { _ \<leftarrow> Inc ''failed_logins''; State_Monad.return r }"

text \<open>\<open>CheckUser\<close> from the point where there is a user record.\<close>

definition check_found :: "('s, 'x) env \<Rightarrow> ctx \<Rightarrow> user \<Rightarrow> ('s, 'x, outcome) act" where
  "check_found E c u =
     (let username = form c ''username''; hide = hide_invalid_username_error (accounts (cfg E))
      in do {
        _ \<leftarrow> (if Locked u then do {
                _ \<leftarrow> audit_warn E ''User account is locked in FreeIPA'' [(''username'', username)];
                Inc ''failed_logins''
              }
              else State_Monad.return ());
        (if Locked u \<and> \<not> hide then State_Monad.return (reply 401 (TC c ''account.user_account_is_locked''))
         else if \<not> hide then do {
           msg \<leftarrow> elsewhere E c u;
           (case msg of
              Some e \<Rightarrow> failed_login (reply 401 (error_text e))
            | None \<Rightarrow> State_Monad.return (login_form c u))
         }
         else State_Monad.return (login_form c u))
      })"

definition CheckUser :: "('s, 'x) env \<Rightarrow> ctx \<Rightarrow> ('s, 'x, outcome) act" where
  "CheckUser E c =
     (let username = form c ''username''; hide = hide_invalid_username_error (accounts (cfg E));
          blank = empty_user\<lparr>Username := username\<rparr>
      in if username = [] then State_Monad.return (reply 400 (TC c ''account.please_provide_username''))
         else do {
           ad \<leftarrow> ad_user E username;
           (if ad then State_Monad.return (reply 400 (TC c ''password.managed_by_ad''))
            else if isBlocked (cfg E) username then do {
              _ \<leftarrow> audit_warn E ''User account is blocked from logging in'' [(''username'', username)];
              failed_login (if \<not> hide then reply 401 (TC c ''account.invalid_username'') else login_form c blank)
            }
            else do {
              r \<leftarrow> UserShow E username;
              (case r of
                 Ok u \<Rightarrow> check_found E c u
               | Err (EIpa n _) \<Rightarrow>
                   if n = 4001 then
                     (if \<not> hide then failed_login (reply 401 (TC c ''account.invalid_username''))
                      else check_found E c blank)
                   else failed_login (reply 500 (TC c ''account.fatal_system_error''))
               | Err _ \<Rightarrow> failed_login (reply 500 (TC c ''account.fatal_system_error'')))
            })
         })"

section \<open>Logging in\<close>

text \<open>An expired password: the session notes the name without signing in, and the page asks for a new
  password.\<close>

definition expired_login :: "('s, 'x) env \<Rightarrow> ctx \<Rightarrow> string \<Rightarrow> ('s, 'x, outcome) act" where
  "expired_login E c username =
     do {
       sx \<leftarrow> session E c;
       (case sx of
          Err _ \<Rightarrow> State_Monad.return (status_only 500)
        | Ok x0 \<Rightarrow> do {
            rx \<leftarrow> Regenerate E x0;
            (case rx of
               Err e \<Rightarrow> State_Monad.return (Fail e)
             | Ok x \<Rightarrow> do {
                 err \<leftarrow> sessionSave E (sess_set SessionKeyUsername (SStr username)
                           (sess_set SessionKeyAuthenticated (SBool False) x));
                 (if err \<noteq> None then State_Monad.return (status_only 500)
                  else do {
                    ur \<leftarrow> UserShow E username;
                    (case ur of
                       Err _ \<Rightarrow> State_Monad.return (status_only 500)
                     | Ok u \<Rightarrow> do {
                         pol \<leftarrow> policy_of E username;
                         State_Monad.return (render ''login-password-expired.html''
                           ([(''username'', PStr username), (''user'', PUser u)]
                            @ (case pol of Ok p \<Rightarrow> [(''pwpolicy'', PPolicy p)] | Err _ \<Rightarrow> [])))
                       })
                  })
               })
          })
     }"

definition refused_login :: "('s, 'x) env \<Rightarrow> ctx \<Rightarrow> string \<Rightarrow> error \<Rightarrow> ('s, 'x, outcome) act" where
  "refused_login E c username e =
     do {
       _ \<leftarrow> audit_error E ''Failed login attempt''
             [(''username'', username), (''ip'', rq_ip (req c)), (''err'', error_string e)];
       _ \<leftarrow> Inc ''failed_logins'';
       locked \<leftarrow> locked_out E username;
       (if locked then do {
          _ \<leftarrow> audit_warn E ''Login attempt for locked-out account'' [(''username'', username), (''ip'', rq_ip (req c))];
          State_Monad.return (reply 401 (TC c ''login.account_locked_temporarily''))
        }
        else State_Monad.return (reply 401 (TC c ''account.invalid_credentials'')))
     }"

text \<open>A session for a login FreeIPA accepted: the signed-in session under a new id, recorded in the index.
  \<open>PasswordExpired\<close> ends with the same steps.\<close>

definition signed_in :: "string \<Rightarrow> string \<Rightarrow> time \<Rightarrow> sess \<Rightarrow> sess" where
  "signed_in username ipa_sid now x =
     sess_set SessionKeyLoginTime (SInt (unix now))
       (sess_set SessionKeySID (SStr ipa_sid)
         (sess_set SessionKeyUsername (SStr username)
           (sess_set SessionKeyAuthenticated (SBool True) x)))"

definition open_session :: "('s, 'x) env \<Rightarrow> ctx \<Rightarrow> string \<Rightarrow> string \<Rightarrow> sess \<Rightarrow> ('s, 'x, error option) act" where
  "open_session E c username ipa_sid x0 =
     do {
       rx \<leftarrow> Regenerate E x0;
       (case rx of
          Err e \<Rightarrow> State_Monad.return (Some e)
        | Ok x \<Rightarrow> do {
            t \<leftarrow> Now E;
            err \<leftarrow> sessionSave E (signed_in username ipa_sid t x);
            (case err of
               Some e \<Rightarrow> State_Monad.return (Some e)
             | None \<Rightarrow> do {
                 _ \<leftarrow> record_session E c username (ss_id x);
                 _ \<leftarrow> notifyNewLogin E c username;
                 State_Monad.return None
               })
          })
     }"

definition accepted_login :: "('s, 'x) env \<Rightarrow> ctx \<Rightarrow> string \<Rightarrow> string \<Rightarrow> ('s, 'x, outcome) act" where
  "accepted_login E c username ipa_sid =
     do {
       sx \<leftarrow> session E c;
       (case sx of
          Err e \<Rightarrow> State_Monad.return (Fail e)
        | Ok x \<Rightarrow> do {
            err \<leftarrow> open_session E c username ipa_sid x;
            (case err of
               Some e \<Rightarrow> State_Monad.return (Fail e)
             | None \<Rightarrow>
                 if hydra_set E \<and> form c ''challenge'' \<noteq> []
                 then LoginOAuthPost E username (form c ''challenge'') c
                 else do {
                   _ \<leftarrow> audit_info E ''User logged in successfully'' [(''username'', username), (''ip'', rq_ip (req c))];
                   _ \<leftarrow> Inc ''logins'';
                   State_Monad.return (hx_redirect ''/'')
                 })
          })
     }"

definition Authenticate :: "('s, 'x) env \<Rightarrow> ctx \<Rightarrow> ('s, 'x, outcome) act" where
  "Authenticate E c =
     (let username = form c ''username''; password = form c ''password''; otp = form c ''otp''
      in if username = [] then State_Monad.return (reply 400 (TC c ''account.please_provide_username''))
         else if password = [] then State_Monad.return (reply 400 (TC c ''account.please_provide_password''))
         else do {
           ad \<leftarrow> ad_user E username;
           (if ad then State_Monad.return (reply 400 (TC c ''password.managed_by_ad''))
            else if isBlocked (cfg E) username then do {
              _ \<leftarrow> audit_warn E ''User account is blocked from logging in'' [(''username'', username)];
              failed_login (reply 401 (TC c ''account.invalid_credentials''))
            }
            else do {
              cl \<leftarrow> reads (\<lambda>w. ip_new (ipa E) (ext w));
              (case cl of
                 Some e \<Rightarrow> State_Monad.return (Fail e)
               | None \<Rightarrow> do {
                   r \<leftarrow> on_ext (\<lambda>x. ip_RemoteLogin (ipa E) x username (password @ otp));
                   (case r of
                      Err e \<Rightarrow>
                        if e = ErrExpiredPassword then expired_login E c username
                        else refused_login E c username e
                    | Ok ipa_sid \<Rightarrow> do {
                        ping \<leftarrow> reads (\<lambda>w. ip_Ping (ipa E) (ext w) ipa_sid);
                        (if ping \<noteq> None
                         then failed_login (reply 401 (TC c ''account.invalid_credentials''))
                         else accepted_login E c username ipa_sid)
                      })
                 })
            })
         })"

section \<open>Properties\<close>

text \<open>
  Blocked users. A name on the block list is refused before FreeIPA is asked: nothing outside the
  portal changes and the answer is an error.
\<close>

theorem blocked_never_logs_in:
  assumes "isBlocked (cfg E) (form c ''username'')"
  shows "ext (snd (run_state (Authenticate E c) w)) = ext w
    \<and> (\<exists>st t. fst (run_state (Authenticate E c) w) = reply st t \<and> st \<in> {400, 401})"
proof -
  have "wp (Authenticate E c) (\<lambda>r w'. ext w' = ext w \<and> (\<exists>st t. r = reply st t \<and> st \<in> {400, 401})) w"
    using assms by (auto simp: Authenticate_def Let_def failed_login_def intro!: wp_audit)
  then show ?thesis by (simp add: wp_def case_prod_unfold)
qed

subsection \<open>Only FreeIPA signs a user in\<close>

lemma sess_get_set [simp]: "sess_get (sess_set k v x) k' = (if k' = k then Some v else sess_get x k')"
proof -
  have "map_of (filter (\<lambda>(k', _). k' \<noteq> k) ps) k' = map_of ps k'" if "k' \<noteq> k" for ps :: "(string \<times> sval) list"
    using that by (induction ps) auto
  then show ?thesis by (auto simp: sess_get_def sess_set_def)
qed

lemma session_keys_distinct [simp]:
  "SessionKeyAuthenticated \<noteq> SessionKeyUsername" "SessionKeyAuthenticated \<noteq> SessionKeySID"
  "SessionKeyAuthenticated \<noteq> SessionKeyLoginTime" "SessionKeyUsername \<noteq> SessionKeySID"
  "SessionKeyUsername \<noteq> SessionKeyLoginTime" "SessionKeySID \<noteq> SessionKeyLoginTime"
  by (simp_all add: SessionKeyAuthenticated_def SessionKeyUsername_def SessionKeySID_def SessionKeyLoginTime_def)

text \<open>An environment whose session store saves differently.\<close>

abbreviation other_save :: "('s, 'x) env \<Rightarrow> ('s \<Rightarrow> time \<Rightarrow> sess \<Rightarrow> error option \<times> 's) \<Rightarrow> ('s, 'x) env" where
  "other_save E f \<equiv> E\<lparr>fib := (fib E)\<lparr>fs_save := f\<rparr>\<rparr>"

lemma other_save_simps:
  "audit (other_save E f) = audit E" "session (other_save E f) = session E"
  "Regenerate (other_save E f) = Regenerate E" "UserShow (other_save E f) = UserShow E"
  "policy_of (other_save E f) = policy_of E" "ad_user (other_save E f) = ad_user E"
  "locked_out (other_save E f) = locked_out E"
  by (simp_all add: audit_def session_def migrateFiberV2Session_def Regenerate_def UserShow_def policy_of_def
      ad_user_def locked_out_def Now_def fun_eq_iff Let_def cong: option.case_cong sum.case_cong if_cong)

lemma expired_login_unsigned:
  assumes "\<And>s t x. sess_get x SessionKeyAuthenticated = Some (SBool False) \<Longrightarrow> f s t x = fs_save (fib E) s t x"
  shows "expired_login (other_save E f) c u = expired_login E c u"
proof -
  have "sessionSave (other_save E f) (sess_set SessionKeyUsername v (sess_set SessionKeyAuthenticated (SBool False) x))
      = sessionSave E (sess_set SessionKeyUsername v (sess_set SessionKeyAuthenticated (SBool False) x))" for v x
    by (simp add: sessionSave_def assms Now_def)
  then show ?thesis
    by (simp add: expired_login_def other_save_simps cong: sum.case_cong if_cong)
qed

lemma refused_signs_nothing:
  assumes "case ip_RemoteLogin (ipa E) (ext w) (form c ''username'') (form c ''password'' @ form c ''otp'') of
      (Err e, x) \<Rightarrow> True
    | (Ok sid, x) \<Rightarrow> ip_Ping (ipa E) x sid \<noteq> None"
    and "\<And>s t x. sess_get x SessionKeyAuthenticated = Some (SBool False) \<Longrightarrow> f s t x = fs_save (fib E) s t x"
  shows "run_state (Authenticate (other_save E f) c) w = run_state (Authenticate E c) w"
proof -
  have refused: "refused_login (other_save E f) c u e = refused_login E c u e" for u e
    by (simp add: refused_login_def other_save_simps cong: if_cong)
  show ?thesis
    using assms(1)
    by (auto simp: Authenticate_def Let_def other_save_simps refused expired_login_unsigned [OF assms(2)]
        case_prod_unfold split: sum.splits option.splits)
qed

text \<open>
  C4. Only FreeIPA signs a user in. When FreeIPA refuses the login, or does not confirm it, every session the
  handler saves is marked as not authenticated: with a store that treats all other sessions differently
  the handler runs exactly the same.
\<close>

theorem login_needs_freeipa:
  assumes "case ip_RemoteLogin (ipa E) (ext w) (form c ''username'') (form c ''password'' @ form c ''otp'') of
      (Err e, x) \<Rightarrow> True
    | (Ok sid, x) \<Rightarrow> ip_Ping (ipa E) x sid \<noteq> None"
    and "\<And>s t x. sess_get x SessionKeyAuthenticated = Some (SBool False) \<Longrightarrow> f s t x = fs_save (fib E) s t x"
  shows "run_state (Authenticate (other_save E f) c) w = run_state (Authenticate E c) w"
  by (rule refused_signs_nothing [OF assms])

text \<open>
  Hidden user names. With the option on, the first login step answers a name that is blocked, unknown
  or locked with the password form like any other; the form carries the record FreeIPA has, or an
  empty one with the name typed. Only a failing directory shows.
\<close>

theorem hidden_usernames:
  assumes "hide_invalid_username_error (accounts (cfg E))" and "form c ''username'' \<noteq> []"
    and "\<not> adTrustUsername (uni E) (ip_Realm (ipa E) (ext w)) (form c ''username'')"
  shows "fst (run_state (CheckUser E c) w) =
    (if isBlocked (cfg E) (form c ''username'') then login_form c (empty_user\<lparr>Username := form c ''username''\<rparr>)
     else (case ip_UserShow (ipa E) (ext w) Admin (form c ''username'') of
             Ok u \<Rightarrow> login_form c u
           | Err (EIpa n _) \<Rightarrow> if n = 4001 then login_form c (empty_user\<lparr>Username := form c ''username''\<rparr>)
                               else reply 500 (TC c ''account.fatal_system_error'')
           | Err _ \<Rightarrow> reply 500 (TC c ''account.fatal_system_error'')))"
  using assms
  by (auto simp: CheckUser_def check_found_def failed_login_def Let_def case_prod_unfold
      split: sum.split error.split)

subsection \<open>A login leads to a session\<close>

lemma unit_run: obtains w' where "run_state (m :: ('w, unit) state) w = ((), w')"
  by (cases "run_state m w") auto

lemma signed_in_claims: "session_claims (signed_in u sid t x) = Ok (u, sid, unix t)"
  by (simp add: session_claims_def signed_in_def)

lemma signed_in_id [simp]: "ss_id (signed_in u sid t x) = ss_id x"
  by (simp add: signed_in_def sess_set_def)

lemma deliver_mail_wp:
  "(\<And>x r. Q r (w\<lparr>ext := x\<rparr>)) \<Longrightarrow> wp (deliver_mail E u c lang subject tmpl vs) Q w"
  by (simp add: deliver_mail_def Let_def)

lemma notifyNewLogin_wp:
  assumes "\<And>x. Q () (w\<lparr>ext := x\<rparr>)"
  shows "wp (notifyNewLogin E c u) Q w"
  using assms assms [of "ext w"]
  by (auto simp: notifyNewLogin_def SendNewLoginEmail_def Let_def intro!: deliver_mail_wp split: sum.split)

context session_middleware
begin

lemma recordUserSession_frame:
  "k \<noteq> sessions_key u \<Longrightarrow> view (recordUserSession (stg E) u sid ip br os now s) t k = view s t k"
  by (simp add: recordUserSession_newest save_other)

lemma open_session_run:
  assumes "run_state (open_session E c u sid x0) w = (None, w')"
  obtains x s1 s2 where "fs_regenerate (fib E) (sto w) (clk E (tick w)) (Suc (tick w)) x0 = (Ok x, s1)"
    "fs_save (fib E) s1 (clk E (tick w + 3)) (signed_in u sid (clk E (tick w + 2)) x) = (None, s2)"
    "\<And>t. view (sto w') t (ss_id x) = view s2 t (ss_id x)" "tick w + 4 \<le> tick w'"
proof -
  obtain rx s1 where reg: "fs_regenerate (fib E) (sto w) (clk E (tick w)) (Suc (tick w)) x0 = (rx, s1)"
    by fastforce
  with assms obtain x where x: "rx = Ok x"
    by (cases rx) (auto simp: open_session_def Regenerate_def)
  define y where "y = signed_in u sid (clk E (tick w + 2)) x"
  obtain e s2 where save: "fs_save (fib E) s1 (clk E (tick w + 3)) y = (e, s2)" by fastforce
  note save' = save [unfolded y_def, simplified eval_nat_numeral, simplified]
  define tail where "tail = State_Monad.bind (record_session E c u (ss_id x))
     (\<lambda>_. State_Monad.bind (notifyNewLogin E c u) (\<lambda>_. State_Monad.return (None :: error option)))"
  from assms have e: "e = None"
    using save' by (auto simp: open_session_def Regenerate_def reg x sessionSave_def split: option.splits)
  define w2 where "w2 = w\<lparr>tick := Suc (Suc (Suc (Suc (tick w)))), sto := s2\<rparr>"
  have w2: "sto w2 = s2" "tick w2 = tick w + 4" "run_state tail w2 = (None, w')"
    using assms save' e by (simp_all add: open_session_def Regenerate_def reg x sessionSave_def tail_def w2_def)
  have free: "\<not> portal_key (ss_id x)" using regenerate_id reg x by blast
  have "wp tail (\<lambda>_ w''. (\<forall>t. view (sto w'') t (ss_id x) = view s2 t (ss_id x)) \<and> tick w2 \<le> tick w'') w2"
    using w2(1) free
    by (auto simp: tail_def record_session_def intro!: notifyNewLogin_wp recordUserSession_frame)
  from wp_run [OF this w2(3)] have "view (sto w') t (ss_id x) = view s2 t (ss_id x)" "tick w + 4 \<le> tick w'" for t
    using w2(2) by simp_all
  with that reg x save e show thesis unfolding y_def by blast
qed

lemma session_tick: "wp (session E c) (\<lambda>_ w'. tick w \<le> tick w') w"
  by (auto simp: session_def migrateFiberV2Session_def Let_def split: sum.split option.split)

lemma accepted_login_run:
  assumes "run_state (accepted_login E c u sid) w = (hx_redirect ''/'', w')" "\<not> hydra_set E"
  obtains x0 w0 w1 where "run_state (open_session E c u sid x0) w0 = (None, w1)" "tick w \<le> tick w0" "tick w1 \<le> tick w'"
    "\<And>k t. \<not> audit_key k \<Longrightarrow> view (sto w') t k = view (sto w1) t k"
proof -
  obtain sx w0 where s: "run_state (session E c) w = (sx, w0)" by fastforce
  with assms(1) obtain x0 where x0: "sx = Ok x0"
    by (cases sx) (simp_all add: accepted_login_def hx_redirect_def)
  obtain err w1 where o: "run_state (open_session E c u sid x0) w0 = (err, w1)" by fastforce
  with assms(1) s x0 have err: "err = None"
    by (cases err) (simp_all add: accepted_login_def hx_redirect_def)
  obtain w2 where a: "run_state (audit_info E ''User logged in successfully'' [(''username'', u), (''ip'', rq_ip (req c))]) w1
      = ((), w2)" by (rule unit_run)
  have "sto w' = sto w2" "tick w' = tick w2"
    using assms s x0 o err a by (auto simp: accepted_login_def)
  with wp_run [OF audit_frame a] wp_run [OF session_tick s] that [OF o [unfolded err]] show thesis by simp
qed

text \<open>A session that was saved at \<open>tn\<close> with the login's data lets its requests pass.\<close>

lemma saved_session_passes:
  assumes "fs_save (fib E) s1 tn (signed_in u sid login x) = (None, s2)" "\<not> portal_key (ss_id x)"
    and "rq_cookie (req c2) = ss_id x" "\<And>t. view (sto w2) t (ss_id x) = view s2 t (ss_id x)"
    and "tn \<le> clk E (tick w2)" "clk E (tick w2) < tn + idle_time E"
    and "\<not> sessionInvalidatedByPasswordChange (unix login) (view (sto w2) (clk E (Suc (tick w2))) (pwchanged_key u))"
    and "ip_session (ipa E) (ext w2) sid = None" "ip_UserShow (ipa E) (ext w2) (AsUser sid) u = Ok user"
  shows "fst (run_state (RequireLogin E c2) w2) = Next (c2\<lparr>lc_username := u, lc_user := user, lc_client := sid\<rparr>)"
proof -
  have "fs_get (fib E) (sto w2) (clk E (tick w2)) (ss_id x) = Ok (signed_in u sid login x)"
    using save_get [OF assms(1)] assms(2,5,6) get_cong [of "sto w2" "ss_id x" s2] assms(4) by simp
  with assms(3) have "run_state (session E c2) w2 = (Ok (signed_in u sid login x), w2\<lparr>tick := Suc (tick w2)\<rparr>)"
    by (simp add: session_def)
  with assms(7-9) show ?thesis
    by (simp add: RequireLogin_def isLoggedIn_def signed_in_claims get_ok case_prod_unfold)
qed

end

lemma later_login:
  "\<not> sessionInvalidatedByPasswordChange l m \<Longrightarrow> l \<le> l' \<Longrightarrow> \<not> sessionInvalidatedByPasswordChange l' m"
  by (auto simp: sessionInvalidatedByPasswordChange_def split: option.splits blob.splits)

text \<open>
  C5. A login leads to a session. When the login handler lets a user in, the id the session middleware generated in it, and sends as
  the cookie of the answer, is none of the portal's keys, and a request that brings it is taken for that user, with the FreeIPA session of the
  login: from the end of the login until the idle time has passed since its start, unless the password was changed after that start.
\<close>

theorem login_round_trip:
  assumes "session_middleware E view" and "mono (clk E)"
    and "run_state (accepted_login E c u sid) w = (hx_redirect ''/'', w')" and "\<not> hydra_set E"
  shows "\<exists>x. \<not> portal_key (ss_id x)
    \<and> (\<exists>n s x0 s1. tick w \<le> n \<and> n < tick w' \<and> fs_regenerate (fib E) s (clk E n) (Suc n) x0 = (Ok x, s1))
    \<and> (\<forall>w2 c2 user. rq_cookie (req c2) = ss_id x \<longrightarrow> (\<forall>t. view (sto w2) t (ss_id x) = view (sto w') t (ss_id x))
       \<longrightarrow> clk E (tick w') \<le> clk E (tick w2) \<longrightarrow> clk E (tick w2) < clk E (tick w) + idle_time E
       \<longrightarrow> \<not> sessionInvalidatedByPasswordChange (unix (clk E (tick w))) (view (sto w2) (clk E (Suc (tick w2))) (pwchanged_key u))
       \<longrightarrow> ip_session (ipa E) (ext w2) sid = None \<longrightarrow> ip_UserShow (ipa E) (ext w2) (AsUser sid) u = Ok user
       \<longrightarrow> fst (run_state (RequireLogin E c2) w2) = Next (c2\<lparr>lc_username := u, lc_user := user, lc_client := sid\<rparr>))"
proof -
  obtain x0 w0 w1 where w1: "run_state (open_session E c u sid x0) w0 = (None, w1)" and ticks: "tick w \<le> tick w0" "tick w1 \<le> tick w'"
    and frame: "\<And>k t. \<not> audit_key k \<Longrightarrow> view (sto w') t k = view (sto w1) t k"
    by (rule session_middleware.accepted_login_run [OF assms(1,3,4)]) blast
  obtain x s1 s2 where reg: "fs_regenerate (fib E) (sto w0) (clk E (tick w0)) (Suc (tick w0)) x0 = (Ok x, s1)"
    and save: "fs_save (fib E) s1 (clk E (tick w0 + 3)) (signed_in u sid (clk E (tick w0 + 2)) x) = (None, s2)"
    and same: "\<And>t. view (sto w1) t (ss_id x) = view s2 t (ss_id x)" and later: "tick w0 + 4 \<le> tick w1"
    by (rule session_middleware.open_session_run [OF assms(1) w1]) blast
  have free: "\<not> portal_key (ss_id x)" using session_middleware.regenerate_id [OF assms(1) reg] by blast
  with frame same have same': "view (sto w') t (ss_id x) = view s2 t (ss_id x)" for t
    by (metis audit_portal)
  have clock: "clk E (tick w) \<le> clk E (tick w0 + 3)" "clk E (tick w0 + 3) \<le> clk E (tick w')" "clk E (tick w) \<le> clk E (tick w0 + 2)"
    by (intro monoD [OF assms(2)]; use ticks later in simp)+
  have "unix (clk E (tick w)) \<le> unix (clk E (tick w0 + 2))" unfolding unix_def by (rule zdiv_mono1 [OF clock(3)]) (simp add: second_def)
  note login = later_login [OF _ this]
  have pass: "fst (run_state (RequireLogin E c2) w2) = Next (c2\<lparr>lc_username := u, lc_user := user, lc_client := sid\<rparr>)"
    if "rq_cookie (req c2) = ss_id x" "\<forall>t. view (sto w2) t (ss_id x) = view (sto w') t (ss_id x)"
      "clk E (tick w') \<le> clk E (tick w2)" "clk E (tick w2) < clk E (tick w) + idle_time E"
      "\<not> sessionInvalidatedByPasswordChange (unix (clk E (tick w))) (view (sto w2) (clk E (Suc (tick w2))) (pwchanged_key u))"
      "ip_session (ipa E) (ext w2) sid = None" "ip_UserShow (ipa E) (ext w2) (AsUser sid) u = Ok user"
    for w2 c2 user
    using that(2) same' clock that(3,4)
    by (intro session_middleware.saved_session_passes [OF assms(1) save free that(1) _ _ _ login [OF that(5)] that(6,7)]) simp_all
  have gen: "\<exists>n s x0 s1. tick w \<le> n \<and> n < tick w' \<and> fs_regenerate (fib E) s (clk E n) (Suc n) x0 = (Ok x, s1)"
    using ticks later reg by (intro exI [of _ "tick w0"] exI [of _ "sto w0"] exI [of _ x0] exI [of _ s1]) simp
  show ?thesis
    by (rule exI [of _ x], intro conjI allI impI) (fact free, fact gen, rule pass)
qed

section \<open>Witnesses\<close>

definition login_ctx :: ctx where
  "login_ctx = demo_ctx\<lparr>req := (req demo_ctx)\<lparr>rq_form := \<lambda>k. if k = ''username'' then ''alice'' else if k = ''password'' then ''pw'' else []\<rparr>\<rparr>"

lemma login_ctx_simps [simp]:
  "form login_ctx ''username'' = ''alice''" "form login_ctx ''password'' = ''pw''" "form login_ctx ''otp'' = []"
  "form login_ctx ''challenge'' = []" "rq_cookie (req login_ctx) = ''s1''"
  by (simp_all add: login_ctx_def demo_ctx_def)

theorem blocked_never_logs_in_witness:
  "isBlocked (cfg (demo_env\<lparr>cfg := block_config\<rparr>)) ''admin''
    \<and> ext (snd (run_state (Authenticate (demo_env\<lparr>cfg := block_config\<rparr>)
          (login_ctx\<lparr>req := (req login_ctx)\<lparr>rq_form := \<lambda>_. ''admin''\<rparr>\<rparr>)) demo_world)) = ext demo_world"
  using blocked_never_logs_in [of "demo_env\<lparr>cfg := block_config\<rparr>" "login_ctx\<lparr>req := (req login_ctx)\<lparr>rq_form := \<lambda>_. ''admin''\<rparr>\<rparr>" demo_world]
  by (simp add: isBlocked_def)

theorem login_needs_freeipa_witness:
  "fst (ip_RemoteLogin (ipa demo_env) () ''alice'' ''pw'') = nobody
    \<and> run_state (Authenticate (other_save demo_env (\<lambda>s t x. if sess_get x SessionKeyAuthenticated = Some (SBool False)
            then fs_save (fib demo_env) s t x else (None, Map.empty))) login_ctx) demo_world
      = run_state (Authenticate demo_env login_ctx) demo_world"
proof -
  have r: "ip_RemoteLogin (ipa demo_env) x u pw = (nobody, x)" for x u pw
    by (simp add: demo_env_def demo_outside_def)
  show ?thesis
    using login_needs_freeipa [of demo_env demo_world login_ctx "\<lambda>s t x. if sess_get x SessionKeyAuthenticated = Some (SBool False)
            then fs_save (fib demo_env) s t x else (None, Map.empty)"]
    by (simp add: r nobody_def)
qed

definition hide_env :: "(cells, unit) env" where
  "hide_env = demo_env\<lparr>cfg := default_config\<lparr>accounts := (accounts default_config)\<lparr>hide_invalid_username_error := True\<rparr>\<rparr>\<rparr>"

theorem hidden_usernames_witness:
  "fst (run_state (CheckUser hide_env login_ctx) demo_world) = login_form login_ctx (empty_user\<lparr>Username := ''alice''\<rparr>)"
  using hidden_usernames [of hide_env login_ctx demo_world]
  by (simp add: hide_env_def demo_env_def demo_outside_def nobody_def default_config_def isBlocked_def
      adTrustUsername_def Contains_def)

theorem login_round_trip_witness:
  "\<exists>w' k w2. run_state (accepted_login mem_env login_ctx ''alice'' ''ipa'') demo_world = (hx_redirect ''/'', w') \<and> \<not> portal_key k
    \<and> sto w2 k = sto w' k
    \<and> fst (run_state (RequireLogin mem_env (login_ctx\<lparr>req := (req login_ctx)\<lparr>rq_cookie := k\<rparr>\<rparr>)) w2)
      = Next (login_ctx\<lparr>req := (req login_ctx)\<lparr>rq_cookie := k\<rparr>, lc_username := ''alice'', lc_user := demo_alice, lc_client := ''ipa''\<rparr>)"
proof -
  have hyd: "\<not> hydra_set mem_env" "mono (clk mem_env)" by (simp_all add: default_config_def monoI)
  have "\<exists>w'. run_state (accepted_login mem_env login_ctx ''alice'' ''ipa'') demo_world = (hx_redirect ''/'', w')"
    by (simp add: accepted_login_def session_def open_session_def Regenerate_def sessionSave_def record_session_def
        notifyNewLogin_def mem_sessions_def sid_key_def default_config_def demo_world_def sound_storage_def Let_def
        audit_def case_prod_unfold sess_set_def signed_in_def)
  then obtain w' where run: "run_state (accepted_login mem_env login_ctx ''alice'' ''ipa'') demo_world = (hx_redirect ''/'', w')" by blast
  define w2 where "w2 = w'\<lparr>sto := (sto w')(pwchanged_key ''alice'' := None)\<rparr>"
  have idle: "t7 < t7 + idle_time mem_env" by (simp add: default_config_def second_def)
  from login_round_trip [OF mem_portal.session_middleware_axioms hyd(2) run hyd(1)] obtain x :: sess where x: "\<not> portal_key (ss_id x)"
    and all: "\<forall>w2 c2 user. rq_cookie (req c2) = ss_id x \<longrightarrow> (\<forall>t. sound_view (sto w2) t (ss_id x) = sound_view (sto w') t (ss_id x))
       \<longrightarrow> clk mem_env (tick w') \<le> clk mem_env (tick w2) \<longrightarrow> clk mem_env (tick w2) < clk mem_env (tick demo_world) + idle_time mem_env
       \<longrightarrow> \<not> sessionInvalidatedByPasswordChange (unix (clk mem_env (tick demo_world))) (sound_view (sto w2) (clk mem_env (Suc (tick w2))) (pwchanged_key ''alice''))
       \<longrightarrow> ip_session (ipa mem_env) (ext w2) ''ipa'' = None \<longrightarrow> ip_UserShow (ipa mem_env) (ext w2) (AsUser ''ipa'') ''alice'' = Ok user
       \<longrightarrow> fst (run_state (RequireLogin mem_env c2) w2) = Next (c2\<lparr>lc_username := ''alice'', lc_user := user, lc_client := ''ipa''\<rparr>)"
    by (elim exE conjE) (rule that; assumption)
  have "ss_id x \<noteq> pwchanged_key ''alice''" using x by auto
  then have "fst (run_state (RequireLogin mem_env (login_ctx\<lparr>req := (req login_ctx)\<lparr>rq_cookie := ss_id x\<rparr>\<rparr>)) w2)
      = Next ((login_ctx\<lparr>req := (req login_ctx)\<lparr>rq_cookie := ss_id x\<rparr>\<rparr>)\<lparr>lc_username := ''alice'', lc_user := demo_alice, lc_client := ''ipa''\<rparr>)"
    using idle
    by (intro all [rule_format]) (simp_all add: w2_def sound_view_def mem_view_def sessionInvalidatedByPasswordChange_def demo_outside_def)
  moreover have "sto w2 (ss_id x) = sto w' (ss_id x)" using \<open>ss_id x \<noteq> pwchanged_key ''alice''\<close> by (simp add: w2_def)
  ultimately show ?thesis using run x by auto
qed

end
