(* ===== verification/Passwords.thy ===== *)
theory Passwords
  imports Auth
begin

text \<open>
  Changing and resetting passwords (the handlers of \<open>password.go\<close>): the change on the account page, the
  form for a reset link, the reset itself and the change of an expired password at login.
\<close>

section \<open>Changing the own password\<close>

definition pwPolicyVars :: "('s, 'x) env \<Rightarrow> string \<Rightarrow> vars \<Rightarrow> ('s, 'x, vars) act" where
  "pwPolicyVars E username vs =
     do {
       pol \<leftarrow> policy_of E username;
       State_Monad.return (case pol of Ok p \<Rightarrow> put_var ''pwpolicy'' (PPolicy p) vs | Err _ \<Rightarrow> vs)
     }"

text \<open>\<open>vars["pwpolicy"].(*PwPolicy)\<close>.\<close>

definition policy_var :: "vars \<Rightarrow> PwPolicy option" where
  "policy_var vs = (case map_of vs ''pwpolicy'' of Some (PPolicy p) \<Rightarrow> Some p | _ \<Rightarrow> None)"

definition ipa_message :: "ctx \<Rightarrow> error \<Rightarrow> msg" where
  "ipa_message c e = (case e of EIpa _ m \<Rightarrow> Tx m | _ \<Rightarrow> TC c ''account.fatal_system_error'')"

text \<open>After a successful change: every other session ends, this one gets a new login time.\<close>

definition keep_session :: "('s, 'x) env \<Rightarrow> ctx \<Rightarrow> ('s, 'x, unit) act" where
  "keep_session E c =
     do {
       sx \<leftarrow> session E c;
       (case sx of
          Err _ \<Rightarrow> State_Monad.return ()
        | Ok x \<Rightarrow> do {
            t \<leftarrow> Now E;
            _ \<leftarrow> sessionSave E (sess_set SessionKeyLoginTime (SInt (unix t)) x);
            State_Monad.return ()
          })
     }"

definition PasswordChange :: "('s, 'x) env \<Rightarrow> ctx \<Rightarrow> ('s, 'x, outcome) act" where
  "PasswordChange E c =
     (let u = lc_user c; page = render ''password.html''; vs0 = [(''user'', PUser u)]
      in do {
        el \<leftarrow> elsewhere E c u;
        (case el of
           Some e \<Rightarrow>
             State_Monad.return
               (if \<not> is_get c then reply 403 (error_text e)
                else page (put_var ''password_elsewhere'' (PText (error_text e)) vs0))
         | None \<Rightarrow> do {
             vs \<leftarrow> pwPolicyVars E (Username u) vs0;
             (if is_get c then State_Monad.return (page vs)
              else if ip_OTPOnly (ipa E) u \<and> form c ''otpcode'' = []
              then State_Monad.return (page (put_var ''message'' (PText (TC c ''otptoken.enter_6_digit_code_help'')) vs))
              else
                (case validatePasswordChange (cfg E) (uni E) (hib E) (rq_lang (req c)) (form c ''password'')
                        (form c ''newpassword'') (form c ''newpassword2'') (Username u) (policy_var vs) of
                   Some e \<Rightarrow> State_Monad.return (page (put_var ''message'' (PText (error_text e)) vs))
                 | None \<Rightarrow> do {
                     err \<leftarrow> on_ext (\<lambda>x. ip_ChangePassword (ipa E) x (AsUser (lc_client c)) (Username u)
                               (form c ''password'') (form c ''newpassword'') (form c ''otpcode''));
                     (case err of
                        Some e \<Rightarrow> State_Monad.return (page (put_var ''message'' (PText (ipa_message c e)) vs))
                      | None \<Rightarrow> do {
                          _ \<leftarrow> invalidateUserSessions E (Username u);
                          _ \<leftarrow> keep_session E c;
                          _ \<leftarrow> SendPasswordChangedEmail E u c;
                          State_Monad.return (page (put_var ''success'' (PBool True) vs))
                        })
                   }))
           })
      })"

section \<open>Asking for a reset link\<close>

abbreviation forgot_sent :: outcome where
  "forgot_sent \<equiv> render ''password-forgot-success.html'' []"

definition forgot_known :: "('s, 'x) env \<Rightarrow> ctx \<Rightarrow> string \<Rightarrow> user \<Rightarrow> ('s, 'x, outcome) act" where
  "forgot_known E c username u =
     (if Locked u then do {
        _ \<leftarrow> audit_warn E ''Forgot password attempt for disabled/locked user'' [(''username'', username)];
        State_Monad.return forgot_sent
      }
      else do {
        el \<leftarrow> elsewhere E c u;
        (case el of
           Some reason \<Rightarrow> do {
             _ \<leftarrow> audit_warn E ''Forgot password attempt for user without a FreeIPA password'' [(''username'', username)];
             _ \<leftarrow> SendPasswordElsewhereEmail E u (error_text reason) c;
             State_Monad.return forgot_sent
           }
         | None \<Rightarrow> do {
             err \<leftarrow> SendPasswordResetEmail E u c;
             _ \<leftarrow> (if err = None then Inc ''password_resets_sent'' else State_Monad.return ());
             State_Monad.return forgot_sent
           })
      })"

definition PasswordForgot :: "('s, 'x) env \<Rightarrow> ctx \<Rightarrow> ('s, 'x, outcome) act" where
  "PasswordForgot E c =
     (let username = form c ''username''
      in if is_get c then
           do {
             cid \<leftarrow> newCaptchaID E;
             State_Monad.return (render ''password-forgot.html'' [(''captchaID'', PStr cid)])
           }
         else do {
           ad \<leftarrow> ad_user E username;
           (if ad then State_Monad.return (reply 400 (TC c ''password.managed_by_ad''))
            else do {
              err \<leftarrow> verifyCaptcha E (form c ''captcha_id'') (form c ''captcha_sol'');
              (case err of
                 Some e \<Rightarrow> do { cid \<leftarrow> on_ext (x_new_captcha (ipa E)); State_Monad.return (captcha_refused cid e) }
               | None \<Rightarrow>
                   if isBlocked (cfg E) username then do {
                     _ \<leftarrow> audit_warn E ''Forgot password attempt for blocked username'' [(''username'', username)];
                     State_Monad.return forgot_sent
                   }
                   else do {
                     r \<leftarrow> UserShow E username;
                     (case r of
                        Err e \<Rightarrow> do {
                          _ \<leftarrow> audit_warn E ''Forgot password attempt for unknown username''
                                [(''username'', username), (''err'', error_string e)];
                          State_Monad.return forgot_sent
                        }
                      | Ok u \<Rightarrow> forgot_known E c username u)
                   })
            })
         })"

section \<open>The reset\<close>

definition parse_token :: "('s, 'x) env \<Rightarrow> string \<Rightarrow> string \<Rightarrow> ('s, 'x, Token result) act" where
  "parse_token E token purpose =
     do { t \<leftarrow> Now E; reads (\<lambda>w. ParseToken (stg E) (brn E) (cfg E) token purpose t (sto w)) }"

definition mark_used :: "('s, 'x) env \<Rightarrow> string \<Rightarrow> string \<Rightarrow> Token \<Rightarrow> ('s, 'x, unit) act" where
  "mark_used E token purpose claims =
     do { t \<leftarrow> Now E; on_sto (\<lambda>s. ((), MarkTokenUsed (stg E) (cfg E) token purpose claims t s)) }"

definition reset_done :: "('s, 'x) env \<Rightarrow> ctx \<Rightarrow> string \<Rightarrow> Token \<Rightarrow> user \<Rightarrow> ('s, 'x, outcome) act" where
  "reset_done E c token claims u =
     do {
       _ \<leftarrow> mark_used E token TokenPasswordReset claims;
       _ \<leftarrow> invalidateUserSessions E (Username u);
       _ \<leftarrow> SendPasswordChangedEmail E u c;
       _ \<leftarrow> audit_info E ''User password changed successfully'' [(''username'', Username u)];
       _ \<leftarrow> Inc ''password_resets'';
       State_Monad.return (render ''password-reset-success.html'' [])
     }"

definition reset_password :: "('s, 'x) env \<Rightarrow> ctx \<Rightarrow> string \<Rightarrow> Token \<Rightarrow> user \<Rightarrow> ('s, 'x, outcome) act" where
  "reset_password E c token claims u =
     do {
       r \<leftarrow> on_ext (\<lambda>x. ip_ResetPassword (ipa E) x (Username u));
       (case r of
          Err _ \<Rightarrow> State_Monad.return (reply 500 (TC c ''account.system_error''))
        | Ok rand \<Rightarrow> do {
            err \<leftarrow> on_ext (\<lambda>x. ip_SetPassword (ipa E) x (Username u) rand (form c ''password'') (form c ''otpcode''));
            (case err of
               Some e \<Rightarrow>
                 State_Monad.return
                   (if e = ErrPasswordPolicy then reply 400 (TC c ''account.weak_password'')
                    else if e = ErrInvalidPassword then reply 400 (TC c ''otptoken.invalid_otp'')
                    else reply 500 (TC c ''account.system_error''))
             | None \<Rightarrow> reset_done E c token claims u)
          })
     }"

definition reset_known :: "('s, 'x) env \<Rightarrow> ctx \<Rightarrow> string \<Rightarrow> Token \<Rightarrow> user \<Rightarrow> ('s, 'x, outcome) act" where
  "reset_known E c token claims u =
     do {
       pol \<leftarrow> policy_of E (Username u);
       (let policy = (case pol of Ok p \<Rightarrow> Some p | Err _ \<Rightarrow> None)
        in if is_get c then
             State_Monad.return (render ''password-reset.html''
               ([(''claims'', PClaims claims), (''user'', PUser u)]
                @ (case policy of Some p \<Rightarrow> [(''pwpolicy'', PPolicy p)] | None \<Rightarrow> [])))
           else if ip_OTPOnly (ipa E) u \<and> form c ''otpcode'' = []
           then State_Monad.return (reply 400 (TC c ''otptoken.enter_6_digit_code_help''))
           else
             (case validatePassword (cfg E) (uni E) (hib E) (rq_lang (req c)) (form c ''password'') (form c ''password2'')
                     (Username u) policy of
                Some e \<Rightarrow> State_Monad.return (reply 400 (error_text e))
              | None \<Rightarrow> reset_password E c token claims u))
     }"

definition PasswordReset :: "('s, 'x) env \<Rightarrow> ctx \<Rightarrow> ('s, 'x, outcome) act" where
  "PasswordReset E c =
     (let token = rq_params (req c) ''token''
      in do {
        pt \<leftarrow> parse_token E token TokenPasswordReset;
        (case pt of
           Err _ \<Rightarrow> State_Monad.return (status_only 404)
         | Ok claims \<Rightarrow> do {
             r \<leftarrow> UserShow E (tk_Username claims);
             (case r of
                Err _ \<Rightarrow> State_Monad.return (status_only 404)
              | Ok u \<Rightarrow>
                  if Locked u then do {
                    _ \<leftarrow> audit_warn E ''Attempt to reset password for disabled/locked user''
                          [(''username'', tk_Username claims), (''email'', tk_Email claims)];
                    State_Monad.return (status_only 404)
                  }
                  else do {
                    el \<leftarrow> elsewhere E c u;
                    (case el of
                       Some _ \<Rightarrow> do {
                         _ \<leftarrow> audit_warn E ''Attempt to reset password for user without a FreeIPA password''
                               [(''username'', tk_Username claims)];
                         State_Monad.return (status_only 404)
                       }
                     | None \<Rightarrow> reset_known E c token claims u)
                  })
           })
      })"

section \<open>Expired passwords\<close>

definition expired_changed :: "('s, 'x) env \<Rightarrow> ctx \<Rightarrow> sess \<Rightarrow> user \<Rightarrow> ('s, 'x, outcome) act" where
  "expired_changed E c x u =
     do {
       _ \<leftarrow> invalidateUserSessions E (Username u);
       _ \<leftarrow> SendPasswordChangedEmail E u c;
       (if ip_OTPOnly (ipa E) u then do {
          _ \<leftarrow> audit_info E ''User changed expired password successfully'' [(''username'', Username u)];
          _ \<leftarrow> Inc ''password_resets'';
          State_Monad.return (hx_redirect ''/auth/login'')
        }
        else do {
          cl \<leftarrow> reads (\<lambda>w. ip_new (ipa E) (ext w));
          (case cl of
             Some e \<Rightarrow> State_Monad.return (Fail e)
           | None \<Rightarrow> do {
               r \<leftarrow> on_ext (\<lambda>y. ip_RemoteLogin (ipa E) y (Username u) (form c ''newpassword'' @ form c ''otp''));
               (case r of
                  Err _ \<Rightarrow> State_Monad.return (reply 401 (TC c ''login.failed''))
                | Ok ipa_sid \<Rightarrow> do {
                    ping \<leftarrow> reads (\<lambda>w. ip_Ping (ipa E) (ext w) ipa_sid);
                    (if ping \<noteq> None then State_Monad.return (reply 401 (TC c ''account.invalid_credentials''))
                     else do {
                       err \<leftarrow> open_session E c (Username u) ipa_sid x;
                       (case err of
                          Some e \<Rightarrow> State_Monad.return (Fail e)
                        | None \<Rightarrow> do {
                            _ \<leftarrow> audit_info E ''User logged in and changed expired password successfully''
                                  [(''username'', Username u)];
                            _ \<leftarrow> Inc ''password_resets'';
                            State_Monad.return (hx_redirect ''/'')
                          })
                     })
                  })
             })
        })
     }"

definition expired_change :: "('s, 'x) env \<Rightarrow> ctx \<Rightarrow> sess \<Rightarrow> user \<Rightarrow> ('s, 'x, outcome) act" where
  "expired_change E c x u =
     (if ip_OTPOnly (ipa E) u \<and> form c ''otp'' = []
      then State_Monad.return (reply 400 (TC c ''otptoken.enter_6_digit_code_help''))
      else do {
        pol \<leftarrow> policy_of E (Username u);
        (case validatePasswordChange (cfg E) (uni E) (hib E) (rq_lang (req c)) (form c ''password'')
                (form c ''newpassword'') (form c ''newpassword2'') (Username u)
                (case pol of Ok p \<Rightarrow> Some p | Err _ \<Rightarrow> None) of
           Some e \<Rightarrow> State_Monad.return (reply 400 (error_text e))
         | None \<Rightarrow> do {
             err \<leftarrow> on_ext (\<lambda>y. ip_SetPassword (ipa E) y (Username u) (form c ''password'') (form c ''newpassword'') (form c ''otp''));
             (case err of
                Some e \<Rightarrow>
                  State_Monad.return
                    (if e = ErrPasswordPolicy then reply 400 (TC c ''password.rejected_by_policy'')
                     else if e = ErrInvalidPassword then reply 400 (TC c ''password.invalid_current'')
                     else status_only 500)
              | None \<Rightarrow> expired_changed E c x u)
           })
      })"

definition PasswordExpired :: "('s, 'x) env \<Rightarrow> ctx \<Rightarrow> ('s, 'x, outcome) act" where
  "PasswordExpired E c =
     do {
       sx \<leftarrow> session E c;
       (case sx of
          Err _ \<Rightarrow> redirectLogin E c
        | Ok x \<Rightarrow>
            (case (sess_get x SessionKeyUsername, sess_get x SessionKeyAuthenticated) of
               (Some (SStr username), Some (SBool False)) \<Rightarrow> do {
                 r \<leftarrow> UserShow E username;
                 (case r of
                    Err _ \<Rightarrow> redirectLogin E c
                  | Ok u \<Rightarrow> do {
                      el \<leftarrow> elsewhere E c u;
                      (case el of Some _ \<Rightarrow> redirectLogin E c | None \<Rightarrow> expired_change E c x u)
                    })
               }
             | _ \<Rightarrow> redirectLogin E c))
     }"

section \<open>The forms tell nothing\<close>

lemma token_mail_uniform: "wp (State_Monad.bind (token_mail E u who e p path subj tmpl vs c) (\<lambda>err. State_Monad.bind (f err) (\<lambda>_. State_Monad.return r)))
    (\<lambda>r' _. r' = r) w"
  by (simp add: wp_def case_prod_unfold)

lemma forgot_known_uniform: "wp (forgot_known E c n u) (\<lambda>r _. r = forgot_sent) w"
  by (auto simp: forgot_known_def wp_def case_prod_unfold split: option.split)

lemma PasswordForgot_form:
  assumes "\<not> is_get c" and "\<not> adTrustUsername (uni E) (ip_Realm (ipa E) (ext w)) (form c ''username'')"
  shows "wp (PasswordForgot E c) (\<lambda>r _. r = captcha_form E c (on_ext (x_new_captcha (ipa E))) forgot_sent w) w"
proof -
  have "wp (if isBlocked (cfg E) (form c ''username'') then
        State_Monad.bind (audit_warn E ''Forgot password attempt for blocked username'' [(''username'', form c ''username'')])
          (\<lambda>_. State_Monad.return forgot_sent)
      else State_Monad.bind (UserShow E (form c ''username''))
        (\<lambda>r. case r of
            Err e \<Rightarrow> State_Monad.bind (audit_warn E ''Forgot password attempt for unknown username''
                [(''username'', form c ''username''), (''err'', error_string e)])
              (\<lambda>_. State_Monad.return forgot_sent)
          | Ok u \<Rightarrow> forgot_known E c (form c ''username'') u))
      (\<lambda>r _. r = forgot_sent) w'" for w'
    by (auto split: sum.split intro!: wp_audit forgot_known_uniform)
  from captcha_formI [OF this, of E c "on_ext (x_new_captcha (ipa E))" w] show ?thesis
    by (simp only: PasswordForgot_def Let_def assms(1) if_False wp_bind wp_directory assms(2))
qed

section \<open>What a reset does\<close>

lemma changed_mail_wp:
  assumes "\<And>x r. Q r (w\<lparr>ext := x\<rparr>)"
  shows "wp (SendPasswordChangedEmail E u c) Q w"
  using assms assms [of _ "ext w"]
  by (auto simp: SendPasswordChangedEmail_def event_mail_def Let_def intro!: deliver_mail_wp)

text \<open>A successful reset came through \<open>reset_done\<close>, for the user the token names.\<close>

abbreviation reset_success :: outcome where
  "reset_success \<equiv> render ''password-reset-success.html'' []"

definition by_reset_done :: "('s, 'x) env \<Rightarrow> ctx \<Rightarrow> string \<Rightarrow> Token \<Rightarrow> user \<Rightarrow> ('s, 'x) world \<Rightarrow> outcome \<Rightarrow> ('s, 'x) world \<Rightarrow> bool" where
  "by_reset_done E c token claims u w r w' \<longleftrightarrow>
     (r = reset_success \<longrightarrow>
        (\<exists>w1. sto w1 = sto w \<and> tick w1 = tick w \<and> run_state (reset_done E c token claims u) w1 = (r, w')))"

lemma reset_password_success: "wp (reset_password E c token claims u) (by_reset_done E c token claims u w) w"
proof -
  have "wp (reset_done E c token claims u) (by_reset_done E c token claims u w) w1" if "sto w1 = sto w" "tick w1 = tick w" for w1
    using that by (auto intro!: wp_runI simp: by_reset_done_def)
  then show ?thesis
    by (auto simp: reset_password_def by_reset_done_def split: sum.split option.split)
qed

lemma reset_known_success: "wp (reset_known E c token claims u) (by_reset_done E c token claims u w) w"
  by (auto simp: reset_known_def Let_def by_reset_done_def [of _ _ _ _ _ _ "reply _ _"] 
      by_reset_done_def [of _ _ _ _ _ _ "render _ _"] split: option.split intro!: reset_password_success)

lemma PasswordReset_success:
  assumes "run_state (PasswordReset E c) w = (reset_success, w')"
  obtains claims u w1 where
    "ParseToken (stg E) (brn E) (cfg E) (rq_params (req c) ''token'') TokenPasswordReset (clk E (tick w)) (sto w) = Ok claims"
    "ip_UserShow (ipa E) (ext w) Admin (tk_Username claims) = Ok u" "\<not> Locked u"
    "sto w1 = sto w" "tick w1 = Suc (tick w)"
    "run_state (reset_done E c (rq_params (req c) ''token'') claims u) w1 = (reset_success, w')"
proof -
  define w0 where "w0 = w\<lparr>tick := Suc (tick w)\<rparr>"
  define token where "token = rq_params (req c) ''token''"
  obtain claims where claims: "ParseToken (stg E) (brn E) (cfg E) token TokenPasswordReset (clk E (tick w)) (sto w) = Ok claims"
    using assms by (cases "ParseToken (stg E) (brn E) (cfg E) token TokenPasswordReset (clk E (tick w)) (sto w)")
      (auto simp: PasswordReset_def parse_token_def Let_def token_def)
  obtain u where u: "ip_UserShow (ipa E) (ext w) Admin (tk_Username claims) = Ok u"
    using assms claims by (cases "ip_UserShow (ipa E) (ext w) Admin (tk_Username claims)")
      (auto simp: PasswordReset_def parse_token_def Let_def token_def)
  have "\<not> Locked u"
    using assms claims u by (auto simp: PasswordReset_def parse_token_def Let_def token_def case_prod_unfold)
  moreover from this have "run_state (reset_known E c token claims u) w0 = (reset_success, w')"
    using assms claims u
    by (auto simp: PasswordReset_def parse_token_def Let_def token_def w0_def case_prod_unfold split: option.splits)
  from wp_run [OF reset_known_success this] obtain w1 where "sto w1 = sto w" "tick w1 = Suc (tick w)"
    "run_state (reset_done E c token claims u) w1 = (reset_success, w')"
    by (auto simp: by_reset_done_def w0_def)
  ultimately show thesis using that claims u unfolding token_def by blast
qed

context portal_store
begin

text \<open>\<open>reset_done\<close> leaves the used marker of the token and the marker that ends the user's sessions.\<close>

lemma reset_done_marks:
  "wp (reset_done E c token claims u)
     (\<lambda>_ w'. tick w < tick w'
        \<and> (\<forall>t. clk E (tick w) \<le> t \<and> t < tk_Timestamp claims + token_max_age (email (cfg E)) * second
              \<longrightarrow> view (sto w') t (used_key TokenPasswordReset token) = Some (Raw ''true''))
        \<and> (\<forall>t. clk E (Suc (tick w)) \<le> t \<and> t < clk E (Suc (tick w)) + session_idle_timeout (server (cfg E)) * second + minute
              \<longrightarrow> view (sto w') t (pwchanged_key (Username u)) = Some (Raw (FormatInt (unix (clk E (Suc (tick w)))))))) w"
proof -
  have reset: "TokenPasswordReset \<in> set token_purposes" by (simp add: token_purposes_def)
  have apart: "used_key TokenPasswordReset token \<noteq> pwchanged_key n" for n
    by (simp add: used_key_def pwchanged_key_def key_defs)
  have marked: "view (MarkTokenUsed (stg E) (cfg E) token TokenPasswordReset claims now s) t (used_key TokenPasswordReset token)
      = Some (Raw ''true'')" if "now \<le> t" "t < tk_Timestamp claims + token_max_age (email (cfg E)) * second" for now s t
    using that by (simp add: MarkTokenUsed_def Let_def set_same_ok)
  show ?thesis
    unfolding reset_done_def mark_used_def
    by (auto simp: invalidateUserSessions_def Let_def reset apart marked set_other' set_same_ok
        intro!: changed_mail_wp wp_mono [OF audit_frame])
qed

end


section \<open>Witnesses\<close>

definition lax_config :: config where
  "lax_config = default_config\<lparr>accounts := (accounts default_config)\<lparr>min_passwd_len := 0, min_passwd_classes := 0\<rparr>\<rparr>"

definition reset_env :: "(cells, unit) env" where
  "reset_env = mem_env\<lparr>cfg := lax_config,
     ipa := (ipa mem_env)\<lparr>ip_ResetPassword := \<lambda>x _. (Ok ''rand'', x)\<rparr>\<rparr>"

definition reset_ctx :: ctx where
  "reset_ctx = demo_ctx\<lparr>req := (req demo_ctx)\<lparr>rq_params := \<lambda>_. ''token-7'', rq_form := \<lambda>_. ''x''\<rparr>\<rparr>"

definition reset_world :: "(cells, unit) world" where
  "reset_world = demo_world\<lparr>sto := issued_alice\<rparr>"

lemma lax_config_simps [simp]:
  "email lax_config = email default_config" "server lax_config = server default_config"
  "min_passwd_len (accounts lax_config) = 0" "min_passwd_classes (accounts lax_config) = 0"
  "\<not> check_breached_passwords (accounts lax_config)"
  by (simp_all add: lax_config_def default_config_def)

lemma reset_env_simps [simp]:
  "stg reset_env = sound_storage" "rdb reset_env = None" "cfg reset_env = lax_config" "clk reset_env n = t7"
  "brn reset_env = demo_branca" "fib reset_env = mem_sessions" "uni reset_env = plain_unicode" "hib reset_env = demo_hibp"
  "ipa reset_env = (ipa mem_env)\<lparr>ip_ResetPassword := \<lambda>x _. (Ok ''rand'', x)\<rparr>"
  by (simp_all add: reset_env_def mem_env_def demo_env_def)

lemma reset_ctx_simps [simp]: "rq_params (req reset_ctx) k = ''token-7''" "form reset_ctx k = ''x''" "\<not> is_get reset_ctx"
  by (simp_all add: reset_ctx_def demo_ctx_def)

lemma reset_portal: "portal_store reset_env sound_view"
  by (intro portal_store.intro portal_store_axioms.intro) (simp_all add: sound_store)

lemma ParseToken_config:
  assumes "email cf = email cf'"
  shows "ParseToken S B cf = ParseToken S B cf'"
  unfolding ParseToken_def assms ..

lemma reset_parsed:
  "ParseToken sound_storage demo_branca lax_config ''token-7'' TokenPasswordReset t7 issued_alice = Ok claims_alice"
  unfolding ParseToken_config [of lax_config default_config, OF lax_config_simps(1)]
  by (rule parsed_alice) (simp add: token_purposes_def)

lemma x_repeats: "\<not> 1 < maxRepeated (scan_runes (runes ''x''))"
  by code_simp

lemma reset_valid: "validatePassword lax_config U H l ''x'' ''x'' n None = None"
  by (simp add: validatePassword_def checkPassword_def Let_def x_repeats)

lemma reset_done_result: "wp (reset_done E c tok cl u) (\<lambda>r _. r = reset_success) w"
  by (simp add: reset_done_def wp_def case_prod_unfold)

lemma reset_runs: "\<exists>w'. run_state (PasswordReset reset_env reset_ctx) reset_world = (reset_success, w')"
proof -
  have "wp (PasswordReset reset_env reset_ctx) (\<lambda>r _. r = reset_success) reset_world"
    by (simp add: PasswordReset_def parse_token_def reset_world_def demo_world_def reset_parsed reset_known_def
        reset_password_def reset_valid demo_outside_def demo_alice_def empty_user_def pwPolicyShow_def nobody_def
        passwordElsewhere_def usesFreeIPAPassword_def defaultAuthTypes_def reset_done_result Let_def)
  then show ?thesis by (auto simp: wp_def split: prod.splits)
qed


end
