(* ===== verification/Accounts.thy ===== *)
theory Accounts
  imports Passwords
begin

text \<open>
  Accounts (\<open>account.go\<close>, \<open>ipa_stageuser.go\<close>): the settings page, signup with and without staging, the
  verification of the mail address and the change of an address.
\<close>

section \<open>Settings\<close>

definition settings_names :: "ctx \<Rightarrow> user \<Rightarrow> user" where
  "settings_names c u =
     u\<lparr>First := TrimSpace (form c ''first''), Last := TrimSpace (form c ''last''),
       DisplayName := TrimSpace (form c ''displayname'')\<rparr>"

definition phoneRejected :: "ctx \<Rightarrow> user \<Rightarrow> error \<Rightarrow> outcome" where
  "phoneRejected c u e =
     render ''account.html''
       [(''user'', PUser u), (''message'', PText (error_text e)), (''phone_cc'', PStr (form c ''phone_cc'')),
        (''phone'', PStr (form c ''phone'')), (''telephone_cc'', PStr (form c ''telephone_cc'')),
        (''telephone'', PStr (form c ''telephone''))]"

definition settings_shell :: "config \<Rightarrow> string \<Rightarrow> user \<Rightarrow> user" where
  "settings_shell cf shell u =
     (if allow_change_shell (accounts cf) \<and> list_ex (\<lambda>allowed. shell = allowed) (allowed_shells (accounts cf))
      then u\<lparr>Shell := shell\<rparr> else u)"

definition settings_saved :: "('s, 'x) env \<Rightarrow> ctx \<Rightarrow> user \<Rightarrow> user \<Rightarrow> string \<Rightarrow> bool \<Rightarrow> ('s, 'x, outcome) act" where
  "settings_saved E c u userUpdated newEmail emailChangeRequested =
     (let vs = [(''user'', PUser userUpdated), (''success'', PBool True)]
      in if emailChangeRequested then do {
           err \<leftarrow> SendEmailChangeConfirmEmail E u newEmail c;
           (if err \<noteq> None
            then State_Monad.return (render ''account.html''
                   (put_var ''message'' (PText (TC c ''account.email_change_send_failed'')) (drop_var ''success'' vs)))
            else do {
              _ \<leftarrow> audit_info E ''email change requested''
                    [(''username'', Username u), (''new_email'', newEmail), (''ip'', rq_ip (req c))];
              State_Monad.return (render ''account.html'' (put_var ''email_change_sent'' (PBool True) vs))
            })
         }
         else State_Monad.return (render ''account.html'' vs))"

definition settings_save :: "('s, 'x) env \<Rightarrow> ctx \<Rightarrow> user \<Rightarrow> ('s, 'x, outcome) act" where
  "settings_save E c u =
     (let say = (\<lambda>m. State_Monad.return (render ''account.html'' [(''user'', PUser u), (''message'', PText m)]));
          newEmail = TrimSpace (ToLower (uni E) (form c ''email''));
          emailChangeRequested = (newEmail \<noteq> [] \<and> \<not> EqualFold (uni E) newEmail (Email u))
      in if First u = [] \<or> Last u = [] then say (Tx ''Please provide a first and last name'')
         else if length (First u) > 150 \<or> length (Last u) > 150
         then say (Tx ''First or Last name is too long. Maximum of 150 chars allowed'')
         else if emailChangeRequested \<and> validateEmail (addr E) (uni E) newEmail (allowed_domains (accounts (cfg E))) \<noteq> None
         then say (TC c ''account.email_invalid'')
         else do {
           r \<leftarrow> on_ext (\<lambda>x. ip_UserMod (ipa E) x u);
           (case r of
              Err (EIpa _ _) \<Rightarrow> say (Tx ''Failed to save account settings'')
            | Err _ \<Rightarrow> say (TC c ''account.fatal_system_error'')
            | Ok userUpdated \<Rightarrow> settings_saved E c u userUpdated newEmail emailChangeRequested)
         })"

definition AccountSettings :: "('s, 'x) env \<Rightarrow> ctx \<Rightarrow> ('s, 'x, outcome) act" where
  "AccountSettings E c =
     (let user = lc_user c
      in if is_get c then State_Monad.return (render ''account.html'' [(''user'', PUser user)])
         else
           (let u1 = settings_names c user
            in case joinPhone (rq_lang (req c)) (form c ''phone_cc'') (form c ''phone'') of
                 Err e \<Rightarrow> State_Monad.return (phoneRejected c u1 e)
               | Ok mobile \<Rightarrow>
                   (case joinPhone (rq_lang (req c)) (form c ''telephone_cc'') (form c ''telephone'') of
                      Err e \<Rightarrow> State_Monad.return (phoneRejected c u1 e)
                    | Ok telephone \<Rightarrow>
                        settings_save E c
                          (settings_shell (cfg E) (TrimSpace (form c ''shell''))
                            (u1\<lparr>Mobile := mobile, TelephoneNumber := telephone\<rparr>)))))"

section \<open>Staged accounts\<close>

definition stageUserAdd :: "('s, 'x) env \<Rightarrow> user \<Rightarrow> string \<Rightarrow> ('s, 'x, error option) act" where
  "stageUserAdd E u password = on_ext (\<lambda>x. ip_StageUserAdd (ipa E) x u password)"

definition stageUserShow :: "('s, 'x) env \<Rightarrow> string \<Rightarrow> ('s, 'x, user result) act" where
  "stageUserShow E username = reads (\<lambda>w. ip_StageUserShow (ipa E) (ext w) username)"

definition stageUserFindPending :: "('s, 'x) env \<Rightarrow> ('s, 'x, user list result) act" where
  "stageUserFindPending E =
     reads (\<lambda>w. case ip_StageUserFind (ipa E) (ext w) 500 of
                   Err e \<Rightarrow> Err e
                 | Ok staged \<Rightarrow> Ok (filter (\<lambda>u. Category u = UserCategoryPending) staged))"

definition stageUserSetCategory :: "('s, 'x) env \<Rightarrow> string \<Rightarrow> string \<Rightarrow> ('s, 'x, error option) act" where
  "stageUserSetCategory E username category = on_ext (\<lambda>x. ip_StageUserSetCategory (ipa E) x username category)"

text \<open>The layout of the date has whole seconds; an empty value (\<open>None\<close>) removes the attribute.\<close>

definition clearNewPasswordExpiry :: "('s, 'x) env \<Rightarrow> string \<Rightarrow> ('s, 'x, unit) act" where
  "clearNewPasswordExpiry E username =
     do {
       pol \<leftarrow> policy_of E username;
       expiration \<leftarrow> (case pol of
           Ok policy \<Rightarrow>
             if MaxLifeDays policy > 0
             then do { now \<leftarrow> Now E; State_Monad.return (Some (unix (now + MaxLifeDays policy * 24 * hour) * second)) }
             else State_Monad.return None
         | Err _ \<Rightarrow> State_Monad.return None);
       _ \<leftarrow> on_ext (\<lambda>x. ip_SetPasswordExpiration (ipa E) x username expiration);
       State_Monad.return ()
     }"

definition stageUserActivate :: "('s, 'x) env \<Rightarrow> string \<Rightarrow> ('s, 'x, error option) act" where
  "stageUserActivate E username =
     do {
       err \<leftarrow> on_ext (\<lambda>x. ip_StageUserActivate (ipa E) x username);
       (case err of
          Some e \<Rightarrow> State_Monad.return (Some e)
        | None \<Rightarrow> do { _ \<leftarrow> clearNewPasswordExpiry E username; State_Monad.return None })
     }"

definition stageUserDel :: "('s, 'x) env \<Rightarrow> string \<Rightarrow> ('s, 'x, error option) act" where
  "stageUserDel E username = on_ext (\<lambda>x. ip_StageUserDelete (ipa E) x username)"

section \<open>Signup\<close>

definition user_exists :: "user \<Rightarrow> error" where
  "user_exists u = EText (''Username already exists: '' @ Username u)"

definition create_failed :: error where
  "create_failed = EText ''Failed to create account. Please contact system administrator''"

definition stagedAccountCreate :: "('s, 'x) env \<Rightarrow> user \<Rightarrow> string \<Rightarrow> ('s, 'x, user result) act" where
  "stagedAccountCreate E u password =
     do {
       shown \<leftarrow> UserShow E (Username u);
       (case shown of
          Ok _ \<Rightarrow> State_Monad.return (Err (user_exists u))
        | Err _ \<Rightarrow> do {
            err \<leftarrow> stageUserAdd E u password;
            State_Monad.return
              (case err of
                 None \<Rightarrow> Ok u
               | Some (EIpa cd _) \<Rightarrow> Err (if cd = 4002 then user_exists u else create_failed)
               | Some _ \<Rightarrow> Err create_failed)
          })
     }"

definition direct_create :: "('s, 'x) env \<Rightarrow> string \<Rightarrow> user \<Rightarrow> string \<Rightarrow> bool \<Rightarrow> ('s, 'x, user result) act" where
  "direct_create E lang u password verified =
     do {
       r \<leftarrow> on_ext (\<lambda>x. ip_UserAddWithPassword (ipa E) x u password);
       (case r of
          Err e \<Rightarrow>
            if e = ErrUserExists then State_Monad.return (Err (user_exists u))
            else if e = ErrPasswordPolicy then do {
              _ \<leftarrow> on_ext (\<lambda>x. ip_UserDelete (ipa E) x False True (Username u));
              State_Monad.return (Err (ETrans lang ''password.rejected_by_policy'' []))
            }
            else State_Monad.return (Err create_failed)
        | Ok userRec \<Rightarrow>
            if verified then State_Monad.return (Ok u)
            else do {
              _ \<leftarrow> on_ext (\<lambda>x. ip_UserDisable (ipa E) x (Username userRec));
              State_Monad.return (Ok u)
            })
     }"

definition new_account :: "config \<Rightarrow> bool \<Rightarrow> user \<Rightarrow> user" where
  "new_account cf verified u =
     (let u' = u\<lparr>HomeDir := Join (default_homedir (accounts cf)) (Username u), Shell := default_shell (accounts cf)\<rparr>
      in if verified then u' else u'\<lparr>Category := UserCategoryUnverified\<rparr>)"

text \<open>The user comes back with the fields the code sets in it.\<close>

definition accountCreate :: "('s, 'x) env \<Rightarrow> string \<Rightarrow> user \<Rightarrow> string \<Rightarrow> string \<Rightarrow> bool \<Rightarrow> ('s, 'x, user result) act" where
  "accountCreate E lang user password passwordConfirm verified =
     (case validateUsername (cfg E) (addr E) (uni E) user of
        Err e \<Rightarrow> State_Monad.return (Err e)
      | Ok u \<Rightarrow>
          if First u = [] \<or> Last u = []
          then State_Monad.return (Err (EText ''Please provide your first and last name''))
          else if length (First u) > 150
          then State_Monad.return (Err (EText ''First name is too long. Maximum of 150 chars allowed''))
          else if length (Last u) > 150
          then State_Monad.return (Err (EText ''Last name is too long. Maximum of 150 chars allowed''))
          else do {
            pol \<leftarrow> policy_of E [];
            (case validatePassword (cfg E) (uni E) (hib E) lang password passwordConfirm (Username u)
                    (case pol of Ok p \<Rightarrow> Some p | Err _ \<Rightarrow> None) of
               Some e \<Rightarrow> State_Monad.return (Err e)
             | None \<Rightarrow>
                 if \<not> verified \<and> staged_signup (accounts (cfg E))
                 then stagedAccountCreate E (new_account (cfg E) verified u) password
                 else direct_create E lang (new_account (cfg E) verified u) password verified)
          })"

definition sendVerifyResendEmail :: "('s, 'x) env \<Rightarrow> user \<Rightarrow> ctx \<Rightarrow> ('s, 'x, error option) act" where
  "sendVerifyResendEmail E u c =
     do {
       err \<leftarrow> SendAccountVerifyEmail E u c;
       (case err of
          Some e \<Rightarrow> State_Monad.return (Some e)
        | None \<Rightarrow> do { _ \<leftarrow> Inc ''account_verifications_sent''; State_Monad.return None })
     }"

definition signup_user :: "ctx \<Rightarrow> user" where
  "signup_user c =
     empty_user\<lparr>Username := TrimSpace (form c ''username''), Email := TrimSpace (form c ''email''),
       First := TrimSpace (form c ''first''), Last := TrimSpace (form c ''last'')\<rparr>"

text \<open>A refused signup; a panic goes to the error handler.\<close>

definition signup_refused :: "('s, 'x) env \<Rightarrow> error \<Rightarrow> ('s, 'x, outcome) act" where
  "signup_refused E e =
     (case e of
        EPanic _ \<Rightarrow> State_Monad.return (Fail e)
      | _ \<Rightarrow> do { cid \<leftarrow> on_ext (x_new_captcha (ipa E)); State_Monad.return (captcha_refused cid e) })"

definition AccountCreate :: "('s, 'x) env \<Rightarrow> ctx \<Rightarrow> ('s, 'x, outcome) act" where
  "AccountCreate E c =
     (if is_get c then do {
        cid \<leftarrow> newCaptchaID E;
        pol \<leftarrow> policy_of E [];
        State_Monad.return (render ''signup.html''
          ([(''captchaID'', PStr cid), (''usernameFromEmail'', PBool (username_from_email (accounts (cfg E))))]
           @ (case pol of Ok p \<Rightarrow> [(''pwpolicy'', PPolicy p)] | Err _ \<Rightarrow> [])))
      }
      else do {
        err \<leftarrow> verifyCaptcha E (form c ''captcha_id'') (form c ''captcha_sol'');
        (case err of
           Some e \<Rightarrow> signup_refused E e
         | None \<Rightarrow> do {
             made \<leftarrow> accountCreate E (rq_lang (req c)) (signup_user c) (form c ''password'') (form c ''password2'') False;
             (case made of
                Err e \<Rightarrow> signup_refused E e
              | Ok u \<Rightarrow> do {
                  _ \<leftarrow> audit_info E ''user account created successfully'' [(''username'', Username u), (''email'', Email u)];
                  _ \<leftarrow> Inc ''signups'';
                  failed \<leftarrow> sendVerifyResendEmail E u c;
                  State_Monad.return (render ''signup-success.html''
                    ((''user'', PUser u) # (if failed \<noteq> None then [(''email_failed'', PBool True)] else [])))
                })
           })
      })"

section \<open>Verifying the address\<close>

definition verifyStagedUser :: "('s, 'x) env \<Rightarrow> string \<Rightarrow> user \<Rightarrow> ('s, 'x, user result) act" where
  "verifyStagedUser E username su =
     (if require_admin_verify (accounts (cfg E)) then
        (if Category su = UserCategoryUnverified then do {
           err \<leftarrow> stageUserSetCategory E username UserCategoryPending;
           State_Monad.return (case err of Some e \<Rightarrow> Err e | None \<Rightarrow> Ok su)
         }
         else State_Monad.return (Ok su))
      else do {
        err \<leftarrow> stageUserSetCategory E username [];
        (case err of
           Some e \<Rightarrow> State_Monad.return (Err e)
         | None \<Rightarrow> do {
             err2 \<leftarrow> stageUserActivate E username;
             State_Monad.return (case err2 of Some e \<Rightarrow> Err e | None \<Rightarrow> Ok (su\<lparr>Category := []\<rparr>))
           })
      })"

definition finishAccountVerify :: "('s, 'x) env \<Rightarrow> ctx \<Rightarrow> Token \<Rightarrow> user \<Rightarrow> string \<Rightarrow> ('s, 'x, outcome) act" where
  "finishAccountVerify E c claims u token =
     do {
       _ \<leftarrow> mark_used E token TokenAccountVerify claims;
       _ \<leftarrow> SendWelcomeEmail E u c;
       _ \<leftarrow> audit_info E ''user account verified successfully'' [(''username'', Username u), (''email'', Email u)];
       _ \<leftarrow> Inc ''account_verifications'';
       State_Monad.return (render ''verify-success.html''
         [(''claims'', PClaims claims), (''pending_admin'', PBool (require_admin_verify (accounts (cfg E))))])
     }"

definition verify_failed :: "ctx \<Rightarrow> outcome" where
  "verify_failed c = reply 500 (TC c ''account.failed_to_verify_account'')"

definition clear_category :: "('s, 'x) env \<Rightarrow> user \<Rightarrow> ('s, 'x, user result) act" where
  "clear_category E u =
     (if Category u = UserCategoryUnverified then
        (let u' = u\<lparr>Category := if require_admin_verify (accounts (cfg E)) then UserCategoryPending else []\<rparr>
         in do {
           r \<leftarrow> on_ext (\<lambda>x. ip_UserMod (ipa E) x u');
           State_Monad.return (case r of Err e \<Rightarrow> Err e | Ok _ \<Rightarrow> Ok u')
         })
      else State_Monad.return (Ok u))"

definition verifyLegacyUser :: "('s, 'x) env \<Rightarrow> ctx \<Rightarrow> Token \<Rightarrow> string \<Rightarrow> ('s, 'x, outcome) act" where
  "verifyLegacyUser E c claims token =
     do {
       r \<leftarrow> UserShow E (tk_Username claims);
       (case r of
          Err _ \<Rightarrow> State_Monad.return (verify_failed c)
        | Ok u \<Rightarrow> do {
            err \<leftarrow> (if Locked u \<and> \<not> require_admin_verify (accounts (cfg E))
                   then on_ext (\<lambda>x. ip_UserEnable (ipa E) x (tk_Username claims))
                   else State_Monad.return None);
            (if err \<noteq> None then State_Monad.return (verify_failed c)
             else do {
               r2 \<leftarrow> clear_category E u;
               (case r2 of
                  Err _ \<Rightarrow> State_Monad.return (verify_failed c)
                | Ok u' \<Rightarrow> finishAccountVerify E c claims u' token)
             })
          })
     }"

definition AccountVerify :: "('s, 'x) env \<Rightarrow> ctx \<Rightarrow> ('s, 'x, outcome) act" where
  "AccountVerify E c =
     (let token = rq_params (req c) ''token''
      in do {
        pt \<leftarrow> parse_token E token TokenAccountVerify;
        (case pt of
           Err _ \<Rightarrow> State_Monad.return (status_only 404)
         | Ok claims \<Rightarrow>
             if is_get c then State_Monad.return (render ''verify-account.html'' [(''claims'', PClaims claims)])
             else if staged_signup (accounts (cfg E)) then do {
               shown \<leftarrow> stageUserShow E (tk_Username claims);
               (case shown of
                  Err _ \<Rightarrow> verifyLegacyUser E c claims token
                | Ok su \<Rightarrow> do {
                    r \<leftarrow> verifyStagedUser E (tk_Username claims) su;
                    (case r of
                       Err _ \<Rightarrow> State_Monad.return (verify_failed c)
                     | Ok u \<Rightarrow> finishAccountVerify E c claims u token)
                  })
             }
             else verifyLegacyUser E c claims token)
      })"

abbreviation resent :: outcome where
  "resent \<equiv> render ''account-verify-forgot-success.html'' []"

definition resend_known :: "('s, 'x) env \<Rightarrow> ctx \<Rightarrow> user \<Rightarrow> ('s, 'x, outcome) act" where
  "resend_known E c u =
     (if \<not> Locked u \<and> \<not> require_admin_verify (accounts (cfg E)) then State_Monad.return resent
      else if Category u \<noteq> UserCategoryUnverified then State_Monad.return resent
      else do { _ \<leftarrow> sendVerifyResendEmail E u c; State_Monad.return resent })"

definition resend_unknown :: "('s, 'x) env \<Rightarrow> ctx \<Rightarrow> string \<Rightarrow> ('s, 'x, outcome) act" where
  "resend_unknown E c username =
     (if staged_signup (accounts (cfg E)) then do {
        shown \<leftarrow> stageUserShow E username;
        (case shown of
           Ok su \<Rightarrow>
             if Category su = UserCategoryUnverified
             then do { _ \<leftarrow> sendVerifyResendEmail E su c; State_Monad.return resent }
             else State_Monad.return resent
         | Err _ \<Rightarrow> State_Monad.return resent)
      }
      else State_Monad.return resent)"

definition AccountVerifyResend :: "('s, 'x) env \<Rightarrow> ctx \<Rightarrow> ('s, 'x, outcome) act" where
  "AccountVerifyResend E c =
     (if is_get c then do {
        cid \<leftarrow> newCaptchaID E;
        State_Monad.return (render ''account-verify-forgot.html'' [(''captchaID'', PStr cid)])
      }
      else do {
        err \<leftarrow> verifyCaptcha E (form c ''captcha_id'') (form c ''captcha_sol'');
        (case err of
           Some e \<Rightarrow> do { cid \<leftarrow> on_ext (x_new_captcha (ipa E)); State_Monad.return (captcha_refused cid e) }
         | None \<Rightarrow>
             if isBlocked (cfg E) (form c ''username'') then State_Monad.return resent
             else do {
               r \<leftarrow> UserShow E (form c ''username'');
               (case r of Err _ \<Rightarrow> resend_unknown E c (form c ''username'') | Ok u \<Rightarrow> resend_known E c u)
             })
      })"

section \<open>Changing the address\<close>

definition email_changed :: "('s, 'x) env \<Rightarrow> ctx \<Rightarrow> string \<Rightarrow> Token \<Rightarrow> user \<Rightarrow> ('s, 'x, outcome) act" where
  "email_changed E c token claims user =
     do {
       _ \<leftarrow> mark_used E token TokenEmailChange claims;
       _ \<leftarrow> (if Email user \<noteq> []
            then SendEmailChangedNotification E (Email user) (user\<lparr>Email := tk_Email claims\<rparr>) c
            else State_Monad.return None);
       _ \<leftarrow> audit_info E ''email address changed successfully''
             [(''username'', tk_Username claims), (''old_email'', Email user), (''new_email'', tk_Email claims),
              (''ip'', rq_ip (req c))];
       State_Monad.return (render ''email-change-success.html'' [])
     }"

definition EmailChangeConfirm :: "('s, 'x) env \<Rightarrow> ctx \<Rightarrow> ('s, 'x, outcome) act" where
  "EmailChangeConfirm E c =
     (let token = rq_params (req c) ''token''; failed = reply 500 (TC c ''account.fatal_system_error'')
      in do {
        pt \<leftarrow> parse_token E token TokenEmailChange;
        (case pt of
           Err _ \<Rightarrow> State_Monad.return (status_only 404)
         | Ok claims \<Rightarrow>
             if is_get c then State_Monad.return (render ''email-change-confirm.html'' [(''claims'', PClaims claims)])
             else do {
               r \<leftarrow> UserShow E (tk_Username claims);
               (case r of
                  Err _ \<Rightarrow> State_Monad.return failed
                | Ok user \<Rightarrow> do {
                    m \<leftarrow> on_ext (\<lambda>x. ip_UserMod (ipa E) x (user\<lparr>Email := tk_Email claims\<rparr>));
                    (case m of Err _ \<Rightarrow> State_Monad.return failed | Ok _ \<Rightarrow> email_changed E c token claims user)
                  })
             })
      })"

section \<open>What the settings page may change\<close>

abbreviation other_mod :: "('s, 'x) env \<Rightarrow> ('x \<Rightarrow> user \<Rightarrow> user result \<times> 'x) \<Rightarrow> ('s, 'x) env" where
  "other_mod E g \<equiv> E\<lparr>ipa := (ipa E)\<lparr>ip_UserMod := g\<rparr>\<rparr>"

lemma other_mod_mail:
  "SendEmailChangeConfirmEmail (other_mod E g) = SendEmailChangeConfirmEmail E" "audit (other_mod E g) = audit E"
  by (simp_all add: SendEmailChangeConfirmEmail_def token_mail_def emailLanguage_def issue_token_def sendTokenEmail_def
      deliver_mail_def BaseURL_def linkExpires_def audit_def Now_def fun_eq_iff Let_def
      cong: option.case_cong sum.case_cong if_cong)

definition settings_may_save :: "config \<Rightarrow> user \<Rightarrow> user \<Rightarrow> bool" where
  "settings_may_save cf old new \<longleftrightarrow>
     old\<lparr>First := First new, Last := Last new, DisplayName := DisplayName new, Mobile := Mobile new,
       TelephoneNumber := TelephoneNumber new, Shell := Shell new\<rparr> = new
     \<and> (Shell new = Shell old \<or> allow_change_shell (accounts cf) \<and> Shell new \<in> set (allowed_shells (accounts cf)))
     \<and> First new \<noteq> [] \<and> Last new \<noteq> [] \<and> length (First new) \<le> 150 \<and> length (Last new) \<le> 150"

lemma settings_save_limited:
  assumes "\<And>x. settings_may_save (cfg E) old u \<Longrightarrow> g x u = ip_UserMod (ipa E) x u"
    and "First u \<noteq> [] \<and> Last u \<noteq> [] \<and> length (First u) \<le> 150 \<and> length (Last u) \<le> 150 \<Longrightarrow> settings_may_save (cfg E) old u"
  shows "settings_save (other_mod E g) c u = settings_save E c u"
proof -
  have saved: "settings_saved (other_mod E g) = settings_saved E"
    by (simp add: settings_saved_def other_mod_mail fun_eq_iff Let_def cong: if_cong)
  show ?thesis
    using assms by (auto simp: settings_save_def saved Let_def not_less)
qed

text \<open>
  C12. The settings page saves names, phone numbers and the shell, nothing else. Every record handed to FreeIPA
  has the address, user name, home and category it had, a first and a last name of at most 150 bytes, and a
  new shell only where changing it is allowed and the shell is on the list: with a FreeIPA that treats all
  other records differently the handler runs exactly the same.
\<close>

theorem settings_limited:
  assumes "\<And>x u. settings_may_save (cfg E) (lc_user c) u \<Longrightarrow> g x u = ip_UserMod (ipa E) x u"
  shows "run_state (AccountSettings (other_mod E g) c) w = run_state (AccountSettings E c) w"
proof -
  have "settings_save (other_mod E g) c u = settings_save E c u"
    if "u = settings_shell (cfg E) sh ((settings_names c (lc_user c))\<lparr>Mobile := m, TelephoneNumber := t\<rparr>)" for u sh m t
    by (rule settings_save_limited [where old = "lc_user c"])
      (auto simp: that assms settings_may_save_def settings_shell_def settings_names_def list_ex_iff split: if_splits)
  then show ?thesis
    by (simp add: AccountSettings_def Let_def cong: sum.case_cong)
qed

section \<open>Signup\<close>

lemma stagedAccountCreate_ok:
  assumes "run_state (stagedAccountCreate E u pw) w = (Ok u', w')"
  shows "u' = u \<and> sto w' = sto w \<and> (\<exists>e. ip_UserShow (ipa E) (ext w) Admin (Username u) = Err e)
    \<and> ip_StageUserAdd (ipa E) (ext w) u pw = (None, ext w')"
  using assms
  by (cases "ip_UserShow (ipa E) (ext w) Admin (Username u)"; cases "ip_StageUserAdd (ipa E) (ext w) u pw")
    (auto simp: stagedAccountCreate_def stageUserAdd_def split: option.splits error.splits if_splits)

lemma direct_create_ok:
  assumes "run_state (direct_create E lang u pw verified) w = (Ok u', w')"
  shows "u' = u \<and> sto w' = sto w \<and> (\<exists>rec x. ip_UserAddWithPassword (ipa E) (ext w) u pw = (Ok rec, x)
    \<and> ext w' = (if verified then x else snd (ip_UserDisable (ipa E) x (Username rec))))"
  using assms
  by (cases "ip_UserAddWithPassword (ipa E) (ext w) u pw"; cases "fst (ip_UserAddWithPassword (ipa E) (ext w) u pw)")
    (auto simp: direct_create_def split: if_splits)

text \<open>What a created account went through.\<close>

lemma accountCreate_ok:
  assumes "run_state (accountCreate E lang u0 pw pw2 verified) w = (Ok u, w')"
  obtains u1 where "validateUsername (cfg E) (addr E) (uni E) u0 = Ok u1"
    "run_state (if \<not> verified \<and> staged_signup (accounts (cfg E))
       then stagedAccountCreate E (new_account (cfg E) verified u1) pw
       else direct_create E lang (new_account (cfg E) verified u1) pw verified) w = (Ok u, w')"
    "validatePassword (cfg E) (uni E) (hib E) lang pw pw2 (Username u1)
       (case pwPolicyShow (ip_UserPwPolicy (ipa E) (ext w)) (ip_PwPolicyShow (ipa E) (ext w)) [] of Ok p \<Rightarrow> Some p | Err _ \<Rightarrow> None) = None"
  using assms
  by (cases "validateUsername (cfg E) (addr E) (uni E) u0")
    (auto simp: accountCreate_def split: if_split_asm option.split_asm)

text \<open>The error of disabling a new account is only logged: the signup succeeds, whatever state the account is left in.\<close>

lemma disable_error_ignored:
  assumes "ip_UserAddWithPassword (ipa E) (ext w) u pw = (Ok rec, x)" and "ip_UserDisable (ipa E) x (Username rec) = (Some e, x')"
  shows "run_state (direct_create E lang u pw False) w = (Ok u, w\<lparr>ext := x'\<rparr>)"
  using assms by (simp add: direct_create_def)


section \<open>Home directories\<close>

lemma home_join:
  assumes "usernameRegx n"
  shows "Join ''/home'' n = (if n = ''.'' then ''/home'' else if n = ''..'' then ''/'' else ''/home/'' @ n)"
proof -
  have "CHR ''/'' \<notin> set n" "n \<noteq> []"
    using assms by (auto simp: usernameRegx_def list_all_iff username_char_def is_lower_def is_upper_def is_digit_def)
  then show ?thesis by (simp add: Join_def Clean_def Let_def Split_plain)
qed

text \<open>
  Where new accounts live. With the default option the home of a new account is \<open>/home\<close>, a slash and the
  user name, except for the names \<open>.\<close> and \<open>..\<close>, which validation accepts: their homes are \<open>/home\<close> itself and \<open>/\<close>.
\<close>

theorem signup_home:
  assumes "run_state (accountCreate E lang u0 pw pw2 verified) w = (Ok u, w')"
    and "default_homedir (accounts (cfg E)) = ''/home''"
  shows "HomeDir u = (if Username u = ''.'' then ''/home'' else if Username u = ''..'' then ''/''
      else ''/home/'' @ Username u)"
proof -
  obtain u1 where v: "validateUsername (cfg E) (addr E) (uni E) u0 = Ok u1"
    and run: "run_state (if \<not> verified \<and> staged_signup (accounts (cfg E))
       then stagedAccountCreate E (new_account (cfg E) verified u1) pw
       else direct_create E lang (new_account (cfg E) verified u1) pw verified) w = (Ok u, w')"
    by (rule accountCreate_ok [OF assms(1)])
  from v have "usernameRegx (Username u1)" by (blast dest: accepted_user)
  moreover have "u = new_account (cfg E) verified u1"
    using run by (auto split: if_split_asm dest: stagedAccountCreate_ok direct_create_ok)
  ultimately show ?thesis
    using home_join [of "Username u1"] by (simp add: new_account_def Let_def assms(2))
qed

section \<open>Verification\<close>

text \<open>
  A verify link enables any locked account. Without staging and admin approval, a token of the portal for a
  user, whatever it was issued for, enables the account of the user when it is sent to the verify page with
  another method than GET, also when the account was not waiting for verification but was disabled by an
  administrator.
\<close>

theorem verify_enables_locked:
  assumes "branca_ok (brn E)" and "NewToken (stg E) (brn E) (cfg E) n e p now nonce s = (Ok tok, s')"
    and "st_get (stg E) (sto w) (clk E (tick w)) (used_key TokenAccountVerify tok) = Ok None"
    and "\<not> br_expired (brn E) (unix now * second) (token_max_age (email (cfg E))) (clk E (tick w))"
    and "rq_params (req c) ''token'' = tok" and "\<not> is_get c"
    and "\<not> staged_signup (accounts (cfg E))" and "\<not> require_admin_verify (accounts (cfg E))"
    and "ip_UserShow (ipa E) (ext w) Admin n = Ok u" and "Locked u" and "Category u \<noteq> UserCategoryUnverified"
    and "ip_UserEnable (ipa E) (ext w) n = (None, x)"
  shows "\<exists>w' vs m. run_state (AccountVerify E c) w = (render ''verify-success.html'' vs, w')
    \<and> ext w' = snd (x_smtp (ipa E) x m)"
proof -
  note parsed = ParseToken_fresh [OF assms(1-4)]
  have finish: "wp (finishAccountVerify E c cl u tok)
      (\<lambda>r w'. (\<exists>vs. r = render ''verify-success.html'' vs) \<and> (\<exists>m. ext w' = snd (x_smtp (ipa E) (ext w1) m))) w1" for cl w1
    by (auto simp: finishAccountVerify_def mark_used_def SendWelcomeEmail_def deliver_mail_def Let_def intro!: wp_audit)
  have "wp (AccountVerify E c)
      (\<lambda>r w'. (\<exists>vs. r = render ''verify-success.html'' vs) \<and> (\<exists>m. ext w' = snd (x_smtp (ipa E) x m))) w"
    using finish [of _ "w\<lparr>tick := Suc (tick w), ext := x\<rparr>"] assms(5-)
    by (simp add: AccountVerify_def parse_token_def parsed verifyLegacyUser_def clear_category_def)
  then show ?thesis by (auto simp: wp_def split: prod.splits)
qed

section \<open>Changing the address\<close>

abbreviation change_success :: outcome where
  "change_success \<equiv> render ''email-change-success.html'' []"

lemma EmailChange_success:
  assumes "run_state (EmailChangeConfirm E c) w = (change_success, w')"
  obtains claims u u' x where
    "ParseToken (stg E) (brn E) (cfg E) (rq_params (req c) ''token'') TokenEmailChange (clk E (tick w)) (sto w) = Ok claims"
    "\<not> is_get c" "ip_UserShow (ipa E) (ext w) Admin (tk_Username claims) = Ok u"
    "ip_UserMod (ipa E) (ext w) (u\<lparr>Email := tk_Email claims\<rparr>) = (Ok u', x)"
    "run_state (email_changed E c (rq_params (req c) ''token'') claims u) (w\<lparr>tick := Suc (tick w), ext := x\<rparr>) = (change_success, w')"
proof -
  obtain claims where claims:
      "ParseToken (stg E) (brn E) (cfg E) (rq_params (req c) ''token'') TokenEmailChange (clk E (tick w)) (sto w) = Ok claims"
    using assms by (cases "ParseToken (stg E) (brn E) (cfg E) (rq_params (req c) ''token'') TokenEmailChange (clk E (tick w)) (sto w)")
      (auto simp: EmailChangeConfirm_def parse_token_def Let_def)
  have get: "\<not> is_get c"
    using assms claims by (auto simp: EmailChangeConfirm_def parse_token_def Let_def)
  obtain u where u: "ip_UserShow (ipa E) (ext w) Admin (tk_Username claims) = Ok u"
    using assms claims get by (cases "ip_UserShow (ipa E) (ext w) Admin (tk_Username claims)")
      (auto simp: EmailChangeConfirm_def parse_token_def Let_def)
  obtain r x where m: "ip_UserMod (ipa E) (ext w) (u\<lparr>Email := tk_Email claims\<rparr>) = (r, x)" by fastforce
  then obtain u' where "r = Ok u'"
    using assms claims get u by (cases r) (auto simp: EmailChangeConfirm_def parse_token_def Let_def)
  with that claims get u m assms show thesis
    by (auto simp: EmailChangeConfirm_def parse_token_def Let_def)
qed

context portal_store
begin

lemma marked_used:
  assumes "now \<le> t" "t < tk_Timestamp claims + token_max_age (email (cfg E)) * second"
  shows "view (MarkTokenUsed (stg E) (cfg E) token p claims now s) t (used_key p token) = Some (Raw ''true'')"
  using assms by (simp add: MarkTokenUsed_def Let_def set_same_ok)

lemma email_changed_marks:
  "wp (email_changed E c token claims u)
     (\<lambda>_ w'. tick w < tick w'
        \<and> (\<forall>t. clk E (tick w) \<le> t \<and> t < tk_Timestamp claims + token_max_age (email (cfg E)) * second
              \<longrightarrow> view (sto w') t (used_key TokenEmailChange token) = Some (Raw ''true''))) w"
  by (auto simp: email_changed_def mark_used_def marked_used SendEmailChangedNotification_def event_mail_def Let_def
      token_purposes_def intro!: deliver_mail_wp wp_mono [OF audit_frame])

end

text \<open>
  An address changes only with a link, to the address in the link, and once. A change that succeeded was
  asked for with another method than GET and wrote the address of the token into the record of the user the
  token names; sent again while it is valid, the link is answered with 404 and nothing happens outside.
\<close>

theorem email_change_single_use:
  assumes "portal_store E view" and "mono (clk E)"
    and "run_state (EmailChangeConfirm E c) w = (change_success, w')"
    and "rq_params (req c2) ''token'' = rq_params (req c) ''token''" and "tick w' \<le> tick w2"
    and "\<And>t. view (sto w2) t (used_key TokenEmailChange (rq_params (req c) ''token''))
        = view (sto w') t (used_key TokenEmailChange (rq_params (req c) ''token''))"
  shows "\<exists>claims u u' x.
    ParseToken (stg E) (brn E) (cfg E) (rq_params (req c) ''token'') TokenEmailChange (clk E (tick w)) (sto w) = Ok claims
    \<and> ip_UserShow (ipa E) (ext w) Admin (tk_Username claims) = Ok u
    \<and> ip_UserMod (ipa E) (ext w) (u\<lparr>Email := tk_Email claims\<rparr>) = (Ok u', x) \<and> \<not> is_get c
    \<and> (clk E (tick w2) < tk_Timestamp claims + token_max_age (email (cfg E)) * second
        \<longrightarrow> run_state (EmailChangeConfirm E c2) w2 = (status_only 404, w2\<lparr>tick := Suc (tick w2)\<rparr>))"
proof (rule EmailChange_success [OF assms(3)])
  fix claims u u' x
  assume ok: "ParseToken (stg E) (brn E) (cfg E) (rq_params (req c) ''token'') TokenEmailChange (clk E (tick w)) (sto w) = Ok claims"
      "\<not> is_get c" "ip_UserShow (ipa E) (ext w) Admin (tk_Username claims) = Ok u"
      "ip_UserMod (ipa E) (ext w) (u\<lparr>Email := tk_Email claims\<rparr>) = (Ok u', x)"
    and run: "run_state (email_changed E c (rq_params (req c) ''token'') claims u) (w\<lparr>tick := Suc (tick w), ext := x\<rparr>) = (change_success, w')"
  note marks = wp_run [OF portal_store.email_changed_marks [OF assms(1)] run]
  note kv = reliable_store.axioms(1) [OF portal_store.axioms(1) [OF assms(1)]]
  have "run_state (EmailChangeConfirm E c2) w2 = (status_only 404, w2\<lparr>tick := Suc (tick w2)\<rparr>)"
    if young: "clk E (tick w2) < tk_Timestamp claims + token_max_age (email (cfg E)) * second"
  proof -
    have "clk E (Suc (tick w)) \<le> clk E (tick w2)" using marks assms(2,5) by (auto intro: monoD)
    with marks assms(6) young
    have "view (sto w2) (clk E (tick w2)) (used_key TokenEmailChange (rq_params (req c) ''token'')) = Some (Raw ''true'')"
      by auto
    from kv_store.used_token_rejected [OF kv, OF this, of "brn E" "cfg E"]
    obtain err where "ParseToken (stg E) (brn E) (cfg E) (rq_params (req c2) ''token'') TokenEmailChange (clk E (tick w2)) (sto w2) = Err err"
      unfolding assms(4) by blast
    then show ?thesis by (simp add: EmailChangeConfirm_def parse_token_def Let_def)
  qed
  with ok show ?thesis by blast
qed

section \<open>Witnesses\<close>

theorem settings_limited_witness:
  "run_state (AccountSettings (other_mod demo_env (\<lambda>x u. if settings_may_save default_config (lc_user demo_ctx) u
        then ip_UserMod (ipa demo_env) x u else (nobody, x))) demo_ctx) demo_world
    = run_state (AccountSettings demo_env demo_ctx) demo_world"
  by (rule settings_limited) (simp add: demo_env_def)

definition dots_signup :: user where
  "dots_signup = empty_user\<lparr>Username := ''..'', Email := ''x@ab.cd'', First := ''x'', Last := ''x''\<rparr>"

lemma lower_dot [simp]: "lower_char CHR ''.'' = CHR ''.''"
  by code_simp

lemma dots_valid: "validateUsername lax_config Some plain_unicode dots_signup = Ok dots_signup"
  using demo_email
  by (simp add: validateUsername_def checkUsername_def dots_signup_def name_defs ToLower_def ascii_def lax_config_def
      default_config_def)

lemma dots_runs:
  "\<exists>u w'. run_state (accountCreate reset_env [] dots_signup ''x'' ''x'' False) reset_world = (Ok u, w') \<and> Username u = ''..''"
proof -
  have "addr reset_env = Some" "\<not> staged_signup (accounts lax_config)"
    by (simp_all add: reset_env_def mem_env_def demo_env_def lax_config_def default_config_def)
  moreover have "First dots_signup = ''x''" "Last dots_signup = ''x''" "Username dots_signup = ''..''"
    by (simp_all add: dots_signup_def)
  ultimately show ?thesis
    by (simp add: accountCreate_def dots_valid direct_create_def demo_outside_def nobody_def pwPolicyShow_def reset_valid
        new_account_def Let_def)
qed

text \<open>A FreeIPA that signs nobody in.\<close>

definition shut_env :: "(cells, unit) env" where
  "shut_env = reset_env\<lparr>ipa := (ipa reset_env)\<lparr>ip_RemoteLogin := \<lambda>x _ _. (nobody, x),
     ip_UserAddWithPassword := \<lambda>x v _. (Ok v, x), ip_UserDisable := \<lambda>x _. (None, x)\<rparr>\<rparr>"

lemma shut_env_simps [simp]:
  "stg shut_env = sound_storage" "cfg shut_env = lax_config" "uni shut_env = plain_unicode" "hib shut_env = demo_hibp" "addr shut_env = Some"
  "fib shut_env = mem_sessions" "ip_RemoteLogin (ipa shut_env) x n p = (nobody, x)" "ip_UserAddWithPassword (ipa shut_env) x v p = (Ok v, x)"
  "ip_UserDisable (ipa shut_env) x n = (None, x)" "ip_UserPwPolicy (ipa shut_env) = ip_UserPwPolicy demo_outside"
  "ip_PwPolicyShow (ipa shut_env) = ip_PwPolicyShow demo_outside"
  by (simp_all add: shut_env_def) (simp_all add: reset_env_def mem_env_def demo_env_def)

lemma shut_runs: "\<exists>u w'. run_state (accountCreate shut_env [] dots_signup ''x'' ''x'' False) reset_world = (Ok u, w') \<and> Username u = ''..''"
proof -
  have "\<not> staged_signup (accounts lax_config)" by (simp add: lax_config_def default_config_def)
  moreover have "First dots_signup = ''x''" "Last dots_signup = ''x''" "Username dots_signup = ''..''"
    by (simp_all add: dots_signup_def)
  ultimately show ?thesis
    by (simp add: accountCreate_def dots_valid direct_create_def demo_outside_def nobody_def pwPolicyShow_def reset_valid
        new_account_def Let_def)
qed


theorem signup_home_witness:
  "\<exists>u w'. run_state (accountCreate reset_env [] dots_signup ''x'' ''x'' False) reset_world = (Ok u, w')
    \<and> Username u = ''..'' \<and> HomeDir u = ''/''"
proof -
  obtain u w' where run: "run_state (accountCreate reset_env [] dots_signup ''x'' ''x'' False) reset_world = (Ok u, w')"
    "Username u = ''..''" using dots_runs by blast
  have "default_homedir (accounts (cfg reset_env)) = ''/home''" by (simp add: lax_config_def default_config_def)
  from signup_home [OF run(1) this] run show ?thesis by simp
qed

definition locked_env :: "(cells, unit) env" where
  "locked_env = mem_env\<lparr>ipa := (ipa mem_env)\<lparr>ip_UserShow := \<lambda>_ _ _. Ok (demo_alice\<lparr>Locked := True\<rparr>)\<rparr>\<rparr>"

lemma locked_env_simps [simp]:
  "stg locked_env = sound_storage" "brn locked_env = demo_branca" "cfg locked_env = default_config"
  "clk locked_env k = t7" "ip_UserShow (ipa locked_env) x a n = Ok (demo_alice\<lparr>Locked := True\<rparr>)"
  "ip_UserEnable (ipa locked_env) x n = (None, x)"
  by (simp_all add: locked_env_def mem_env_def demo_env_def demo_outside_def)

theorem verify_enables_locked_witness:
  "\<exists>w' vs. run_state (AccountVerify locked_env reset_ctx) reset_world = (render ''verify-success.html'' vs, w')"
proof -
  have "st_get (stg locked_env) (sto reset_world) (clk locked_env (tick reset_world)) (used_key TokenAccountVerify ''token-7'') = Ok None"
    by (simp add: reset_world_def sound.get_ok unused_alice token_purposes_def)
  moreover have "\<not> staged_signup (accounts (cfg locked_env))" "\<not> require_admin_verify (accounts (cfg locked_env))"
    by (simp_all add: default_config_def)
  ultimately show ?thesis
    using verify_enables_locked [of locked_env "''alice''" "''alice@example.com''" TokenPasswordReset t7 "[]" Map.empty "''token-7''"
        issued_alice reset_world reset_ctx "demo_alice\<lparr>Locked := True\<rparr>" "()"] demo_branca_ok NewToken_alice fresh_alice
    by (auto simp: demo_alice_def empty_user_def UserCategoryUnverified_def)
qed

lemma change_runs: "\<exists>w'. run_state (EmailChangeConfirm reset_env reset_ctx) reset_world = (change_success, w')"
proof -
  have parsed: "ParseToken sound_storage demo_branca lax_config ''token-7'' TokenEmailChange t7 issued_alice = Ok claims_alice"
    unfolding ParseToken_config [of lax_config default_config, OF lax_config_simps(1)]
    by (rule parsed_alice) (simp add: token_purposes_def)
  have "wp (email_changed E c tok cl u) (\<lambda>r _. r = change_success) w" for E :: "(cells, unit) env" and c tok cl u w
    by (simp add: email_changed_def wp_def case_prod_unfold)
  then have "wp (EmailChangeConfirm reset_env reset_ctx) (\<lambda>r _. r = change_success) reset_world"
    by (simp add: EmailChangeConfirm_def parse_token_def reset_world_def demo_world_def parsed demo_outside_def Let_def)
  then show ?thesis by (auto simp: wp_def split: prod.splits)
qed

theorem email_change_single_use_witness:
  "\<exists>w'. run_state (EmailChangeConfirm reset_env reset_ctx) reset_world = (change_success, w')
    \<and> (\<exists>claims. ParseToken sound_storage demo_branca lax_config ''token-7'' TokenEmailChange t7 issued_alice = Ok claims
        \<and> (t7 < tk_Timestamp claims + 3600 * second
            \<longrightarrow> run_state (EmailChangeConfirm reset_env reset_ctx) w' = (status_only 404, w'\<lparr>tick := Suc (tick w')\<rparr>)))"
proof -
  obtain w' where run: "run_state (EmailChangeConfirm reset_env reset_ctx) reset_world = (change_success, w')"
    using change_runs by blast
  have clock: "mono (clk reset_env)" by (rule monoI) simp
  have "token_max_age (email lax_config) = 3600" by (simp add: default_config_def)
  then show ?thesis
    using run email_change_single_use [OF reset_portal clock run refl order_refl refl] by (auto simp: reset_world_def)
qed

end
