(* ===== verification/Security.thy ===== *)
theory Security
  imports Accounts Hydra
begin

text \<open>
  The security page (\<open>security.go\<close>), signing out devices (\<open>sessions.go\<close>), OTP tokens (\<open>otp.go\<close>) and asking
  for the recovery of a lost token (\<open>otprecovery.go\<close>).
\<close>

section \<open>The page\<close>

definition securityState :: "bool \<Rightarrow> int \<Rightarrow> string" where
  "securityState otpOnly otpCount = (if otpOnly then ''protected'' else if otpCount > 0 then ''turn_on'' else ''password_only'')"

definition userPasskeys :: "('s, 'x) env \<Rightarrow> client \<Rightarrow> string \<Rightarrow> ('s, 'x, string list result) act" where
  "userPasskeys E cl uid = reads (\<lambda>w. case ip_UserShow (ipa E) (ext w) cl uid of Err e \<Rightarrow> Err e | Ok u \<Rightarrow> Ok (Passkeys u))"

definition FetchOTPTokens :: "('s, 'x) env \<Rightarrow> ctx \<Rightarrow> ('s, 'x, otp_token list result) act" where
  "FetchOTPTokens E c = reads (\<lambda>w. ip_FetchOTPTokens (ipa E) (ext w) (AsUser (lc_client c)) (Username (lc_user c)))"

definition listed :: "'a list result \<Rightarrow> int" where
  "listed r = (case r of Err _ \<Rightarrow> 0 | Ok xs \<Rightarrow> int (length xs))"

definition failed :: "'a result \<Rightarrow> bool" where
  "failed r = (case r of Err _ \<Rightarrow> True | Ok _ \<Rightarrow> False)"

definition session_vars :: "('s, 'x) env \<Rightarrow> ctx \<Rightarrow> vars \<Rightarrow> ('s, 'x, vars) act" where
  "session_vars E c vs =
     do {
       sx \<leftarrow> session E c;
       (case sx of
          Err _ \<Rightarrow> State_Monad.return vs
        | Ok x \<Rightarrow> do {
            t \<leftarrow> Now E;
            ss \<leftarrow> on_sto (userSessions (stg E) (Username (lc_user c)) (ss_id x) t);
            State_Monad.return (put_var ''sessions'' (PSessions ss) vs)
          })
     }"

definition app_vars :: "('s, 'x) env \<Rightarrow> ctx \<Rightarrow> vars \<Rightarrow> ('s, 'x, vars) act" where
  "app_vars E c vs =
     (if hydra_admin_url (hydra (cfg E)) = None then State_Monad.return vs
      else do {
        apps \<leftarrow> reads (\<lambda>w. listConnectedApps E (ext w) (Username (lc_user c)));
        State_Monad.return
          (case apps of
             Err _ \<Rightarrow> put_var ''apps_error'' (PBool True) vs
           | Ok xs \<Rightarrow> put_var ''connected_apps'' (PApps xs) vs)
      })"

definition securityVars :: "('s, 'x) env \<Rightarrow> ctx \<Rightarrow> vars \<Rightarrow> ('s, 'x, vars) act" where
  "securityVars E c vs =
     (let user = lc_user c
      in do {
        tokens \<leftarrow> FetchOTPTokens E c;
        passkeys \<leftarrow> userPasskeys E (AsUser (lc_client c)) (Username user);
        vs1 \<leftarrow> session_vars E c
          (put_var ''security_state'' (PStr (securityState (ip_OTPOnly (ipa E) user) (listed tokens)))
            (put_var ''counts_known'' (PBool (\<not> failed tokens \<and> \<not> failed passkeys))
              (put_var ''passkey_count'' (PInt (listed passkeys))
                (put_var ''otp_count'' (PInt (listed tokens)) (put_var ''user'' (PUser user) vs)))));
        t \<leftarrow> Now E;
        events \<leftarrow> reads (\<lambda>w. auditUserRecent (stg E) (Username user) 15 t (sto w));
        app_vars E c (put_var ''activity'' (PEvents events) vs1)
      })"

definition securityList :: "('s, 'x) env \<Rightarrow> ctx \<Rightarrow> vars \<Rightarrow> ('s, 'x, outcome) act" where
  "securityList E c vs = do { vs' \<leftarrow> securityVars E c vs; State_Monad.return (render ''security.html'' vs') }"

definition SecurityList :: "('s, 'x) env \<Rightarrow> ctx \<Rightarrow> ('s, 'x, outcome) act" where
  "SecurityList E c = securityList E c []"

definition AppRevoke :: "('s, 'x) env \<Rightarrow> ctx \<Rightarrow> ('s, 'x, outcome) act" where
  "AppRevoke E c =
     (let user = lc_user c; clientID = form c ''client''
      in do {
        err \<leftarrow> revokeConnectedApp E (Username user) clientID;
        (if err \<noteq> None then securityList E c [(''message'', PText (TC c ''security.apps_revoke_failed''))]
         else do {
           _ \<leftarrow> audit_info E ''User revoked app access''
                 [(''username'', Username user), (''client'', clientID), (''ip'', rq_ip (req c))];
           securityList E c []
         })
      })"

section \<open>Devices\<close>

definition SessionRevoke :: "('s, 'x) env \<Rightarrow> ctx \<Rightarrow> ('s, 'x, outcome) act" where
  "SessionRevoke E c =
     (let username = lc_username c; sid = form c ''sid''
      in do {
        sx \<leftarrow> session E c;
        (case sx of
           Err e \<Rightarrow> State_Monad.return (Fail e)
         | Ok x \<Rightarrow>
             if sid = [] \<or> sid = ss_id x
             then securityList E c [(''message'', PText (TC c ''security.cannot_revoke_current''))]
             else do {
               t \<leftarrow> Now E;
               revoked \<leftarrow> on_sto (revokeUserSession (stg E) username sid t);
               _ \<leftarrow> (if revoked
                    then audit_info E ''User revoked a session'' [(''username'', username), (''ip'', rq_ip (req c))]
                    else State_Monad.return ());
               securityList E c []
             })
      })"

definition SessionRevokeOthers :: "('s, 'x) env \<Rightarrow> ctx \<Rightarrow> ('s, 'x, outcome) act" where
  "SessionRevokeOthers E c =
     (let username = lc_username c
      in do {
        sx \<leftarrow> session E c;
        (case sx of
           Err e \<Rightarrow> State_Monad.return (Fail e)
         | Ok x \<Rightarrow> do {
             t \<leftarrow> Now E;
             revoked \<leftarrow> on_sto (revokeOtherUserSessions (stg E) username (ss_id x) t);
             _ \<leftarrow> (if revoked > 0
                  then audit_info E ''User signed out all other sessions''
                         [(''username'', username), (''revoked'', FormatInt (int revoked)), (''ip'', rq_ip (req c))]
                  else State_Monad.return ());
             securityList E c []
           })
      })"

section \<open>Two-factor authentication\<close>

definition TwoFactorDisable :: "('s, 'x) env \<Rightarrow> ctx \<Rightarrow> ('s, 'x, outcome) act" where
  "TwoFactorDisable E c =
     (let user = lc_user c; user' = user\<lparr>AuthTypes := []\<rparr>
      in do {
        err \<leftarrow> on_ext (\<lambda>x. ip_SetAuthTypes (ipa E) x (Username user) []);
        _ \<leftarrow> SendMFAChangedEmail E False user' c;
        securityList E (c\<lparr>lc_user := user'\<rparr>)
          (if err \<noteq> None then [(''message'', PText (Tx ''Failed to disable Two-Factor authentication''))] else [])
      })"

definition TwoFactorEnable :: "('s, 'x) env \<Rightarrow> ctx \<Rightarrow> ('s, 'x, outcome) act" where
  "TwoFactorEnable E c =
     (let user = lc_user c; user' = user\<lparr>AuthTypes := [''otp'']\<rparr>
      in do {
        tokens \<leftarrow> FetchOTPTokens E c;
        (case tokens of
           Err _ \<Rightarrow> securityList E c [(''message'', PText (Tx ''Failed to enable Two-Factor authentication''))]
         | Ok [] \<Rightarrow>
             securityList E c
               [(''message'', PText (Tx ''You must add an OTP token first before enabling Two-Factor authentication''))]
         | Ok (_ # _) \<Rightarrow> do {
             err \<leftarrow> on_ext (\<lambda>x. ip_SetAuthTypes (ipa E) x (Username user) [''otp'']);
             _ \<leftarrow> SendMFAChangedEmail E True user' c;
             securityList E (c\<lparr>lc_user := user'\<rparr>)
               (if err \<noteq> None then [(''message'', PText (Tx ''Failed to enable Two-Factor authentication''))] else [])
           })
      })"

section \<open>OTP tokens\<close>

definition getHashAlgorithm :: "config \<Rightarrow> string" where
  "getHashAlgorithm cf =
     (let algo = otp_hash_algorithm (accounts cf)
      in if algo = ''sha256'' then ''SHA256'' else if algo = ''sha512'' then ''SHA512'' else ''SHA1'')"

definition otpReadonly :: "('s, 'x) env \<Rightarrow> user \<Rightarrow> bool" where
  "otpReadonly E user \<longleftrightarrow> list_ex (ip_HasGroup (ipa E) user) (otp_readonly_groups (accounts (cfg E)))"

definition RequireOTPSelfService :: "('s, 'x) env \<Rightarrow> ctx \<Rightarrow> ('s, 'x, outcome) act" where
  "RequireOTPSelfService E c =
     State_Monad.return (if otpReadonly E (lc_user c) then reply 403 (TC c ''otptoken.readonly_notice'') else Next c)"

definition tokenList :: "('s, 'x) env \<Rightarrow> ctx \<Rightarrow> vars \<Rightarrow> ('s, 'x, outcome) act" where
  "tokenList E c vs =
     do {
       tokens \<leftarrow> FetchOTPTokens E c;
       State_Monad.return
         (case tokens of
            Err e \<Rightarrow> Fail e
          | Ok ts \<Rightarrow>
              render ''otptoken-list.html''
                (put_var ''otp_readonly'' (PBool (otpReadonly E (lc_user c)))
                  (put_var ''user'' (PUser (lc_user c)) (put_var ''otptokens'' (POtps ts) vs))))
     }"

definition OTPTokenList :: "('s, 'x) env \<Rightarrow> ctx \<Rightarrow> ('s, 'x, outcome) act" where
  "OTPTokenList E c = tokenList E c []"

definition OTPTokenModal :: outcome where
  "OTPTokenModal = render ''otptoken-new.html'' []"

text \<open>FreeIPA answers with code 4203 when the last active token would go.\<close>

definition token_message :: "error \<Rightarrow> string \<Rightarrow> string \<Rightarrow> vars" where
  "token_message e last_token other = [(''message'', PText (Tx (case e of EIpa n _ \<Rightarrow> if n = 4203 then last_token else other | _ \<Rightarrow> other)))]"

definition OTPTokenRemove :: "('s, 'x) env \<Rightarrow> ctx \<Rightarrow> ('s, 'x, outcome) act" where
  "OTPTokenRemove E c =
     do {
       err \<leftarrow> on_ext (\<lambda>x. ip_RemoveOTPToken (ipa E) x (AsUser (lc_client c)) (form c ''uuid''));
       (case err of
          Some e \<Rightarrow>
            tokenList E c (token_message e ''You can't remove your last active token while Two-Factor auth is enabled''
              ''Failed to remove token'')
        | None \<Rightarrow> do { _ \<leftarrow> SendOTPTokenUpdatedEmail E False (lc_user c) c; tokenList E c [] })
     }"

definition OTPTokenEnable :: "('s, 'x) env \<Rightarrow> ctx \<Rightarrow> ('s, 'x, outcome) act" where
  "OTPTokenEnable E c =
     do {
       err \<leftarrow> on_ext (\<lambda>x. ip_EnableOTPToken (ipa E) x (AsUser (lc_client c)) (form c ''uuid''));
       tokenList E c (if err \<noteq> None then [(''message'', PText (Tx ''Failed to enable token''))] else [])
     }"

definition OTPTokenDisable :: "('s, 'x) env \<Rightarrow> ctx \<Rightarrow> ('s, 'x, outcome) act" where
  "OTPTokenDisable E c =
     do {
       err \<leftarrow> on_ext (\<lambda>x. ip_DisableOTPToken (ipa E) x (AsUser (lc_client c)) (form c ''uuid''));
       tokenList E c
         (case err of
            Some e \<Rightarrow> token_message e ''You can't disable your last active token while Two-Factor auth is enabled''
              ''Failed to disable token''
          | None \<Rightarrow> [])
     }"

text \<open>After a valid code: with \<open>require_mfa\<close> a first token switches two-factor authentication on.\<close>

definition token_added :: "('s, 'x) env \<Rightarrow> ctx \<Rightarrow> ('s, 'x, outcome) act" where
  "token_added E c = do { _ \<leftarrow> SendOTPTokenUpdatedEmail E True (lc_user c) c; tokenList E c [] }"

definition token_verified :: "('s, 'x) env \<Rightarrow> ctx \<Rightarrow> ('s, 'x, outcome) act" where
  "token_verified E c =
     (if require_mfa (accounts (cfg E)) then do {
        tokens \<leftarrow> FetchOTPTokens E c;
        (if \<not> ip_OTPOnly (ipa E) (lc_user c) \<and> listed tokens = 1 then do {
           err \<leftarrow> on_ext (\<lambda>x. ip_SetAuthTypes (ipa E) x (Username (lc_user c)) [''otp'']);
           (if err \<noteq> None then token_added E c
            else
              (let c' = c\<lparr>lc_user := (lc_user c)\<lparr>AuthTypes := [''otp'']\<rparr>\<rparr>
               in do { _ \<leftarrow> SendMFAChangedEmail E True (lc_user c') c'; tokenList E c' [] }))
         }
         else token_added E c)
      }
      else token_added E c)"

definition OTPTokenVerify :: "('s, 'x) env \<Rightarrow> ctx \<Rightarrow> ('s, 'x, outcome) act" where
  "OTPTokenVerify E c =
     (let remove = on_ext (\<lambda>x. ip_RemoveOTPToken (ipa E) x (AsUser (lc_client c)) (form c ''uuid''))
      in if form c ''action'' = ''cancel'' then do { _ \<leftarrow> remove; tokenList E c [] }
         else
           (case x_otp_key (ipa E) (form c ''uri'') of
              Err _ \<Rightarrow> do {
                _ \<leftarrow> remove;
                tokenList E c [(''message'', PText (TC c ''otptoken.failed_to_verify_token''))]
              }
            | Ok secret \<Rightarrow> do {
                t \<leftarrow> Now E;
                (if \<not> x_totp (ipa E) (form c ''otpcode'') secret t (getHashAlgorithm (cfg E))
                 then State_Monad.return (reply 400 (TC c ''otptoken.invalid_6_digit_code''))
                 else token_verified E c)
              }))"

section \<open>Recovering a lost token\<close>

abbreviation recovery_sent :: outcome where
  "recovery_sent \<equiv> render ''otprecovery-forgot-success.html'' []"

definition recovery_known :: "('s, 'x) env \<Rightarrow> ctx \<Rightarrow> string \<Rightarrow> user \<Rightarrow> ('s, 'x, outcome) act" where
  "recovery_known E c username user =
     (if Locked user \<or> \<not> ip_OTPOnly (ipa E) user then do {
        _ \<leftarrow> audit_warn E ''OTP recovery attempt for non-OTP or locked user'' [(''username'', username)];
        State_Monad.return recovery_sent
      }
      else do {
        err \<leftarrow> SendOTPRecoveryConfirmEmail E user c;
        _ \<leftarrow> (if err \<noteq> None then State_Monad.return ()
             else audit_info E ''OTP recovery confirm email sent'' [(''username'', username), (''ip'', rq_ip (req c))]);
        State_Monad.return recovery_sent
      })"

text \<open>The handler \<open>OTPRecoveryRequest\<close> (the type of a queued request has the same name).\<close>

definition OTPRecoveryRequest_handler :: "('s, 'x) env \<Rightarrow> ctx \<Rightarrow> ('s, 'x, outcome) act" where
  "OTPRecoveryRequest_handler E c =
     (let username = form c ''username''
      in if is_get c then do {
           cid \<leftarrow> newCaptchaID E;
           State_Monad.return (render ''otprecovery-forgot.html'' [(''captchaID'', PStr cid)])
         }
         else do {
           err \<leftarrow> verifyCaptcha E (form c ''captcha_id'') (form c ''captcha_sol'');
           (case err of
              Some e \<Rightarrow> do { cid \<leftarrow> on_ext (x_new_captcha (ipa E)); State_Monad.return (captcha_refused cid e) }
            | None \<Rightarrow>
                if isBlocked (cfg E) username then do {
                  _ \<leftarrow> audit_warn E ''OTP recovery attempt for blocked username'' [(''username'', username)];
                  State_Monad.return recovery_sent
                }
                else do {
                  r \<leftarrow> UserShow E username;
                  (case r of
                     Err _ \<Rightarrow> do {
                       _ \<leftarrow> audit_warn E ''OTP recovery attempt for unknown username'' [(''username'', username)];
                       State_Monad.return recovery_sent
                     }
                   | Ok user \<Rightarrow> recovery_known E c username user)
                })
         })"

definition OTPRecoveryConfirm :: "('s, 'x) env \<Rightarrow> ctx \<Rightarrow> ('s, 'x, outcome) act" where
  "OTPRecoveryConfirm E c =
     (let token = rq_params (req c) ''token''
      in do {
        pt \<leftarrow> parse_token E token TokenOTPRecovery;
        (case pt of
           Err _ \<Rightarrow> State_Monad.return (status_only 404)
         | Ok claims \<Rightarrow>
             if is_get c then State_Monad.return (render ''otprecovery-confirm.html'' [(''claims'', PClaims claims)])
             else do {
               _ \<leftarrow> mark_used E token TokenOTPRecovery claims;
               t \<leftarrow> Now E;
               _ \<leftarrow> on_sto (\<lambda>s. st_delete (stg E) s t (issued_key TokenOTPRecovery (tk_Username claims)));
               t2 \<leftarrow> Now E;
               _ \<leftarrow> on_sto (addOTPRecoveryRequest (stg E) (tk_Username claims) t2);
               _ \<leftarrow> audit_info E ''OTP recovery requested''
                     [(''username'', tk_Username claims), (''ip'', rq_ip (req c))];
               State_Monad.return (render ''otprecovery-submitted.html'' [])
             })
      })"

section \<open>What the pages tell\<close>

lemma recovery_known_uniform: "wp (recovery_known E c n u) (\<lambda>r _. r = recovery_sent) w"
  by (auto simp: recovery_known_def wp_def case_prod_unfold)

lemma OTPRecovery_form:
  assumes "\<not> is_get c"
  shows "wp (OTPRecoveryRequest_handler E c)
    (\<lambda>r _. r = captcha_form E c (on_ext (x_new_captcha (ipa E))) recovery_sent w) w"
  by (simp only: OTPRecoveryRequest_handler_def Let_def assms if_False, rule captcha_formI)
    (auto split: sum.split intro!: wp_audit recovery_known_uniform)

lemma put_var_lookup [simp]: "map_of (put_var k v vs) k' = (if k' = k then Some v else map_of vs k')"
  by (induction vs) (auto simp: put_var_def)

lemma session_vars_other: "k \<noteq> ''sessions'' \<Longrightarrow> wp (session_vars E c vs) (\<lambda>vs' _. map_of vs' k = map_of vs k) w"
  by (auto simp: session_vars_def wp_def case_prod_unfold split: sum.split)

lemma app_vars_other:
  "k \<noteq> ''apps_error'' \<Longrightarrow> k \<noteq> ''connected_apps'' \<Longrightarrow> wp (app_vars E c vs) (\<lambda>vs' _. map_of vs' k = map_of vs k) w"
  by (auto simp: app_vars_def split: sum.split)

lemma securityVars_user: "wp (securityVars E c vs) (\<lambda>vs' _. map_of vs' ''user'' = Some (PUser (lc_user c))) w"
  unfolding securityVars_def Let_def FetchOTPTokens_def userPasskeys_def wp_bind wp_reads
  by (rule wp_mono [OF session_vars_other [of "''user''"]], simp,
      simp only: wp_bind wp_reads wp_Now, rule wp_mono [OF app_vars_other [of "''user''"]], simp, simp, simp)

end
