(* ===== verification/Expiry.thy ===== *)
theory Expiry
  imports Auth
begin

text \<open>
  Expiring passwords (\<open>expiry.go\<close>): the reminder sweep, which mails each user once per window before the
  password expires, and the banner of the portal pages. Differences of times are exact; Go's saturate at
  292 years, far beyond every window.
\<close>

definition expiryReminderPrefix :: string where "expiryReminderPrefix = ''expiry-reminder-''"
definition expirySweepInterval :: duration where "expirySweepInterval = 6 * hour"

definition expiryReminderDays :: "config \<Rightarrow> int list" where
  "expiryReminderDays cf = sort (password_expiry_reminders (email cf))"

definition reminder_key :: "user \<Rightarrow> int \<Rightarrow> string" where
  "reminder_key u days =
     expiryReminderPrefix @ Username u @ ''-'' @ FormatInt (unix (PasswdExpire u)) @ ''-'' @ FormatInt days"

text \<open>The loop over the windows ends with the first one the remaining time fits into.\<close>

definition reminder_window :: "config \<Rightarrow> duration \<Rightarrow> int option" where
  "reminder_window cf left = find (\<lambda>days. left \<le> days * 24 * hour) (expiryReminderDays cf)"

definition remind_window :: "('s, 'x) env \<Rightarrow> user \<Rightarrow> duration \<Rightarrow> int \<Rightarrow> ('s, 'x, bool) act" where
  "remind_window E u left days =
     (let marker = reminder_key u days
      in do {
        t \<leftarrow> Now E;
        got \<leftarrow> reads (\<lambda>w. st_get (stg E) (sto w) t marker);
        (case got of
           Ok (Some _) \<Rightarrow> State_Monad.return False
         | _ \<Rightarrow> do {
             err \<leftarrow> SendPasswordExpiryReminderEmail E u (left div (24 * hour) + 1);
             (if err \<noteq> None then State_Monad.return False
              else do {
                t2 \<leftarrow> Now E;
                _ \<leftarrow> on_sto (\<lambda>s. st_set (stg E) s t2 marker (Raw ''sent'') (PasswdExpire u - t2 + 24 * hour));
                State_Monad.return True
              })
           })
      })"

definition remind_user :: "('s, 'x) env \<Rightarrow> time \<Rightarrow> user \<Rightarrow> ('s, 'x, bool) act" where
  "remind_user E now u =
     (let left = PasswdExpire u - now
      in if Locked u \<or> Email u = [] \<or> PasswdExpire u = zero_time \<or> left \<le> 0 then State_Monad.return False
         else
           (case reminder_window (cfg E) left of
              None \<Rightarrow> State_Monad.return False
            | Some days \<Rightarrow> remind_window E u left days))"

fun remind_all :: "('s, 'x) env \<Rightarrow> time \<Rightarrow> user list \<Rightarrow> nat \<Rightarrow> ('s, 'x, nat) act" where
  "remind_all E now [] sent = State_Monad.return sent"
| "remind_all E now (u # us) sent =
     do { ok \<leftarrow> remind_user E now u; remind_all E now us (if ok then Suc sent else sent) }"

definition expiryReminderSweep :: "('s, 'x) env \<Rightarrow> ('s, 'x, nat) act" where
  "expiryReminderSweep E =
     do {
       found \<leftarrow> reads (\<lambda>w. ip_UserFind (ipa E) (ext w) Everyone);
       (case found of
          Err _ \<Rightarrow> State_Monad.return 0
        | Ok users \<Rightarrow> do { now \<leftarrow> Now E; remind_all E now users 0 })
     }"

section \<open>The banner\<close>

definition passwordExpiresInDays :: "time \<Rightarrow> user \<Rightarrow> int" where
  "passwordExpiresInDays now u =
     (if PasswdExpire u = zero_time then -1
      else (let left = PasswdExpire u - now in if left < 0 then 0 else left div (24 * hour)))"

text \<open>The clock is read only where there is an expiry.\<close>

definition expiryWarningVars :: "('s, 'x) env \<Rightarrow> user \<Rightarrow> vars \<Rightarrow> ('s, 'x, vars) act" where
  "expiryWarningVars E u vs =
     (let warnDays = password_expiry_warning_days (accounts (cfg E))
      in if warnDays \<le> 0 \<or> PasswdExpire u = zero_time then State_Monad.return vs
         else do {
           now \<leftarrow> Now E;
           (let days = passwordExpiresInDays now u
            in State_Monad.return
                 (if days \<ge> 0 \<and> days \<le> warnDays
                  then put_var ''password_expiry_days'' (PInt days) (put_var ''password_expiry_warning'' (PBool True) vs)
                  else vs))
         })"

section \<open>The windows\<close>

text \<open>The window a reminder is for is the tightest one configured.\<close>

lemma reminder_window_tightest:
  assumes "reminder_window cf left = Some d"
  shows "d \<in> set (password_expiry_reminders (email cf))" "left \<le> d * 24 * hour"
    "d' \<in> set (password_expiry_reminders (email cf)) \<Longrightarrow> left \<le> d' * 24 * hour \<Longrightarrow> d \<le> d'"
proof -
  obtain i where i: "i < length (expiryReminderDays cf)" "left \<le> expiryReminderDays cf ! i * 24 * hour"
    "d = expiryReminderDays cf ! i" "\<And>j. j < i \<Longrightarrow> \<not> left \<le> expiryReminderDays cf ! j * 24 * hour"
    using assms by (auto simp: reminder_window_def find_Some_iff)
  have all: "set (expiryReminderDays cf) = set (password_expiry_reminders (email cf))" "sorted (expiryReminderDays cf)"
    by (simp_all add: expiryReminderDays_def)
  from i all show "d \<in> set (password_expiry_reminders (email cf))" "left \<le> d * 24 * hour"
    using nth_mem by fastforce+
  assume d': "d' \<in> set (password_expiry_reminders (email cf))" "left \<le> d' * 24 * hour"
  then obtain j where "j < length (expiryReminderDays cf)" "d' = expiryReminderDays cf ! j"
    using all(1) by (metis in_set_conv_nth)
  with i d' all(2) show "d \<le> d'"
    by (metis not_le_imp_less order_less_imp_le sorted_nth_mono)
qed

section \<open>Once per window\<close>

lemma remind_window_marks:
  assumes "run_state (remind_window E u left d) w = (True, w')"
  shows "tick w' = Suc (Suc (tick w))
    \<and> (\<exists>s. sto w' = snd (st_set (stg E) s (clk E (Suc (tick w))) (reminder_key u d) (Raw ''sent'')
        (PasswdExpire u - clk E (Suc (tick w)) + 24 * hour)))"
  using assms
  by (auto simp: remind_window_def SendPasswordExpiryReminderEmail_def deliver_mail_def Let_def
      split: sum.splits option.splits if_splits)

lemma remind_window_known:
  assumes "st_get (stg E) (sto w) (clk E (tick w)) (reminder_key u d) = Ok (Some v)"
  shows "run_state (remind_window E u left d) w = (False, w\<lparr>tick := Suc (tick w)\<rparr>)"
  using assms by (simp add: remind_window_def Let_def)

lemma remind_user_sent:
  assumes "run_state (remind_user E now u) w = (True, w')"
  obtains d where "reminder_window (cfg E) (PasswdExpire u - now) = Some d"
    "run_state (remind_window E u (PasswdExpire u - now) d) w = (True, w')"
  using assms by (auto simp: remind_user_def Let_def split: if_splits option.splits)

text \<open>
  One reminder per window. After a reminder was sent, a later sweep sends the account no other one for the
  same expiry date and window: it changes nothing outside and nothing in the storage, as long as the
  marker is left alone and up to a day after the expiry.
\<close>

theorem reminder_once:
  assumes "reliable_store (stg E) view"
    and "run_state (remind_user E now u) w = (True, w')"
    and "Username u2 = Username u" and "PasswdExpire u2 = PasswdExpire u"
    and "reminder_window (cfg E) (PasswdExpire u - now2) = reminder_window (cfg E) (PasswdExpire u - now)"
    and "\<And>t d. view (sto w2) t (reminder_key u d) = view (sto w') t (reminder_key u d)"
    and "clk E (Suc (tick w)) \<le> clk E (tick w2)" and "clk E (tick w2) < PasswdExpire u + 24 * hour"
  shows "\<exists>w3. run_state (remind_user E now2 u2) w2 = (False, w3) \<and> ext w3 = ext w2 \<and> sto w3 = sto w2"
proof -
  obtain d where d: "reminder_window (cfg E) (PasswdExpire u - now) = Some d"
    and sent: "run_state (remind_window E u (PasswdExpire u - now) d) w = (True, w')"
    by (rule remind_user_sent [OF assms(2)])
  let ?k = "reminder_key u d" and ?t = "clk E (Suc (tick w))"
  obtain s where s: "sto w' = snd (st_set (stg E) s ?t ?k (Raw ''sent'') (PasswdExpire u - ?t + 24 * hour))"
    using remind_window_marks [OF sent] by blast
  have key: "?k \<noteq> []" "reminder_key u2 d = ?k"
    by (simp_all add: reminder_key_def expiryReminderPrefix_def assms(3,4))
  have "view (sto w2) (clk E (tick w2)) ?k = Some (Raw ''sent'')"
    using reliable_store.set_same_ok [OF assms(1), of ?k "Raw ''sent''" ?t "clk E (tick w2)" "PasswdExpire u - ?t + 24 * hour" s]
      key(1) assms(7,8) by (simp add: assms(6) s)
  then have "st_get (stg E) (sto w2) (clk E (tick w2)) ?k = Ok (Some (Raw ''sent''))"
    using reliable_store.get_ok [OF assms(1), of "sto w2" "clk E (tick w2)" ?k] by simp
  then have known: "run_state (remind_window E u2 (PasswdExpire u - now2) d) w2 = (False, w2\<lparr>tick := Suc (tick w2)\<rparr>)"
    using remind_window_known [of E w2 u2 d] key(2) by simp
  have "run_state (remind_user E now2 u2) w2 \<in> {(False, w2), (False, w2\<lparr>tick := Suc (tick w2)\<rparr>)}"
    using known d assms(4,5) by (auto simp: remind_user_def Let_def)
  then show ?thesis by auto
qed

section \<open>Witness\<close>

definition reminder_env :: "(cells, unit) env" where
  "reminder_env = demo_env\<lparr>cfg := default_config\<lparr>email := (email default_config)\<lparr>password_expiry_reminders := [7, 1]\<rparr>\<rparr>\<rparr>"

definition expiring_user :: user where
  "expiring_user = demo_alice\<lparr>PasswdExpire := t7 + 12 * hour\<rparr>"

lemma reminder_env_simps [simp]:
  "stg reminder_env = sound_storage" "clk reminder_env n = t7" "cfg reminder_env = default_config\<lparr>email := (email default_config)\<lparr>password_expiry_reminders := [7, 1]\<rparr>\<rparr>"
  "ipa reminder_env = demo_outside"
  by (simp_all add: reminder_env_def demo_env_def)

lemma demo_delivers: "validateLine (Email (ml_user m)) = None \<Longrightarrow> fst (sendEmail (cfg reminder_env) demo_smtp m) = None"
  by (simp add: sendEmail_def authenticate_def hand_over_def demo_smtp_def default_config_def Let_def case_prod_unfold)
    (simp add: validateLine_def)

lemma reminder_runs: "\<exists>w'. run_state (remind_user reminder_env t7 expiring_user) demo_world = (True, w')"
proof -
  have u: "\<not> Locked expiring_user" "Email expiring_user \<noteq> []" "PasswdExpire expiring_user = t7 + 12 * hour"
    "t7 + 12 * hour \<noteq> zero_time" "\<not> hour \<le> 0" "validateLine (Email expiring_user) = None"
    by (simp_all add: expiring_user_def demo_alice_def empty_user_def zero_time_def t7_def time_units validateLine_def)
  have none: "sound_view (sto demo_world) t k = None" for t k by (simp add: demo_world_def sound_defs)
  have window: "reminder_window (cfg reminder_env) (12 * hour) = Some 1"
    using u(5) by (simp add: reminder_window_def expiryReminderDays_def)
  show ?thesis
    using u window demo_delivers
    by (simp add: remind_user_def Let_def remind_window_def none
      SendPasswordExpiryReminderEmail_def deliver_mail_def demo_outside_def sound.get_ok)
qed

theorem reminder_once_witness:
  "\<exists>w' w3. run_state (remind_user reminder_env t7 expiring_user) demo_world = (True, w')
    \<and> run_state (remind_user reminder_env t7 expiring_user) w' = (False, w3) \<and> ext w3 = ext w' \<and> sto w3 = sto w'"
proof -
  obtain w' where run: "run_state (remind_user reminder_env t7 expiring_user) demo_world = (True, w')"
    using reminder_runs by blast
  have "\<exists>w3. run_state (remind_user reminder_env t7 expiring_user) w' = (False, w3) \<and> ext w3 = ext w' \<and> sto w3 = sto w'"
    by (rule reminder_once [OF _ run, where view = sound_view])
      (simp_all add: sound_store expiring_user_def t7_def hour_pos [THEN order_less_imp_le])
  with run show ?thesis by blast
qed

end
