(* ===== verification/Admin_Panel.thy ===== *)
theory Admin_Panel
  imports Security Expiry
begin

text \<open>
  The admin panel (\<open>admin.go\<close>): who is admin, invitations, the actions on users, the queues of pending
  signups and lost OTP tokens, and the help-desk report (\<open>helpdesk.go\<close>).
\<close>

section \<open>Admins\<close>

definition isAdmin :: "config \<Rightarrow> user \<Rightarrow> bool" where
  "isAdmin cf user \<longleftrightarrow>
     admin_enabled (admin cf)
     \<and> (list_ex (\<lambda>g. g = admin_group (admin cf)) (MemberOf user) \<or> list_ex (\<lambda>u. u = Username user) (admin_users (admin cf)))"

definition RequireAdmin :: "('s, 'x) env \<Rightarrow> ctx \<Rightarrow> ('s, 'x, outcome) act" where
  "RequireAdmin E c =
     (if \<not> isAdmin (cfg E) (lc_user c) then do {
        _ \<leftarrow> audit_warn E ''non-admin user attempted to access admin route''
              [(''username'', lc_username c), (''path'', rq_Path (req c)), (''ip'', rq_ip (req c))];
        State_Monad.return (status_only 403)
      }
      else State_Monad.return (Next c))"

section \<open>Invitations\<close>

definition InviteSend :: "('s, 'x) env \<Rightarrow> ctx \<Rightarrow> ('s, 'x, outcome) act" where
  "InviteSend E c =
     (let em = TrimSpace (ToLower (uni E) (form c ''email'')); vs = [(''user'', PUser (lc_user c))];
          page = render ''admin-people.html''
      in if validateEmail (addr E) (uni E) em (allowed_domains (accounts (cfg E))) \<noteq> None
         then State_Monad.return (page (put_var ''message'' (PText (TC c ''account.email_invalid'')) vs))
         else do {
           err \<leftarrow> SendInviteEmail E em c;
           (if err \<noteq> None
            then State_Monad.return (page (put_var ''message'' (PText (TC c ''account.fatal_system_error'')) vs))
            else do {
              _ \<leftarrow> audit_info E ''user invite sent''
                    [(''email'', em), (''invited_by'', lc_username c), (''ip'', rq_ip (req c))];
              State_Monad.return (page (put_var ''invite_sent'' (PStr em) vs))
            })
         })"

definition InviteAccept :: "('s, 'x) env \<Rightarrow> ctx \<Rightarrow> ('s, 'x, outcome) act" where
  "InviteAccept E c =
     (let token = rq_params (req c) ''token''
      in do {
        pt \<leftarrow> parse_token E token TokenInvite;
        (case pt of
           Err _ \<Rightarrow> State_Monad.return (status_only 404)
         | Ok claims \<Rightarrow>
             if is_get c then do {
               pol \<leftarrow> policy_of E [];
               State_Monad.return (render ''invite.html''
                 ([(''claims'', PClaims claims), (''usernameFromEmail'', PBool (username_from_email (accounts (cfg E))))]
                  @ (case pol of Ok p \<Rightarrow> [(''pwpolicy'', PPolicy p)] | Err _ \<Rightarrow> [])))
             }
             else do {
               made \<leftarrow> accountCreate E (rq_lang (req c)) ((signup_user c)\<lparr>Email := tk_Email claims\<rparr>)
                         (form c ''password'') (form c ''password2'') True;
               (case made of
                  Err e \<Rightarrow> State_Monad.return (case e of EPanic _ \<Rightarrow> Fail e | _ \<Rightarrow> reply 400 (error_text e))
                | Ok user \<Rightarrow> do {
                    _ \<leftarrow> mark_used E token TokenInvite claims;
                    _ \<leftarrow> audit_info E ''invited user account created successfully''
                          [(''username'', Username user), (''email'', Email user), (''ip'', rq_ip (req c))];
                    _ \<leftarrow> Inc ''signups'';
                    _ \<leftarrow> SendWelcomeEmail E user c;
                    State_Monad.return (render ''signup-success.html'' [(''user'', PUser user), (''invited'', PBool True)])
                  })
             })
      })"

section \<open>The list of users\<close>

definition adminUserListLimit :: nat where "adminUserListLimit = 50"

definition user_matches :: "unicode \<Rightarrow> string \<Rightarrow> user \<Rightarrow> bool" where
  "user_matches U needle u \<longleftrightarrow>
     needle = [] \<or> Contains (ToLower U (Username u)) needle \<or> Contains (ToLower U (Email u)) needle
     \<or> Contains (ToLower U (First u @ '' '' @ Last u)) needle"

definition adminUserVars :: "('s, 'x) env \<Rightarrow> ctx \<Rightarrow> string \<Rightarrow> ('s, 'x, vars) act" where
  "adminUserVars E c search =
     (let vs = [(''user'', PUser (lc_user c)), (''search'', PStr search)]
      in do {
        found \<leftarrow> reads (\<lambda>w. ip_UserFind (ipa E) (ext w) (SizeLimit 500));
        State_Monad.return
          (case found of
             Err _ \<Rightarrow> put_var ''users_message'' (PText (TC c ''account.fatal_system_error'')) vs
           | Ok users \<Rightarrow>
               (let matched = filter (user_matches (uni E) (ToLower (uni E) (TrimSpace search))) users
                in put_var ''users'' (PUsers (take adminUserListLimit matched))
                     (put_var ''total'' (PInt (int (length matched))) vs)))
      })"

definition AdminUserList :: "('s, 'x) env \<Rightarrow> ctx \<Rightarrow> ('s, 'x, outcome) act" where
  "AdminUserList E c =
     do { vs \<leftarrow> adminUserVars E c (rq_query (req c) ''search''); State_Monad.return (render ''admin-users.html'' vs) }"

section \<open>The help desk\<close>

definition helpdeskSizeLimit :: int where "helpdeskSizeLimit = 5000"
definition helpdeskRowLimit :: nat where "helpdeskRowLimit = 100"
definition disableLastSuccess :: string where "disableLastSuccess = ''KDC:Disable Last Success''"
definition helpdeskViews :: "string list" where "helpdeskViews = [''expiring'', ''expired'', ''locked'', ''inactive'']"

record helpdeskReport =
  Rows :: "string \<Rightarrow> helpdeskRow list"
  Truncated :: bool
  LastLoginTracked :: bool

definition helpdeskExpiringDays :: "config \<Rightarrow> int" where
  "helpdeskExpiringDays cf =
     (let days = password_expiry_warning_days (accounts cf); reminders = expiryReminderDays cf
      in if reminders \<noteq> [] then max days (last reminders) else days)"

definition lockedOut :: "ipa_PwPolicy \<Rightarrow> int \<Rightarrow> time \<Rightarrow> time \<Rightarrow> bool" where
  "lockedOut p fails lastFailed now \<longleftrightarrow>
     (if ip_MaxFailures p \<le> 0 \<or> fails < ip_MaxFailures p then False
      else ip_LockoutDuration p = 0 \<or> lastFailed + ip_LockoutDuration p > now)"

definition lastSuccessDisabled :: "string list result \<Rightarrow> bool" where
  "lastSuccessDisabled config = (case config of Err _ \<Rightarrow> False | Ok cs \<Rightarrow> disableLastSuccess \<in> set cs)"

text \<open>In which views an entry appears, and with which date. The policy lookup is a read.\<close>

definition entry_date ::
    "(string \<Rightarrow> ipa_PwPolicy result) \<Rightarrow> time \<Rightarrow> int \<Rightarrow> int \<Rightarrow> string \<Rightarrow> user_entry \<Rightarrow> time option" where
  "entry_date policy now expiringDays inactiveDays view e =
     (let exp = ue_krbpasswordexpiration e; seen = ue_krblastsuccessfulauth e
      in if view = ''expired'' then (if exp \<noteq> zero_time \<and> exp \<le> now then Some exp else None)
         else if view = ''expiring'' then
           (if exp \<noteq> zero_time \<and> exp > now \<and> exp - now \<le> expiringDays * 24 * hour then Some exp else None)
         else if view = ''locked'' then
           (if ue_krbloginfailedcount e > 0 then
              (case policy (ue_uid e) of
                 Err _ \<Rightarrow> None
               | Ok p \<Rightarrow> if lockedOut p (ue_krbloginfailedcount e) (ue_krblastfailedauth e) now
                         then Some (ue_krblastfailedauth e) else None)
            else None)
         else if view = ''inactive'' then
           (if seen \<noteq> zero_time \<and> now - seen > inactiveDays * 24 * hour then Some seen else None)
         else None)"

definition entry_row :: "user_entry \<Rightarrow> time \<Rightarrow> helpdeskRow" where
  "entry_row e date =
     \<lparr>hr_Username = ue_uid e, hr_Name = TrimSpace (ue_givenname e @ '' '' @ ue_sn e), hr_Email = ue_mail e,
      hr_Date = date, hr_Disabled = ue_nsaccountlock e\<rparr>"

text \<open>Rows of the same date may come in another order in Go, whose sort is not stable.\<close>

definition buildHelpdeskReport ::
    "(user_entry list \<times> bool) result \<Rightarrow> (string \<Rightarrow> ipa_PwPolicy result) \<Rightarrow> string list result \<Rightarrow> time \<Rightarrow> int \<Rightarrow> int
      \<Rightarrow> helpdeskReport result" where
  "buildHelpdeskReport found policy config now expiringDays inactiveDays =
     (case found of
        Err e \<Rightarrow> Err e
      | Ok (entries, truncated) \<Rightarrow>
          (let tracked = list_ex (\<lambda>e. ue_krblastsuccessfulauth e \<noteq> zero_time) entries \<and> \<not> lastSuccessDisabled config;
               rows = (\<lambda>view. sort_key hr_Date
                 (List.map_filter (\<lambda>e. map_option (entry_row e) (entry_date policy now expiringDays inactiveDays view e)) entries))
           in Ok \<lparr>Rows = (\<lambda>view. if view = ''inactive'' \<and> \<not> tracked then [] else rows view),
                  Truncated = truncated, LastLoginTracked = tracked\<rparr>))"

definition adminHelpdeskVars :: "('s, 'x) env \<Rightarrow> ctx \<Rightarrow> string \<Rightarrow> ('s, 'x, vars) act" where
  "adminHelpdeskVars E c view0 =
     (let view = (if view0 \<in> set helpdeskViews then view0 else hd helpdeskViews);
          expiring = helpdeskExpiringDays (cfg E); inactive = inactive_days (admin (cfg E));
          vs = [(''user'', PUser (lc_user c)), (''view'', PStr view), (''views'', PStrs helpdeskViews),
                (''expiring_days'', PInt expiring), (''inactive_days'', PInt inactive),
                (''row_limit'', PInt (int helpdeskRowLimit))]
      in do {
        now \<leftarrow> Now E;
        report \<leftarrow> reads (\<lambda>w. buildHelpdeskReport (ip_FindUsers (ipa E) (ext w) helpdeskSizeLimit)
                     (ip_UserPwPolicy (ipa E) (ext w)) (ip_ConfigStrings (ipa E) (ext w)) now expiring inactive);
        State_Monad.return
          (case report of
             Err _ \<Rightarrow> put_var ''helpdesk_message'' (PText (TC c ''account.fatal_system_error'')) vs
           | Ok rp \<Rightarrow>
               vs @
               [(''counts'', PCounts (map (\<lambda>v. (v, int (length (Rows rp v)))) (filter (\<lambda>v. Rows rp v \<noteq> []) helpdeskViews))),
                (''rows'', PRows (take helpdeskRowLimit (Rows rp view))),
                (''total'', PInt (int (length (Rows rp view)))), (''truncated'', PBool (Truncated rp)),
                (''last_login_tracked'', PBool (LastLoginTracked rp))])
      })"

definition AdminHelpdesk :: "('s, 'x) env \<Rightarrow> ctx \<Rightarrow> ('s, 'x, outcome) act" where
  "AdminHelpdesk E c =
     do { vs \<leftarrow> adminHelpdeskVars E c (rq_query (req c) ''view''); State_Monad.return (render ''admin-helpdesk.html'' vs) }"

section \<open>The queues\<close>

definition AdminPendingList :: "('s, 'x) env \<Rightarrow> ctx \<Rightarrow> ('s, 'x, outcome) act" where
  "AdminPendingList E c =
     do {
       found \<leftarrow> reads (\<lambda>w. ip_UserFind (ipa E) (ext w) (ByUserclass UserCategoryPending));
       (case found of
          Err _ \<Rightarrow> State_Monad.return (reply 500 (TC c ''account.fatal_system_error''))
        | Ok users \<Rightarrow> do {
            staged \<leftarrow> (if staged_signup (accounts (cfg E)) then stageUserFindPending E else State_Monad.return (Ok []));
            State_Monad.return (render ''admin-pending.html''
              [(''user'', PUser (lc_user c)),
               (''pending'', PUsers ((case staged of Err _ \<Rightarrow> [] | Ok us \<Rightarrow> us)
                  @ filter (\<lambda>u. Category u = UserCategoryPending) users))])
          })
     }"

definition load_recoveries :: "('s, 'x) env \<Rightarrow> ('s, 'x, OTPRecoveryRequest list) act" where
  "load_recoveries E = do { t \<leftarrow> Now E; reads (\<lambda>w. loadOTPRecoveryRequests (stg E) t (sto w)) }"

definition drop_recovery :: "('s, 'x) env \<Rightarrow> string \<Rightarrow> ('s, 'x, bool) act" where
  "drop_recovery E username = do { t \<leftarrow> Now E; on_sto (removeOTPRecoveryRequest (stg E) username t) }"

fun recovery_rows :: "('s, 'x) env \<Rightarrow> OTPRecoveryRequest list \<Rightarrow> ('s, 'x, (user \<times> time) list) act" where
  "recovery_rows E [] = State_Monad.return []"
| "recovery_rows E (q # qs) =
     do {
       r \<leftarrow> UserShow E (or_Username q);
       (case r of
          Err e \<Rightarrow> do {
            _ \<leftarrow> (case e of
                   EIpa n _ \<Rightarrow> if n = 4001 then drop_recovery E (or_Username q) else State_Monad.return False
                 | _ \<Rightarrow> State_Monad.return False);
            recovery_rows E qs
          }
        | Ok u \<Rightarrow>
            if \<not> ip_OTPOnly (ipa E) u then do { _ \<leftarrow> drop_recovery E (or_Username q); recovery_rows E qs }
            else do { rest \<leftarrow> recovery_rows E qs; State_Monad.return ((u, or_RequestedAt q) # rest) })
     }"

definition AdminOTPRecoveryList :: "('s, 'x) env \<Rightarrow> ctx \<Rightarrow> ('s, 'x, outcome) act" where
  "AdminOTPRecoveryList E c =
     do {
       reqs \<leftarrow> load_recoveries E;
       rows \<leftarrow> recovery_rows E reqs;
       State_Monad.return (render ''admin-otprecovery.html'' [(''user'', PUser (lc_user c)), (''requests'', PRecoveries rows)])
     }"

definition sendOTPRecoveryDecision :: "('s, 'x) env \<Rightarrow> string \<Rightarrow> bool \<Rightarrow> ('s, 'x, unit) act" where
  "sendOTPRecoveryDecision E username approved =
     do {
       r \<leftarrow> UserShow E username;
       (case r of
          Err _ \<Rightarrow> State_Monad.return ()
        | Ok target \<Rightarrow> do { _ \<leftarrow> SendOTPRecoveryDecisionEmail E target approved; State_Monad.return () })
     }"

definition AdminAuditList :: "('s, 'x) env \<Rightarrow> ctx \<Rightarrow> ('s, 'x, outcome) act" where
  "AdminAuditList E c =
     do {
       t \<leftarrow> Now E;
       events \<leftarrow> reads (\<lambda>w. auditRecent (stg E) 50 t (sto w));
       State_Monad.return (render ''admin-audit.html'' [(''user'', PUser (lc_user c)), (''events'', PEvents events)])
     }"

section \<open>Actions\<close>

definition not_pending :: error where "not_pending = EText ''user is not pending approval''"
definition no_recovery :: error where "no_recovery = EText ''no pending OTP recovery request''"

definition staged_user :: "('s, 'x) env \<Rightarrow> string \<Rightarrow> ('s, 'x, user option) act" where
  "staged_user E username =
     (if staged_signup (accounts (cfg E)) then do {
        r \<leftarrow> stageUserShow E username;
        State_Monad.return (case r of Ok su \<Rightarrow> Some su | Err _ \<Rightarrow> None)
      }
      else State_Monad.return None)"

text \<open>\<open>after err act\<close>: the next step of a chain of \<open>if err == nil\<close>.\<close>

definition after :: "error option \<Rightarrow> ('s, 'x, error option) act \<Rightarrow> ('s, 'x, error option) act" where
  "after err act = (case err of Some e \<Rightarrow> State_Monad.return (Some e) | None \<Rightarrow> act)"

definition send_welcome :: "('s, 'x) env \<Rightarrow> user \<Rightarrow> ctx \<Rightarrow> ('s, 'x, error option) act" where
  "send_welcome E u c = do { _ \<leftarrow> SendWelcomeEmail E u c; State_Monad.return None }"

definition admin_approve :: "('s, 'x) env \<Rightarrow> ctx \<Rightarrow> string \<Rightarrow> ('s, 'x, error option) act" where
  "admin_approve E c username =
     do {
       st \<leftarrow> staged_user E username;
       (case st of
          Some staged \<Rightarrow>
            if Category staged \<noteq> UserCategoryPending then State_Monad.return (Some not_pending)
            else do {
              e1 \<leftarrow> stageUserSetCategory E username [];
              e2 \<leftarrow> after e1 (stageUserActivate E username);
              after e2 (send_welcome E (staged\<lparr>Category := []\<rparr>) c)
            }
        | None \<Rightarrow> do {
            r \<leftarrow> UserShow E username;
            (case r of
               Err e \<Rightarrow> State_Monad.return (Some e)
             | Ok target \<Rightarrow>
                 if Category target \<noteq> UserCategoryPending then State_Monad.return (Some not_pending)
                 else do {
                   e1 \<leftarrow> on_ext (\<lambda>x. ip_UserEnable (ipa E) x username);
                   e2 \<leftarrow> after e1 (do {
                     m \<leftarrow> on_ext (\<lambda>x. ip_UserMod (ipa E) x (target\<lparr>Category := []\<rparr>));
                     State_Monad.return (case m of Err e \<Rightarrow> Some e | Ok _ \<Rightarrow> None)
                   });
                   after e2 (send_welcome E (target\<lparr>Category := []\<rparr>) c)
                 })
          })
     }"

definition admin_deny :: "('s, 'x) env \<Rightarrow> string \<Rightarrow> ('s, 'x, error option) act" where
  "admin_deny E username =
     do {
       st \<leftarrow> staged_user E username;
       (case st of
          Some staged \<Rightarrow>
            if Category staged \<noteq> UserCategoryPending then State_Monad.return (Some not_pending)
            else stageUserDel E username
        | None \<Rightarrow> do {
            r \<leftarrow> UserShow E username;
            (case r of
               Err e \<Rightarrow> State_Monad.return (Some e)
             | Ok target \<Rightarrow>
                 if Category target \<noteq> UserCategoryPending then State_Monad.return (Some not_pending)
                 else on_ext (\<lambda>x. ip_UserDelete (ipa E) x False True username))
          })
     }"

definition recovery_approve :: "('s, 'x) env \<Rightarrow> string \<Rightarrow> ('s, 'x, error option) act" where
  "recovery_approve E username =
     do {
       reqs \<leftarrow> load_recoveries E;
       (if \<not> list_ex (\<lambda>q. or_Username q = username) reqs then State_Monad.return (Some no_recovery)
        else do {
          err \<leftarrow> on_ext (\<lambda>x. ip_SetAuthTypes (ipa E) x username [''password'']);
          after err (do {
            _ \<leftarrow> drop_recovery E username;
            _ \<leftarrow> sendOTPRecoveryDecision E username True;
            State_Monad.return None
          })
        })
     }"

definition recovery_deny :: "('s, 'x) env \<Rightarrow> string \<Rightarrow> ('s, 'x, error option) act" where
  "recovery_deny E username =
     do {
       removed \<leftarrow> drop_recovery E username;
       (if \<not> removed then State_Monad.return (Some no_recovery)
        else do { _ \<leftarrow> sendOTPRecoveryDecision E username False; State_Monad.return None })
     }"

definition userUnlock :: "('s, 'x) env \<Rightarrow> string \<Rightarrow> ('s, 'x, error option) act" where
  "userUnlock E username = on_ext (\<lambda>x. ip_UserUnlock (ipa E) x username)"

definition admin_reset :: "('s, 'x) env \<Rightarrow> ctx \<Rightarrow> string \<Rightarrow> ('s, 'x, error option) act" where
  "admin_reset E c username =
     do {
       r \<leftarrow> UserShow E username;
       (case r of Err e \<Rightarrow> State_Monad.return (Some e) | Ok target \<Rightarrow> SendPasswordResetEmail E target c)
     }"

text \<open>The \<open>switch\<close> over the action; \<open>None\<close> is an unknown one.\<close>

definition admin_action :: "('s, 'x) env \<Rightarrow> ctx \<Rightarrow> string \<Rightarrow> string \<Rightarrow> ('s, 'x, error option) act option" where
  "admin_action E c action username =
     (if action = ''block'' then Some (on_ext (\<lambda>x. ip_UserDisable (ipa E) x username))
      else if action = ''unblock'' then Some (on_ext (\<lambda>x. ip_UserEnable (ipa E) x username))
      else if action = ''reset'' then Some (admin_reset E c username)
      else if action = ''unlock'' then Some (userUnlock E username)
      else if action = ''approve'' then Some (admin_approve E c username)
      else if action = ''deny'' then Some (admin_deny E username)
      else if action = ''otprecovery-approve'' then Some (recovery_approve E username)
      else if action = ''otprecovery-deny'' then Some (recovery_deny E username)
      else None)"

definition already_so :: "error option \<Rightarrow> error option" where
  "already_so err = (case err of Some (EIpa n _) \<Rightarrow> if n = 4009 \<or> n = 4010 then None else err | _ \<Rightarrow> err)"

definition action_page :: "('s, 'x) env \<Rightarrow> ctx \<Rightarrow> string \<Rightarrow> string \<Rightarrow> ('s, 'x, outcome) act" where
  "action_page E c action username =
     (let mark = (\<lambda>vs. if action = ''reset'' then put_var ''reset_sent'' (PStr username) vs else vs);
          view = rq_query (req c) ''helpdesk''
      in if view \<noteq> [] then do {
           vs \<leftarrow> adminHelpdeskVars E c view;
           State_Monad.return (render ''admin-helpdesk.html'' (mark vs))
         }
         else if action = ''approve'' \<or> action = ''deny'' then AdminPendingList E c
         else if action = ''otprecovery-approve'' \<or> action = ''otprecovery-deny'' then AdminOTPRecoveryList E c
         else do {
           vs \<leftarrow> adminUserVars E c (form c ''search'');
           State_Monad.return (render ''admin-users.html'' (mark vs))
         })"

definition AdminUserAction :: "('s, 'x) env \<Rightarrow> ctx \<Rightarrow> ('s, 'x, outcome) act" where
  "AdminUserAction E c =
     (let username = TrimSpace (form c ''username''); action = rq_params (req c) ''action''
      in if username = [] then State_Monad.return (status_only 400)
         else if username = lc_username c \<and> action \<noteq> ''reset''
         then State_Monad.return (reply 400 (TC c ''admin.cannot_block_self''))
         else
           (case admin_action E c action username of
              None \<Rightarrow> State_Monad.return (status_only 400)
            | Some act \<Rightarrow> do {
                err \<leftarrow> act;
                (if already_so err \<noteq> None then State_Monad.return (reply 500 (TC c ''account.fatal_system_error''))
                 else do {
                   _ \<leftarrow> audit_info E ''admin user action''
                         [(''username'', username), (''action'', action), (''admin'', lc_username c), (''ip'', rq_ip (req c))];
                   action_page E c action username
                 })
              }))"

section \<open>What the actions change\<close>

lemma recovery_rows_ext: "wp (recovery_rows E qs) (\<lambda>_ w'. ext w' = ext w) w"
proof (induction qs arbitrary: w)
  case (Cons q qs)
  have drop: "wp (drop_recovery E n) (\<lambda>_. wp (recovery_rows E qs) (\<lambda>_ w'. ext w' = ext w)) w" for n w
    using Cons.IH [of "w\<lparr>tick := Suc (tick w), sto := s\<rparr>" for s] by (simp add: drop_recovery_def)
  show ?case
  proof (cases "ip_UserShow (ipa E) (ext w) Admin (or_Username q)")
    case (Inl e)
    then show ?thesis using Cons.IH drop by (cases e) simp_all
  next
    case (Inr u)
    then show ?thesis using drop by (simp add: wp_mono [OF Cons.IH])
  qed
qed simp

lemma pages_ext:
  "wp (adminHelpdeskVars E c v) (\<lambda>_ w'. ext w' = ext w) w" "wp (adminUserVars E c v) (\<lambda>_ w'. ext w' = ext w) w"
  "wp (AdminPendingList E c) (\<lambda>_ w'. ext w' = ext w) w" "wp (AdminOTPRecoveryList E c) (\<lambda>_ w'. ext w' = ext w) w"
proof -
  show "wp (AdminPendingList E c) (\<lambda>_ w'. ext w' = ext w) w"
    by (cases "ip_UserFind (ipa E) (ext w) (ByUserclass UserCategoryPending)")
      (simp_all add: AdminPendingList_def stageUserFindPending_def)
  show "wp (AdminOTPRecoveryList E c) (\<lambda>_ w'. ext w' = ext w) w"
    by (simp add: AdminOTPRecoveryList_def load_recoveries_def wp_mono [OF recovery_rows_ext])
qed (simp_all add: adminHelpdeskVars_def adminUserVars_def Let_def)

lemma action_page_ext: "wp (action_page E c a n) (\<lambda>_ w'. ext w' = ext w) w"
  by (simp add: action_page_def Let_def pages_ext wp_mono [OF pages_ext(1)] wp_mono [OF pages_ext(2)])

lemma audit_ext: "wp (audit E l m as) (\<lambda>_ w'. ext w' = ext w) w"
  by (rule wp_audit) simp

text \<open>A successful action is reported: an audit record, then a page.\<close>

definition action_done :: "('s, 'x) env \<Rightarrow> ctx \<Rightarrow> string \<Rightarrow> string \<Rightarrow> ('s, 'x, outcome) act" where
  "action_done E c action username =
     do {
       _ \<leftarrow> audit_info E ''admin user action''
             [(''username'', username), (''action'', action), (''admin'', lc_username c), (''ip'', rq_ip (req c))];
       action_page E c action username
     }"

lemma action_done_ext: "wp (action_done E c a n) (\<lambda>_ w'. ext w' = ext w) w"
  unfolding action_done_def wp_bind
  by (rule wp_mono [OF audit_ext], rule wp_mono [OF action_page_ext], simp)

lemma approve_not_pending:
  assumes "\<And>su. ip_StageUserShow (ipa E) (ext w) n = Ok su \<Longrightarrow> Category su \<noteq> UserCategoryPending"
    and "\<And>u. ip_UserShow (ipa E) (ext w) Admin n = Ok u \<Longrightarrow> Category u \<noteq> UserCategoryPending"
  shows "\<exists>err. run_state (admin_approve E c n) w = (Some err, w) \<and> run_state (admin_deny E n) w = (Some err, w)"
  using assms
  by (cases "ip_StageUserShow (ipa E) (ext w) n"; cases "ip_UserShow (ipa E) (ext w) Admin n")
    (auto simp: admin_approve_def admin_deny_def staged_user_def stageUserShow_def)

text \<open>
  C25. Only pending signups are approved or denied. Approving or denying a user that waits for approval neither in
  the staging tree nor among the accounts changes nothing outside the portal: no account is enabled,
  activated or deleted and no mail is sent.
\<close>

theorem only_pending_decided:
  assumes "rq_params (req c) ''action'' = ''approve'' \<or> rq_params (req c) ''action'' = ''deny''"
    and "\<And>su. ip_StageUserShow (ipa E) (ext w) (TrimSpace (form c ''username'')) = Ok su \<Longrightarrow> Category su \<noteq> UserCategoryPending"
    and "\<And>u. ip_UserShow (ipa E) (ext w) Admin (TrimSpace (form c ''username'')) = Ok u \<Longrightarrow> Category u \<noteq> UserCategoryPending"
  shows "ext (snd (run_state (AdminUserAction E c) w)) = ext w"
proof -
  obtain err where "run_state (admin_approve E c (TrimSpace (form c ''username''))) w = (Some err, w)"
    "run_state (admin_deny E (TrimSpace (form c ''username''))) w = (Some err, w)"
    using approve_not_pending [OF assms(2,3)] by blast
  then have acted: "run_state act w = (Some err, w)"
    if "admin_action E c (rq_params (req c) ''action'') (TrimSpace (form c ''username'')) = Some act" for act
    using assms(1) that by (auto simp: admin_action_def)
  have "wp (AdminUserAction E c) (\<lambda>_ w'. ext w' = ext w) w"
  proof (cases "admin_action E c (rq_params (req c) ''action'') (TrimSpace (form c ''username''))")
    case (Some act)
    then have "wp act Q w = Q (Some err) w" for Q using acted by (simp add: wp_def)
    with Some show ?thesis
      by (simp add: AdminUserAction_def Let_def action_done_ext [unfolded action_done_def wp_bind])
  qed (simp add: AdminUserAction_def Let_def)
  then show ?thesis by (simp add: wp_def case_prod_unfold)
qed

text \<open>
  Approving an account that is enabled already. FreeIPA's answer that the account is enabled stops the
  approval before the pending marker is removed and the welcome mail is sent, and is then taken for success:
  the action is recorded and the user stays in the queue.
\<close>

theorem approve_enabled_stays_pending:
  assumes "rq_params (req c) ''action'' = ''approve''" and "TrimSpace (form c ''username'') = n"
    and "n \<noteq> []" and "n \<noteq> lc_username c" and "\<not> staged_signup (accounts (cfg E))"
    and "ip_UserShow (ipa E) (ext w) Admin n = Ok u" and "Category u = UserCategoryPending"
    and "ip_UserEnable (ipa E) (ext w) n = (Some (EIpa 4009 m), x)"
  shows "run_state (AdminUserAction E c) w = run_state (action_done E c ''approve'' n) (w\<lparr>ext := x\<rparr>)
    \<and> ext (snd (run_state (AdminUserAction E c) w)) = x"
proof -
  have "run_state (AdminUserAction E c) w = run_state (action_done E c ''approve'' n) (w\<lparr>ext := x\<rparr>)"
    using assms by (simp add: AdminUserAction_def Let_def admin_action_def admin_approve_def staged_user_def after_def
        already_so_def action_done_def)
  moreover have "ext (snd (run_state (action_done E c ''approve'' n) (w\<lparr>ext := x\<rparr>))) = x"
    using action_done_ext [of E c "''approve''" n "w\<lparr>ext := x\<rparr>"] by (simp add: wp_def case_prod_unfold)
  ultimately show ?thesis by simp
qed

section \<open>The report\<close>

text \<open>Every view is sorted by date, and no entry is both expired and expiring.\<close>

lemma report_sorted:
  assumes "buildHelpdeskReport found policy config now ed idays = Ok rp"
  shows "sorted (map hr_Date (Rows rp v))"
  using assms by (auto simp: buildHelpdeskReport_def Let_def split: sum.splits prod.splits)

lemma expired_or_expiring:
  "entry_date policy now ed idays ''expired'' e \<noteq> None \<Longrightarrow> entry_date policy now ed idays ''expiring'' e = None"
  by (auto simp: entry_date_def Let_def)

section \<open>Witnesses\<close>

definition approve_ctx :: ctx where
  "approve_ctx = demo_ctx\<lparr>req := (req demo_ctx)\<lparr>rq_params := \<lambda>_. ''approve'', rq_form := \<lambda>_. ''alice''\<rparr>, lc_username := ''root''\<rparr>"

definition enabled_env :: "(cells, unit) env" where
  "enabled_env = demo_env\<lparr>ipa := demo_outside\<lparr>ip_UserShow := \<lambda>_ _ _. Ok (demo_alice\<lparr>Category := UserCategoryPending\<rparr>),
     ip_UserEnable := \<lambda>x _. (Some (EIpa 4009 ''already''), x)\<rparr>\<rparr>"

lemma trim_alice: "TrimSpace ''alice'' = ''alice''"
  by (rule trimmed_TrimSpace, rule trimmedI) simp_all

theorem only_pending_decided_witness:
  "ext (snd (run_state (AdminUserAction demo_env approve_ctx) demo_world)) = ext demo_world"
  by (rule only_pending_decided) (simp_all add: approve_ctx_def demo_env_def demo_outside_def nobody_def)

theorem approve_enabled_stays_pending_witness:
  "run_state (AdminUserAction enabled_env approve_ctx) demo_world = run_state (action_done enabled_env approve_ctx ''approve'' ''alice'') demo_world"
proof -
  have "\<not> staged_signup (accounts (cfg enabled_env))" by (simp add: enabled_env_def demo_env_def default_config_def)
  then show ?thesis
    using approve_enabled_stays_pending [of approve_ctx "''alice''" enabled_env demo_world
        "demo_alice\<lparr>Category := UserCategoryPending\<rparr>" "''already''" "()"]
    by (simp add: approve_ctx_def enabled_env_def trim_alice demo_world_def)
qed

end
