(* ===== verification/Group_Pages.thy ===== *)
theory Group_Pages
  imports Hydra "HOL-Library.Multiset"
begin

text \<open>
  Groups (\<open>ipa_group.go\<close>, \<open>groups.go\<close>): the groups page, requests to join and leave, and the decisions of a
  group's managers. The queues are those of \<open>Queues\<close>; what the code does in the background happens here
  where it is started.
\<close>

section \<open>Groups of FreeIPA\<close>

definition groupFrom :: "ipa_Group \<Rightarrow> ipaGroup" where
  "groupFrom g =
     \<lparr>Name = ig_Name g, Description = ig_Description g, Members = ig_Users g, ManagerUsers = ig_ManagerUsers g,
      ManagerGroups = ig_ManagerGroups g\<rparr>"

definition Managed :: "ipaGroup \<Rightarrow> bool" where
  "Managed g \<longleftrightarrow> ManagerUsers g \<noteq> [] \<or> ManagerGroups g \<noteq> []"

definition groupFindManaged :: "('s, 'x) env \<Rightarrow> client \<Rightarrow> ('s, 'x, ipaGroup list result) act" where
  "groupFindManaged E cl =
     reads (\<lambda>w. case ip_GroupFind (ipa E) (ext w) cl 500 of
                   Err e \<Rightarrow> Err e
                 | Ok found \<Rightarrow> Ok (filter Managed (map groupFrom found)))"

definition groupShow :: "('s, 'x) env \<Rightarrow> client \<Rightarrow> string \<Rightarrow> ('s, 'x, ipaGroup result) act" where
  "groupShow E cl cn = reads (\<lambda>w. case ip_GroupShow (ipa E) (ext w) cl cn of Err e \<Rightarrow> Err e | Ok g \<Rightarrow> Ok (groupFrom g))"

definition memberRefusal :: "error option \<Rightarrow> string \<Rightarrow> error option" where
  "memberRefusal err alreadyDone =
     (case err of
        Some (EMember failures) \<Rightarrow>
          (case filter (\<lambda>m. m \<noteq> alreadyDone) failures of
             [] \<Rightarrow> None
           | m # _ \<Rightarrow> Some (EIpa 2100 m))
      | _ \<Rightarrow> err)"

definition groupAddMember :: "('s, 'x) env \<Rightarrow> client \<Rightarrow> string \<Rightarrow> string \<Rightarrow> ('s, 'x, error option) act" where
  "groupAddMember E cl cn uid =
     do {
       err \<leftarrow> on_ext (\<lambda>x. ip_GroupAddMember (ipa E) x cl cn uid);
       State_Monad.return (memberRefusal err ''This entry is already a member'')
     }"

definition groupRemoveMember :: "('s, 'x) env \<Rightarrow> client \<Rightarrow> string \<Rightarrow> string \<Rightarrow> ('s, 'x, error option) act" where
  "groupRemoveMember E cl cn uid =
     do {
       err \<leftarrow> on_ext (\<lambda>x. ip_GroupRemoveMember (ipa E) x cl cn uid);
       State_Monad.return (memberRefusal err ''This entry is not a member'')
     }"

section \<open>The page\<close>

definition isManagerOf :: "string \<Rightarrow> string list \<Rightarrow> ipaGroup \<Rightarrow> bool" where
  "isManagerOf username userGroups g \<longleftrightarrow>
     list_ex (\<lambda>m. m = username) (ManagerUsers g) \<or> list_ex (\<lambda>mg. list_ex (\<lambda>ug. mg = ug) userGroups) (ManagerGroups g)"

definition load_requests :: "('s, 'x) env \<Rightarrow> string \<Rightarrow> ('s, 'x, GroupRequest list) act" where
  "load_requests E g = do { t \<leftarrow> Now E; reads (\<lambda>w. loadGroupRequests (stg E) g t (sto w)) }"

definition drop_request :: "('s, 'x) env \<Rightarrow> string \<Rightarrow> string \<Rightarrow> ('s, 'x, bool) act" where
  "drop_request E g username = do { t \<leftarrow> Now E; on_sto (removeGroupRequest (stg E) g username t) }"

definition stale :: "ipaGroup \<Rightarrow> GroupRequest \<Rightarrow> bool" where
  "stale g r =
     (let queuedIsMember = list_ex (\<lambda>m. m = gr_Username r) (Members g)
      in if gr_Type r = groupRequestLeave then \<not> queuedIsMember else queuedIsMember)"

fun drop_stale :: "('s, 'x) env \<Rightarrow> ipaGroup \<Rightarrow> GroupRequest list \<Rightarrow> ('s, 'x, GroupRequest list) act" where
  "drop_stale E g [] = State_Monad.return []"
| "drop_stale E g (r # rs) =
     (if stale g r then do { _ \<leftarrow> drop_request E (Name g) (gr_Username r); drop_stale E g rs }
      else do { reqs \<leftarrow> drop_stale E g rs; State_Monad.return (r # reqs) })"

text \<open>The type of the user's own request, empty where there is none.\<close>

definition my_pending :: "string \<Rightarrow> GroupRequest list \<Rightarrow> string" where
  "my_pending username reqs = fold (\<lambda>r p. if gr_Username r = username then gr_Type r else p) reqs []"

record sections =
  joinable :: "ipaGroup list"
  leavable :: "ipaGroup list"
  my_requests :: "(string \<times> string) list"
  managed :: "managedGroup list"

definition put_section :: "('s, 'x) env \<Rightarrow> user \<Rightarrow> ipaGroup \<Rightarrow> GroupRequest list \<Rightarrow> sections \<Rightarrow> sections" where
  "put_section E user g reqs sc =
     (let myPending = my_pending (Username user) reqs;
          sc1 = (if isManagerOf (Username user) (MemberOf user) g
                 then sc\<lparr>managed := managed sc @ [\<lparr>mg_Group = g, mg_Requests = reqs\<rparr>]\<rparr> else sc)
      in if ip_HasGroup (ipa E) user (Name g) then
           (if myPending = groupRequestLeave then sc1\<lparr>my_requests := my_requests sc1 @ [(Name g, groupRequestLeave)]\<rparr>
            else sc1\<lparr>leavable := leavable sc1 @ [g]\<rparr>)
         else if myPending = groupRequestJoin then sc1\<lparr>my_requests := my_requests sc1 @ [(Name g, groupRequestJoin)]\<rparr>
         else sc1\<lparr>joinable := joinable sc1 @ [g]\<rparr>)"

fun fill_sections :: "('s, 'x) env \<Rightarrow> user \<Rightarrow> ipaGroup list \<Rightarrow> sections \<Rightarrow> ('s, 'x, sections) act" where
  "fill_sections E user [] sc = State_Monad.return sc"
| "fill_sections E user (g # gs) sc =
     do {
       queued \<leftarrow> load_requests E (Name g);
       reqs \<leftarrow> drop_stale E g queued;
       fill_sections E user gs (put_section E user g reqs sc)
     }"

definition groupsVars :: "('s, 'x) env \<Rightarrow> ctx \<Rightarrow> vars \<Rightarrow> ('s, 'x, vars) act" where
  "groupsVars E c vs =
     (let user = lc_user c; vs1 = put_var ''my_groups'' (PStrs (MemberOf user)) vs
      in do {
        groups \<leftarrow> groupFindManaged E (AsUser (lc_client c));
        (case groups of
           Err _ \<Rightarrow> State_Monad.return (put_var ''groups_error'' (PBool True) vs1)
         | Ok gs \<Rightarrow> do {
             sc \<leftarrow> fill_sections E user gs \<lparr>joinable = [], leavable = [], my_requests = [], managed = []\<rparr>;
             State_Monad.return
               (put_var ''managed'' (PManaged (managed sc)) (put_var ''my_requests'' (PMyRequests (my_requests sc))
                 (put_var ''leavable'' (PGroups (leavable sc)) (put_var ''joinable'' (PGroups (joinable sc)) vs1))))
           })
      })"

definition groups_page :: "('s, 'x) env \<Rightarrow> ctx \<Rightarrow> ('s, 'x, outcome) act" where
  "groups_page E c =
     do {
       vs \<leftarrow> groupsVars E c [(''user'', PUser (lc_user c))];
       State_Monad.return (render ''groups-list.html'' vs)
     }"

section \<open>Notifications\<close>

definition sendGroupDecision :: "('s, 'x) env \<Rightarrow> string \<Rightarrow> string \<Rightarrow> bool \<Rightarrow> string \<Rightarrow> ('s, 'x, unit) act" where
  "sendGroupDecision E username g approved reqType =
     do {
       r \<leftarrow> reads (\<lambda>w. ip_UserShow (ipa E) (ext w) Admin username);
       (case r of
          Err _ \<Rightarrow> State_Monad.return ()
        | Ok target \<Rightarrow> do { _ \<leftarrow> SendGroupDecisionEmail E target g approved reqType; State_Monad.return () })
     }"

definition notifyGroupRemoved :: "('s, 'x) env \<Rightarrow> string \<Rightarrow> string \<Rightarrow> ('s, 'x, unit) act" where
  "notifyGroupRemoved E username g =
     do {
       r \<leftarrow> reads (\<lambda>w. ip_UserShow (ipa E) (ext w) Admin username);
       (case r of
          Err _ \<Rightarrow> State_Monad.return ()
        | Ok target \<Rightarrow> do { _ \<leftarrow> SendGroupRemovedEmail E target g; State_Monad.return () })
     }"

fun notify_all :: "('s, 'x) env \<Rightarrow> string list \<Rightarrow> string \<Rightarrow> string \<Rightarrow> string \<Rightarrow> ('s, 'x, unit) act" where
  "notify_all E [] requester gn reqType = State_Monad.return ()"
| "notify_all E (m # ms) requester gn reqType =
     do {
       r \<leftarrow> reads (\<lambda>w. ip_UserShow (ipa E) (ext w) Admin m);
       (case r of
          Err _ \<Rightarrow> notify_all E ms requester gn reqType
        | Ok manager \<Rightarrow> do {
            _ \<leftarrow> SendGroupRequestEmail E manager requester gn reqType;
            notify_all E ms requester gn reqType
          })
     }"

definition notifyGroupSponsors :: "('s, 'x) env \<Rightarrow> ipaGroup \<Rightarrow> string \<Rightarrow> string \<Rightarrow> ('s, 'x, unit) act" where
  "notifyGroupSponsors E g requester reqType = notify_all E (ManagerUsers g) requester (Name g) reqType"

section \<open>Requests\<close>

definition add_request :: "('s, 'x) env \<Rightarrow> string \<Rightarrow> string \<Rightarrow> string \<Rightarrow> ('s, 'x, bool) act" where
  "add_request E g username reqType = do { t \<leftarrow> Now E; on_sto (addGroupRequest (stg E) g username reqType t) }"

text \<open>\<open>requestJoin\<close> returns a \<open>fiber.Error\<close> (the answer that carries it) or nothing.\<close>

definition requestJoin :: "('s, 'x) env \<Rightarrow> ctx \<Rightarrow> string \<Rightarrow> ('s, 'x, outcome option) act" where
  "requestJoin E c groupName =
     (let user = lc_user c
      in do {
        r \<leftarrow> groupShow E (AsUser (lc_client c)) groupName;
        (case r of
           Err _ \<Rightarrow> State_Monad.return (Some (reply 400 (TC c ''groups.not_joinable'')))
         | Ok g \<Rightarrow>
             if \<not> Managed g then State_Monad.return (Some (reply 400 (TC c ''groups.not_joinable'')))
             else if ip_HasGroup (ipa E) user (Name g)
             then State_Monad.return (Some (reply 400 (TC c ''groups.already_member'')))
             else do {
               added \<leftarrow> add_request E (Name g) (Username user) groupRequestJoin;
               _ \<leftarrow> (if added then do {
                      _ \<leftarrow> audit_info E ''group join requested''
                            [(''username'', Username user), (''group'', Name g), (''ip'', rq_ip (req c))];
                      notifyGroupSponsors E g (Username user) groupRequestJoin
                    }
                    else State_Monad.return ());
               State_Monad.return None
             })
      })"

definition GroupRequestJoin :: "('s, 'x) env \<Rightarrow> ctx \<Rightarrow> ('s, 'x, outcome) act" where
  "GroupRequestJoin E c =
     do {
       ferr \<leftarrow> requestJoin E c (form c ''group'');
       (case ferr of Some e \<Rightarrow> State_Monad.return e | None \<Rightarrow> groups_page E c)
     }"

definition GroupRequestLeave :: "('s, 'x) env \<Rightarrow> ctx \<Rightarrow> ('s, 'x, outcome) act" where
  "GroupRequestLeave E c =
     (let user = lc_user c
      in do {
        r \<leftarrow> groupShow E (AsUser (lc_client c)) (form c ''group'');
        (case r of
           Err _ \<Rightarrow> State_Monad.return (reply 400 (TC c ''groups.not_joinable''))
         | Ok g \<Rightarrow>
             if \<not> Managed g then State_Monad.return (reply 400 (TC c ''groups.not_joinable''))
             else if \<not> ip_HasGroup (ipa E) user (Name g)
             then State_Monad.return (reply 400 (TC c ''groups.not_a_member''))
             else do {
               added \<leftarrow> add_request E (Name g) (Username user) groupRequestLeave;
               _ \<leftarrow> (if added then do {
                      _ \<leftarrow> audit_info E ''group leave requested''
                            [(''username'', Username user), (''group'', Name g), (''ip'', rq_ip (req c))];
                      notifyGroupSponsors E g (Username user) groupRequestLeave
                    }
                    else State_Monad.return ());
               groups_page E c
             })
      })"

section \<open>Decisions\<close>

text \<open>The error is the answer that carries it.\<close>

definition groupDecision :: "('s, 'x) env \<Rightarrow> ctx \<Rightarrow> ('s, 'x, outcome + (ipaGroup \<times> GroupRequest)) act" where
  "groupDecision E c =
     (let user = lc_user c
      in do {
        r \<leftarrow> groupShow E (AsUser (lc_client c)) (form c ''group'');
        (case r of
           Err _ \<Rightarrow> State_Monad.return (Inl (reply 400 (TC c ''groups.not_joinable'')))
         | Ok g \<Rightarrow>
             if \<not> isManagerOf (Username user) (MemberOf user) g
             then State_Monad.return (Inl (reply 403 (TC c ''groups.not_a_manager'')))
             else do {
               reqs \<leftarrow> load_requests E (Name g);
               State_Monad.return
                 (case find (\<lambda>rq. gr_Username rq = form c ''username'') reqs of
                    Some rq \<Rightarrow> Inr (g, rq)
                  | None \<Rightarrow> Inl (reply 400 (TC c ''groups.no_such_request'')))
             })
      })"

definition decision_attrs :: "ctx \<Rightarrow> ipaGroup \<Rightarrow> string \<Rightarrow> string \<Rightarrow> (string \<times> string) list" where
  "decision_attrs c g target sponsor =
     [(''group'', Name g), (''username'', target), (''sponsor'', sponsor), (''ip'', rq_ip (req c))]"

definition GroupApprove :: "('s, 'x) env \<Rightarrow> ctx \<Rightarrow> ('s, 'x, outcome) act" where
  "GroupApprove E c =
     do {
       d \<leftarrow> groupDecision E c;
       (case d of
          Inl r \<Rightarrow> State_Monad.return r
        | Inr (g, rq) \<Rightarrow> do {
            err \<leftarrow> (if gr_Type rq = groupRequestLeave
                   then groupRemoveMember E (AsUser (lc_client c)) (Name g) (gr_Username rq)
                   else groupAddMember E (AsUser (lc_client c)) (Name g) (gr_Username rq));
            (if err \<noteq> None then State_Monad.return (reply 403 (TC c ''groups.approve_failed''))
             else do {
               _ \<leftarrow> drop_request E (Name g) (gr_Username rq);
               _ \<leftarrow> audit_info E (if gr_Type rq = groupRequestLeave then ''group leave approved'' else ''group join approved'')
                     (decision_attrs c g (gr_Username rq) (lc_username c));
               _ \<leftarrow> sendGroupDecision E (gr_Username rq) (Name g) True (gr_Type rq);
               _ \<leftarrow> (if gr_Type rq = groupRequestLeave then revokeConsentsOf E (gr_Username rq) else State_Monad.return None);
               groups_page E c
             })
          })
     }"

definition GroupDeny :: "('s, 'x) env \<Rightarrow> ctx \<Rightarrow> ('s, 'x, outcome) act" where
  "GroupDeny E c =
     do {
       d \<leftarrow> groupDecision E c;
       (case d of
          Inl r \<Rightarrow> State_Monad.return r
        | Inr (g, rq) \<Rightarrow> do {
            _ \<leftarrow> drop_request E (Name g) (gr_Username rq);
            _ \<leftarrow> audit_info E (if gr_Type rq = groupRequestLeave then ''group leave denied'' else ''group join denied'')
                  (decision_attrs c g (gr_Username rq) (lc_username c));
            _ \<leftarrow> sendGroupDecision E (gr_Username rq) (Name g) False (gr_Type rq);
            groups_page E c
          })
     }"

definition GroupRemoveMember :: "('s, 'x) env \<Rightarrow> ctx \<Rightarrow> ('s, 'x, outcome) act" where
  "GroupRemoveMember E c =
     (let user = lc_user c; target = form c ''username''
      in do {
        r \<leftarrow> groupShow E (AsUser (lc_client c)) (form c ''group'');
        (case r of
           Err _ \<Rightarrow> State_Monad.return (reply 400 (TC c ''groups.not_joinable''))
         | Ok g \<Rightarrow>
             if \<not> isManagerOf (Username user) (MemberOf user) g
             then State_Monad.return (reply 403 (TC c ''groups.not_a_manager''))
             else do {
               err \<leftarrow> groupRemoveMember E (AsUser (lc_client c)) (Name g) target;
               (if err \<noteq> None then State_Monad.return (reply 403 (TC c ''groups.remove_failed''))
                else do {
                  _ \<leftarrow> drop_request E (Name g) target;
                  _ \<leftarrow> audit_info E ''group member removed'' (decision_attrs c g target (Username user));
                  _ \<leftarrow> notifyGroupRemoved E target (Name g);
                  _ \<leftarrow> revokeConsentsOf E target;
                  groups_page E c
                })
             })
      })"

section \<open>Who decides\<close>

definition shown_group :: "('s, 'x) env \<Rightarrow> ctx \<Rightarrow> ('s, 'x) world \<Rightarrow> ipaGroup option" where
  "shown_group E c w =
     (case ip_GroupShow (ipa E) (ext w) (AsUser (lc_client c)) (form c ''group'') of
        Err _ \<Rightarrow> None
      | Ok g \<Rightarrow> Some (groupFrom g))"

definition may_manage :: "('s, 'x) env \<Rightarrow> ctx \<Rightarrow> ('s, 'x) world \<Rightarrow> bool" where
  "may_manage E c w \<longleftrightarrow>
     (case shown_group E c w of
        None \<Rightarrow> False
      | Some g \<Rightarrow> isManagerOf (Username (lc_user c)) (MemberOf (lc_user c)) g)"

lemma groupDecision_run:
  "run_state (groupDecision E c) w =
     (case shown_group E c w of
        None \<Rightarrow> (Inl (reply 400 (TC c ''groups.not_joinable'')), w)
      | Some g \<Rightarrow>
          if \<not> may_manage E c w then (Inl (reply 403 (TC c ''groups.not_a_manager'')), w)
          else (case find (\<lambda>rq. gr_Username rq = form c ''username'') (loadGroupRequests (stg E) (Name g) (clk E (tick w)) (sto w)) of
                  Some rq \<Rightarrow> Inr (g, rq)
                | None \<Rightarrow> Inl (reply 400 (TC c ''groups.no_such_request'')), w\<lparr>tick := Suc (tick w)\<rparr>))"
  by (auto simp: groupDecision_def groupShow_def shown_group_def may_manage_def load_requests_def Let_def
      split: sum.split option.split)

definition queued :: "('s, 'x) env \<Rightarrow> ctx \<Rightarrow> ('s, 'x) world \<Rightarrow> bool" where
  "queued E c w \<longleftrightarrow>
     (case shown_group E c w of
        None \<Rightarrow> False
      | Some g \<Rightarrow> list_ex (\<lambda>rq. gr_Username rq = form c ''username'')
                   (loadGroupRequests (stg E) (Name g) (clk E (tick w)) (sto w)))"

lemma not_found: "\<not> list_ex P xs \<Longrightarrow> find P xs = None"
  by (simp add: find_None_iff list_ex_iff)

definition refused :: "ctx \<Rightarrow> outcome \<Rightarrow> bool" where
  "refused c r \<longleftrightarrow> (\<exists>key. r = reply 400 (TC c key) \<or> r = reply 403 (TC c key))"

lemma refused_reply [simp]: "refused c (reply 400 (TC c key))" "refused c (reply 403 (TC c key))"
  by (auto simp: refused_def)

lemma groupDecision_refuses:
  "\<not> may_manage E c w \<Longrightarrow> \<exists>r. refused c r \<and> run_state (groupDecision E c) w = (Inl r, w)"
  "\<not> queued E c w \<Longrightarrow> \<exists>r w'. refused c r \<and> run_state (groupDecision E c) w = (Inl r, w') \<and> sto w' = sto w \<and> ext w' = ext w"
  by (cases "shown_group E c w"; simp add: groupDecision_run may_manage_def queued_def not_found)+

lemma removal_refused:
  "\<not> may_manage E c w \<Longrightarrow> \<exists>r. refused c r \<and> run_state (GroupRemoveMember E c) w = (r, w)"
  by (cases "ip_GroupShow (ipa E) (ext w) (AsUser (lc_client c)) (form c ''group'')")
    (simp_all add: GroupRemoveMember_def groupShow_def Let_def may_manage_def shown_group_def)

text \<open>
  C23. Only managers decide. Approving, denying and removing are refused with 400 or 403 and change nothing at all
  when the caller, as FreeIPA shows the group in the caller's own session, does not manage the group; without a
  queued request of the named user, approving and denying change neither the storage nor FreeIPA.
\<close>

theorem only_managers_decide:
  "(\<not> may_manage E c w \<longrightarrow>
      (\<forall>h\<in>{GroupApprove E c, GroupDeny E c, GroupRemoveMember E c}. \<exists>r. refused c r \<and> run_state h w = (r, w)))
   \<and> (\<not> queued E c w \<longrightarrow>
      (\<forall>h\<in>{GroupApprove E c, GroupDeny E c}.
        \<exists>r w'. refused c r \<and> run_state h w = (r, w') \<and> sto w' = sto w \<and> ext w' = ext w))"
proof (intro conjI impI)
  assume "\<not> may_manage E c w"
  with groupDecision_refuses(1) [of E c w] removal_refused [of E c w]
  show "\<forall>h\<in>{GroupApprove E c, GroupDeny E c, GroupRemoveMember E c}. \<exists>r. refused c r \<and> run_state h w = (r, w)"
    by (auto simp: GroupApprove_def GroupDeny_def)
next
  assume "\<not> queued E c w"
  with groupDecision_refuses(2) [of E c w]
  show "\<forall>h\<in>{GroupApprove E c, GroupDeny E c}.
      \<exists>r w'. refused c r \<and> run_state h w = (r, w') \<and> sto w' = sto w \<and> ext w' = ext w"
    by (auto simp: GroupApprove_def GroupDeny_def)
qed

theorem only_managers_decide_witness:
  "\<not> may_manage demo_env demo_ctx demo_world
    \<and> (\<exists>r. refused demo_ctx r \<and> run_state (GroupApprove demo_env demo_ctx) demo_world = (r, demo_world))"
proof -
  have "\<not> may_manage demo_env demo_ctx demo_world"
    by (simp add: may_manage_def shown_group_def demo_env_def demo_outside_def nobody_def)
  with only_managers_decide [of demo_env demo_ctx demo_world] show ?thesis by blast
qed

section \<open>What the page shows\<close>

text \<open>Every group of the page is offered for joining or leaving, or listed as requested, in exactly one place.\<close>

definition placed :: "sections \<Rightarrow> string list" where
  "placed sc = map Name (joinable sc) @ map Name (leavable sc) @ map fst (my_requests sc)"

lemma put_section_placed: "mset (placed (put_section E u g reqs sc)) = add_mset (Name g) (mset (placed sc))"
  by (simp add: placed_def put_section_def Let_def)

lemma fill_sections_placed:
  "wp (fill_sections E u gs sc) (\<lambda>sc' _. mset (placed sc') = mset (map Name gs) + mset (placed sc)) w"
proof (induction gs arbitrary: sc w)
  case (Cons g gs)
  have "wp (drop_stale E g rs) (\<lambda>reqs. wp (fill_sections E u gs (put_section E u g reqs sc))
      (\<lambda>sc' _. mset (placed sc') = add_mset (Name g) (mset (map Name gs) + mset (placed sc)))) w'" for rs w'
    by (rule wp_runI) (rule wp_mono [OF Cons.IH], simp add: put_section_placed)
  then show ?case by (simp add: load_requests_def)
qed simp

end
