(* ===== verification/Apps.thy ===== *)
theory Apps
  imports Hydra Group_Pages "HOL-Library.List_Lexorder" "HOL-Library.Char_ord"
begin

text \<open>
  The catalog of OAuth clients (\<open>apps.go\<close>): which clients a user may use, which the user may ask for by joining a
  group, and the request for access. Hydra's client list is paged like the consent sessions, so the loop is a
  partial function here too.
\<close>

section \<open>The list of clients\<close>

definition appAvailable :: string where "appAvailable = ''available''"
definition appRequestable :: string where "appRequestable = ''requestable''"
definition appPending :: string where "appPending = ''pending''"

lemmas app_states = appAvailable_def appRequestable_def appPending_def

partial_function (option) client_pages ::
    "(string \<Rightarrow> (oauth_client list \<times> string list) result) \<Rightarrow> (string \<Rightarrow> string option) \<Rightarrow> oauth_client list \<Rightarrow> string
      \<Rightarrow> oauth_client list result option" where
  "client_pages fetch page all token =
     (case fetch token of
        Err e \<Rightarrow> Some (Err e)
      | Ok (clients, header) \<Rightarrow>
          (let all' = all @ clients; next = nextPageToken page header
           in if next = [] \<or> next = token then Some (Ok all')
              else client_pages fetch page all' next))"

definition listOAuthClients :: "('s, 'x) env \<Rightarrow> 'x \<Rightarrow> oauth_client list result option" where
  "listOAuthClients E x = client_pages (hy_clients (hyd E) x) (hy_page (hyd E)) [] []"

section \<open>The catalog\<close>

definition hasJoinRequest :: "('s, 'x) env \<Rightarrow> string \<Rightarrow> string \<Rightarrow> ('s, 'x, bool) act" where
  "hasJoinRequest E g username =
     do {
       reqs \<leftarrow> load_requests E g;
       State_Monad.return (list_ex (\<lambda>r. gr_Username r = username \<and> gr_Type r = groupRequestJoin) reqs)
     }"

text \<open>The map of the managed groups by their lower-case name: a later group replaces an earlier one.\<close>

definition managed_group :: "unicode \<Rightarrow> ipaGroup list \<Rightarrow> string \<Rightarrow> ipaGroup option" where
  "managed_group U gs want = find (\<lambda>g. ToLower U (Name g) = ToLower U want) (rev gs)"

fun pick_group :: "('s, 'x) env \<Rightarrow> ipaGroup list \<Rightarrow> string \<Rightarrow> string list \<Rightarrow> catalogApp \<Rightarrow> ('s, 'x, catalogApp) act" where
  "pick_group E gs username [] app = State_Monad.return app"
| "pick_group E gs username (want # ws) app =
     (case managed_group (uni E) gs want of
        None \<Rightarrow> pick_group E gs username ws app
      | Some g \<Rightarrow> do {
          pending \<leftarrow> hasJoinRequest E (Name g) username;
          (if pending then State_Monad.return (app\<lparr>ct_State := appPending, ct_Group := Name g\<rparr>)
           else pick_group E gs username ws
                  (if ct_State app = [] then app\<lparr>ct_State := appRequestable, ct_Group := Name g\<rparr> else app))
        })"

definition interactive :: "oauth_client \<Rightarrow> bool" where
  "interactive cl \<longleftrightarrow> oc_GrantTypes cl = [] \<or> ''authorization_code'' \<in> set (oc_GrantTypes cl)"

definition app_of :: "oauth_client \<Rightarrow> catalogApp" where
  "app_of cl =
     \<lparr>ct_ClientID = oc_ClientId cl, ct_Name = (if oc_ClientName cl = [] then oc_ClientId cl else oc_ClientName cl),
      ct_URI = oc_ClientUri cl, ct_State = [], ct_Group = []\<rparr>"

text \<open>The managed groups are fetched once, for the first client the user may not use.\<close>

definition fetch_managed :: "('s, 'x) env \<Rightarrow> ctx \<Rightarrow> ipaGroup list option \<Rightarrow> ('s, 'x, ipaGroup list result) act" where
  "fetch_managed E c cache =
     (case cache of Some gs \<Rightarrow> State_Monad.return (Ok gs) | None \<Rightarrow> groupFindManaged E (AsUser (lc_client c)))"

fun catalog_loop ::
    "('s, 'x) env \<Rightarrow> ctx \<Rightarrow> hydraClientPolicy list \<Rightarrow> ipaGroup list option \<Rightarrow> oauth_client list \<Rightarrow> catalogApp list
      \<Rightarrow> ('s, 'x, catalogApp list result) act" where
  "catalog_loop E c policies cache [] apps = State_Monad.return (Ok apps)"
| "catalog_loop E c policies cache (cl # cls) apps =
     (let app = app_of cl; user = lc_user c in
      if \<not> interactive cl then catalog_loop E c policies cache cls apps
      else if clientAllowed (cfg E) (uni E) (ct_ClientID app) user
      then catalog_loop E c policies cache cls (apps @ [app\<lparr>ct_State := appAvailable\<rparr>])
      else if \<not> enable_groups (accounts (cfg E)) then catalog_loop E c policies cache cls apps
      else do {
        r \<leftarrow> fetch_managed E c cache;
        (case r of
           Err e \<Rightarrow> State_Monad.return (Err e)
         | Ok gs \<Rightarrow> do {
             app' \<leftarrow> (case find (\<lambda>p. ClientID p = ct_ClientID app) policies of
                        None \<Rightarrow> State_Monad.return app
                      | Some p \<Rightarrow> pick_group E gs (Username user) (Groups p) app);
             catalog_loop E c policies (Some gs) cls (if ct_State app' \<noteq> [] then apps @ [app'] else apps)
           })
      })"

text \<open>\<open>None\<close>: the listing does not end.\<close>

definition appCatalog :: "('s, 'x) env \<Rightarrow> ctx \<Rightarrow> ('s, 'x, catalogApp list result option) act" where
  "appCatalog E c =
     do {
       l \<leftarrow> reads (\<lambda>w. listOAuthClients E (ext w));
       (case l of
          None \<Rightarrow> State_Monad.return None
        | Some (Err e) \<Rightarrow> State_Monad.return (Some (Err e))
        | Some (Ok clients) \<Rightarrow>
            (case hydra_clients (hydra (cfg E)) of
               None \<Rightarrow> State_Monad.return (Some (Err (EText ''hydra.clients'')))
             | Some policies \<Rightarrow> do {
                 r \<leftarrow> catalog_loop E c policies None clients [];
                 State_Monad.return
                   (Some (case r of Err e \<Rightarrow> Err e | Ok apps \<Rightarrow> Ok (sort_key (\<lambda>a. ToLower (uni E) (ct_Name a)) apps)))
               }))
     }"

section \<open>The page\<close>

definition appsVars :: "('s, 'x) env \<Rightarrow> ctx \<Rightarrow> vars \<Rightarrow> ('s, 'x, vars option) act" where
  "appsVars E c vs =
     do {
       r \<leftarrow> appCatalog E c;
       State_Monad.return
         (case r of
            None \<Rightarrow> None
          | Some (Err _) \<Rightarrow> Some (put_var ''apps_error'' (PBool True) vs)
          | Some (Ok apps) \<Rightarrow> Some (put_var ''apps'' (PCatalog apps) vs))
     }"

definition apps_page :: "('s, 'x) env \<Rightarrow> ctx \<Rightarrow> ('s, 'x, outcome) act" where
  "apps_page E c =
     do {
       r \<leftarrow> appsVars E c [(''user'', PUser (lc_user c))];
       State_Monad.return (case r of None \<Rightarrow> Hangs | Some vs \<Rightarrow> render ''apps-list.html'' vs)
     }"

definition AppRequest :: "('s, 'x) env \<Rightarrow> ctx \<Rightarrow> ('s, 'x, outcome) act" where
  "AppRequest E c =
     do {
       r \<leftarrow> appCatalog E c;
       (case r of
          None \<Rightarrow> State_Monad.return Hangs
        | Some (Err _) \<Rightarrow> State_Monad.return (reply 500 (TC c ''account.fatal_system_error''))
        | Some (Ok apps) \<Rightarrow>
            (case find (\<lambda>a. ct_ClientID a = form c ''client'' \<and> ct_State a = appRequestable) apps of
               None \<Rightarrow> State_Monad.return (reply 400 (TC c ''apps.not_requestable''))
             | Some a \<Rightarrow> do {
                 ferr \<leftarrow> requestJoin E c (ct_Group a);
                 (case ferr of Some e \<Rightarrow> State_Monad.return e | None \<Rightarrow> apps_page E c)
               }))
     }"

section \<open>What the catalog holds\<close>

lemma client_pages_ends:
  "pages fetch page token pss \<Longrightarrow> client_pages fetch page all token = Some (Ok (all @ concat pss))"
proof (induction arbitrary: all rule: pages.induct)
  case (last_page token ss header)
  then show ?case by (subst client_pages.simps) (auto simp: Let_def)
next
  case (more_pages token ss header pss)
  then show ?case by (subst client_pages.simps) (auto simp: Let_def)
qed

definition managed_groups :: "('s, 'x) env \<Rightarrow> ctx \<Rightarrow> 'x \<Rightarrow> ipaGroup list" where
  "managed_groups E c x =
     (case ip_GroupFind (ipa E) x (AsUser (lc_client c)) 500 of Err _ \<Rightarrow> [] | Ok found \<Rightarrow> filter Managed (map groupFrom found))"

text \<open>An app is offered through a group: the group is managed, and the client's policy lists it.\<close>

definition offered_through :: "('s, 'x) env \<Rightarrow> ctx \<Rightarrow> 'x \<Rightarrow> hydraClientPolicy list \<Rightarrow> catalogApp \<Rightarrow> bool" where
  "offered_through E c x policies a \<longleftrightarrow>
     (\<exists>p g want. find (\<lambda>p. ClientID p = ct_ClientID a) policies = Some p \<and> want \<in> set (Groups p)
        \<and> g \<in> set (managed_groups E c x) \<and> ToLower (uni E) (Name g) = ToLower (uni E) want \<and> ct_Group a = Name g)"

definition entry_ok :: "('s, 'x) env \<Rightarrow> ctx \<Rightarrow> 'x \<Rightarrow> hydraClientPolicy list \<Rightarrow> catalogApp \<Rightarrow> bool" where
  "entry_ok E c x policies a =
     (if clientAllowed (cfg E) (uni E) (ct_ClientID a) (lc_user c) then ct_State a = appAvailable
      else (ct_State a = appRequestable \<or> ct_State a = appPending) \<and> offered_through E c x policies a)"

lemma managed_group_mem:
  "managed_group U gs want = Some g \<Longrightarrow> g \<in> set gs \<and> ToLower U (Name g) = ToLower U want"
  by (auto simp: managed_group_def find_Some_iff) (metis nth_mem set_rev length_rev)

lemma pick_group_ok:
  assumes "\<And>want g. want \<in> set ws \<Longrightarrow> managed_group (uni E) gs want = Some g \<Longrightarrow> P (Name g)"
    and "ct_State app = [] \<or> ct_State app = appRequestable \<and> P (ct_Group app)"
  shows "wp (pick_group E gs username ws app)
    (\<lambda>a w'. (\<exists>t. w' = w\<lparr>tick := t\<rparr>) \<and> ct_ClientID a = ct_ClientID app
       \<and> (ct_State a = [] \<or> (ct_State a = appRequestable \<or> ct_State a = appPending) \<and> P (ct_Group a))) w"
  using assms
proof (induction ws arbitrary: app w)
  case Nil
  then show ?case by (auto intro: exI [of _ "tick w"])
next
  case (Cons want ws)
  show ?case
  proof (cases "managed_group (uni E) gs want")
    case None
    have "wp (pick_group E gs username (want # ws) app) Q w = wp (pick_group E gs username ws app) Q w" for Q
      using None by simp
    then show ?thesis using Cons.prems by (auto intro!: Cons.IH)
  next
    case (Some g)
    have P: "P (Name g)" by (rule Cons.prems(1) [OF _ Some]) simp
    let ?w = "w\<lparr>tick := Suc (tick w)\<rparr>" and ?app = "if ct_State app = [] then app\<lparr>ct_State := appRequestable, ct_Group := Name g\<rparr> else app"
    have "wp (pick_group E gs username ws ?app)
        (\<lambda>a w'. (\<exists>t. w' = ?w\<lparr>tick := t\<rparr>) \<and> ct_ClientID a = ct_ClientID ?app
           \<and> (ct_State a = [] \<or> (ct_State a = appRequestable \<or> ct_State a = appPending) \<and> P (ct_Group a))) ?w"
      using Cons.prems P by (intro Cons.IH) auto
    then have "wp (pick_group E gs username ws ?app)
        (\<lambda>a w'. (\<exists>t. w' = w\<lparr>tick := t\<rparr>) \<and> ct_ClientID a = ct_ClientID app
           \<and> (ct_State a = [] \<or> (ct_State a = appRequestable \<or> ct_State a = appPending) \<and> P (ct_Group a))) ?w"
      by (rule wp_mono) (auto split: if_splits)
    with Some P show ?thesis by (auto simp: hasJoinRequest_def load_requests_def)
  qed
qed

text \<open>The entries for a list of clients: each one is right, and no client the user may use is missing.\<close>

definition catalog_of :: "('s, 'x) env \<Rightarrow> ctx \<Rightarrow> 'x \<Rightarrow> hydraClientPolicy list \<Rightarrow> oauth_client list \<Rightarrow> catalogApp list \<Rightarrow> bool" where
  "catalog_of E c x policies cls apps \<longleftrightarrow>
     (\<forall>a\<in>set apps. entry_ok E c x policies a \<and> (\<exists>cl\<in>set cls. interactive cl \<and> ct_ClientID a = oc_ClientId cl))
     \<and> (\<forall>cl\<in>set cls. interactive cl \<and> clientAllowed (cfg E) (uni E) (oc_ClientId cl) (lc_user c)
          \<longrightarrow> (\<exists>a\<in>set apps. ct_ClientID a = oc_ClientId cl \<and> ct_State a = appAvailable))"

lemma catalog_of_skip:
  assumes "catalog_of E c x policies cls apps"
    and "interactive cl \<Longrightarrow> \<not> clientAllowed (cfg E) (uni E) (oc_ClientId cl) (lc_user c)"
  shows "catalog_of E c x policies (cl # cls) apps"
  using assms by (auto simp: catalog_of_def)

lemma catalog_of_add:
  assumes "catalog_of E c x policies cls apps" and "interactive cl" and "ct_ClientID a = oc_ClientId cl" and "entry_ok E c x policies a"
  shows "catalog_of E c x policies (cl # cls) (a # apps)"
  using assms by (auto simp: catalog_of_def entry_ok_def)

definition extends_catalog ::
    "('s, 'x) env \<Rightarrow> ctx \<Rightarrow> ('s, 'x) world \<Rightarrow> hydraClientPolicy list \<Rightarrow> oauth_client list \<Rightarrow> catalogApp list
      \<Rightarrow> catalogApp list result \<Rightarrow> ('s, 'x) world \<Rightarrow> bool" where
  "extends_catalog E c w policies cls apps r w' \<longleftrightarrow>
     (\<exists>t. w' = w\<lparr>tick := t\<rparr>)
     \<and> (\<forall>out. r = Ok out \<longrightarrow> (\<exists>new. out = apps @ new \<and> catalog_of E c (ext w) policies cls new))"

lemma extends_skip:
  assumes "extends_catalog E c w policies cls apps r w'"
    and "interactive cl \<Longrightarrow> \<not> clientAllowed (cfg E) (uni E) (oc_ClientId cl) (lc_user c)"
  shows "extends_catalog E c w policies (cl # cls) apps r w'"
  using assms(1) catalog_of_skip [OF _ assms(2)] by (auto simp: extends_catalog_def)

lemma extends_add:
  assumes "extends_catalog E c w policies cls (apps @ [a]) r w'"
    and "interactive cl" "ct_ClientID a = oc_ClientId cl" "entry_ok E c (ext w) policies a"
  shows "extends_catalog E c w policies (cl # cls) apps r w'"
  using assms(1) catalog_of_add [OF _ assms(2-4)] by (fastforce simp: extends_catalog_def)

lemma extends_tick:
  "extends_catalog E c (w\<lparr>tick := n\<rparr>) policies cls apps r w' \<Longrightarrow> extends_catalog E c w policies cls apps r w'"
  by (auto simp: extends_catalog_def)

lemma fetch_managed_wp:
  assumes "\<And>gs. cache = Some gs \<Longrightarrow> gs = managed_groups E c (ext w)"
    and "\<And>e. Q (Err e) w" and "Q (Ok (managed_groups E c (ext w))) w"
  shows "wp (fetch_managed E c cache) Q w"
  using assms by (auto simp: fetch_managed_def groupFindManaged_def managed_groups_def split: option.split sum.split)

lemma offer_wp:
  assumes "\<not> clientAllowed (cfg E) (uni E) (oc_ClientId cl) (lc_user c)"
  shows "wp (case find (\<lambda>p. ClientID p = oc_ClientId cl) policies of
        None \<Rightarrow> State_Monad.return (app_of cl)
      | Some p \<Rightarrow> pick_group E (managed_groups E c (ext w)) (Username (lc_user c)) (Groups p) (app_of cl))
    (\<lambda>a w'. (\<exists>t. w' = w\<lparr>tick := t\<rparr>) \<and> ct_ClientID a = oc_ClientId cl \<and> (ct_State a = [] \<or> entry_ok E c (ext w) policies a)) w"
proof (cases "find (\<lambda>p. ClientID p = oc_ClientId cl) policies")
  case None
  then show ?thesis by (auto simp: app_of_def intro: exI [of _ "tick w"])
next
  case (Some p)
  define P where "P n \<longleftrightarrow> (\<exists>g want. want \<in> set (Groups p) \<and> g \<in> set (managed_groups E c (ext w))
      \<and> ToLower (uni E) (Name g) = ToLower (uni E) want \<and> n = Name g)" for n
  have "wp (pick_group E (managed_groups E c (ext w)) (Username (lc_user c)) (Groups p) (app_of cl))
      (\<lambda>a w'. (\<exists>t. w' = w\<lparr>tick := t\<rparr>) \<and> ct_ClientID a = ct_ClientID (app_of cl)
        \<and> (ct_State a = [] \<or> (ct_State a = appRequestable \<or> ct_State a = appPending) \<and> P (ct_Group a))) w"
    by (rule pick_group_ok) (auto simp: P_def app_of_def dest!: managed_group_mem)
  then show ?thesis
    unfolding Some option.case
    by (rule wp_mono) (use Some assms in \<open>auto simp: app_of_def entry_ok_def offered_through_def P_def\<close>)
qed

lemma catalog_loop_ok:
  assumes "\<And>gs. cache = Some gs \<Longrightarrow> gs = managed_groups E c (ext w)"
  shows "wp (catalog_loop E c policies cache cls apps) (extends_catalog E c w policies cls apps) w"
  using assms
proof (induction cls arbitrary: cache apps w)
  case Nil
  show ?case by (auto simp: extends_catalog_def catalog_of_def intro: exI [of _ "tick w"])
next
  case (Cons cl cls)
  let ?allowed = "clientAllowed (cfg E) (uni E) (oc_ClientId cl) (lc_user c)"
  have id: "ct_ClientID (app_of cl) = oc_ClientId cl" by (simp add: app_of_def)
  consider (skip) "\<not> interactive cl \<or> \<not> ?allowed \<and> \<not> enable_groups (accounts (cfg E))"
    | (use) "interactive cl" "?allowed" | (ask) "interactive cl" "\<not> ?allowed" "enable_groups (accounts (cfg E))" by blast
  then show ?case
  proof cases
    case skip
    have "wp (catalog_loop E c policies cache cls apps) (extends_catalog E c w policies (cl # cls) apps) w"
      by (rule wp_mono [OF Cons.IH [OF Cons.prems]], assumption, rule extends_skip) (use skip in auto)
    with skip show ?thesis by (auto simp: id Let_def)
  next
    case use
    have "wp (catalog_loop E c policies cache cls (apps @ [(app_of cl)\<lparr>ct_State := appAvailable\<rparr>]))
        (extends_catalog E c w policies (cl # cls) apps) w"
      by (rule wp_mono [OF Cons.IH [OF Cons.prems]], assumption, rule extends_add) (use use in \<open>auto simp: id entry_ok_def\<close>)
    with use show ?thesis by (simp add: id Let_def)
  next
    case ask
    have next_ok: "wp (catalog_loop E c policies (Some (managed_groups E c (ext w))) cls (if ct_State a \<noteq> [] then apps @ [a] else apps))
        (extends_catalog E c w policies (cl # cls) apps) (w\<lparr>tick := t\<rparr>)"
      if "ct_ClientID a = oc_ClientId cl" "ct_State a = [] \<or> entry_ok E c (ext w) policies a" for a t
    proof (rule wp_mono [OF Cons.IH], simp, drule extends_tick, cases "ct_State a = []", goal_cases)
      case 1
      then show ?case using ask by (auto intro: extends_skip)
    next
      case 2
      then show ?case using ask that by (auto intro: extends_add)
    qed
    have "extends_catalog E c w policies (cl # cls) apps (Err e) w" for e
      by (auto simp: extends_catalog_def intro: exI [of _ "tick w"])
    then have "wp (fetch_managed E c cache) (\<lambda>r. wp (case r of
           Err e \<Rightarrow> State_Monad.return (Err e)
         | Ok gs \<Rightarrow> do {
             app' \<leftarrow> (case find (\<lambda>p. ClientID p = oc_ClientId cl) policies of
                        None \<Rightarrow> State_Monad.return (app_of cl)
                      | Some p \<Rightarrow> pick_group E gs (Username (lc_user c)) (Groups p) (app_of cl));
             catalog_loop E c policies (Some gs) cls (if ct_State app' \<noteq> [] then apps @ [app'] else apps)
           }) (extends_catalog E c w policies (cl # cls) apps)) w"
      by (intro fetch_managed_wp [OF Cons.prems]) (auto intro!: wp_mono [OF offer_wp [OF ask(2)]] next_ok)
    with ask show ?thesis by (simp add: id Let_def)
  qed
qed

lemma catalog_run:
  assumes "pages (hy_clients (hyd E) (ext w)) (hy_page (hyd E)) [] pss" and "hydra_clients (hydra (cfg E)) = Some policies"
  shows "\<exists>r t. run_state (appCatalog E c) w = (Some r, w\<lparr>tick := t\<rparr>)
    \<and> (\<forall>apps. r = Ok apps \<longrightarrow> catalog_of E c (ext w) policies (concat pss) apps
         \<and> (\<exists>found. apps = sort_key (\<lambda>a. ToLower (uni E) (ct_Name a)) found))"
proof -
  obtain r w' where loop: "run_state (catalog_loop E c policies None (concat pss) []) w = (r, w')" by force
  have ok: "extends_catalog E c w policies (concat pss) [] r w'"
    by (rule wp_run [OF catalog_loop_ok loop]) simp
  have "run_state (appCatalog E c) w
      = (Some (case r of Err e \<Rightarrow> Err e | Ok apps \<Rightarrow> Ok (sort_key (\<lambda>a. ToLower (uni E) (ct_Name a)) apps)), w')"
    by (simp add: appCatalog_def listOAuthClients_def client_pages_ends [OF assms(1)] assms(2) loop)
  with ok show ?thesis
    by (cases r) (auto simp: extends_catalog_def catalog_of_def)
qed

text \<open>
  C28. The catalog. When Hydra's pages form a finite chain, the catalog is built (or FreeIPA's error reported), and
  reading it changes nothing. It is ordered by the lower-case name; every entry is a client for interactive
  use that the user may use (and then it is available), or one that a managed group listed in the client's
  policy opens (and then it is requestable or pending, with that group); and every interactive client the user
  may use is in it.
\<close>

theorem catalog_exact:
  assumes "pages (hy_clients (hyd E) (ext w)) (hy_page (hyd E)) [] pss" and "hydra_clients (hydra (cfg E)) = Some policies"
  shows "\<exists>r t. run_state (appCatalog E c) w = (Some r, w\<lparr>tick := t\<rparr>)
    \<and> (\<forall>apps. r = Ok apps \<longrightarrow> catalog_of E c (ext w) policies (concat pss) apps
         \<and> sorted (map (\<lambda>a. ToLower (uni E) (ct_Name a)) apps))"
  using catalog_run [OF assms, of c] by fastforce

text \<open>
  Access is asked for through the catalog only. A request for a client either is answered with an error at once,
  or joins a managed group that the policy of that client lists, for a client the user may not use yet; the group
  never comes from the form.
\<close>

theorem app_request_group:
  assumes "pages (hy_clients (hyd E) (ext w)) (hy_page (hyd E)) [] pss" and "hydra_clients (hydra (cfg E)) = Some policies"
  shows "(\<exists>t. run_state (AppRequest E c) w = (reply 500 (TC c ''account.fatal_system_error''), w\<lparr>tick := t\<rparr>))
    \<or> (\<exists>t. run_state (AppRequest E c) w = (reply 400 (TC c ''apps.not_requestable''), w\<lparr>tick := t\<rparr>))
    \<or> (\<exists>t p g want. \<not> clientAllowed (cfg E) (uni E) (form c ''client'') (lc_user c)
         \<and> find (\<lambda>p. ClientID p = form c ''client'') policies = Some p \<and> want \<in> set (Groups p)
         \<and> g \<in> set (managed_groups E c (ext w)) \<and> ToLower (uni E) (Name g) = ToLower (uni E) want
         \<and> run_state (AppRequest E c) w
           = run_state (do { ferr \<leftarrow> requestJoin E c (Name g);
                             case ferr of Some e \<Rightarrow> State_Monad.return e | None \<Rightarrow> apps_page E c }) (w\<lparr>tick := t\<rparr>))"
proof -
  obtain r t where cat: "run_state (appCatalog E c) w = (Some r, w\<lparr>tick := t\<rparr>)"
    and ok: "\<And>apps. r = Ok apps \<Longrightarrow> catalog_of E c (ext w) policies (concat pss) apps"
    using catalog_run [OF assms, of c] by blast
  show ?thesis
  proof (cases r)
    case (Inl e)
    then have "run_state (AppRequest E c) w = (reply 500 (TC c ''account.fatal_system_error''), w\<lparr>tick := t\<rparr>)"
      by (simp add: AppRequest_def cat)
    then show ?thesis by blast
  next
    case (Inr apps)
    show ?thesis
    proof (cases "find (\<lambda>a. ct_ClientID a = form c ''client'' \<and> ct_State a = appRequestable) apps")
      case None
      then have "run_state (AppRequest E c) w = (reply 400 (TC c ''apps.not_requestable''), w\<lparr>tick := t\<rparr>)"
        by (simp add: AppRequest_def cat Inr)
      then show ?thesis by blast
    next
      case (Some a)
      then have a: "a \<in> set apps" "ct_ClientID a = form c ''client''" "ct_State a = appRequestable"
        by (auto simp: find_Some_iff)
      with ok [OF Inr] have "entry_ok E c (ext w) policies a" by (auto simp: catalog_of_def)
      with a have "\<not> clientAllowed (cfg E) (uni E) (form c ''client'') (lc_user c)" "offered_through E c (ext w) policies a"
        by (auto simp: entry_ok_def app_states split: if_splits)
      moreover have "run_state (AppRequest E c) w
          = run_state (do { ferr \<leftarrow> requestJoin E c (ct_Group a);
                            case ferr of Some e \<Rightarrow> State_Monad.return e | None \<Rightarrow> apps_page E c }) (w\<lparr>tick := t\<rparr>)"
        by (simp add: AppRequest_def cat Inr Some)
      ultimately show ?thesis unfolding offered_through_def a(2) by metis
    qed
  qed
qed

section \<open>Witnesses\<close>

text \<open>Hydra knows the client \<open>wiki\<close>, limited to the managed group \<open>staff\<close>.\<close>

definition staff_group :: ipa_Group where
  "staff_group = \<lparr>ig_Name = ''staff'', ig_Description = [], ig_Users = [], ig_ManagerUsers = [''boss''], ig_ManagerGroups = []\<rparr>"

definition apps_env :: "(cells, unit) env" where
  "apps_env = wiki_env\<lparr>hyd := demo_hydra\<lparr>hy_clients := \<lambda>_ _. Ok ([\<lparr>oc_ClientId = ''wiki'', oc_ClientName = [], oc_ClientUri = [],
     oc_GrantTypes = []\<rparr>], [])\<rparr>, ipa := demo_outside\<lparr>ip_GroupFind := \<lambda>_ _ _. Ok [staff_group], ip_GroupShow := \<lambda>_ _ _. Ok staff_group\<rparr>\<rparr>"

definition apps_ctx :: ctx where
  "apps_ctx = demo_ctx\<lparr>req := (req demo_ctx)\<lparr>rq_form := \<lambda>_. ''wiki''\<rparr>\<rparr>"

lemma apps_pages: "pages (hy_clients (hyd apps_env) (ext demo_world)) (hy_page (hyd apps_env)) []
    [[\<lparr>oc_ClientId = ''wiki'', oc_ClientName = [], oc_ClientUri = [], oc_GrantTypes = []\<rparr>]]"
  by (rule pages.last_page [of _ _ _ "[]"]) (simp_all add: apps_env_def demo_hydra_def nextPageToken_def Cut_def)

lemma apps_policies: "hydra_clients (hydra (cfg apps_env)) = Some [\<lparr>ClientID = ''wiki'', Groups = [''staff'']\<rparr>]"
  by (simp add: apps_env_def wiki_env_def)

theorem catalog_exact_witness:
  "\<exists>r t. run_state (appCatalog apps_env apps_ctx) demo_world = (Some r, demo_world\<lparr>tick := t\<rparr>)
    \<and> (\<forall>apps. r = Ok apps \<longrightarrow> (\<forall>a\<in>set apps. entry_ok apps_env apps_ctx () [\<lparr>ClientID = ''wiki'', Groups = [''staff'']\<rparr>] a
         \<and> ct_ClientID a = ''wiki''))"
  using catalog_exact [OF apps_pages apps_policies, of apps_ctx] by (fastforce simp: catalog_of_def)

theorem app_request_group_witness:
  "\<exists>t. run_state (AppRequest apps_env apps_ctx) demo_world \<in>
     {(reply 500 (TC apps_ctx ''account.fatal_system_error''), demo_world\<lparr>tick := t\<rparr>),
      (reply 400 (TC apps_ctx ''apps.not_requestable''), demo_world\<lparr>tick := t\<rparr>),
      run_state (do { ferr \<leftarrow> requestJoin apps_env apps_ctx ''staff'';
                      case ferr of Some e \<Rightarrow> State_Monad.return e | None \<Rightarrow> apps_page apps_env apps_ctx }) (demo_world\<lparr>tick := t\<rparr>)}"
proof -
  have "Name g = ''staff''" if "g \<in> set (managed_groups apps_env apps_ctx (ext demo_world))" for g
    using that by (auto simp: managed_groups_def apps_env_def staff_group_def groupFrom_def Managed_def)
  then show ?thesis using app_request_group [OF apps_pages apps_policies, of apps_ctx] by fastforce
qed

end
