(* ===== verification/Access.thy ===== *)
theory Access
  imports Hydra
begin

text \<open>
  The page of the rules that apply to the user (\<open>access.go\<close>, \<open>ipa_access.go\<close>): host access and sudo rules, read
  with the user's own session, and FreeIPA's simulation of an access.
\<close>

section \<open>Rules\<close>

definition hbacRuleFrom :: "ipa_HBACRule \<Rightarrow> hbacRule" where
  "hbacRuleFrom r =
     \<lparr>hb_Name = ih_Name r, hb_Description = ih_Description r, hb_Enabled = ih_Enabled r, hb_UserCategory = ih_UserCategory r,
      hb_HostCategory = ih_HostCategory r, hb_ServiceCategory = ih_ServiceCategory r, hb_MemberUsers = ih_Users r,
      hb_MemberGroups = ih_Groups r, hb_MemberHosts = ih_Hosts r, hb_MemberHostgroups = ih_HostGroups r,
      hb_MemberServices = ih_Services r\<rparr>"

definition sudoRuleFrom :: "ipa_SudoRule \<Rightarrow> sudoRule" where
  "sudoRuleFrom r =
     \<lparr>su_Name = is_Name r, su_Description = is_Description r, su_Enabled = is_Enabled r, su_UserCategory = is_UserCategory r,
      su_HostCategory = is_HostCategory r, su_CmdCategory = is_CmdCategory r, su_MemberUsers = is_Users r,
      su_MemberGroups = is_Groups r, su_MemberHosts = is_Hosts r, su_MemberHostgroups = is_HostGroups r,
      su_AllowCommands = is_AllowCommands r, su_DenyCommands = is_DenyCommands r, su_RunAsUsers = is_RunAsUsers r,
      su_RunAsGroups = is_RunAsGroups r\<rparr>"

definition ruleSizeLimit :: int where "ruleSizeLimit = 500"

definition hbacRuleFind :: "('s, 'x) env \<Rightarrow> client \<Rightarrow> ('s, 'x, (hbacRule list \<times> bool) result) act" where
  "hbacRuleFind E cl =
     reads (\<lambda>w. case ip_HBACRuleFind (ipa E) (ext w) cl ruleSizeLimit of
                  Err e \<Rightarrow> Err e
                | Ok found \<Rightarrow> (let rules = map hbacRuleFrom found in Ok (rules, ruleSizeLimit \<le> int (length rules))))"

definition sudoRuleFind :: "('s, 'x) env \<Rightarrow> client \<Rightarrow> ('s, 'x, (sudoRule list \<times> bool) result) act" where
  "sudoRuleFind E cl =
     reads (\<lambda>w. case ip_SudoRuleFind (ipa E) (ext w) cl ruleSizeLimit of
                  Err e \<Rightarrow> Err e
                | Ok found \<Rightarrow> (let rules = map sudoRuleFrom found in Ok (rules, ruleSizeLimit \<le> int (length rules))))"

definition hbacTest :: "('s, 'x) env \<Rightarrow> client \<Rightarrow> string \<Rightarrow> string \<Rightarrow> string \<Rightarrow> ('s, 'x, hbacTestResult result) act" where
  "hbacTest E cl user targethost service =
     reads (\<lambda>w. case ip_HBACTest (ipa E) (ext w) cl user targethost service of
                  Err e \<Rightarrow> Err e
                | Ok (granted, matched, notMatched) \<Rightarrow>
                    Ok \<lparr>ht_Granted = granted, ht_Matched = matched, ht_NotMatched = notMatched\<rparr>)"

definition ruleAppliesToUser :: "string \<Rightarrow> string list \<Rightarrow> string list \<Rightarrow> string \<Rightarrow> string list \<Rightarrow> bool" where
  "ruleAppliesToUser usercategory memberUsers memberGroups username userGroups \<longleftrightarrow>
     usercategory = ''all'' \<or> list_ex (\<lambda>u. u = username) memberUsers
     \<or> list_ex (\<lambda>g. list_ex (\<lambda>ug. g = ug) userGroups) memberGroups"

section \<open>The page\<close>

definition my_hbac :: "user \<Rightarrow> hbacRule list \<Rightarrow> hbacRule list" where
  "my_hbac user =
     filter (\<lambda>r. hb_Enabled r
       \<and> ruleAppliesToUser (hb_UserCategory r) (hb_MemberUsers r) (hb_MemberGroups r) (Username user) (memberOf user))"

definition my_sudo :: "user \<Rightarrow> sudoRule list \<Rightarrow> sudoRule list" where
  "my_sudo user =
     filter (\<lambda>r. su_Enabled r
       \<and> ruleAppliesToUser (su_UserCategory r) (su_MemberUsers r) (su_MemberGroups r) (Username user) (memberOf user))"

definition accessVars :: "('s, 'x) env \<Rightarrow> ctx \<Rightarrow> vars \<Rightarrow> ('s, 'x, vars) act" where
  "accessVars E c vs =
     (let user = lc_user c; client = AsUser (lc_client c); broken = put_var ''access_error'' (PBool True) vs
      in do {
        h \<leftarrow> hbacRuleFind E client;
        (case h of
           Err _ \<Rightarrow> State_Monad.return broken
         | Ok (hbac, hbacTruncated) \<Rightarrow> do {
             u \<leftarrow> sudoRuleFind E client;
             (case u of
                Err _ \<Rightarrow> State_Monad.return broken
              | Ok (sudo, sudoTruncated) \<Rightarrow>
                  (let vs1 = (if hbacTruncated \<or> sudoTruncated then put_var ''access_truncated'' (PBool True) vs else vs)
                   in State_Monad.return
                     (put_var ''sudo_rules'' (PSudo (my_sudo user sudo)) (put_var ''hbac_rules'' (PHbac (my_hbac user hbac)) vs1))))
           })
      })"

definition AccessTest :: "('s, 'x) env \<Rightarrow> ctx \<Rightarrow> ('s, 'x, outcome) act" where
  "AccessTest E c =
     (let username = lc_username c; host = TrimSpace (form c ''host''); s0 = TrimSpace (form c ''service'');
          service = (if s0 = [] then ''sshd'' else s0)
      in if host = [] \<or> 255 < length host \<or> 255 < length service
         then State_Monad.return (reply 400 (TC c ''access.host_required''))
         else do {
           r \<leftarrow> hbacTest E (AsUser (lc_client c)) username host service;
           State_Monad.return
             (case r of
                Err _ \<Rightarrow> reply 500 (TC c ''account.fatal_system_error'')
              | Ok res \<Rightarrow>
                  render ''access-test-result.html''
                    [(''granted'', PBool (ht_Granted res)), (''matched'', PStrs (ht_Matched res)),
                     (''host'', PStr host), (''service'', PStr service)])
         })"

section \<open>What the page shows\<close>

lemma ruleAppliesToUser_iff:
  "ruleAppliesToUser cat us gs n ugs \<longleftrightarrow> cat = ''all'' \<or> n \<in> set us \<or> set gs \<inter> set ugs \<noteq> {}"
  by (auto simp: ruleAppliesToUser_def list_ex_iff)

text \<open>
  C24. The access page shows the user's rules. When FreeIPA answers both queries, the page lists exactly the enabled
  rules that apply to all users, to the user or to a group of the user (also through other groups), in FreeIPA's
  order, and it says that rules may be missing when an answer has the length of the limit. Nothing changes, and
  only the session of the user is used.
\<close>

theorem access_page_exact:
  assumes "ip_HBACRuleFind (ipa E) (ext w) (AsUser (lc_client c)) 500 = Ok hs"
    and "ip_SudoRuleFind (ipa E) (ext w) (AsUser (lc_client c)) 500 = Ok us"
  shows "\<exists>vs'. run_state (accessVars E c []) w = (vs', w)
    \<and> map_of vs' ''hbac_rules'' = Some (PHbac (map hbacRuleFrom (filter (\<lambda>r. ih_Enabled r
        \<and> (ih_UserCategory r = ''all'' \<or> Username (lc_user c) \<in> set (ih_Users r)
           \<or> set (ih_Groups r) \<inter> (set (MemberOf (lc_user c)) \<union> set (IndirectMemberOf (lc_user c))) \<noteq> {})) hs)))
    \<and> map_of vs' ''sudo_rules'' = Some (PSudo (map sudoRuleFrom (filter (\<lambda>r. is_Enabled r
        \<and> (is_UserCategory r = ''all'' \<or> Username (lc_user c) \<in> set (is_Users r)
           \<or> set (is_Groups r) \<inter> (set (MemberOf (lc_user c)) \<union> set (IndirectMemberOf (lc_user c))) \<noteq> {})) us)))
    \<and> (map_of vs' ''access_truncated'' = Some (PBool True) \<longleftrightarrow> 500 \<le> length hs \<or> 500 \<le> length us)"
  using assms
  by (simp add: accessVars_def hbacRuleFind_def sudoRuleFind_def ruleSizeLimit_def my_hbac_def my_sudo_def put_var_def
      filter_map comp_def ruleAppliesToUser_iff memberOf_def hbacRuleFrom_def sudoRuleFrom_def Let_def)

text \<open>
  A test simulates the own access only. Whatever the form holds, FreeIPA is asked about the user of the session, with
  that user's own client, and the page shows its answer; where the host is missing or a text too long it is not asked.
\<close>

theorem access_test_own:
  assumes "TrimSpace (form c ''host'') = host" and "TrimSpace (form c ''service'') = s0"
    and "s1 = (if s0 = [] then ''sshd'' else s0)"
  shows "run_state (AccessTest E c) w =
    ((if host = [] \<or> 255 < length host \<or> 255 < length s1 then reply 400 (TC c ''access.host_required'')
      else case ip_HBACTest (ipa E) (ext w) (AsUser (lc_client c)) (lc_username c) host s1 of
             Err _ \<Rightarrow> reply 500 (TC c ''account.fatal_system_error'')
           | Ok (granted, matched, _) \<Rightarrow>
               render ''access-test-result.html''
                 [(''granted'', PBool granted), (''matched'', PStrs matched), (''host'', PStr host), (''service'', PStr s1)]), w)"
  using assms by (auto simp: AccessTest_def hbacTest_def Let_def split: sum.splits)

section \<open>Witnesses\<close>

text \<open>One enabled rule for the group \<open>ops\<close>, of which alice is an indirect member, and one that is off.\<close>

definition ops_rule :: ipa_HBACRule where
  "ops_rule = \<lparr>ih_Name = ''ops'', ih_Description = [], ih_Enabled = True, ih_UserCategory = [], ih_HostCategory = ''all'',
     ih_ServiceCategory = ''all'', ih_Users = [], ih_Groups = [''ops''], ih_Hosts = [], ih_HostGroups = [], ih_Services = []\<rparr>"

definition access_env :: "(cells, unit) env" where
  "access_env = demo_env\<lparr>ipa := demo_outside\<lparr>ip_HBACRuleFind := \<lambda>_ _ _. Ok [ops_rule, ops_rule\<lparr>ih_Enabled := False\<rparr>]\<rparr>\<rparr>"

definition access_ctx :: ctx where
  "access_ctx = demo_ctx\<lparr>lc_username := ''alice'', lc_user := empty_user\<lparr>Username := ''alice'', IndirectMemberOf := [''ops'']\<rparr>\<rparr>"

theorem access_page_exact_witness:
  "\<exists>vs'. run_state (accessVars access_env access_ctx []) demo_world = (vs', demo_world)
    \<and> map_of vs' ''hbac_rules'' = Some (PHbac [hbacRuleFrom ops_rule]) \<and> map_of vs' ''sudo_rules'' = Some (PSudo [])
    \<and> map_of vs' ''access_truncated'' \<noteq> Some (PBool True)"
  using access_page_exact [of access_env demo_world access_ctx "[ops_rule, ops_rule\<lparr>ih_Enabled := False\<rparr>]" "[]"]
  by (simp add: access_env_def demo_env_def demo_outside_def access_ctx_def ops_rule_def)

theorem access_test_own_witness:
  "run_state (AccessTest access_env access_ctx) demo_world = (reply 400 (TC access_ctx ''access.host_required''), demo_world)"
proof -
  have "TrimSpace [] = []" by (simp add: TrimSpace_def trim_left.simps)
  then show ?thesis
    using access_test_own [of access_ctx "[]" "[]" "''sshd''" access_env demo_world] by (simp add: access_ctx_def demo_ctx_def)
qed

end
