(* ===== verification/Keys.thy ===== *)
theory Keys
  imports Accounts
begin

text \<open>
  SSH keys (\<open>sshpubkey.go\<close>) and the range of subordinate ids of a user (\<open>subid.go\<close>, \<open>ipa_subid.go\<close>). Parsing a key
  and the methods that add and remove keys of an \<open>ipa.User\<close> belong to goipa.
\<close>

section \<open>SSH keys\<close>

definition SSHKeyList :: "ctx \<Rightarrow> outcome" where
  "SSHKeyList c = render ''sshkey-list.html'' [(''user'', PUser (lc_user c))]"

definition SSHKeyModal :: outcome where
  "SSHKeyModal = render ''sshkey-new.html'' []"

text \<open>Saving the changed user, telling the user by mail and showing the list; the mail is \<open>added\<close> or removed.\<close>

definition save_keys :: "('s, 'x) env \<Rightarrow> ctx \<Rightarrow> user \<Rightarrow> bool \<Rightarrow> ('s, 'x, outcome) act" where
  "save_keys E c user added =
     do {
       r \<leftarrow> on_ext (\<lambda>x. ip_UserMod (ipa E) x user);
       (case r of
          Err e \<Rightarrow> State_Monad.return (Fail e)
        | Ok user' \<Rightarrow> do {
            let c' = c\<lparr>lc_user := user'\<rparr>;
            _ \<leftarrow> SendSSHKeyUpdatedEmail E added user' c';
            State_Monad.return (SSHKeyList c')
          })
     }"

definition SSHKeyAdd :: "('s, 'x) env \<Rightarrow> ctx \<Rightarrow> ('s, 'x, outcome) act" where
  "SSHKeyAdd E c =
     (let user = lc_user c; title = form c ''title''; key = form c ''key''
      in if key = [] then State_Monad.return (reply 400 (TC c ''sshkey_new.provide_key''))
         else (case ip_NewSSHAuthorizedKey (ipa E) key of
                 Err _ \<Rightarrow> State_Monad.return (reply 400 (TC c ''sshkey_new.invalid_key''))
               | Ok authKey \<Rightarrow>
                   (let authKey' = (if title \<noteq> [] then authKey\<lparr>sk_Comment := title\<rparr> else authKey)
                    in save_keys E c (ip_AddSSHAuthorizedKey (ipa E) user authKey') True)))"

definition SSHKeyRemove :: "('s, 'x) env \<Rightarrow> ctx \<Rightarrow> ('s, 'x, outcome) act" where
  "SSHKeyRemove E c = save_keys E c (ip_RemoveSSHAuthorizedKey (ipa E) (lc_user c) (form c ''fp'')) False"

section \<open>Subordinate ids\<close>

definition subidFind :: "('s, 'x) env \<Rightarrow> string \<Rightarrow> ('s, 'x, subidRange option result) act" where
  "subidFind E username =
     reads (\<lambda>w. case ip_SubIDFind (ipa E) (ext w) username of
                  Err e \<Rightarrow> Err e
                | Ok [] \<Rightarrow> Ok None
                | Ok ((uidStart, gidStart, uidCount) # _) \<Rightarrow> Ok (Some \<lparr>SubUID = uidStart, SubGID = gidStart, Count = uidCount\<rparr>))"

definition subidGenerate :: "('s, 'x) env \<Rightarrow> string \<Rightarrow> ('s, 'x, error option) act" where
  "subidGenerate E username = on_ext (\<lambda>x. ip_SubIDGenerate (ipa E) x username)"

definition subidVars :: "('s, 'x) env \<Rightarrow> string \<Rightarrow> vars \<Rightarrow> ('s, 'x, vars) act" where
  "subidVars E username vs =
     do {
       r \<leftarrow> subidFind E username;
       State_Monad.return
         (case r of
            Err _ \<Rightarrow> vs
          | Ok sub \<Rightarrow> put_var ''subid'' (PSubid sub) (put_var ''subid_enabled'' (PBool True) vs))
     }"

definition SubidGenerate :: "('s, 'x) env \<Rightarrow> ctx \<Rightarrow> ('s, 'x, outcome) act" where
  "SubidGenerate E c =
     (let username = lc_username c
      in do {
        err \<leftarrow> subidGenerate E username;
        (case err of
           Some e \<Rightarrow>
             if (case e of EIpa n _ \<Rightarrow> n \<noteq> 4002 | _ \<Rightarrow> True)
             then State_Monad.return (reply 500 (TC c ''account.fatal_system_error''))
             else do { vs \<leftarrow> subidVars E username []; State_Monad.return (render ''subid-card.html'' vs) }
         | None \<Rightarrow> do {
             _ \<leftarrow> audit_info E ''subordinate id range generated'' [(''username'', username), (''ip'', rq_ip (req c))];
             vs \<leftarrow> subidVars E username [];
             State_Monad.return (render ''subid-card.html'' vs)
           })
      })"

section \<open>What changes\<close>

text \<open>What goipa documents of its methods: they change the list of keys.\<close>

definition keys_only :: "('s, 'x) env \<Rightarrow> bool" where
  "keys_only E \<longleftrightarrow>
     (\<forall>u k. \<exists>ks. ip_AddSSHAuthorizedKey (ipa E) u k = u\<lparr>SSHAuthKeys := ks\<rparr>)
     \<and> (\<forall>u fp. \<exists>ks. ip_RemoveSSHAuthorizedKey (ipa E) u fp = u\<lparr>SSHAuthKeys := ks\<rparr>)"

lemma other_mod_key_mail: "SendSSHKeyUpdatedEmail (other_mod E g) = SendSSHKeyUpdatedEmail E"
  by (simp add: SendSSHKeyUpdatedEmail_def event_mail_def emailLanguage_def deliver_mail_def BaseURL_def fun_eq_iff Let_def
      cong: option.case_cong if_cong)

lemma save_keys_limited:
  assumes "\<And>x. g x u = ip_UserMod (ipa E) x u"
  shows "save_keys (other_mod E g) c u added = save_keys E c u added"
  using assms by (simp add: save_keys_def other_mod_key_mail Let_def cong: sum.case_cong)

text \<open>
  Keys are changed in the own entry, and nothing else is. Every record that adding or removing a key hands to FreeIPA
  is the one of the session's user with only the keys different: with a FreeIPA that treats all other records
  differently the handlers run exactly the same.
\<close>

theorem keys_limited:
  assumes "keys_only E" and "\<And>x ks. g x ((lc_user c)\<lparr>SSHAuthKeys := ks\<rparr>) = ip_UserMod (ipa E) x ((lc_user c)\<lparr>SSHAuthKeys := ks\<rparr>)"
  shows "run_state (SSHKeyAdd (other_mod E g) c) w = run_state (SSHKeyAdd E c) w
    \<and> run_state (SSHKeyRemove (other_mod E g) c) w = run_state (SSHKeyRemove E c) w"
proof -
  have add: "save_keys (other_mod E g) c (ip_AddSSHAuthorizedKey (ipa E) (lc_user c) k) b
      = save_keys E c (ip_AddSSHAuthorizedKey (ipa E) (lc_user c) k) b" for k b
  proof (rule save_keys_limited)
    obtain ks where "ip_AddSSHAuthorizedKey (ipa E) (lc_user c) k = (lc_user c)\<lparr>SSHAuthKeys := ks\<rparr>"
      using assms(1) unfolding keys_only_def by blast
    then show "g x (ip_AddSSHAuthorizedKey (ipa E) (lc_user c) k) = ip_UserMod (ipa E) x (ip_AddSSHAuthorizedKey (ipa E) (lc_user c) k)" for x
      by (simp add: assms(2))
  qed
  have "save_keys (other_mod E g) c (ip_RemoveSSHAuthorizedKey (ipa E) (lc_user c) fp) b
      = save_keys E c (ip_RemoveSSHAuthorizedKey (ipa E) (lc_user c) fp) b" for fp b
  proof (rule save_keys_limited)
    obtain ks where "ip_RemoveSSHAuthorizedKey (ipa E) (lc_user c) fp = (lc_user c)\<lparr>SSHAuthKeys := ks\<rparr>"
      using assms(1) unfolding keys_only_def by blast
    then show "g x (ip_RemoveSSHAuthorizedKey (ipa E) (lc_user c) fp) = ip_UserMod (ipa E) x (ip_RemoveSSHAuthorizedKey (ipa E) (lc_user c) fp)" for x
      by (simp add: assms(2))
  qed
  with add show ?thesis
    by (simp add: SSHKeyAdd_def SSHKeyRemove_def Let_def cong: sum.case_cong)
qed

theorem keys_limited_witness:
  "run_state (SSHKeyAdd (other_mod demo_env (\<lambda>x u. if Username u = [] then ip_UserMod (ipa demo_env) x u else (nobody, x))) demo_ctx) demo_world
    = run_state (SSHKeyAdd demo_env demo_ctx) demo_world
  \<and> run_state (SSHKeyRemove (other_mod demo_env (\<lambda>x u. if Username u = [] then ip_UserMod (ipa demo_env) x u else (nobody, x))) demo_ctx) demo_world
    = run_state (SSHKeyRemove demo_env demo_ctx) demo_world"
  by (rule keys_limited) (auto simp: keys_only_def demo_env_def demo_outside_def demo_ctx_def empty_user_def)

text \<open>
  Asking twice for a range is harmless: when FreeIPA answers that the user has one (4002), the page shows the
  range there is and nothing changes.
\<close>

lemma SubidGenerate_twice:
  assumes "ip_SubIDGenerate (ipa E) (ext w) (lc_username c) = (Some (EIpa 4002 m), ext w)"
    and "ip_SubIDFind (ipa E) (ext w) (lc_username c) = Ok ((u, g, n) # rest)"
  shows "run_state (SubidGenerate E c) w
    = (render ''subid-card.html'' [(''subid'', PSubid (Some \<lparr>SubUID = u, SubGID = g, Count = n\<rparr>)), (''subid_enabled'', PBool True)], w)"
  using assms
  by (simp add: SubidGenerate_def subidGenerate_def subidVars_def subidFind_def put_var_def Let_def)

end
