(* ===== verification/Net.thy ===== *)
theory Net
  imports Tokens "HOL-Library.Word"
begin

text \<open>
  The parts of package net (and net/netip below it) the portal uses: parsing and printing addresses,
  networks, and splitting a host from its port. An address is its 16-byte form, one word of 128 bits; an IPv4
  address is the mapped one, as \<open>net.IP\<close> compares them.
\<close>

type_synonym ip = "128 word"

definition is4 :: "ip \<Rightarrow> bool" where
  "is4 a \<longleftrightarrow> drop_bit 32 a = 0xFFFF"

definition from4 :: "nat \<Rightarrow> ip" where
  "from4 v = 0xFFFF00000000 + of_nat v"

section \<open>Parsing\<close>

text \<open>A decimal field of an IPv4 address: no sign, no leading zero, at most 255.\<close>

definition octet :: "string \<Rightarrow> nat option" where
  "octet f =
     (if f = [] \<or> hd f = CHR ''0'' \<and> f \<noteq> ''0'' then None
      else case parse_digits 0 f of None \<Rightarrow> None | Some n \<Rightarrow> if n \<le> 255 then Some n else None)"

definition parse4 :: "string \<Rightarrow> nat option" where
  "parse4 s =
     (case map octet (Split s CHR ''.'') of
        [Some a, Some b, Some c, Some d] \<Rightarrow> Some (((a * 256 + b) * 256 + c) * 256 + d)
      | _ \<Rightarrow> None)"

definition hex_char :: "char \<Rightarrow> bool" where
  "hex_char c \<longleftrightarrow> is_digit c \<or> 97 \<le> code c \<and> code c \<le> 102 \<or> 65 \<le> code c \<and> code c \<le> 70"

definition hex_num :: "string \<Rightarrow> nat" where
  "hex_num h = foldl (\<lambda>n c. 16 * n + (if is_digit c then code c - 48 else if 97 \<le> code c then code c - 87 else code c - 55)) 0 h"

text \<open>
  The groups of an IPv6 address, read from the left; the position of \<open>::\<close> is remembered. The last two groups
  may be written as an IPv4 address.
\<close>

function parse_groups :: "nat list \<Rightarrow> nat option \<Rightarrow> string \<Rightarrow> (nat list \<times> nat option) option" where
  "parse_groups gs ell s =
     (if length gs = 8 then (if s = [] then Some (gs, ell) else None)
      else
        let h = takeWhile hex_char s; rest = dropWhile hex_char s; gs' = gs @ [hex_num h] in
        if h = [] \<or> 4 < length h then None
        else if rest \<noteq> [] \<and> hd rest = CHR ''.'' then
          (if ell = None \<and> length gs \<noteq> 6 \<or> 6 < length gs then None
           else case parse4 s of None \<Rightarrow> None | Some v \<Rightarrow> Some (gs @ [v div 65536, v mod 65536], ell))
        else
          (case rest of
             [] \<Rightarrow> Some (gs', ell)
           | c # s1 \<Rightarrow>
               if c \<noteq> CHR '':'' \<or> s1 = [] then None
               else if hd s1 = CHR '':'' then
                 (if ell \<noteq> None then None
                  else if tl s1 = [] then Some (gs', Some (length gs'))
                  else parse_groups gs' (Some (length gs')) (tl s1))
               else parse_groups gs' ell s1))"
  by pat_completeness auto
termination
proof (relation "measure (\<lambda>(gs, ell, s). length s)", goal_cases)
  case 1
  show ?case by simp
next
  case (2 gs ell s h rest gs' c s1)
  then have "dropWhile hex_char s = c # s1" by simp
  then have "Suc (length s1) \<le> length s" using length_dropWhile_le [of hex_char s] by (simp only: list.size)
  then show ?case by (simp add: less_le_trans [of _ "Suc (length s1)"])
next
  case (3 gs ell s h rest gs' c s1)
  then have "dropWhile hex_char s = c # s1" by simp
  then show ?case using length_dropWhile_le [of hex_char s] by simp
qed

declare parse_groups.simps [simp del]

definition expand_ellipsis :: "nat list \<times> nat option \<Rightarrow> nat list option" where
  "expand_ellipsis r =
     (case r of (gs, ell) \<Rightarrow>
        if length gs < 8 then
          (case ell of None \<Rightarrow> None | Some e \<Rightarrow> Some (take e gs @ replicate (8 - length gs) 0 @ drop e gs))
        else if ell \<noteq> None then None else Some gs)"

definition from_groups :: "nat list \<Rightarrow> ip" where
  "from_groups gs = foldl (\<lambda>a g. 65536 * a + of_nat g) 0 gs"

definition parse6 :: "string \<Rightarrow> ip option" where
  "parse6 s =
     map_option from_groups
       (if s = ''::'' then Some (replicate 8 0)
        else Option.bind
          (if HasPrefix s ''::'' then parse_groups [] (Some 0) (drop 2 s) else parse_groups [] None s) expand_ellipsis)"

text \<open>\<open>netip.ParseAddr\<close> without zones: whether the text is an IPv4 address, and the address.\<close>

definition ParseAddr :: "string \<Rightarrow> (bool \<times> ip) option" where
  "ParseAddr s =
     (case find (\<lambda>c. c \<in> set ''.:%'') s of
        None \<Rightarrow> None
      | Some c \<Rightarrow>
          if c = CHR ''.'' then map_option (\<lambda>v. (True, from4 v)) (parse4 s)
          else if c = CHR '':'' \<and> CHR ''%'' \<notin> set s then map_option (Pair False) (parse6 s)
          else None)"

definition ParseIP :: "string \<Rightarrow> ip option" where
  "ParseIP s = map_option snd (ParseAddr s)"

text \<open>
  \<open>net.ParseCIDR\<close> gives the address and the length of the prefix, counted on the 16-byte form, and
  \<open>Contains\<close> compares: an IPv4 network holds only IPv4 addresses and another network none.
\<close>

definition ParseCIDR :: "string \<Rightarrow> (ip \<times> nat) option" where
  "ParseCIDR s =
     (case Cut s ''/'' of (a, bits, found) \<Rightarrow>
        if \<not> found then None
        else case ParseAddr a of
               None \<Rightarrow> None
             | Some (v4, i) \<Rightarrow>
                 (case parse_nat bits of
                    None \<Rightarrow> None
                  | Some n \<Rightarrow>
                      if n \<le> (if v4 then 32 else 128) then Some (i, nat n + (if v4 then 96 else 0)) else None))"

definition net_Contains :: "ip \<times> nat \<Rightarrow> ip \<Rightarrow> bool" where
  "net_Contains nw i =
     (case nw of (a, n) \<Rightarrow>
        let masked = push_bit (128 - n) (drop_bit (128 - n) a)
        in is4 masked = is4 i \<and> drop_bit (128 - n) i = drop_bit (128 - n) a)"

section \<open>Printing\<close>

definition to_groups :: "ip \<Rightarrow> nat list" where
  "to_groups a = map (\<lambda>k. unat (take_bit 16 (drop_bit (16 * (7 - k)) a))) [0..<8]"

fun hex_of :: "nat \<Rightarrow> string" where
  "hex_of n = (if n < 16 then [hex_digit n] else hex_of (n div 16) @ [hex_digit (n mod 16)])"

declare hex_of.simps [simp del]

text \<open>The first of the longest runs of at least two zero groups; \<open>(8, 8)\<close> where there is none.\<close>

definition zero_run :: "nat list \<Rightarrow> nat \<times> nat" where
  "zero_run gs =
     fold (\<lambda>i (a, b). let j = i + length (takeWhile (\<lambda>g. g = 0) (drop i gs))
                      in if 2 \<le> j - i \<and> b - a < j - i then (i, j) else (a, b)) [0..<8] (8, 8)"

fun join_groups :: "nat list \<Rightarrow> string" where
  "join_groups [] = []"
| "join_groups [g] = hex_of g"
| "join_groups (g # gs) = hex_of g @ '':'' @ join_groups gs"

definition IP_String :: "ip \<Rightarrow> string" where
  "IP_String i =
     (if is4 i then
        (let v = unat (take_bit 32 i)
         in digits_of (v div 16777216) @ ''.'' @ digits_of (v div 65536 mod 256) @ ''.''
            @ digits_of (v div 256 mod 256) @ ''.'' @ digits_of (v mod 256))
      else
        (let gs = to_groups i in
         case zero_run gs of (a, b) \<Rightarrow>
           if a = b then join_groups gs else join_groups (take a gs) @ ''::'' @ join_groups (drop b gs)))"

section \<open>Host and port\<close>

text \<open>\<open>net.SplitHostPort\<close>; \<open>None\<close> is an error.\<close>

definition SplitHostPort :: "string \<Rightarrow> (string \<times> string) option" where
  "SplitHostPort hp =
     (case LastIndex hp CHR '':'' of
        None \<Rightarrow> None
      | Some i \<Rightarrow>
          if hd hp = CHR ''['' then
            (case Index hp '']'' of
               None \<Rightarrow> None
             | Some e \<Rightarrow>
                 if e + 1 \<noteq> i then None
                 else if CHR ''['' \<in> set (drop 1 hp) \<or> CHR '']'' \<in> set (drop (e + 1) hp) then None
                 else Some (take (e - 1) (drop 1 hp), drop (i + 1) hp))
          else if CHR '':'' \<in> set (take i hp) then None
          else if CHR ''['' \<in> set hp \<or> CHR '']'' \<in> set hp then None
          else Some (take i hp, drop (i + 1) hp))"

section \<open>IPv4 addresses read back\<close>

lemma unat_from4: "v < 2 ^ 32 \<Longrightarrow> unat (from4 v) = 0xFFFF00000000 + v"
  by (simp add: from4_def unat_word_ariths unat_of_nat take_bit_eq_mod)

lemma is4_from4: "v < 2 ^ 32 \<Longrightarrow> is4 (from4 v)"
  by (simp add: is4_def word_unat_eq_iff drop_bit_eq_div unat_div unat_from4)

lemma low_from4: "v < 2 ^ 32 \<Longrightarrow> unat (take_bit 32 (from4 v)) = v"
  by (simp add: take_bit_eq_mod unat_mod unat_from4 mod_add_left_eq [symmetric])

lemma is4_cases:
  assumes "is4 i"
  obtains v where "v < 2 ^ 32" "i = from4 v"
proof -
  have "unat i div 2 ^ 32 = 0xFFFF"
    using assms by (simp add: is4_def word_unat_eq_iff drop_bit_eq_div unat_div)
  then have "unat i = 0xFFFF00000000 + unat i mod 2 ^ 32"
    using div_mult_mod_eq [of "unat i" "2 ^ 32"] by simp
  then have "i = from4 (unat i mod 2 ^ 32)"
    by (simp add: word_unat_eq_iff unat_from4)
  then show thesis by (intro that [of "unat i mod 2 ^ 32"]) simp_all
qed

lemma digits_of_head: "n \<noteq> 0 \<Longrightarrow> hd (digits_of n) \<noteq> CHR ''0''"
proof (induction n rule: digits_of.induct)
  case (1 n)
  show ?case
  proof (cases "n < 10")
    case True
    then show ?thesis using 1 by (simp add: digits_of.simps [of n] char_of_eq_iff take_bit_eq_mod)
  next
    case False
    then show ?thesis using 1 by (simp add: digits_of.simps [of n])
  qed
qed

lemma octet_digits: "n \<le> 255 \<Longrightarrow> octet (digits_of n) = Some n"
proof (cases "n = 0")
  case True
  have "digits_of 0 = ''0''" by (simp add: digits_of.simps [of 0] char_of_eq_iff)
  with True parse_digits_of [of 0] show ?thesis by (simp add: octet_def)
qed (simp add: octet_def parse_digits_of digits_of_head)

lemma find_first: "\<forall>y\<in>set xs. \<not> p y \<Longrightarrow> p x \<Longrightarrow> find p (xs @ x # ys) = Some x"
  by (induction xs) auto

lemma digits_plain: "d \<in> set (digits_of n) \<Longrightarrow> d \<noteq> CHR ''.'' \<and> d \<noteq> CHR '':'' \<and> d \<noteq> CHR ''%''"
  using digits_of_digits [of n] by (auto simp: is_digit_def list_all_iff)

text \<open>
  Printed IPv4 addresses read back as the address: the address a log line or the rate limit names is the one of the
  client.
\<close>

theorem ip4_round_trip:
  assumes "is4 i"
  shows "ParseIP (IP_String i) = Some i"
proof -
  obtain v where v: "v < 2 ^ 32" "i = from4 v" using assms by (rule is4_cases)
  let ?a = "v div 16777216" and ?b = "v div 65536 mod 256" and ?c = "v div 256 mod 256" and ?d = "v mod 256"
  let ?s = "digits_of ?a @ CHR ''.'' # digits_of ?b @ CHR ''.'' # digits_of ?c @ CHR ''.'' # digits_of ?d"
  have s: "IP_String i = ?s"
    using v by (simp add: IP_String_def is4_from4 low_from4)
  have small: "?a \<le> 255" "?b \<le> 255" "?c \<le> 255" "?d \<le> 255"
    using v(1) less_mult_imp_div_less [of v 256 16777216] by (auto simp: less_Suc_eq_le [symmetric])
  have "CHR ''.'' \<notin> set (digits_of n)" for n using digits_plain by blast
  then have split: "Split ?s CHR ''.'' = [digits_of ?a, digits_of ?b, digits_of ?c, digits_of ?d]"
    by (simp add: Split_once Split_plain)
  have "?a = v div 256 div 256 div 256" "?b = v div 256 div 256 mod 256"
    using div_mult2_eq [of v 256 256] div_mult2_eq [of v 65536 256] by simp_all
  then have "((?a * 256 + ?b) * 256 + ?c) * 256 + ?d = v"
    using div_mult_mod_eq [of v 256] div_mult_mod_eq [of "v div 256" 256] div_mult_mod_eq [of "v div 256 div 256" 256] by simp
  then have "parse4 ?s = Some v"
    unfolding parse4_def split using small by (simp add: octet_digits)
  moreover have "find (\<lambda>c. c \<in> set ''.:%'') ?s = Some CHR ''.''"
    by (rule find_first) (auto dest: digits_plain)
  ultimately show ?thesis
    unfolding s by (simp add: ParseIP_def ParseAddr_def v(2))
qed

theorem ip4_round_trip_witness: "ParseIP (IP_String (from4 0x0A000001)) = Some (from4 0x0A000001)"
  by (rule ip4_round_trip) (simp add: is4_from4)

lemma print_ip4: "v < 2 ^ 32 \<Longrightarrow> IP_String (from4 v) =
    digits_of (v div 16777216) @ ''.'' @ digits_of (v div 65536 mod 256) @ ''.'' @ digits_of (v div 256 mod 256) @ ''.'' @ digits_of (v mod 256)"
  by (simp add: IP_String_def is4_from4 low_from4)

end
