(* ===== verification/Passkeys.thy ===== *)
theory Passkeys
  imports Session_Store Security Net
begin

text \<open>
  Passkeys (\<open>passkey.go\<close>, \<open>ipa_passkey.go\<close>): registering a WebAuthn credential in two requests, with the challenge
  kept in the session between them, and the list of the mappings FreeIPA holds. The WebAuthn library and the
  encoding of public keys are arguments.
\<close>

section \<open>Mappings\<close>

definition b64_char :: "nat \<Rightarrow> char" where
  "b64_char n = ''ABCDEFGHIJKLMNOPQRSTUVWXYZabcdefghijklmnopqrstuvwxyz0123456789+/'' ! n"

text \<open>\<open>base64.StdEncoding.EncodeToString\<close>.\<close>

fun base64 :: "string \<Rightarrow> string" where
  "base64 [] = []"
| "base64 [a] = [b64_char (code a div 4), b64_char (code a mod 4 * 16), CHR ''='', CHR ''='']"
| "base64 [a, b] = [b64_char (code a div 4), b64_char (code a mod 4 * 16 + code b div 16), b64_char (code b mod 16 * 4), CHR ''='']"
| "base64 (a # b # c # s) =
     b64_char (code a div 4) # b64_char (code a mod 4 * 16 + code b div 16) # b64_char (code b mod 16 * 4 + code c div 64)
     # b64_char (code c mod 64) # base64 s"

text \<open>The COSE numbers of the curves P-256, P-384 and P-521 are 1, 2 and 3; \<open>char_of 4\<close> starts an uncompressed point.\<close>

definition spki :: "('s, 'x) env \<Rightarrow> string \<Rightarrow> string result" where
  "spki E cosePublicKey =
     (case wa_ParsePublicKey (wan E) cosePublicKey of
        Err e \<Rightarrow> Err e
      | Ok (EC2Key curve x y) \<Rightarrow>
          if curve \<in> {1, 2, 3} then wa_spki_ec (wan E) curve (char_of (4 :: nat) # x @ y)
          else Err (EText (''unsupported elliptic curve: '' @ FormatInt curve))
      | Ok (RSAKey n e) \<Rightarrow> wa_spki_rsa (wan E) n e
      | Ok (OKPKey x) \<Rightarrow> wa_spki_okp (wan E) x
      | Ok (OtherKey t) \<Rightarrow> Err (EText (''unsupported public key type '' @ t)))"

definition passkeyMapping :: "('s, 'x) env \<Rightarrow> string \<Rightarrow> string \<Rightarrow> string result" where
  "passkeyMapping E credentialID cosePublicKey =
     (case spki E cosePublicKey of
        Err e \<Rightarrow> Err e
      | Ok k \<Rightarrow> Ok (''passkey:'' @ base64 credentialID @ '','' @ base64 k))"

definition userAddPasskey :: "('s, 'x) env \<Rightarrow> client \<Rightarrow> string \<Rightarrow> string \<Rightarrow> ('s, 'x, error option) act" where
  "userAddPasskey E cl uid mapping = on_ext (\<lambda>x. ip_UserAddPasskey (ipa E) x cl uid mapping)"

definition userRemovePasskey :: "('s, 'x) env \<Rightarrow> client \<Rightarrow> string \<Rightarrow> string \<Rightarrow> ('s, 'x, error option) act" where
  "userRemovePasskey E cl uid mapping = on_ext (\<lambda>x. ip_UserRemovePasskey (ipa E) x cl uid mapping)"

definition addPasskey :: "('s, 'x) env \<Rightarrow> client \<Rightarrow> string \<Rightarrow> string \<Rightarrow> ('s, 'x, error option) act" where
  "addPasskey E user uid mapping =
     do {
       err \<leftarrow> userAddPasskey E user uid mapping;
       (if (case err of None \<Rightarrow> True | Some e \<Rightarrow> \<not> ip_ErrACI (ipa E) e) then State_Monad.return err
        else do {
          err2 \<leftarrow> on_ext (\<lambda>x. ip_AddPasskeyClass (ipa E) x uid);
          (if (case err2 of None \<Rightarrow> True | Some e \<Rightarrow> ip_ErrEmptyModlist (ipa E) e) then userAddPasskey E user uid mapping
           else State_Monad.return err2)
        })
     }"

section \<open>The list\<close>

text \<open>The ellipsis is the three bytes of its UTF-8 encoding.\<close>

definition shortid :: "string \<Rightarrow> string" where
  "shortid m =
     (let id0 = TrimPrefix m ''passkey:'';
          id1 = (case Index id0 '','' of None \<Rightarrow> id0 | Some i \<Rightarrow> if 0 < i then take i id0 else id0)
      in if 16 < length id1 then take 16 id1 @ map char_of [226, 128, 166 :: nat] else id1)"

definition passkeyList :: "('s, 'x) env \<Rightarrow> ctx \<Rightarrow> ('s, 'x, (string \<times> string) list result) act" where
  "passkeyList E c =
     do {
       r \<leftarrow> userPasskeys E (AsUser (lc_client c)) (lc_username c);
       State_Monad.return (case r of Err e \<Rightarrow> Err e | Ok ms \<Rightarrow> Ok (map (\<lambda>m. (m, shortid m)) ms))
     }"

section \<open>Registration\<close>

definition SessionKeyWebAuthn :: string where "SessionKeyWebAuthn = ''webauthn_registration''"

definition sess_delete :: "string \<Rightarrow> sess \<Rightarrow> sess" where
  "sess_delete k s = s\<lparr>ss_data := filter (\<lambda>(k', _). k' \<noteq> k) (ss_data s)\<rparr>"

text \<open>Why there is no relying party: \<open>errPasskeyHost\<close>, \<open>errPasskeyDomain\<close> or an error of the library.\<close>

datatype passkey_error = errPasskeyHost | errPasskeyDomain | init_error error

definition webAuthn :: "('s, 'x) env \<Rightarrow> ctx \<Rightarrow> ('s, 'x, passkey_error + (string \<times> string)) act" where
  "webAuthn E c =
     do {
       domain \<leftarrow> reads (\<lambda>w. ipaDomain (uni E) (ip_Realm (ipa E) (ext w)));
       let host0 = (case SplitHostPort (rq_host (req c)) of Some (h, _) \<Rightarrow> h | None \<Rightarrow> rq_host (req c));
       let host = ToLower (uni E) host0;
       let rp = (\<lambda>rpID. case wa_New (wan E) rpID (rq_base (req c)) of
                           Some e \<Rightarrow> Inl (init_error e) | None \<Rightarrow> Inr (rpID, rq_base (req c)));
       State_Monad.return
         (if host0 \<noteq> ''localhost'' \<and> (ParseIP host0 \<noteq> None \<or> \<not> Contains host0 ''.'') then Inl errPasskeyHost
          else if host = domain \<or> HasSuffix host (''.'' @ domain) then rp domain
          else if host \<noteq> ''localhost'' then Inl errPasskeyDomain
          else rp host)
     }"

text \<open>The text of \<open>passkey.outside_domain\<close> has the domain in two places.\<close>

definition webauthn_refused :: "('s, 'x) env \<Rightarrow> ctx \<Rightarrow> passkey_error \<Rightarrow> ('s, 'x, outcome) act" where
  "webauthn_refused E c err =
     do {
       domain \<leftarrow> reads (\<lambda>w. ipaDomain (uni E) (ip_Realm (ipa E) (ext w)));
       State_Monad.return
         (case err of
            errPasskeyHost \<Rightarrow> reply 400 (TC c ''passkey.bad_hostname'')
          | errPasskeyDomain \<Rightarrow> reply 400 (Cat (TC c ''passkey.outside_domain'') (Cat (Tx domain) (Tx domain)))
          | init_error e \<Rightarrow> reply 500 (TC c ''account.fatal_system_error''))
     }"

definition PasskeyBegin :: "('s, 'x) env \<Rightarrow> ctx \<Rightarrow> ('s, 'x, outcome) act" where
  "PasskeyBegin E c =
     (let broken = reply 500 (TC c ''account.fatal_system_error'')
      in do {
        w \<leftarrow> webAuthn E c;
        (case w of
           Inl err \<Rightarrow> webauthn_refused E c err
         | Inr rp \<Rightarrow> do {
             b \<leftarrow> on_ext (\<lambda>x. wa_begin (wan E) x rp (lc_username c) (DisplayName (lc_user c)));
             (case b of
                Err _ \<Rightarrow> State_Monad.return broken
              | Ok (options, sd) \<Rightarrow> do {
                  s \<leftarrow> session E c;
                  (case s of
                     Err _ \<Rightarrow> State_Monad.return broken
                   | Ok sess \<Rightarrow> do {
                       err \<leftarrow> sessionSave E (sess_set SessionKeyWebAuthn (SStr sd) sess);
                       State_Monad.return
                         (if err \<noteq> None then broken
                          else Reply \<lparr>rs_status = 200, rs_headers = [], rs_body = JsonBody options\<rparr>)
                     })
                })
           })
      })"

definition passkey_store :: "('s, 'x) env \<Rightarrow> ctx \<Rightarrow> string \<Rightarrow> ('s, 'x, outcome) act" where
  "passkey_store E c mapping =
     do {
       err \<leftarrow> addPasskey E (AsUser (lc_client c)) (lc_username c) mapping;
       (if err \<noteq> None then State_Monad.return (reply 500 (TC c ''passkey.freeipa_add_failed''))
        else do {
          _ \<leftarrow> audit_info E ''passkey added successfully'' [(''username'', lc_username c), (''ip'', rq_ip (req c))];
          _ \<leftarrow> SendPasskeyUpdatedEmail E True (lc_user c) c;
          State_Monad.return (status_only 200)
        })
     }"

text \<open>The part of \<open>PasskeyFinish\<close> after the challenge was taken out of the session.\<close>

definition passkey_create :: "('s, 'x) env \<Rightarrow> ctx \<Rightarrow> string \<Rightarrow> ('s, 'x, outcome) act" where
  "passkey_create E c sd =
     (let username = lc_username c; refused = reply 400 (TC c ''passkey.registration_failed'');
          broken = reply 500 (TC c ''account.fatal_system_error'')
      in if \<not> wa_session (wan E) sd \<or> \<not> wa_response (wan E) (rq_body (req c)) then State_Monad.return refused
         else do {
           w \<leftarrow> webAuthn E c;
           (case w of
              Inl err \<Rightarrow> webauthn_refused E c err
            | Inr rp \<Rightarrow>
                (case wa_create (wan E) rp username (DisplayName (lc_user c)) sd (rq_body (req c)) of
                   Err _ \<Rightarrow> State_Monad.return refused
                 | Ok (credID, key) \<Rightarrow>
                     (case passkeyMapping E credID key of
                        Err _ \<Rightarrow> State_Monad.return broken
                      | Ok mapping \<Rightarrow> passkey_store E c mapping)))
         })"

definition PasskeyFinish :: "('s, 'x) env \<Rightarrow> ctx \<Rightarrow> ('s, 'x, outcome) act" where
  "PasskeyFinish E c =
     do {
       s \<leftarrow> session E c;
       (case s of
          Err _ \<Rightarrow> State_Monad.return (reply 500 (TC c ''account.fatal_system_error''))
        | Ok sess \<Rightarrow>
            (let sd = (case sess_get sess SessionKeyWebAuthn of Some (SStr s) \<Rightarrow> s | _ \<Rightarrow> [])
             in if sd = [] then State_Monad.return (reply 400 (TC c ''passkey.registration_failed''))
                else do {
                  err \<leftarrow> sessionSave E (sess_delete SessionKeyWebAuthn sess);
                  (if err \<noteq> None then State_Monad.return (reply 500 (TC c ''account.fatal_system_error''))
                   else passkey_create E c sd)
                }))
     }"

definition PasskeyRemove :: "('s, 'x) env \<Rightarrow> ctx \<Rightarrow> ('s, 'x, outcome) act" where
  "PasskeyRemove E c =
     (let username = lc_username c; mapping = form c ''mapping''
      in if \<not> HasPrefix mapping ''passkey:'' then State_Monad.return (status_only 400)
         else do {
           err \<leftarrow> userRemovePasskey E (AsUser (lc_client c)) username mapping;
           (if err \<noteq> None then State_Monad.return (reply 500 (TC c ''passkey.freeipa_remove_failed''))
            else do {
              _ \<leftarrow> audit_info E ''passkey removed successfully'' [(''username'', username), (''ip'', rq_ip (req c))];
              _ \<leftarrow> SendPasskeyUpdatedEmail E False (lc_user c) c;
              State_Monad.return (with_header ''HX-Refresh'' ''true'' (status_only 200))
            })
         })"

section \<open>A challenge serves once\<close>

lemma sess_delete_simps [simp]:
  "ss_id (sess_delete k x) = ss_id x" "sess_get (sess_delete k x) k = None"
  by (auto simp: sess_delete_def sess_get_def map_of_eq_None_iff)

lemma key_mail_wp: "(\<And>r x. Q r (w\<lparr>ext := x\<rparr>)) \<Longrightarrow> wp (SendPasskeyUpdatedEmail E b u c) Q w"
  by (simp add: SendPasskeyUpdatedEmail_def event_mail_def deliver_mail_wp Let_def)

lemma webAuthn_wp: "(\<And>r. Q r w) \<Longrightarrow> wp (webAuthn E c) Q w"
  by (simp add: webAuthn_def Let_def)

lemma webauthn_refused_wp: "(\<And>r. Q r w) \<Longrightarrow> wp (webauthn_refused E c e) Q w"
  by (simp add: webauthn_refused_def)

context portal_store
begin

lemma audit_keeps:
  assumes "\<not> audit_key k" and "\<And>w'. \<forall>t. view (sto w') t k = view (sto w) t k \<Longrightarrow> Q () w'"
  shows "wp (audit E l m as) Q w"
  by (rule wp_mono [OF audit_frame]) (use assms in auto)

lemma addPasskey_keeps: "wp (addPasskey E cl uid m) (\<lambda>_ w'. sto w' = sto w) w"
  by (auto simp: addPasskey_def userAddPasskey_def)

lemma passkey_store_keeps:
  assumes "\<not> audit_key k"
  shows "wp (passkey_store E c m) (\<lambda>_ w'. \<forall>t. view (sto w') t k = view (sto w) t k) w"
  unfolding passkey_store_def wp_bind
  by (rule wp_mono [OF addPasskey_keeps], simp only: wp_if wp_bind wp_return)
    (auto intro!: audit_keeps [OF assms] key_mail_wp)

lemma passkey_create_keeps:
  assumes "\<not> audit_key k"
  shows "wp (passkey_create E c sd) (\<lambda>_ w'. \<forall>t. view (sto w') t k = view (sto w) t k) w"
  unfolding passkey_create_def Let_def wp_if wp_bind wp_return
  by (rule if_split [THEN iffD2], rule conjI, simp, rule impI, rule webAuthn_wp)
    (auto intro!: passkey_store_keeps [OF assms] webauthn_refused_wp split: sum.split)

end

context session_middleware
begin

lemma session_not_portal:
  assumes "run_state (session E c) w = (Ok x, w')"
  shows "\<not> portal_key (ss_id x)"
  using assms
  by (auto simp: session_def split: sum.splits prod.splits if_splits dest: get_id)

lemma challenge_gone:
  assumes "run_state (session E c) w = (Ok x, w1)" and "sess_get x SessionKeyWebAuthn = Some (SStr sd)" and "sd \<noteq> []"
    and "run_state (PasskeyFinish E c) w = (r, w')" and "r \<noteq> reply 500 (TC c ''account.fatal_system_error'')"
    and "rq_cookie (req c2) = ss_id x" and "\<And>t. view (sto w2) t (ss_id x) = view (sto w') t (ss_id x)"
    and "clk E (tick w1) \<le> clk E (tick w2)" and "clk E (tick w2) < clk E (tick w1) + idle_time E"
  shows "run_state (PasskeyFinish E c2) w2 = (reply 400 (TC c2 ''passkey.registration_failed''), w2\<lparr>tick := Suc (tick w2)\<rparr>)"
proof -
  have key: "\<not> portal_key (ss_id x)" by (rule session_not_portal [OF assms(1)])
  then have "\<not> audit_key (ss_id x)" using audit_portal by blast
  obtain e s2 where save: "fs_save (fib E) (sto w1) (clk E (tick w1)) (sess_delete SessionKeyWebAuthn x) = (e, s2)" by force
  have none: "e = None" and create: "run_state (passkey_create E c sd) (w1\<lparr>tick := Suc (tick w1), sto := s2\<rparr>) = (r, w')"
    using assms(4,5) by (auto simp: PasskeyFinish_def assms(1-3) sessionSave_def save split: if_splits)
  have "view (sto w') t (ss_id x) = view s2 t (ss_id x)" for t
    using wp_run [OF passkey_create_keeps create, of "ss_id x"] \<open>\<not> audit_key (ss_id x)\<close> by simp
  then have "fs_get (fib E) (sto w2) (clk E (tick w2)) (ss_id x) = fs_get (fib E) s2 (clk E (tick w2)) (ss_id x)"
    by (intro get_cong) (simp add: assms(7))
  also have "\<dots> = Ok (sess_delete SessionKeyWebAuthn x)"
    using save_get [OF save [unfolded none], of "clk E (tick w2)"] key assms(8,9) by simp
  finally show ?thesis by (simp add: PasskeyFinish_def session_def assms(6))
qed

end

text \<open>
  C31. A registration challenge serves once. After a request to finish a registration found a challenge in its session
  and did not end with a server error, a second one with the same session is refused with 400 before FreeIPA or the
  WebAuthn library is asked, as long as the session is not written again.
\<close>

theorem passkey_challenge_once:
  assumes "session_middleware E view" and "run_state (session E c) w = (Ok x, w1)"
    and "sess_get x SessionKeyWebAuthn = Some (SStr sd)" and "sd \<noteq> []"
    and "run_state (PasskeyFinish E c) w = (r, w')" and "r \<noteq> reply 500 (TC c ''account.fatal_system_error'')"
    and "rq_cookie (req c2) = ss_id x" and "\<And>t. view (sto w2) t (ss_id x) = view (sto w') t (ss_id x)"
    and "clk E (tick w1) \<le> clk E (tick w2)" and "clk E (tick w2) < clk E (tick w1) + idle_time E"
  shows "run_state (PasskeyFinish E c2) w2 = (reply 400 (TC c2 ''passkey.registration_failed''), w2\<lparr>tick := Suc (tick w2)\<rparr>)"
  using session_middleware.challenge_gone [OF assms] .

section \<open>A mapping names one credential\<close>

lemma b64_inj: "n < 64 \<Longrightarrow> m < 64 \<Longrightarrow> b64_char n = b64_char m \<longleftrightarrow> n = m"
proof -
  have "distinct ''ABCDEFGHIJKLMNOPQRSTUVWXYZabcdefghijklmnopqrstuvwxyz0123456789+/''" by code_simp
  then show "n < 64 \<Longrightarrow> m < 64 \<Longrightarrow> b64_char n = b64_char m \<longleftrightarrow> n = m"
    unfolding b64_char_def by (subst nth_eq_iff_index_eq) simp_all
qed

lemma b64_plain: "n < 64 \<Longrightarrow> b64_char n \<noteq> CHR ''='' \<and> b64_char n \<noteq> CHR '',''"
proof -
  have "list_all (\<lambda>c. c \<noteq> CHR ''='' \<and> c \<noteq> CHR '','') ''ABCDEFGHIJKLMNOPQRSTUVWXYZabcdefghijklmnopqrstuvwxyz0123456789+/''"
    by code_simp
  then show "n < 64 \<Longrightarrow> b64_char n \<noteq> CHR ''='' \<and> b64_char n \<noteq> CHR '',''"
    unfolding b64_char_def by (simp only: list_all_length) simp
qed

lemmas b64_plain' = b64_plain [THEN conjunct1] b64_plain [THEN conjunct2]
lemmas b64_simps = b64_inj b64_plain' b64_plain' [symmetric]

lemma code_div: "code a div 4 < 64" "code a div 16 < 16" "code a div 64 < 4"
  using less_mult_imp_div_less [of "code a" 64 4] less_mult_imp_div_less [of "code a" 16 16]
    less_mult_imp_div_less [of "code a" 4 64] by simp_all

lemma sextets [simp]:
  "code a div 4 < 64" "code a mod 4 * 16 < 64" "code a mod 4 * 16 + code b div 16 < 64" "code b mod 16 * 4 < 64"
  "code b mod 16 * 4 + code c div 64 < 64" "code c mod 64 < 64"
proof -
  have "code a mod 4 < 4" "code b mod 16 < 16" by simp_all
  then show "code a div 4 < 64" "code a mod 4 * 16 < 64" "code a mod 4 * 16 + code b div 16 < 64" "code b mod 16 * 4 < 64"
    "code b mod 16 * 4 + code c div 64 < 64" "code c mod 64 < 64"
    using code_div(1) [of a] code_div(2) [of b] code_div(3) [of c] by linarith+
qed

lemma join_split:
  fixes q r q' r' m :: nat
  assumes "q * m + r = q' * m + r'" "r < m" "r' < m"
  shows "q = q' \<and> r = r'"
proof -
  have "(q * m + r) div m = q" "(q * m + r) mod m = r" "(q' * m + r') div m = q'" "(q' * m + r') mod m = r'"
    using assms(2,3) by simp_all
  with assms(1) show ?thesis by metis
qed

lemma code_eqI: "code a div m = code a' div m \<Longrightarrow> code a mod m = code a' mod m \<Longrightarrow> a = a'"
  by (metis div_mult_mod_eq of_char_eq_iff)

lemma first_sextets:
  assumes "code a div 4 = code a' div 4" "code a mod 4 * 16 + code b div 16 = code a' mod 4 * 16 + code b' div 16"
  shows "a = a' \<and> code b div 16 = code b' div 16"
  using join_split [OF assms(2) code_div(2) code_div(2)] code_eqI [OF assms(1)] by blast

lemma second_sextets:
  assumes "code b div 16 = code b' div 16" "code b mod 16 * 4 + code c div 64 = code b' mod 16 * 4 + code c' div 64"
  shows "b = b' \<and> code c div 64 = code c' div 64"
  using join_split [OF assms(2) code_div(3) code_div(3)] code_eqI [OF assms(1)] by blast

lemma base64_plain: "CHR '','' \<notin> set (base64 s)"
  by (induction s rule: base64.induct) (auto simp: b64_simps)

lemma base64_inj: "base64 s = base64 t \<Longrightarrow> s = t"
proof (induction s arbitrary: t rule: base64.induct)
  case 1
  then show ?case by (cases t rule: base64.cases) auto
next
  case (2 a)
  then show ?case by (cases t rule: base64.cases) (auto simp: b64_simps intro: code_eqI [of _ 4])
next
  case (3 a b)
  then show ?case
  proof (cases t rule: base64.cases)
    case (3 a' b')
    with \<open>base64 [a, b] = base64 t\<close> have eqs: "code a div 4 = code a' div 4"
      "code a mod 4 * 16 + code b div 16 = code a' mod 4 * 16 + code b' div 16" "code b mod 16 = code b' mod 16"
      by (auto simp: b64_simps)
    with 3 first_sextets [OF eqs(1,2)] show ?thesis by (auto intro: code_eqI [of _ 16])
  qed (auto simp: b64_simps)
next
  case (4 a b c s)
  then show ?case
  proof (cases t rule: base64.cases)
    case (4 a' b' c' s')
    with \<open>base64 (a # b # c # s) = base64 t\<close> have eqs: "code a div 4 = code a' div 4"
      "code a mod 4 * 16 + code b div 16 = code a' mod 4 * 16 + code b' div 16"
      "code b mod 16 * 4 + code c div 64 = code b' mod 16 * 4 + code c' div 64" "code c mod 64 = code c' mod 64"
      "base64 s = base64 s'"
      by (auto simp: b64_simps)
    then have "a = a'" "b = b'" "code c div 64 = code c' div 64"
      using first_sextets [OF eqs(1,2)] second_sextets [OF _ eqs(3)] by blast+
    with 4 eqs \<open>\<And>t. base64 s = base64 t \<Longrightarrow> s = t\<close> show ?thesis by (auto intro: code_eqI [of _ 64])
  qed (auto simp: b64_simps)
qed

lemma append_sep_eq:
  "x @ c # y = x' @ c # y' \<Longrightarrow> c \<notin> set x \<Longrightarrow> c \<notin> set x' \<Longrightarrow> x = x' \<and> y = y'"
proof (induction x arbitrary: x')
  case Nil
  then show ?case by (cases x') auto
next
  case (Cons d x)
  then show ?case by (cases x') auto
qed

text \<open>
  A mapping names one credential. Two credentials get the same FreeIPA mapping only when their ids are the same
  and their keys have the same PKIX encoding.
\<close>

theorem passkey_mapping_unique:
  assumes "passkeyMapping E cid k = Ok m" and "passkeyMapping E cid' k' = Ok m"
  shows "cid = cid' \<and> spki E k = spki E k'"
proof -
  obtain p p' where p: "spki E k = Ok p" "spki E k' = Ok p'"
    and "base64 cid @ CHR '','' # base64 p = base64 cid' @ CHR '','' # base64 p'"
    using assms by (auto simp: passkeyMapping_def split: sum.splits)
  then have "base64 cid = base64 cid'" "base64 p = base64 p'"
    using append_sep_eq [of "base64 cid" "CHR '',''"] base64_plain by blast+
  with p show ?thesis by (auto dest: base64_inj)
qed

section \<open>The relying party\<close>

text \<open>
  Passkeys work on the hosts of the realm. A registration is started or finished only for the relying party that is the
  IPA domain, with the portal at that name or below it, or for the portal on localhost; never for an address.
\<close>

theorem passkey_relying_party:
  assumes "run_state (webAuthn E c) w = (Inr (rp, origin), w')"
    and "host = (case SplitHostPort (rq_host (req c)) of Some (h, _) \<Rightarrow> h | None \<Rightarrow> rq_host (req c))"
    and "domain = ToLower (uni E) (ip_Realm (ipa E) (ext w))"
  shows "w' = w \<and> origin = rq_base (req c) \<and> (host = ''localhost'' \<or> ParseIP host = None \<and> Contains host ''.'')
    \<and> (rp = domain \<and> (ToLower (uni E) host = domain \<or> HasSuffix (ToLower (uni E) host) (''.'' @ domain))
       \<or> rp = ''localhost'' \<and> ToLower (uni E) host = ''localhost'')"
  using assms by (auto simp: webAuthn_def ipaDomain_def Let_def split: if_splits option.splits prod.splits)

section \<open>Witnesses\<close>

definition key_sess :: sess where
  "key_sess = \<lparr>ss_id = ''sid-1'', ss_data = [(SessionKeyWebAuthn, SStr ''challenge'')], ss_idle = 0\<rparr>"

definition key_ctx :: ctx where
  "key_ctx = demo_ctx\<lparr>req := (req demo_ctx)\<lparr>rq_cookie := ''sid-1''\<rparr>\<rparr>"

definition key_world :: "(cells, unit) world" where
  "key_world = demo_world\<lparr>sto := [''sid-1'' \<mapsto> (sess_blob key_sess, None)]\<rparr>"

lemma key_session: "run_state (session mem_env key_ctx) key_world = (Ok key_sess, key_world\<lparr>tick := 1\<rparr>)"
proof -
  have "sound_view (sto key_world) t ''sid-1'' = Some (sess_blob key_sess)" for t
    by (simp add: key_world_def sound_defs)
  moreover have "blob_sess ''sid-1'' (sess_blob key_sess) = Ok key_sess"
    using blob_sess_inverse [of key_sess] by (simp add: key_sess_def)
  ultimately have "fs_get mem_sessions (sto key_world) t7 ''sid-1'' = Ok key_sess"
    by (simp add: mem_sessions_def sid_key_def)
  then show ?thesis by (simp add: session_def key_ctx_def) (simp add: key_world_def demo_world_def)
qed

lemma key_host: "run_state (webAuthn mem_env key_ctx) w = (Inr (''example.com'', ''https://portal''), w)"
proof -
  have "SplitHostPort ''portal.example.com'' = None" by code_simp
  moreover have "ParseIP ''portal.example.com'' = None" by code_simp
  moreover have "Contains ''portal.example.com'' ''.''" by code_simp
  moreover have "ToLower plain_unicode ''portal.example.com'' = ''portal.example.com''" by code_simp
  moreover have "ToLower plain_unicode ''EXAMPLE.COM'' = ''example.com''" by code_simp
  moreover have "HasSuffix ''portal.example.com'' ''.example.com''" by code_simp
  ultimately show ?thesis
    by (simp add: webAuthn_def key_ctx_def demo_ctx_def ipaDomain_def demo_outside_def mem_env_def demo_env_def
        demo_webauthn_def Let_def)
qed

lemma key_finish: "\<exists>w'. run_state (PasskeyFinish mem_env key_ctx) key_world = (status_only 200, w')"
proof -
  have challenge: "sess_get key_sess SessionKeyWebAuthn = Some (SStr ''challenge'')" by (simp add: key_sess_def sess_get_def)
  have saved: "fst (fs_save mem_sessions s t7 (sess_delete k key_sess)) = None" for s k
    using sound.set_ok by (simp add: mem_sessions_def sid_key_def key_sess_def)
  have wan: "wan mem_env = demo_webauthn" by (simp add: mem_env_def demo_env_def)
  have "\<exists>w'. run_state (passkey_create mem_env key_ctx sd) w = (status_only 200, w')" for sd w
    by (simp add: passkey_create_def wan demo_webauthn_def key_host passkeyMapping_def spki_def passkey_store_def
        addPasskey_def userAddPasskey_def demo_outside_def audit_def Let_def case_prod_unfold)
  then show ?thesis
    by (simp add: PasskeyFinish_def key_session challenge sessionSave_def saved case_prod_unfold)
qed

theorem passkey_challenge_once_witness:
  "\<exists>w'. run_state (PasskeyFinish mem_env key_ctx) key_world = (status_only 200, w')
    \<and> run_state (PasskeyFinish mem_env key_ctx) w'
      = (reply 400 (TC key_ctx ''passkey.registration_failed''), w'\<lparr>tick := Suc (tick w')\<rparr>)"
proof -
  obtain w' where run: "run_state (PasskeyFinish mem_env key_ctx) key_world = (status_only 200, w')" using key_finish by blast
  have "run_state (PasskeyFinish mem_env key_ctx) w'
      = (reply 400 (TC key_ctx ''passkey.registration_failed''), w'\<lparr>tick := Suc (tick w')\<rparr>)"
    by (rule passkey_challenge_once [where sd = "''challenge''", OF mem_portal.session_middleware_axioms key_session _ _ run])
      (simp_all add: key_sess_def sess_get_def key_ctx_def default_config_def time_units)
  with run show ?thesis by blast
qed

theorem passkey_mapping_unique_witness: "(''id'' :: string) = ''id'' \<and> spki mem_env ''key'' = spki mem_env ''key''"
  by (rule passkey_mapping_unique [of _ _ _ "''passkey:aWQ=,a2V5''"])
    (simp_all add: passkeyMapping_def spki_def mem_env_def demo_env_def demo_webauthn_def b64_char_def)

theorem passkey_relying_party_witness:
  "''portal.example.com'' = ''localhost'' \<or> ParseIP ''portal.example.com'' = None \<and> Contains ''portal.example.com'' ''.''"
proof -
  have host: "''portal.example.com'' = (case SplitHostPort (rq_host (req key_ctx)) of Some (h, _) \<Rightarrow> h | None \<Rightarrow> rq_host (req key_ctx))"
  proof -
    have "rq_host (req key_ctx) = ''portal.example.com''" by (simp add: key_ctx_def demo_ctx_def)
    moreover have "SplitHostPort ''portal.example.com'' = None" by code_simp
    ultimately show ?thesis by (simp only: option.case)
  qed
  show ?thesis using passkey_relying_party [OF key_host host refl] by blast
qed

end
