(* ===== verification/Api.thy ===== *)
theory Api
  imports Group_Pages
begin

text \<open>
  The read-only JSON API for automation (\<open>api.go\<close>) and the health check (\<open>health.go\<close>). The API is guarded by a
  bearer token; a client that polls the events with the cursor of the last answer gets the audit log piece by piece.
\<close>

section \<open>Handlers\<close>

definition apiDefaultLimit :: int where "apiDefaultLimit = 100"
definition apiMaxLimit :: int where "apiMaxLimit = auditRingSize"

definition json_reply :: "int \<Rightarrow> json \<Rightarrow> outcome" where
  "json_reply st j = Reply \<lparr>rs_status = st, rs_headers = [], rs_body = JsonBody j\<rparr>"

definition apiError :: "int \<Rightarrow> string \<Rightarrow> outcome" where
  "apiError st m = json_reply st (JObj [(''error'', JStr m)])"

definition RequireAPIToken :: "('s, 'x) env \<Rightarrow> ctx \<Rightarrow> ('s, 'x, outcome) act" where
  "RequireAPIToken E c =
     State_Monad.return
       (if (case CutPrefix (rq_authorization (req c)) ''Bearer '' of
              None \<Rightarrow> False
            | Some token \<Rightarrow>
                token \<noteq> []
                \<and> list_ex (\<lambda>t. t \<noteq> [] \<and> sha256 E token = sha256 E t) (api_tokens (server (cfg E))))
        then Next c
        else with_header ''WWW-Authenticate'' ''Bearer'' (apiError 401 ''unauthorized''))"

text \<open>\<open>c.Query\<close> with a default, which stands in for an absent or empty value.\<close>

definition Query :: "ctx \<Rightarrow> string \<Rightarrow> string \<Rightarrow> string" where
  "Query c k d = (if rq_query (req c) k = [] then d else rq_query (req c) k)"

definition events_body :: "AuditEvent list \<Rightarrow> int \<Rightarrow> json" where
  "events_body events next = JObj [(''events'', JArr (map marshal_AuditEvent events)), (''next'', JInt next)]"

definition APIEvents :: "('s, 'x) env \<Rightarrow> ctx \<Rightarrow> ('s, 'x, outcome) act" where
  "APIEvents E c =
     (case ParseInt (Query c ''after'' ''0'') of
        None \<Rightarrow> State_Monad.return (apiError 400 ''after must be a non-negative integer'')
      | Some after \<Rightarrow>
          if after < 0 then State_Monad.return (apiError 400 ''after must be a non-negative integer'')
          else
            (let bad = apiError 400 (''limit must be between 1 and '' @ FormatInt apiMaxLimit)
             in case ParseInt (Query c ''limit'' (FormatInt apiDefaultLimit)) of
                  None \<Rightarrow> State_Monad.return bad
                | Some limit \<Rightarrow>
                    if limit < 1 \<or> apiMaxLimit < limit then State_Monad.return bad
                    else do {
                      t \<leftarrow> Now E;
                      events \<leftarrow> reads (\<lambda>w. auditAfter (stg E) after (nat limit) t (sto w));
                      State_Monad.return
                        (json_reply 200 (events_body events (if events = [] then after else ae_Seq (last events))))
                    }))"

definition apiGroupRequest :: "string \<Rightarrow> GroupRequest \<Rightarrow> json" where
  "apiGroupRequest g r =
     JObj [(''group'', JStr g), (''username'', JStr (gr_Username r)), (''type'', JStr (gr_Type r)),
           (''requested_at'', JTime (gr_RequestedAt r))]"

text \<open>A request whose wish is already fulfilled: to join as a member, or anything else as no member.\<close>

definition fulfilled :: "ipaGroup \<Rightarrow> GroupRequest \<Rightarrow> bool" where
  "fulfilled g r \<longleftrightarrow> list_ex (\<lambda>m. m = gr_Username r) (Members g) = (gr_Type r = groupRequestJoin)"

fun open_requests :: "('s, 'x) env \<Rightarrow> ipaGroup list \<Rightarrow> ('s, 'x, json list) act" where
  "open_requests E [] = State_Monad.return []"
| "open_requests E (g # gs) =
     do {
       reqs \<leftarrow> load_requests E (Name g);
       rest \<leftarrow> open_requests E gs;
       State_Monad.return (map (apiGroupRequest (Name g)) (filter (\<lambda>r. \<not> fulfilled g r) reqs) @ rest)
     }"

definition APIGroupRequests :: "('s, 'x) env \<Rightarrow> ctx \<Rightarrow> ('s, 'x, outcome) act" where
  "APIGroupRequests E c =
     do {
       groups \<leftarrow> groupFindManaged E Admin;
       (case groups of
          Err _ \<Rightarrow> State_Monad.return (apiError 502 ''failed to list groups'')
        | Ok gs \<Rightarrow> do {
            out \<leftarrow> open_requests E gs;
            State_Monad.return (json_reply 200 (JObj [(''requests'', JArr out)]))
          })
     }"

definition APIOTPRecovery :: "('s, 'x) env \<Rightarrow> ctx \<Rightarrow> ('s, 'x, outcome) act" where
  "APIOTPRecovery E c =
     do {
       t \<leftarrow> Now E;
       reqs \<leftarrow> reads (\<lambda>w. loadOTPRecoveryRequests (stg E) t (sto w));
       State_Monad.return (json_reply 200 (JObj [(''requests'', JArr (map marshal_OTPRecoveryRequest reqs))]))
     }"

definition Healthz :: "('s, 'x) env \<Rightarrow> ctx \<Rightarrow> ('s, 'x, outcome) act" where
  "Healthz E c =
     do {
       t \<leftarrow> Now E;
       stored \<leftarrow> reads (\<lambda>w. st_get (stg E) (sto w) t ''healthz'');
       (case stored of
          Err e \<Rightarrow> State_Monad.return (json_reply 503 (JObj [(''status'', JStr ''unavailable''), (''storage'', JStr (error_string e))]))
        | Ok _ \<Rightarrow> do {
            ping \<leftarrow> reads (\<lambda>w. ip_AdminPing (ipa E) (ext w));
            State_Monad.return
              (case ping of
                 Some e \<Rightarrow> json_reply 503 (JObj [(''freeipa'', JStr (error_string e)), (''status'', JStr ''unavailable'')])
               | None \<Rightarrow> json_reply 200 (JObj [(''status'', JStr ''ok'')]))
          })
     }"

section \<open>The token\<close>

text \<open>The answer to a request without a token, or with one that is not configured.\<close>

abbreviation unauthorized :: outcome where
  "unauthorized \<equiv> Reply \<lparr>rs_status = 401, rs_headers = [(''WWW-Authenticate'', ''Bearer'')],
     rs_body = JsonBody (JObj [(''error'', JStr ''unauthorized'')])\<rparr>"

lemma RequireAPIToken_exact:
  assumes "\<And>token t. rq_authorization (req c) = ''Bearer '' @ token \<Longrightarrow> t \<in> set (api_tokens (server (cfg E)))
      \<Longrightarrow> sha256 E token = sha256 E t \<Longrightarrow> token = t"
  shows "run_state (RequireAPIToken E c) w
    = (if \<exists>token\<in>set (api_tokens (server (cfg E))). token \<noteq> [] \<and> rq_authorization (req c) = ''Bearer '' @ token then Next c
       else unauthorized, w)"
proof -
  have cut: "CutPrefix (rq_authorization (req c)) ''Bearer '' = Some token \<longleftrightarrow> rq_authorization (req c) = ''Bearer '' @ token" for token
    by (auto simp: CutPrefix_def HasPrefix_iff)
  have "(case CutPrefix (rq_authorization (req c)) ''Bearer '' of
            None \<Rightarrow> False
          | Some token \<Rightarrow> token \<noteq> [] \<and> list_ex (\<lambda>t. t \<noteq> [] \<and> sha256 E token = sha256 E t) (api_tokens (server (cfg E))))
      \<longleftrightarrow> (\<exists>token\<in>set (api_tokens (server (cfg E))). token \<noteq> [] \<and> rq_authorization (req c) = ''Bearer '' @ token)"
  proof (cases "CutPrefix (rq_authorization (req c)) ''Bearer ''")
    case None
    with cut show ?thesis by force
  next
    case (Some token)
    with cut have "rq_authorization (req c) = ''Bearer '' @ token" by blast
    with assms [of token] Some show ?thesis by (auto simp: list_ex_iff)
  qed
  then show ?thesis by (simp add: RequireAPIToken_def apiError_def json_reply_def with_header_def)
qed

section \<open>Polling\<close>

definition ask :: "ctx \<Rightarrow> string \<Rightarrow> string \<Rightarrow> ctx" where
  "ask c after limit = c\<lparr>req := (req c)\<lparr>rq_query := (\<lambda>_. [])(''after'' := after, ''limit'' := limit)\<rparr>\<rparr>"

text \<open>A client that asks \<open>k\<close> times, each time for the events after the \<open>next\<close> of the last answer.\<close>

fun poll :: "('s, 'x) env \<Rightarrow> ctx \<Rightarrow> int \<Rightarrow> nat \<Rightarrow> int \<Rightarrow> ('s, 'x) world \<Rightarrow> json list" where
  "poll E c limit 0 after w = []"
| "poll E c limit (Suc k) after w =
     (case run_state (APIEvents E (ask c (FormatInt after) (FormatInt limit))) w of
        (Reply r, w') \<Rightarrow>
          (case rs_body r of
             JsonBody (JObj [(_, JArr es), (_, JInt n)]) \<Rightarrow> es @ poll E c limit k n w'
           | _ \<Rightarrow> [])
      | _ \<Rightarrow> [])"

lemma APIEvents_ask:
  assumes "0 \<le> after" "after \<le> int64_max" "1 \<le> limit" "limit \<le> apiMaxLimit"
  shows "run_state (APIEvents E (ask c (FormatInt after) (FormatInt limit))) w
    = (let es = auditAfter (stg E) after (nat limit) (clk E (tick w)) (sto w)
       in json_reply 200 (events_body es (if es = [] then after else ae_Seq (last es))), w\<lparr>tick := Suc (tick w)\<rparr>)"
proof -
  have "ParseInt (FormatInt after) = Some after" "ParseInt (FormatInt limit) = Some limit"
    using assms by (auto intro!: ParseInt_FormatInt simp: int64_min_def int64_max_def apiMaxLimit_def auditRingSize_def)
  then show ?thesis
    using assms by (simp add: APIEvents_def Query_def ask_def Let_def)
qed

lemma poll_Suc:
  assumes "0 \<le> after" "after \<le> int64_max" "1 \<le> limit" "limit \<le> apiMaxLimit"
    and "auditAfter (stg E) after (nat limit) (clk E (tick w)) (sto w) = es"
  shows "poll E c limit (Suc k) after w
    = map marshal_AuditEvent es @ poll E c limit k (if es = [] then after else ae_Seq (last es)) (w\<lparr>tick := Suc (tick w)\<rparr>)"
  using assms by (simp add: APIEvents_ask json_reply_def events_body_def Let_def)

lemma ring_seq:
  assumes "numbered evs" "e \<in> set (ring evs)"
  shows "0 \<le> ae_Seq e" "ae_Seq e \<le> int (length evs)"
proof -
  from assms(2) have "e \<in> set evs" by (auto simp: ring_def dest: in_set_dropD)
  then obtain i where "i < length evs" "e = evs ! i" by (auto simp: in_set_conv_nth)
  with assms(1) show "0 \<le> ae_Seq e" "ae_Seq e \<le> int (length evs)" by (auto simp: numbered_def)
qed

lemma poll_take:
  assumes "reliable_store (stg E) view" and "int (length evs) \<le> int64_max" and "1 \<le> limit" and "limit \<le> apiMaxLimit"
    and "\<And>n. now \<le> clk E n \<and> clk E n < T"
  shows "audit_log view now T evs (sto w) \<Longrightarrow> 0 \<le> after \<Longrightarrow> after \<le> int (length evs)
    \<Longrightarrow> poll E c limit k after w = map marshal_AuditEvent (take (k * nat limit) (filter (\<lambda>e. after < ae_Seq e) (ring evs)))"
proof (induction k arbitrary: after w)
  case 0
  show ?case by simp
next
  case (Suc k)
  let ?L = "\<lambda>a. filter (\<lambda>e. a < ae_Seq e) (ring evs)" and ?n = "nat limit"
  note log = reliable_store.after_log [OF assms(1) Suc.prems(1) _ _ assms(2)]
  define page where "page = take ?n (?L after)"
  have page: "auditAfter (stg E) after ?n (clk E (tick w)) (sto w) = page"
    using assms(5) Suc.prems(3) by (subst log) (simp_all add: page_def)
  have limits: "0 \<le> after" "after \<le> int64_max" using Suc.prems assms(2) by simp_all
  note step = poll_Suc [OF limits assms(3,4) page, of c k]
  show ?case
  proof (cases "page = []")
    case True
    then have "?L after = []" using assms(3) by (simp add: page_def)
    then show ?thesis unfolding step using Suc.IH [of "w\<lparr>tick := Suc (tick w)\<rparr>" after] Suc.prems True by simp
  next
    case False
    have "last page \<in> set (ring evs)"
      using last_in_set [OF False] in_set_takeD [of "last page" ?n "?L after"] by (simp add: page_def)
    then have seq: "0 \<le> ae_Seq (last page)" "ae_Seq (last page) \<le> int (length evs)"
      using Suc.prems(1) by (auto simp: audit_log_def intro: ring_seq)
    have "auditAfter (stg E) after (?n + k * ?n) (clk E (tick w)) (sto w)
        = page @ auditAfter (stg E) (ae_Seq (last page)) (k * ?n) (clk E (tick w)) (sto w)"
      by (rule audit_paging [OF assms(1) Suc.prems(1) _ _ assms(2) Suc.prems(2,3) page False]) (use assms(5) in auto)
    then have "take (?n + k * ?n) (?L after) = page @ take (k * ?n) (?L (ae_Seq (last page)))"
      using assms(5) Suc.prems(3) seq(2) by (simp add: log)
    then show ?thesis
      unfolding step using Suc.IH [of "w\<lparr>tick := Suc (tick w)\<rparr>" "ae_Seq (last page)"] Suc.prems seq False by simp
  qed
qed

text \<open>
  C17. Polling gets every event. A client of the API that starts from a cursor within the log and asks often enough (as
  many times as pages of its limit are needed) has, while the storage keeps the entries, received exactly the
  retained events after its cursor, each once and in order.
\<close>

theorem poll_complete:
  assumes "reliable_store (stg E) view" and "audit_log view now T evs (sto w)" and "int (length evs) \<le> int64_max"
    and "1 \<le> limit" and "limit \<le> 1000" and "\<And>n. now \<le> clk E n \<and> clk E n < T"
    and "0 \<le> after" and "after \<le> int (length evs)"
    and "length (filter (\<lambda>e. after < ae_Seq e) (ring evs)) \<le> k * nat limit"
  shows "poll E c limit k after w = map marshal_AuditEvent (filter (\<lambda>e. after < ae_Seq e) (ring evs))"
  using poll_take [OF assms(1,3,4) _ assms(6,2,7,8), of c k] assms(5,9) by (simp add: apiMaxLimit_def auditRingSize_def)

section \<open>Requests\<close>

text \<open>
  The API shows the requests the page shows: for the known kinds of request, what it leaves out is what the groups
  page drops as stale.
\<close>

lemma fulfilled_stale:
  "gr_Type r \<in> {groupRequestJoin, groupRequestLeave} \<Longrightarrow> fulfilled g r = stale g r"
  by (auto simp: fulfilled_def stale_def groupRequestJoin_def groupRequestLeave_def)

section \<open>Witnesses\<close>

definition api_env :: "(cells, unit) env" where
  "api_env = demo_env\<lparr>cfg := default_config\<lparr>server := (server default_config)\<lparr>api_tokens := [''s3cret'']\<rparr>\<rparr>\<rparr>"

theorem poll_complete_witness:
  "poll demo_env demo_ctx 100 1 0 (demo_world\<lparr>sto := demo_audit\<rparr>) = [marshal_AuditEvent (demo_event\<lparr>ae_Seq := 1\<rparr>)]"
proof -
  let ?e = "demo_event\<lparr>ae_Seq := 1\<rparr>"
  have log: "audit_log sound_view 1 auditRetention [?e] demo_audit"
    using sound.store_event_log [OF demo_log, of 1 demo_event]
    by (auto simp: demo_audit_def auditRetention_def time_units int64_max_def)
  have env: "stg demo_env = sound_storage" "clk demo_env n = t7" for n by (simp_all add: demo_env_def)
  show ?thesis
    using poll_complete [of demo_env sound_view 1 auditRetention "[?e]" "demo_world\<lparr>sto := demo_audit\<rparr>" 100 0 1 demo_ctx] log
      sound.reliable_store_axioms
    by (simp add: env t7_def auditRetention_def time_units int64_max_def ring_def auditRingSize_def)
qed

end
