(* ===== verification/Url.thy ===== *)
theory Url
  imports Go_Strings "HOL-Library.AList" "HOL-Library.List_Lexorder" "HOL-Library.Char_ord"
begin

text \<open>
  The parts of package net/url the portal uses: escaping for a query, a path and a host, query values with their
  parser and printer, and printing a URL. Values are an association list; a key that is not in it has no values.
\<close>

section \<open>Escaping\<close>

definition unreserved :: "char \<Rightarrow> bool" where
  "unreserved c \<longleftrightarrow> is_upper c \<or> is_lower c \<or> is_digit c \<or> c \<in> set ''-_.~''"

definition percent :: "char \<Rightarrow> string" where
  "percent c = [CHR 0x25, upper_hex (code c div 16), upper_hex (code c mod 16)]"

definition escape_with :: "string \<Rightarrow> string \<Rightarrow> string" where
  "escape_with safe s = concat (map (\<lambda>c. if unreserved c \<or> c \<in> set safe then [c] else percent c) s)"

definition QueryEscape :: "string \<Rightarrow> string" where
  "QueryEscape s = concat (map (\<lambda>c. if c = CHR '' '' then ''+'' else if unreserved c then [c] else percent c) s)"

definition path_escape :: "string \<Rightarrow> string" where
  "path_escape = escape_with ''$&+,/:;=@''"

definition host_escape :: "string \<Rightarrow> string" where
  "host_escape = escape_with (''!$&()*+,;=:[]<>'' @ [CHR 0x22, CHR 0x27])"

fun QueryUnescape :: "string \<Rightarrow> string option" where
  "QueryUnescape [] = Some []"
| "QueryUnescape (c # s) =
     (if c = CHR 0x25 then
        (case s of
           a # b # s' \<Rightarrow>
             (case (unhex a, unhex b) of
                (Some x, Some y) \<Rightarrow> map_option ((#) (char_of (16 * x + y))) (QueryUnescape s')
              | _ \<Rightarrow> None)
         | _ \<Rightarrow> None)
      else map_option ((#) (if c = CHR ''+'' then CHR '' '' else c)) (QueryUnescape s))"

section \<open>Query values\<close>

type_synonym url_values = "(string \<times> string list) list"

definition values_of :: "url_values \<Rightarrow> string \<Rightarrow> string list" where
  "values_of v k = (case map_of v k of None \<Rightarrow> [] | Some vs \<Rightarrow> vs)"

definition Add_value :: "string \<Rightarrow> string \<Rightarrow> url_values \<Rightarrow> url_values" where
  "Add_value k x v = AList.update k (values_of v k @ [x]) v"

definition Set_value :: "string \<Rightarrow> string \<Rightarrow> url_values \<Rightarrow> url_values" where
  "Set_value k x v = AList.update k [x] v"

definition parse_pair :: "string \<Rightarrow> (string \<times> string) option" where
  "parse_pair s =
     (if CHR '';'' \<in> set s \<or> s = [] then None
      else (case Cut s ''='' of
              (k, v, _) \<Rightarrow>
                (case (QueryUnescape k, QueryUnescape v) of (Some k', Some v') \<Rightarrow> Some (k', v') | _ \<Rightarrow> None)))"

text \<open>\<open>Query\<close> leaves out what does not parse.\<close>

definition Query_values :: "string \<Rightarrow> url_values" where
  "Query_values q = fold (\<lambda>(k, v). Add_value k v) (List.map_filter parse_pair (Split q CHR ''&'')) []"

definition Encode :: "url_values \<Rightarrow> string" where
  "Encode v =
     join_sep ''&'' (concat (map (\<lambda>k. map (\<lambda>x. QueryEscape k @ ''='' @ QueryEscape x) (values_of v k)) (sort (map fst v))))"

section \<open>Printing\<close>

text \<open>A URL with a scheme and a rooted path, and neither user nor fragment.\<close>

definition URL_String :: "string \<Rightarrow> string \<Rightarrow> string \<Rightarrow> string \<Rightarrow> string" where
  "URL_String scheme host path query =
     scheme @ ''://'' @ host_escape host @ path_escape path @ (if query = [] then [] else ''?'' @ query)"

section \<open>Round trips\<close>

lemma plain_char: "unreserved c \<Longrightarrow> c \<notin> {CHR 0x25, CHR ''+'', CHR '' '', CHR ''&'', CHR ''='', CHR '';'', CHR ''?''}"
  by (auto simp: unreserved_def is_upper_def is_lower_def is_digit_def)

lemma unescape_percent: "QueryUnescape (percent c @ s) = map_option ((#) c) (QueryUnescape s)"
  using nibbles [of c] by (simp add: percent_def unhex_hex)

lemma QueryEscape_Cons:
  "QueryEscape [] = []"
  "QueryEscape (c # s) = (if c = CHR '' '' then ''+'' else if unreserved c then [c] else percent c) @ QueryEscape s"
  by (simp_all add: QueryEscape_def)

lemma query_escape_inverse: "QueryUnescape (QueryEscape s) = Some s"
  by (induction s) (use plain_char in \<open>auto simp: QueryEscape_Cons unescape_percent\<close>)

lemma hex_plain: "n < 16 \<Longrightarrow> unreserved (upper_hex n)"
proof -
  have "\<forall>n\<in>set [0..<16]. unreserved (upper_hex n)" by code_simp
  then show "n < 16 \<Longrightarrow> ?thesis" by simp
qed

lemma percent_chars: "x \<in> set (percent c) \<Longrightarrow> unreserved x \<or> x = CHR 0x25"
  using nibbles [of c] by (auto simp: percent_def hex_plain)

lemma escape_chars:
  "x \<in> set (QueryEscape s) \<Longrightarrow> unreserved x \<or> x = CHR 0x25 \<or> x = CHR ''+''"
  "x \<in> set (escape_with safe s) \<Longrightarrow> unreserved x \<or> x = CHR 0x25 \<or> x \<in> set safe"
  by (auto simp: QueryEscape_def escape_with_def split: if_splits dest: percent_chars)

lemma QueryEscape_free: "CHR ''&'' \<notin> set (QueryEscape s)" "CHR ''='' \<notin> set (QueryEscape s)" "CHR '';'' \<notin> set (QueryEscape s)"
  using escape_chars(1) plain_char by fastforce+

lemma parse_pair_print: "parse_pair (QueryEscape k @ ''='' @ QueryEscape v) = Some (k, v)"
  using Cut_first [OF QueryEscape_free(2), of k "QueryEscape v"]
  by (simp add: parse_pair_def QueryEscape_free query_escape_inverse)

lemmas parse_pair_print' = parse_pair_print [simplified]

lemma Split_join: "ss \<noteq> [] \<Longrightarrow> \<forall>s\<in>set ss. c \<notin> set s \<Longrightarrow> Split (join_sep [c] ss) c = ss"
proof (induction ss)
  case (Cons s ss)
  then show ?case by (cases "ss = []") (simp_all add: Split_plain join_sep_Cons Split_once)
qed simp

lemma values_of_simps [simp]:
  "values_of [] k = []" "values_of (Add_value k x v) k' = (if k' = k then values_of v k @ [x] else values_of v k')"
  "values_of (Set_value k x v) k' = (if k' = k then [x] else values_of v k')"
  by (auto simp: values_of_def Add_value_def Set_value_def update_conv)

lemma values_of_fold:
  "values_of (fold (\<lambda>(k, v). Add_value k v) ps v) k = values_of v k @ map snd (filter (\<lambda>p. fst p = k) ps)"
  by (induction ps arbitrary: v) auto

definition url_pairs :: "url_values \<Rightarrow> (string \<times> string) list" where
  "url_pairs v = concat (map (\<lambda>k. map (Pair k) (values_of v k)) (sort (map fst v)))"

lemma Query_values_Encode: "Query_values (Encode v) = fold (\<lambda>(k, v). Add_value k v) (url_pairs v) []"
proof -
  let ?print = "\<lambda>(k, x). QueryEscape k @ ''='' @ QueryEscape x"
  have enc: "Encode v = join_sep ''&'' (map ?print (url_pairs v))"
    by (simp add: Encode_def url_pairs_def map_concat o_def)
  have "List.map_filter parse_pair (Split (Encode v) CHR ''&'') = url_pairs v"
  proof (cases "url_pairs v = []")
    case True
    then show ?thesis by (simp add: enc parse_pair_def List.map_filter_simps)
  next
    case False
    then have "Split (Encode v) CHR ''&'' = map ?print (url_pairs v)"
      unfolding enc by (intro Split_join) (auto simp: QueryEscape_free)
    then show ?thesis
      by (simp add: List.map_filter_def filter_map o_def case_prod_unfold parse_pair_print')
  qed
  then show ?thesis by (simp add: Query_values_def)
qed

text \<open>What a query carries survives printing and parsing.\<close>

lemma url_pairs_values:
  "distinct (map fst v) \<Longrightarrow> map snd (filter (\<lambda>p. fst p = k) (url_pairs v)) = values_of v k"
proof -
  assume "distinct (map fst v)"
  have pick: "map snd (filter (\<lambda>p. fst p = k) (concat (map (\<lambda>k. map (Pair k) (values_of v k)) ks)))
    = (if k \<in> set ks then values_of v k else [])" if "distinct ks" for ks
    using that by (induction ks) (auto simp: filter_map o_def filter_empty_conv)
  have "values_of v k = []" if "k \<notin> fst ` set v"
    using that by (simp add: values_of_def map_of_eq_None_iff [THEN iffD2])
  with pick [of "sort (map fst v)"] \<open>distinct (map fst v)\<close> show ?thesis by (auto simp: url_pairs_def)
qed

lemma query_round_trip: "distinct (map fst v) \<Longrightarrow> values_of (Query_values (Encode v)) k = values_of v k"
  by (simp add: Query_values_Encode values_of_fold url_pairs_values)

lemma distinct_values: "distinct (map fst (Query_values q))" "distinct (map fst v) \<Longrightarrow> distinct (map fst (Set_value k x v))"
proof -
  have "distinct (map fst v) \<Longrightarrow> distinct (map fst (fold (\<lambda>(k, v). Add_value k v) ps v))" for v ps
    by (induction ps arbitrary: v) (auto simp: Add_value_def distinct_update)
  then show "distinct (map fst (Query_values q))" by (simp add: Query_values_def)
qed (simp add: Set_value_def distinct_update)

lemma URL_String_query:
  assumes "CHR ''?'' \<notin> set scheme" and "q \<noteq> []"
  shows "Cut (URL_String scheme host path q) ''?'' = (scheme @ ''://'' @ host_escape host @ path_escape path, q, True)"
proof -
  have "CHR ''?'' \<notin> set (host_escape host)" "CHR ''?'' \<notin> set (path_escape path)"
    using plain_char [of "CHR ''?''"] by (auto simp: host_escape_def path_escape_def dest!: escape_chars(2))
  with assms Cut_first [of "CHR ''?''" "scheme @ ''://'' @ host_escape host @ path_escape path" q] show ?thesis
    by (simp add: URL_String_def)
qed

end
