(* ===== verification/Otp_Setup.thy ===== *)
theory Otp_Setup
  imports Passkeys Url
begin

text \<open>
  Adding an OTP token (\<open>OTPTokenAdd\<close> in \<open>otp.go\<close>, \<open>qrcode.go\<close>): FreeIPA makes the token, and the page shows its URI as
  a QR code, with the issuer the configuration names. The image of a URI is a parameter, as is the raw query
  \<open>url.Parse\<close> finds in one.
\<close>

definition otp_uri :: "('s, 'x) env \<Rightarrow> otp_token \<Rightarrow> string result" where
  "otp_uri E t =
     (let customIssuer = otp_issuer (accounts (cfg E))
      in if customIssuer = [] then Ok (ot_URI t)
         else (case x_RawQuery (ipa E) (ot_URI t) of
                 Err e \<Rightarrow> Err e
               | Ok q \<Rightarrow>
                   Ok (URL_String ''otpauth'' (ToLower (uni E) (ot_Type t))
                         (''/'' @ customIssuer @ '':'' @ ip_TokenName (ipa E) t)
                         (Encode (Set_value ''issuer'' customIssuer (Query_values q))))))"

definition QRCode :: "('s, 'x) env \<Rightarrow> otp_token option \<Rightarrow> string result" where
  "QRCode E token =
     (case token of
        None \<Rightarrow> Ok []
      | Some t \<Rightarrow>
          (case otp_uri E t of
             Err e \<Rightarrow> Err e
           | Ok uri \<Rightarrow> (case x_otp_image (ipa E) uri of Err e \<Rightarrow> Err e | Ok png \<Rightarrow> Ok (base64 png))))"

definition OTPTokenAdd :: "('s, 'x) env \<Rightarrow> ctx \<Rightarrow> ('s, 'x, outcome) act" where
  "OTPTokenAdd E c =
     do {
       t \<leftarrow> Now E;
       r \<leftarrow> on_ext (\<lambda>x. ip_AddOTPToken (ipa E) x (AsUser (lc_client c))
         \<lparr>ot_UUID = [], ot_Enabled = False, ot_Description = form c ''desc'', ot_Type = ip_TokenTypeTOTP (ipa E),
          ot_Algorithm = ToLower (uni E) (getHashAlgorithm (cfg E)), ot_NotBefore = t, ot_URI = []\<rparr>);
       State_Monad.return
         (case r of
            Err e \<Rightarrow> Fail e
          | Ok token \<Rightarrow>
              (case QRCode E (Some token) of
                 Err e \<Rightarrow> Fail e
               | Ok otpdata \<Rightarrow>
                   render ''otptoken-scan.html'' [(''otpdata'', PStr otpdata), (''otptoken'', POtps [token])]))
     }"

lemma join_sep_nonempty: "s \<in> set ss \<Longrightarrow> s \<noteq> [] \<Longrightarrow> join_sep sep ss \<noteq> []"
  by (induction sep ss rule: join_sep.induct) auto

lemma Encode_nonempty: "Encode (Set_value k x v) \<noteq> []"
  unfolding Encode_def
proof (rule join_sep_nonempty)
  have "k \<in> set (sort (map fst (Set_value k x v)))" by (simp add: Set_value_def dom_update)
  then show "QueryEscape k @ ''='' @ QueryEscape x \<in> set (concat (map (\<lambda>k'. map (\<lambda>x. QueryEscape k' @ ''='' @ QueryEscape x)
      (values_of (Set_value k x v) k')) (sort (map fst (Set_value k x v)))))"
    by (force simp: image_iff)
qed simp

text \<open>
  C34. A custom issuer changes only the issuer. When the configuration names an issuer, the URI in the QR code is that of the type of the
  token, its query gives the configured issuer and every other parameter (the secret among them) the values it has in the URI of FreeIPA;
  without one it is FreeIPA's URI.
\<close>

theorem otp_uri_keeps_secret:
  assumes "x_RawQuery (ipa E) (ot_URI t) = Ok q"
  shows "if otp_issuer (accounts (cfg E)) = [] then otp_uri E t = Ok (ot_URI t)
    else \<exists>uri front query. otp_uri E t = Ok uri \<and> Cut uri ''?'' = (front, query, True)
      \<and> HasPrefix uri (''otpauth://'' @ host_escape (ToLower (uni E) (ot_Type t)) @ ''/'')
      \<and> values_of (Query_values query) ''issuer'' = [otp_issuer (accounts (cfg E))]
      \<and> (\<forall>k. k \<noteq> ''issuer'' \<longrightarrow> values_of (Query_values query) k = values_of (Query_values q) k)"
proof (cases "otp_issuer (accounts (cfg E)) = []")
  case False
  let ?i = "otp_issuer (accounts (cfg E))" and ?host = "ToLower (uni E) (ot_Type t)"
  let ?path = "''/'' @ ?i @ '':'' @ ip_TokenName (ipa E) t" and ?v = "Set_value ''issuer'' ?i (Query_values q)"
  have cut: "Cut (URL_String ''otpauth'' ?host ?path (Encode ?v)) ''?''
      = (''otpauth'' @ ''://'' @ host_escape ?host @ path_escape ?path, Encode ?v, True)"
    by (rule URL_String_query) (simp_all add: Encode_nonempty)
  have prefix: "HasPrefix (URL_String ''otpauth'' ?host ?path (Encode ?v)) (''otpauth://'' @ host_escape ?host @ ''/'')"
    by (auto simp: URL_String_def path_escape_def escape_with_def HasPrefix_iff)
  have "distinct (map fst ?v)" by (rule distinct_values(2), rule distinct_values(1))
  then have vals: "values_of (Query_values (Encode ?v)) k = (if k = ''issuer'' then [?i] else values_of (Query_values q) k)" for k
    by (simp add: query_round_trip)
  have uri: "otp_uri E t = Ok (URL_String ''otpauth'' ?host ?path (Encode ?v))"
    using False assms by (simp add: otp_uri_def Let_def)
  show ?thesis
    using False by (simp only: if_False) (intro exI conjI, rule uri, rule cut, rule prefix, simp_all add: vals)
qed (simp add: otp_uri_def)

definition issuer_env :: "(cells, unit) env" where
  "issuer_env = demo_env\<lparr>cfg := default_config\<lparr>accounts := (accounts default_config)\<lparr>otp_issuer := ''Acme & Co''\<rparr>\<rparr>\<rparr>"

definition demo_otp :: otp_token where
  "demo_otp = \<lparr>ot_UUID = ''7'', ot_Enabled = True, ot_Description = [], ot_Type = ''TOTP'', ot_Algorithm = ''sha1'',
     ot_NotBefore = t7, ot_URI = ''otpauth://totp/x?secret=A''\<rparr>"

theorem otp_uri_keeps_secret_witness:
  "\<exists>uri front query. otp_uri issuer_env demo_otp = Ok uri \<and> Cut uri ''?'' = (front, query, True)
    \<and> values_of (Query_values query) ''issuer'' = [''Acme & Co'']
    \<and> values_of (Query_values query) ''secret'' = values_of (Query_values ''secret=A'') ''secret''"
proof -
  have "x_RawQuery (ipa issuer_env) (ot_URI demo_otp) = Ok ''secret=A''"
    "otp_issuer (accounts (cfg issuer_env)) = ''Acme & Co''"
    by (simp_all add: issuer_env_def demo_env_def demo_outside_def)
  with otp_uri_keeps_secret [of issuer_env demo_otp "''secret=A''"] show ?thesis by auto
qed

end
