(* ===== verification/Routes.thy ===== *)
theory Routes
  imports Admin_Panel Apps Access Keys Passkeys Api Otp_Setup
begin

text \<open>
  The routes (\<open>router.go\<close>) and what stands before them: the address of a request, the rate limit's selection
  (\<open>server.go\<close>), the pages of the portal shell and the table of routes with the chain of handlers of each.
  Fiber itself (matching a request to a route, the limiter's counting, sending a file) is not modelled.
\<close>

section \<open>The address of a request\<close>

definition trustedProxyContains :: "config \<Rightarrow> ip option \<Rightarrow> bool" where
  "trustedProxyContains cf ip =
     (case ip of
        None \<Rightarrow> False
      | Some i \<Rightarrow>
          list_ex (\<lambda>t. if Contains t ''/'' then (case ParseCIDR t of None \<Rightarrow> False | Some ipnet \<Rightarrow> net_Contains ipnet i)
                       else (case ParseIP t of None \<Rightarrow> False | Some p \<Rightarrow> p = i))
            (trusted_proxies (server cf)))"

text \<open>The entries of X-Forwarded-For, walked from the right.\<close>

fun walk_forwarded :: "config \<Rightarrow> string list \<Rightarrow> ip option" where
  "walk_forwarded cf [] = None"
| "walk_forwarded cf (s # ss) =
     (case ParseIP (TrimSpace s) of
        None \<Rightarrow> walk_forwarded cf ss
      | Some ip \<Rightarrow> if \<not> trustedProxyContains cf (Some ip) then Some ip else walk_forwarded cf ss)"

definition RemoteIP :: "config \<Rightarrow> ip \<Rightarrow> string list \<Rightarrow> string" where
  "RemoteIP cf peer ips =
     (if \<not> trustedProxyContains cf (Some peer) then IP_String peer
      else (case walk_forwarded cf (rev ips) of Some ip \<Rightarrow> IP_String ip | None \<Rightarrow> IP_String peer))"

section \<open>The rate limit\<close>

text \<open>\<open>Next\<close> of the limiter's configuration: the request is not limited.\<close>

definition limiter_skips :: "request \<Rightarrow> bool" where
  "limiter_skips r =
     (if HasPrefix (rq_Path r) ''/api/'' then False
      else if rq_Method r \<noteq> ''POST'' then True
      else if rq_Path r = ''/signup'' then False
      else if HasPrefix (rq_Path r) ''/auth'' then False
      else True)"

section \<open>The portal pages\<close>

type_synonym ('s, 'x) handler = "ctx \<Rightarrow> ('s, 'x, outcome) act"

definition navSection :: "string \<Rightarrow> string" where
  "navSection path =
     (if path = ''admin/people'' then ''people''
      else if path = ''admin/log'' then ''log''
      else if path \<in> {''password'', ''otp'', ''passkey'', ''security''} then ''security''
      else path)"

definition displayName :: "user \<Rightarrow> string" where
  "displayName u =
     (if DisplayName u \<noteq> [] then DisplayName u
      else let n = TrimSpace (First u @ '' '' @ Last u) in if n \<noteq> [] then n else Username u)"

text \<open>The first character; a byte that is no UTF-8 becomes the replacement character.\<close>

definition first_char :: "string \<Rightarrow> string" where
  "first_char s =
     (if s = [] then []
      else (case decode_rune (map of_char s) of
              (r, n) \<Rightarrow> if r = 65533 \<and> n = 1 then map char_of [239, 191, 189 :: nat] else take n s))"

definition initials :: "unicode \<Rightarrow> user \<Rightarrow> string" where
  "initials U u =
     (let s = first_char (First u) @ first_char (Last u)
      in ToUpper U (if s = [] then first_char (Username u) else s))"

text \<open>The variables of a section, or how the request ends at once.\<close>

definition index_section :: "('s, 'x) env \<Rightarrow> ctx \<Rightarrow> string \<Rightarrow> vars \<Rightarrow> ('s, 'x, outcome + vars) act" where
  "index_section E c path vs =
     (let user = lc_user c; ok = (\<lambda>m. do { vs' \<leftarrow> m; State_Monad.return (Inr vs') })
      in if path = ''account'' then
           (if enable_subid (accounts (cfg E)) then ok (subidVars E (Username user) vs) else State_Monad.return (Inr vs))
         else if path = ''groups'' then ok (groupsVars E c vs)
         else if path = ''access'' then ok (accessVars E c vs)
         else if path = ''apps'' then do {
           r \<leftarrow> appsVars E c vs;
           State_Monad.return (case r of None \<Rightarrow> Inl Hangs | Some vs' \<Rightarrow> Inr vs')
         }
         else if path = ''password'' then do {
           el \<leftarrow> elsewhere E c user;
           (case el of
              Some e \<Rightarrow> State_Monad.return (Inr (put_var ''password_elsewhere'' (PText (error_text e)) vs))
            | None \<Rightarrow> ok (pwPolicyVars E (Username user) vs))
         }
         else if path = ''sshkey'' then State_Monad.return (Inr (put_var ''keys'' (PKeys (SSHAuthKeys user)) vs))
         else if path = ''security'' then ok (securityVars E c vs)
         else if path = ''passkey'' then do {
           r \<leftarrow> passkeyList E c;
           State_Monad.return (Inr (put_var ''passkeys'' (PPasskeys (case r of Err _ \<Rightarrow> [] | Ok l \<Rightarrow> l)) vs))
         }
         else if path = ''otp'' then do {
           tokens \<leftarrow> reads (\<lambda>w. ip_FetchOTPTokens (ipa E) (ext w) (AsUser (lc_client c)) (lc_username c));
           State_Monad.return (case tokens of Err e \<Rightarrow> Inl (Fail e) | Ok ts \<Rightarrow> Inr (put_var ''otptokens'' (POtps ts) vs))
         }
         else State_Monad.return (Inr vs))"

definition Index :: "('s, 'x) env \<Rightarrow> ('s, 'x) handler" where
  "Index E c =
     (let user = lc_user c; p0 = TrimPrefix (rq_Path (req c)) ''/''; path = (if p0 = [] then ''account'' else p0)
      in do {
        vs \<leftarrow> expiryWarningVars E user
          [(''user'', PUser user), (''path'', PStr path), (''is_admin'', PBool (isAdmin (cfg E) user)), (''shell'', PBool True),
           (''section'', PStr (navSection path)), (''initials'', PStr (initials (uni E) user)),
           (''display_name'', PStr (displayName user))];
        (if HasPrefix path ''admin'' \<and> \<not> isAdmin (cfg E) user then State_Monad.return (status_only 403)
         else do {
           r \<leftarrow> index_section E c path vs;
           State_Monad.return (case r of Inl out \<Rightarrow> out | Inr vs' \<Rightarrow> render ''index.html'' vs')
         })
      })"

definition Logo :: "('s, 'x) env \<Rightarrow> ('s, 'x) handler" where
  "Logo E c =
     State_Monad.return
       (case site_logo (site (cfg E)) of
          Some path \<Rightarrow> Reply \<lparr>rs_status = 200, rs_headers = [], rs_body = File path\<rparr>
        | None \<Rightarrow> status_only 404)"

definition Styles :: "('s, 'x) env \<Rightarrow> ('s, 'x) handler" where
  "Styles E c =
     State_Monad.return
       (case site_css (site (cfg E)) of
          Some path \<Rightarrow> Reply \<lparr>rs_status = 200, rs_headers = [], rs_body = File path\<rparr>
        | None \<Rightarrow> status_only 404)"

definition Metrics :: "('s, 'x) env \<Rightarrow> ('s, 'x) handler" where
  "Metrics E c =
     reads (\<lambda>w. Reply \<lparr>rs_status = 200, rs_headers = [], rs_body = Plain (x_metrics (ipa E) (counter w))\<rparr>)"

section \<open>The table\<close>

text \<open>A route: its methods, its path and its chain of handlers; \<open>UseCSRF\<close> guards every later route.\<close>

record ('s, 'x) route =
  rt_methods :: "string list"
  rt_path :: string
  rt_chain :: "('s, 'x) handler list"

datatype ('s, 'x) registration = UseCSRF | Register "('s, 'x) route"

definition get :: "string \<Rightarrow> ('s, 'x) handler list \<Rightarrow> ('s, 'x) registration" where
  "get path chain = Register \<lparr>rt_methods = [''GET'', ''HEAD''], rt_path = path, rt_chain = chain\<rparr>"

definition post :: "string \<Rightarrow> ('s, 'x) handler list \<Rightarrow> ('s, 'x) registration" where
  "post path chain = Register \<lparr>rt_methods = [''POST''], rt_path = path, rt_chain = chain\<rparr>"

definition provided :: "bool \<Rightarrow> 'a list \<Rightarrow> 'a list" where
  "provided b xs = (if b then xs else [])"

abbreviation hydra_set :: "config \<Rightarrow> bool" where
  "hydra_set cf \<equiv> hydra_admin_url (hydra cf) \<noteq> None"

definition SetupRoutes :: "('s, 'x) env \<Rightarrow> ('s, 'x) registration list" where
  "SetupRoutes E =
     (let cf = cfg E in
     [get ''/healthz'' [Healthz E]]
     @ provided (api_tokens (server cf) \<noteq> [])
       ([get ''/api/v1/events'' [RequireAPIToken E, APIEvents E],
         get ''/api/v1/group-requests'' [RequireAPIToken E, APIGroupRequests E],
         get ''/api/v1/otp-recovery'' [RequireAPIToken E, APIOTPRecovery E]])
     @ [UseCSRF,
      get ''/'' [RequireLogin E, Index E],
      get ''/account'' [RequireLogin E, Index E],
      get ''/password'' [RequireLogin E, Index E],
      get ''/security'' [RequireLogin E, Index E],
      get ''/sshkey'' [RequireLogin E, Index E],
      get ''/passkey'' [RequireLogin E, Index E],
      get ''/otp'' [RequireLogin E, Index E]]
     @ provided (enable_groups (accounts cf))
       ([get ''/groups'' [RequireLogin E, Index E],
         post ''/groups/request'' [RequireLogin E, RequireHTMX E, GroupRequestJoin E],
         post ''/groups/leave'' [RequireLogin E, RequireHTMX E, GroupRequestLeave E],
         post ''/groups/approve'' [RequireLogin E, RequireHTMX E, GroupApprove E],
         post ''/groups/deny'' [RequireLogin E, RequireHTMX E, GroupDeny E],
         post ''/groups/remove-member'' [RequireLogin E, RequireHTMX E, GroupRemoveMember E]])
     @ provided (enable_access (accounts cf))
       ([get ''/access'' [RequireLogin E, Index E],
         post ''/access/test'' [RequireLogin E, RequireHTMX E, AccessTest E]])
     @ provided (enable_apps (accounts cf) \<and> hydra_set cf)
       ([get ''/apps'' [RequireLogin E, Index E]]
        @ provided (enable_groups (accounts cf))
          ([post ''/apps/request'' [RequireLogin E, RequireHTMX E, AppRequest E]]))
     @ provided (enable_subid (accounts cf))
       ([post ''/subid/generate'' [RequireLogin E, RequireHTMX E, SubidGenerate E]])
     @ provided (enable_signup (accounts cf))
       ([get ''/signup'' [RequireNoLogin E, AccountCreate E],
         post ''/signup'' [RequireNoLogin E, AccountCreate E]])
     @ [get ''/auth/login'' [RequireNoLogin E, (\<lambda>_. State_Monad.return Login)],
      post ''/auth/login'' [RequireNoLogin E, CheckUser E],
      post ''/auth/authenticate'' [RequireNoLogin E, Authenticate E],
      post ''/auth/expiredpw'' [RequireNoLogin E, PasswordExpired E],
      get ''/auth/forgotpw'' [RequireNoLogin E, PasswordForgot E],
      post ''/auth/forgotpw'' [RequireNoLogin E, PasswordForgot E],
      get ''/auth/forgotuser'' [RequireNoLogin E, UsernameForgot E],
      post ''/auth/forgotuser'' [RequireNoLogin E, UsernameForgot E],
      get ''/auth/verify'' [RequireNoLogin E, AccountVerifyResend E],
      post ''/auth/verify'' [RequireNoLogin E, AccountVerifyResend E],
      get ''/auth/resetpw/:token'' [PasswordReset E],
      post ''/auth/resetpw/:token'' [PasswordReset E],
      get ''/auth/verify/:token'' [AccountVerify E],
      post ''/auth/verify/:token'' [AccountVerify E],
      get ''/auth/otprecovery'' [RequireNoLogin E, OTPRecoveryRequest_handler E],
      post ''/auth/otprecovery'' [RequireNoLogin E, OTPRecoveryRequest_handler E],
      get ''/auth/otprecovery/:token'' [OTPRecoveryConfirm E],
      post ''/auth/otprecovery/:token'' [OTPRecoveryConfirm E],
      post ''/auth/logout'' [Logout E],
      get ''/auth/logout'' [Logout E],
      get ''/auth/captcha/:id.png'' [Captcha E],
      get ''/account/settings'' [RequireLogin E, RequireHTMX E, AccountSettings E],
      post ''/account/settings'' [RequireLogin E, RequireHTMX E, AccountSettings E],
      get ''/auth/email/confirm/:token'' [EmailChangeConfirm E],
      post ''/auth/email/confirm/:token'' [EmailChangeConfirm E],
      get ''/password/change'' [RequireLogin E, RequireHTMX E, PasswordChange E],
      post ''/password/change'' [RequireLogin E, RequireHTMX E, PasswordChange E],
      get ''/security/settings'' [RequireLogin E, RequireHTMX E, SecurityList E],
      post ''/security/session/revoke'' [RequireLogin E, RequireHTMX E, SessionRevoke E],
      post ''/security/sessions/revoke-others'' [RequireLogin E, RequireHTMX E, SessionRevokeOthers E],
      post ''/security/mfa/enable'' [RequireLogin E, RequireHTMX E, TwoFactorEnable E],
      post ''/security/mfa/disable'' [RequireLogin E, RequireHTMX E, TwoFactorDisable E],
      get ''/admin'' [RequireLogin E, Index E],
      get ''/admin/people'' [RequireLogin E, Index E],
      get ''/admin/log'' [RequireLogin E, Index E],
      post ''/admin/invite'' [RequireLogin E, RequireAdmin E, RequireHTMX E, InviteSend E],
      get ''/admin/users'' [RequireLogin E, RequireAdmin E, RequireHTMX E, AdminUserList E],
      get ''/admin/pending'' [RequireLogin E, RequireAdmin E, RequireHTMX E, AdminPendingList E],
      get ''/admin/otprecovery'' [RequireLogin E, RequireAdmin E, RequireHTMX E, AdminOTPRecoveryList E],
      get ''/admin/audit'' [RequireLogin E, RequireAdmin E, RequireHTMX E, AdminAuditList E],
      get ''/admin/helpdesk'' [RequireLogin E, RequireAdmin E, RequireHTMX E, AdminHelpdesk E],
      post ''/admin/user/:action'' [RequireLogin E, RequireAdmin E, RequireHTMX E, AdminUserAction E],
      get ''/auth/invite/:token'' [RequireNoLogin E, InviteAccept E],
      post ''/auth/invite/:token'' [RequireNoLogin E, InviteAccept E],
      post ''/passkey/begin'' [RequireLogin E, PasskeyBegin E],
      post ''/passkey/finish'' [RequireLogin E, PasskeyFinish E],
      post ''/passkey/remove'' [RequireLogin E, RequireHTMX E, PasskeyRemove E],
      get ''/sshkey/list'' [RequireLogin E, RequireHTMX E, (\<lambda>c. State_Monad.return (SSHKeyList c))],
      get ''/sshkey/modal'' [RequireLogin E, RequireHTMX E, (\<lambda>_. State_Monad.return SSHKeyModal)],
      post ''/sshkey/add'' [RequireLogin E, RequireMFA E, RequireHTMX E, SSHKeyAdd E],
      post ''/sshkey/remove'' [RequireLogin E, RequireMFA E, RequireHTMX E, SSHKeyRemove E],
      get ''/otptoken/list'' [RequireLogin E, RequireHTMX E, OTPTokenList E],
      get ''/otptoken/modal'' [RequireLogin E, RequireHTMX E, RequireOTPSelfService E, (\<lambda>_. State_Monad.return OTPTokenModal)],
      post ''/otptoken/add'' [RequireLogin E, RequireHTMX E, RequireOTPSelfService E, OTPTokenAdd E],
      post ''/otptoken/verify'' [RequireLogin E, RequireHTMX E, RequireOTPSelfService E, OTPTokenVerify E],
      post ''/otptoken/remove'' [RequireLogin E, RequireHTMX E, RequireOTPSelfService E, OTPTokenRemove E],
      post ''/otptoken/enable'' [RequireLogin E, RequireHTMX E, RequireOTPSelfService E, OTPTokenEnable E],
      post ''/otptoken/disable'' [RequireLogin E, RequireHTMX E, RequireOTPSelfService E, OTPTokenDisable E]]
     @ provided (site_logo (site cf) \<noteq> None)
       ([get ''/images/logo'' [Logo E]])
     @ provided (site_css (site cf) \<noteq> None)
       ([get ''/css/styles'' [Styles E]])
     @ provided (hydra_set cf)
       ([get ''/oauth/consent'' [ConsentGet E],
         get ''/oauth/login'' [LoginOAuthGet E],
         get ''/oauth/error'' [(\<lambda>c. State_Monad.return (HydraError c))],
         post ''/security/apps/revoke'' [RequireLogin E, RequireHTMX E, AppRevoke E]])
     @ provided (enable_metrics (server cf))
       ([get ''/metrics'' [Metrics E]]))"

text \<open>The routes with the chain a request to them runs through.\<close>

fun chains :: "('s, 'x) env \<Rightarrow> bool \<Rightarrow> ('s, 'x) registration list \<Rightarrow> ('s, 'x) route list" where
  "chains E csrf [] = []"
| "chains E csrf (UseCSRF # rs) = chains E True rs"
| "chains E csrf (Register r # rs) =
     (if csrf then r\<lparr>rt_chain := CSRF E # rt_chain r\<rparr> else r) # chains E csrf rs"

definition routes :: "('s, 'x) env \<Rightarrow> ('s, 'x) route list" where
  "routes E = chains E False (SetupRoutes E)"

text \<open>\<open>c.Next\<close>: a handler that hands on runs the next one of the chain.\<close>

fun run_chain :: "('s, 'x) handler list \<Rightarrow> ('s, 'x) handler" where
  "run_chain [] c = State_Monad.return (Next c)"
| "run_chain (h # hs) c =
     do {
       r \<leftarrow> h c;
       (case r of Next c' \<Rightarrow> run_chain hs c' | _ \<Rightarrow> State_Monad.return r)
     }"

section \<open>Every route is guarded\<close>

lemma chains_append: "chains E b (xs @ ys) = chains E b xs @ chains E (b \<or> UseCSRF \<in> set xs) ys"
  by (induction E b xs rule: chains.induct) auto

lemma registration_simps [simp]:
  "UseCSRF \<noteq> get p ch" "UseCSRF \<noteq> post p ch"
  "chains E b (get p ch # rs) = \<lparr>rt_methods = [''GET'', ''HEAD''], rt_path = p, rt_chain = (if b then [CSRF E] else []) @ ch\<rparr> # chains E b rs"
  "chains E b (post p ch # rs) = \<lparr>rt_methods = [''POST''], rt_path = p, rt_chain = (if b then [CSRF E] else []) @ ch\<rparr> # chains E b rs"
  "chains E b (provided q rs) = (if q then chains E b rs else [])" "UseCSRF \<in> set (provided q rs) \<longleftrightarrow> q \<and> UseCSRF \<in> set rs"
  by (auto simp: get_def post_def provided_def)

text \<open>Paths anyone may ask for.\<close>

definition public_path :: "string \<Rightarrow> bool" where
  "public_path p \<longleftrightarrow> HasPrefix p ''/auth/'' \<or> HasPrefix p ''/api/'' \<or> HasPrefix p ''/oauth/''
     \<or> p \<in> {''/signup'', ''/healthz'', ''/metrics'', ''/images/logo'', ''/css/styles''}"

text \<open>A chain with the login check, then guards that hand the request on as it is, then the page.\<close>

definition login_chain :: "('s, 'x) env \<Rightarrow> ('s, 'x) handler list \<Rightarrow> bool" where
  "login_chain E ch \<longleftrightarrow>
     (case ch of
        a # b # rest \<Rightarrow>
          a = CSRF E \<and> b = RequireLogin E \<and> rest \<noteq> []
          \<and> set (butlast rest) \<subseteq> {RequireHTMX E, RequireMFA E, RequireOTPSelfService E, RequireAdmin E}
      | _ \<Rightarrow> False)"

definition guarded :: "('s, 'x) env \<Rightarrow> ('s, 'x) route \<Rightarrow> bool" where
  "guarded E r \<longleftrightarrow>
     (rt_methods r = [''POST''] \<longrightarrow> (\<exists>rest. rt_chain r = CSRF E # rest))
     \<and> (public_path (rt_path r) \<or> login_chain E (rt_chain r))
     \<and> (HasPrefix (rt_path r) ''/api/'' \<longrightarrow> (\<exists>rest. rt_chain r = RequireAPIToken E # rest))
     \<and> (HasPrefix (rt_path r) ''/admin''
          \<longrightarrow> (\<exists>rest. rt_chain r = CSRF E # RequireLogin E # RequireAdmin E # rest)
              \<or> rt_chain r = [CSRF E, RequireLogin E, Index E])"

lemma routes_guarded: "list_all (guarded E) (routes E)"
  unfolding routes_def SetupRoutes_def Let_def
  by (simp add: chains_append guarded_def public_path_def login_chain_def)

lemma route_guarded: "r \<in> set (routes E) \<Longrightarrow> guarded E r"
  using routes_guarded [of E] by (simp add: list_all_iff)

text \<open>Where a request stands when the last handler of a chain is called, if it is.\<close>

fun arrives :: "('s, 'x) handler list \<Rightarrow> ctx \<Rightarrow> ('s, 'x) world \<Rightarrow> (ctx \<times> ('s, 'x) world) option" where
  "arrives [] c w = None"
| "arrives [h] c w = Some (c, w)"
| "arrives (h # hs) c w = (case run_state (h c) w of (Next c', w') \<Rightarrow> arrives hs c' w' | _ \<Rightarrow> None)"

lemma arrives_Cons: "hs \<noteq> [] \<Longrightarrow> arrives (h # hs) c w = (case run_state (h c) w of (Next c', w') \<Rightarrow> arrives hs c' w' | _ \<Rightarrow> None)"
  by (auto simp: neq_Nil_conv)

lemma arrives_run:
  "run_state (run_chain (hs @ [h]) c) w =
     (case arrives (hs @ [h]) c w of
        Some (c', w') \<Rightarrow> run_state (h c') w'
      | None \<Rightarrow> run_state (run_chain (hs @ [h']) c) w)"
proof (induction hs arbitrary: c w)
  case Nil
  obtain r w' where "run_state (h c) w = (r, w')" by fastforce
  then show ?case by (cases r) simp_all
next
  case (Cons g hs)
  obtain r w' where g: "run_state (g c) w = (r, w')" by fastforce
  then show ?case using Cons [of _ w'] by (cases r) (auto simp: arrives_Cons split: option.split)
qed

definition gate :: "('s, 'x) handler \<Rightarrow> bool" where
  "gate h \<longleftrightarrow> (\<forall>c w c' w'. run_state (h c) w = (Next c', w') \<longrightarrow> c' = c)"

lemma gates: "gate (RequireHTMX E)" "gate (RequireMFA E)" "gate (RequireOTPSelfService E)" "gate (RequireAdmin E)" "gate (CSRF E)"
  by (auto simp: gate_def RequireHTMX_def RequireMFA_def RequireOTPSelfService_def RequireAdmin_def CSRF_def status_only_def Let_def case_prod_unfold
      split: if_splits sum.splits option.splits)

lemma arrives_gates: "\<forall>g\<in>set hs. gate g \<Longrightarrow> arrives (hs @ [h]) c w = Some (c', w') \<Longrightarrow> c' = c"
proof (induction hs arbitrary: c w)
  case (Cons g hs)
  then obtain c1 w1 where "run_state (g c) w = (Next c1, w1)" "arrives (hs @ [h]) c1 w1 = Some (c', w')"
    by (auto simp: arrives_Cons split: prod.splits outcome.splits)
  moreover from this have "c1 = c" using Cons.prems(1) by (auto simp: gate_def)
  ultimately show ?case using Cons by simp
qed simp

lemma chain_next: "run_state (h c) w = (Next c', w') \<Longrightarrow> run_state (run_chain (h # hs) c) w = run_state (run_chain hs c') w'"
  by simp

lemma chain_stop: "run_state (h c) w = (r, w') \<Longrightarrow> (\<And>c'. r \<noteq> Next c') \<Longrightarrow> run_state (run_chain (h # hs) c) w = (r, w')"
  by (cases r) auto

lemma redirectLogin_ends: "run_state (redirectLogin E c) w = (r, w') \<Longrightarrow> r \<noteq> Next c'"
  by (auto simp: redirectLogin_def hx_redirect_def redirect_def case_prod_unfold split: if_splits)

lemma RequireLogin_next:
  assumes "run_state (RequireLogin E c) w = (Next c', w')"
  shows "run_state (isLoggedIn E c) w = (Ok c', w')"
proof -
  obtain r w1 where r: "run_state (isLoggedIn E c) w = (r, w1)" by fastforce
  then show ?thesis
    using assms redirectLogin_ends [of E c w1 "Next c'" w' c'] by (cases r) (auto simp: RequireLogin_def)
qed

lemma isLoggedIn_ok:
  assumes "run_state (isLoggedIn E c) w = (Ok c', w')"
  shows "\<exists>x w1 login. run_state (session E c) w = (Ok x, w1)
    \<and> session_claims x = Ok (lc_username c', lc_client c', login)
    \<and> ip_session (ipa E) (ext w1) (lc_client c') = None
    \<and> ip_UserShow (ipa E) (ext w1) (AsUser (lc_client c')) (lc_username c') = Ok (lc_user c') \<and> req c' = req c"
proof -
  obtain sx w1 where "run_state (session E c) w = (sx, w1)" by fastforce
  then show ?thesis
    using assms by (auto simp: isLoggedIn_def case_prod_unfold split: sum.splits if_splits option.splits prod.splits)
qed

text \<open>
  C1. No page without a login. On every route outside the public list, whatever its method, the handler of the page is called only for
  a request whose session is that of a completed login, with the user name and FreeIPA session of that session and with the user
  as FreeIPA shows it to that session at this moment. In every other case the handler does not run: any other one in its place gives the same answer and the same effects.
\<close>

theorem login_required:
  assumes "r \<in> set (routes E)" and "\<not> public_path (rt_path r)"
  shows "case arrives (rt_chain r) c w of
      None \<Rightarrow> run_state (run_chain (rt_chain r) c) w = run_state (run_chain (butlast (rt_chain r) @ [h]) c) w
    | Some (c', w') \<Rightarrow>
        run_state (run_chain (rt_chain r) c) w = run_state (last (rt_chain r) c') w'
        \<and> (\<exists>x w0 w1 login. run_state (CSRF E c) w = (Next c, w0) \<and> run_state (session E c) w0 = (Ok x, w1)
             \<and> session_claims x = Ok (lc_username c', lc_client c', login)
             \<and> ip_session (ipa E) (ext w1) (lc_client c') = None
             \<and> ip_UserShow (ipa E) (ext w1) (AsUser (lc_client c')) (lc_username c') = Ok (lc_user c') \<and> req c' = req c)"
proof -
  have "login_chain E (rt_chain r)" using route_guarded [OF assms(1)] assms(2) by (simp add: guarded_def)
  then obtain mids p where chain: "rt_chain r = (CSRF E # RequireLogin E # mids) @ [p]"
    and mids: "set mids \<subseteq> {RequireHTMX E, RequireMFA E, RequireOTPSelfService E, RequireAdmin E}"
    by (auto simp: login_chain_def split: list.splits) (metis append_butlast_last_id)
  have run: "run_state (run_chain (rt_chain r) c) w =
     (case arrives (rt_chain r) c w of
        Some (c', w') \<Rightarrow> run_state (p c') w'
      | None \<Rightarrow> run_state (run_chain ((CSRF E # RequireLogin E # mids) @ [h]) c) w)"
    unfolding chain by (rule arrives_run)
  have "\<exists>x w0 w1 login. run_state (CSRF E c) w = (Next c, w0) \<and> run_state (session E c) w0 = (Ok x, w1)
      \<and> session_claims x = Ok (lc_username c', lc_client c', login)
      \<and> ip_session (ipa E) (ext w1) (lc_client c') = None
      \<and> ip_UserShow (ipa E) (ext w1) (AsUser (lc_client c')) (lc_username c') = Ok (lc_user c') \<and> req c' = req c"
    if arr: "arrives (rt_chain r) c w = Some (c', w')" for c' w'
  proof -
    obtain c1 w1 c2 w2 where csrf: "run_state (CSRF E c) w = (Next c1, w1)" and login: "run_state (RequireLogin E c1) w1 = (Next c2, w2)"
      and mid: "arrives (mids @ [p]) c2 w2 = Some (c', w')"
      using arr by (auto simp: chain arrives_Cons split: prod.splits outcome.splits)
    have "c1 = c" using gates(5) csrf unfolding gate_def by blast
    moreover have "c' = c2" by (rule arrives_gates [OF _ mid]) (use mids gates in blast)
    moreover have "run_state (isLoggedIn E c1) w1 = (Ok c2, w2)"
      using login by (rule RequireLogin_next)
    ultimately show ?thesis using isLoggedIn_ok csrf by blast
  qed
  with run show ?thesis by (auto simp: chain split: option.split)
qed

lemma HasPrefix_TrimPrefix: "HasPrefix p ''/admin'' \<Longrightarrow> TrimPrefix p ''/'' \<noteq> [] \<and> HasPrefix (TrimPrefix p ''/'') ''admin''"
  by (cases p) (auto simp: TrimPrefix_def)

lemma expiryWarningVars_ext: "wp (expiryWarningVars E u vs) (\<lambda>_ w'. ext w' = ext w) w"
  by (simp add: expiryWarningVars_def Let_def)

lemma Index_refuses:
  assumes "\<not> isAdmin (cfg E) (lc_user c)" and "HasPrefix (rq_Path (req c)) ''/admin''"
  shows "wp (Index E c) (\<lambda>r w'. r = status_only 403 \<and> ext w' = ext w) w"
  using assms HasPrefix_TrimPrefix [OF assms(2)] unfolding Routes.Index_def Let_def
  by (simp add: wp_mono [OF expiryWarningVars_ext])

lemma RequireAdmin_refuses:
  assumes "\<not> isAdmin (cfg E) (lc_user c)"
  shows "wp (RequireAdmin E c) (\<lambda>r w'. r = status_only 403 \<and> ext w' = ext w) w"
  using assms by (simp add: RequireAdmin_def wp_mono [OF audit_ext])

text \<open>
  C2. The admin panel is for admins. On every route below \<open>/admin\<close> a request that the CSRF check refuses ends there, one that is not signed in
  is sent to the login page, and one of a user who is neither in the group of administrators nor listed as one, or of any user where the panel is off,
  is answered with 403 and changes nothing outside the portal.
\<close>

theorem admin_required:
  assumes "r \<in> set (routes E)" and "HasPrefix (rt_path r) ''/admin''" and "HasPrefix (rq_Path (req c)) ''/admin''"
  shows "case run_state (CSRF E c) w of
      (Next c1, w1) \<Rightarrow>
        (case run_state (isLoggedIn E c1) w1 of
           (Err e, w2) \<Rightarrow> run_state (run_chain (rt_chain r) c) w = run_state (redirectLogin E c1) w2
         | (Ok c2, w2) \<Rightarrow>
             (admin_enabled (admin (cfg E))
                \<and> (admin_group (admin (cfg E)) \<in> set (MemberOf (lc_user c2)) \<or> Username (lc_user c2) \<in> set (admin_users (admin (cfg E)))))
             \<or> (\<exists>w3. run_state (run_chain (rt_chain r) c) w = (status_only 403, w3) \<and> ext w3 = ext w2))
    | (ans, w1) \<Rightarrow> run_state (run_chain (rt_chain r) c) w = (ans, w1)"
proof -
  from route_guarded [OF assms(1)] assms(2)
  obtain h rest where chain: "rt_chain r = CSRF E # RequireLogin E # h # rest" and h: "h = RequireAdmin E \<or> h = Routes.Index E"
    by (auto simp: guarded_def)
  obtain o1 w1 where csrf: "run_state (CSRF E c) w = (o1, w1)" by fastforce
  have stop: "run_state (run_chain (rt_chain r) c) w = (o1, w1)" if "\<And>c1. o1 \<noteq> Next c1"
    unfolding chain using chain_stop [of "CSRF E", OF csrf that] .
  have go: ?thesis if o1: "o1 = Next c1" for c1
  proof -
    have c1: "c1 = c" using gates(5) csrf o1 unfolding gate_def by blast
    note next1 = chain_next [of "CSRF E" c, OF csrf [unfolded o1]]
    obtain l w2 where login: "run_state (isLoggedIn E c1) w1 = (l, w2)" by fastforce
    show ?thesis
    proof (cases l)
      case (Inl e)
      obtain o' w' where out: "run_state (redirectLogin E c1) w2 = (o', w')" by fastforce
      have "run_state (RequireLogin E c1) w1 = (o', w')" using login Inl out by (simp add: RequireLogin_def)
      then have "run_state (run_chain (RequireLogin E # h # rest) c1) w1 = (o', w')"
        by (rule chain_stop) (rule redirectLogin_ends [OF out])
      with next1 csrf o1 login Inl out show ?thesis by (simp add: chain)
    next
      case (Inr c2)
      have path: "HasPrefix (rq_Path (req c2)) ''/admin''" using isLoggedIn_ok [OF login [unfolded Inr]] assms(3) c1 by auto
      have "run_state (RequireLogin E c1) w1 = (Next c2, w2)" using login Inr by (simp add: RequireLogin_def)
      from next1 chain_next [of "RequireLogin E" c1, OF this] have run: "run_state (run_chain (rt_chain r) c) w = run_state (run_chain (h # rest) c2) w2"
        by (simp only: chain)
      have "\<exists>w3. run_state (run_chain (h # rest) c2) w2 = (status_only 403, w3) \<and> ext w3 = ext w2" if "\<not> isAdmin (cfg E) (lc_user c2)"
      proof -
        have "wp (h c2) (\<lambda>r w'. r = status_only 403 \<and> ext w' = ext w2) w2"
          using h RequireAdmin_refuses [OF that] Index_refuses [OF that path] by auto
        then obtain w3 where "run_state (h c2) w2 = (status_only 403, w3)" "ext w3 = ext w2" by (auto simp: wp_def split: prod.splits)
        with chain_stop [of h c2 w2 "status_only 403" w3 rest] show ?thesis by (auto simp: status_only_def)
      qed
      with run csrf o1 login Inr show ?thesis by (auto simp: isAdmin_def list_ex_iff)
    qed
  qed
  show ?thesis using stop go csrf by (cases o1) auto
qed

text \<open>
  C3. The API needs a token. Where SHA-256 does not map the token of a request to that of a configured one by accident, the handlers below \<open>/api/\<close> run exactly
  for requests whose Authorization header is \<open>Bearer\<close> with one of the configured tokens that are not empty; every other request, with another header or
  none, is answered with 401 and nothing changes.
\<close>

theorem api_token_required:
  assumes "r \<in> set (routes E)" and "HasPrefix (rt_path r) ''/api/''"
    and "\<And>token t. rq_authorization (req c) = ''Bearer '' @ token \<Longrightarrow> t \<in> set (api_tokens (server (cfg E)))
      \<Longrightarrow> sha256 E token = sha256 E t \<Longrightarrow> token = t"
  shows "run_state (run_chain (rt_chain r) c) w =
    (if \<exists>token\<in>set (api_tokens (server (cfg E))). token \<noteq> [] \<and> rq_authorization (req c) = ''Bearer '' @ token
     then run_state (run_chain (tl (rt_chain r)) c) w else (unauthorized, w))"
proof -
  obtain rest where chain: "rt_chain r = RequireAPIToken E # rest" using route_guarded [OF assms(1)] assms(2) by (auto simp: guarded_def)
  show ?thesis
  proof (cases "\<exists>token\<in>set (api_tokens (server (cfg E))). token \<noteq> [] \<and> rq_authorization (req c) = ''Bearer '' @ token")
    case True
    then have "run_state (RequireAPIToken E c) w = (Next c, w)" using RequireAPIToken_exact [of c E w] assms(3) by simp
    from chain_next [of "RequireAPIToken E", OF this] True show ?thesis unfolding chain by simp
  next
    case False
    then have "run_state (RequireAPIToken E c) w = (unauthorized, w)" using RequireAPIToken_exact [of c E w] assms(3) by simp
    from chain_stop [of "RequireAPIToken E", OF this] False show ?thesis unfolding chain by auto
  qed
qed

section \<open>Cross-site requests\<close>

text \<open>
  C13. Cross-site requests. A POST to any route, and any other request to it whose method is not GET, HEAD, OPTIONS or TRACE, gets past the check exactly when its session
  loads, holds a token and the request repeats that token in its header; every other one ends there, with 403 or the error of the session
  store, and nothing of the rest of the chain runs. (HEAD requests are not checked, and the pages of links take them for POST.)
\<close>

theorem csrf_required:
  assumes "r \<in> set (routes E)" and "rt_methods r = [''POST'']" and "rq_Method (req c) \<notin> {''GET'', ''HEAD'', ''OPTIONS'', ''TRACE''}"
  shows "run_state (run_chain (rt_chain r) c) w =
    (case run_state (session E c) w of
       (Err e, w1) \<Rightarrow> (Fail e, w1)
     | (Ok x, w1) \<Rightarrow>
         if rq_csrf (req c) \<noteq> [] \<and> sess_get x SessionKeyCSRF = Some (SStr (rq_csrf (req c)))
         then run_state (run_chain (tl (rt_chain r)) c) w1 else (Fail ErrForbidden, w1))"
proof -
  obtain rest where chain: "rt_chain r = CSRF E # rest" using route_guarded [OF assms(1)] assms(2) by (auto simp: guarded_def)
  show ?thesis unfolding chain by (simp add: CSRF_unsafe [OF assms(3)] case_prod_unfold split: sum.split)
qed

section \<open>HEAD requests\<close>

text \<open>A request by another method and with another CSRF token.\<close>

definition by_method :: "string \<Rightarrow> string \<Rightarrow> ctx \<Rightarrow> ctx" where
  "by_method m k c = c\<lparr>req := (req c)\<lparr>rq_Method := m, rq_csrf := k\<rparr>\<rparr>"

lemma by_method_simps [simp]:
  "rq_Method (req (by_method m k c)) = m" "rq_csrf (req (by_method m k c)) = k" "rq_params (req (by_method m k c)) = rq_params (req c)"
  "rq_form (req (by_method m k c)) = rq_form (req c)" "rq_cookie (req (by_method m k c)) = rq_cookie (req c)"
  "rq_ip (req (by_method m k c)) = rq_ip (req c)" "rq_Path (req (by_method m k c)) = rq_Path (req c)"
  "rq_lang (req (by_method m k c)) = rq_lang (req c)" "rq_base (req (by_method m k c)) = rq_base (req c)"
  "rq_os (req (by_method m k c)) = rq_os (req c)" "rq_browser (req (by_method m k c)) = rq_browser (req c)"
  by (simp_all add: by_method_def)

lemma session_by_method: "session E (by_method m k c) = session E c"
  by (simp add: session_def migrateFiberV2Session_def cong: sum.case_cong if_cong)

lemma mail_by_method:
  "emailLanguage E u (Some (by_method m k c)) = emailLanguage E u (Some c)"
  "deliver_mail E u (Some (by_method m k c)) = deliver_mail E u (Some c)"
  by (simp_all add: emailLanguage_def deliver_mail_def BaseURL_def fun_eq_iff Let_def cong: sum.case_cong option.case_cong if_cong)

text \<open>The pages of links ask whether a request is a GET, and nothing else of its method.\<close>

lemma links_by_method:
  assumes "m \<noteq> ''GET''" "m' \<noteq> ''GET''"
  shows "EmailChangeConfirm E (by_method m k c) = EmailChangeConfirm E (by_method m' k' c)"
    and "AccountVerify E (by_method m k c) = AccountVerify E (by_method m' k' c)"
    and "OTPRecoveryConfirm E (by_method m k c) = OTPRecoveryConfirm E (by_method m' k' c)"
    and "PasswordReset E (by_method m k c) = PasswordReset E (by_method m' k' c)"
proof -
  note simps = Let_def assms mail_by_method
  show "EmailChangeConfirm E (by_method m k c) = EmailChangeConfirm E (by_method m' k' c)"
    by (simp add: EmailChangeConfirm_def email_changed_def SendEmailChangedNotification_def event_mail_def simps cong: sum.case_cong option.case_cong if_cong)
  have finish: "finishAccountVerify E (by_method m k c) = finishAccountVerify E (by_method m' k' c)"
    by (simp add: finishAccountVerify_def SendWelcomeEmail_def simps fun_eq_iff cong: sum.case_cong option.case_cong if_cong)
  have "verify_failed (by_method m k c) = verify_failed (by_method m' k' c)" by (simp add: verify_failed_def)
  then show "AccountVerify E (by_method m k c) = AccountVerify E (by_method m' k' c)"
    by (simp add: AccountVerify_def verifyLegacyUser_def finish simps cong: sum.case_cong option.case_cong if_cong)
  show "OTPRecoveryConfirm E (by_method m k c) = OTPRecoveryConfirm E (by_method m' k' c)"
    by (simp add: OTPRecoveryConfirm_def simps cong: sum.case_cong option.case_cong if_cong)
  have "reset_done E (by_method m k c) = reset_done E (by_method m' k' c)"
    by (simp add: reset_done_def SendPasswordChangedEmail_def simps fun_eq_iff cong: sum.case_cong option.case_cong if_cong)
  then have "reset_known E (by_method m k c) = reset_known E (by_method m' k' c)"
    by (simp add: reset_known_def reset_password_def simps fun_eq_iff cong: sum.case_cong option.case_cong if_cong)
  then show "PasswordReset E (by_method m k c) = PasswordReset E (by_method m' k' c)"
    by (simp add: PasswordReset_def elsewhere_def simps cong: sum.case_cong option.case_cong if_cong)
qed

lemma chain_last:
  assumes "run_state (h c) w = run_state m w'" and "wp m (\<lambda>r _. \<forall>c'. r \<noteq> Next c') w'"
  shows "run_state (run_chain [h] c) w = run_state m w'"
proof -
  obtain r w'' where m: "run_state m w' = (r, w'')" by fastforce
  have "run_state (run_chain [h] c) w = (r, w'')"
    by (rule chain_stop) (use assms m in \<open>auto simp: wp_def\<close>)
  with m show ?thesis by simp
qed

lemma email_changed_success: "wp (email_changed E c tok cl u) (\<lambda>r _. r = change_success) w"
  by (simp add: email_changed_def wp_def case_prod_unfold)

lemma email_changed_ends: "wp (email_changed E c token claims u) (\<lambda>r _. \<forall>c'. r \<noteq> Next c') w"
  by (rule wp_mono [OF email_changed_success]) simp

definition link_pages :: "('s, 'x) env \<Rightarrow> (string \<times> ('s, 'x) handler) set" where
  "link_pages E = {(''/auth/email/confirm/:token'', EmailChangeConfirm E), (''/auth/verify/:token'', AccountVerify E),
     (''/auth/otprecovery/:token'', OTPRecoveryConfirm E), (''/auth/resetpw/:token'', PasswordReset E)}"

lemma link_routes:
  assumes "(path, h) \<in> link_pages E"
  shows "\<lparr>rt_methods = [''GET'', ''HEAD''], rt_path = path, rt_chain = [CSRF E, h]\<rparr> \<in> set (routes E)"
    "\<lparr>rt_methods = [''POST''], rt_path = path, rt_chain = [CSRF E, h]\<rparr> \<in> set (routes E)"
  using assms unfolding routes_def SetupRoutes_def Let_def link_pages_def by (auto simp: chains_append)

text \<open>
  C40. HEAD acts like POST. The page of a link that confirms an address, verifies an account, asks for OTP recovery or resets a password is registered for HEAD beside GET.
  A HEAD request to it, without a CSRF token, does exactly what a POST with the token of the session does, with the same answer and the same effects, and the rate limit
  does not count it. So a HEAD request with a valid link of an address change makes FreeIPA store the new address. (The comment above \<open>EmailChangeConfirm\<close> says that only POST performs the change, so that scanners of links do not.)
\<close>

theorem head_acts_as_post:
  assumes "(path, h) \<in> link_pages E" and "HasPrefix (rq_Path (req c)) ''/auth/''"
    and "run_state (session E c) w = (Ok x, w1)" and "sess_get x SessionKeyCSRF = Some (SStr t)" and "t \<noteq> []"
  shows "\<exists>r\<in>set (routes E). \<exists>r'\<in>set (routes E).
    rt_path r = path \<and> ''HEAD'' \<in> set (rt_methods r) \<and> rt_path r' = path \<and> ''POST'' \<in> set (rt_methods r')
    \<and> run_state (run_chain (rt_chain r) (by_method ''HEAD'' [] c)) w = run_state (run_chain (rt_chain r') (by_method ''POST'' t c)) w
    \<and> limiter_skips (req (by_method ''HEAD'' [] c)) \<and> \<not> limiter_skips (req (by_method ''POST'' t c))
    \<and> (\<forall>claims u u' y. path = ''/auth/email/confirm/:token''
         \<and> ParseToken (stg E) (brn E) (cfg E) (rq_params (req c) ''token'') TokenEmailChange (clk E (tick w1)) (sto w1) = Ok claims
         \<and> ip_UserShow (ipa E) (ext w1) Admin (tk_Username claims) = Ok u
         \<and> ip_UserMod (ipa E) (ext w1) (u\<lparr>Email := tk_Email claims\<rparr>) = (Ok u', y)
         \<longrightarrow> run_state (run_chain (rt_chain r) (by_method ''HEAD'' [] c)) w
           = run_state (email_changed E (by_method ''HEAD'' [] c) (rq_params (req c) ''token'') claims u)
               (w1\<lparr>tick := Suc (tick w1), ext := y\<rparr>))"
proof -
  have head: "run_state (CSRF E (by_method ''HEAD'' [] c)) w = (Next (by_method ''HEAD'' [] c), w1)"
    and post: "run_state (CSRF E (by_method ''POST'' t c)) w = (Next (by_method ''POST'' t c), w1)"
    using assms(3-5) by (simp_all add: CSRF_def safe_method_def session_by_method)
  have "h (by_method ''HEAD'' [] c) = h (by_method ''POST'' t c)"
    using assms(1) links_by_method [of "''HEAD''" "''POST''" E "[]" c t] by (auto simp: link_pages_def)
  then have run: "run_state (run_chain [CSRF E, h] (by_method ''HEAD'' [] c)) w = run_state (run_chain [CSRF E, h] (by_method ''POST'' t c)) w"
    unfolding chain_next [of "CSRF E", OF head] chain_next [of "CSRF E", OF post] by simp
  have change: "run_state (run_chain [CSRF E, h] (by_method ''HEAD'' [] c)) w
      = run_state (email_changed E (by_method ''HEAD'' [] c) (rq_params (req c) ''token'') claims u) (w1\<lparr>tick := Suc (tick w1), ext := y\<rparr>)"
    if "path = ''/auth/email/confirm/:token''"
      and "ParseToken (stg E) (brn E) (cfg E) (rq_params (req c) ''token'') TokenEmailChange (clk E (tick w1)) (sto w1) = Ok claims"
      and "ip_UserShow (ipa E) (ext w1) Admin (tk_Username claims) = Ok u"
      and "ip_UserMod (ipa E) (ext w1) (u\<lparr>Email := tk_Email claims\<rparr>) = (Ok u', y)" for claims u u' y
  proof -
    have h: "h = EmailChangeConfirm E" using assms(1) that(1) by (simp add: link_pages_def)
    have "run_state (EmailChangeConfirm E (by_method ''HEAD'' [] c)) w1
        = run_state (email_changed E (by_method ''HEAD'' [] c) (rq_params (req c) ''token'') claims u) (w1\<lparr>tick := Suc (tick w1), ext := y\<rparr>)"
      using that(2-4) by (simp add: EmailChangeConfirm_def parse_token_def Let_def)
    then show ?thesis unfolding h chain_next [of "CSRF E", OF head] by (rule chain_last) (rule email_changed_ends)
  qed
  have "\<not> HasPrefix (rq_Path (req c)) ''/api/''" "HasPrefix (rq_Path (req c)) ''/auth''"
    using assms(2) by (auto simp: HasPrefix_iff)
  then have paths: "limiter_skips (req (by_method ''HEAD'' [] c))" "\<not> limiter_skips (req (by_method ''POST'' t c))"
    by (simp_all add: limiter_skips_def)
  show ?thesis
    by (rule bexI [OF _ link_routes(1) [OF assms(1)]], rule bexI [OF _ link_routes(2) [OF assms(1)]])
      (use run change paths in \<open>simp del: run_chain.simps\<close>)
qed

section \<open>Limits\<close>

text \<open>Every POST of the login pages and the signup is counted, and every request to the API.\<close>

lemma limited: "rq_Method r = ''POST'' \<and> (rq_Path r = ''/signup'' \<or> HasPrefix (rq_Path r) ''/auth'') \<or> HasPrefix (rq_Path r) ''/api/''
    \<longleftrightarrow> \<not> limiter_skips r"
  by (auto simp: limiter_skips_def)

lemma walk_skips:
  assumes "\<And>s ip. s \<in> set ss \<Longrightarrow> ParseIP (TrimSpace s) = Some ip \<Longrightarrow> trustedProxyContains cf (Some ip)"
  shows "walk_forwarded cf (ss @ ts) = walk_forwarded cf ts"
  using assms by (induction ss) (auto split: option.split)

text \<open>
  C32. The client's address cannot be forged. A peer that is no trusted proxy is taken as it is, whatever the header
  says; behind trusted proxies the address is the last entry of the header that is no trusted proxy, so
  that what a client puts before it makes no difference.
\<close>

theorem remote_ip_not_forged:
  assumes "trustedProxyContains cf (Some peer) \<longrightarrow>
      ParseIP (TrimSpace s) = Some ip \<and> \<not> trustedProxyContains cf (Some ip)
      \<and> (\<forall>p\<in>set proxies. \<forall>q. ParseIP (TrimSpace p) = Some q \<longrightarrow> trustedProxyContains cf (Some q))"
  shows "RemoteIP cf peer (forged @ s # proxies)
    = (if trustedProxyContains cf (Some peer) then IP_String ip else IP_String peer)"
  using assms walk_skips [of "rev proxies" cf "s # rev forged"] by (auto simp: RemoteIP_def)

section \<open>Witnesses\<close>

text \<open>Sessions that hold a CSRF token and the data \<open>d\<close>, and a request that repeats the token.\<close>

definition tok_env :: "(string \<times> sval) list \<Rightarrow> (cells, unit) env" where
  "tok_env d = demo_env\<lparr>fib := demo_sessions\<lparr>fs_get := \<lambda>_ _ k. Ok \<lparr>ss_id = k, ss_data = (SessionKeyCSRF, SStr ''t'') # d, ss_idle = 0\<rparr>\<rparr>,
     ipa := demo_outside\<lparr>ip_UserShow := \<lambda>_ _ _. Ok demo_alice\<rparr>\<rparr>"

definition tok_ctx :: "string \<Rightarrow> string \<Rightarrow> ctx" where
  "tok_ctx m p = demo_ctx\<lparr>req := (req demo_ctx)\<lparr>rq_csrf := ''t'', rq_Method := m, rq_Path := p, rq_params := \<lambda>_. ''token-7''\<rparr>\<rparr>"

lemma tok_simps [simp]:
  "stg (tok_env d) = sound_storage" "brn (tok_env d) = demo_branca" "cfg (tok_env d) = default_config" "clk (tok_env d) n = t7"
  "ipa (tok_env d) = demo_outside\<lparr>ip_UserShow := \<lambda>_ _ _. Ok demo_alice\<rparr>"
  "rq_Method (req (tok_ctx m p)) = m" "rq_Path (req (tok_ctx m p)) = p" "rq_csrf (req (tok_ctx m p)) = ''t''"
  "rq_params (req (tok_ctx m p)) k = ''token-7''"
  by (simp_all add: tok_env_def demo_env_def tok_ctx_def)

lemma tok_session:
  "run_state (session (tok_env d) c) w
    = (Ok \<lparr>ss_id = rq_cookie (req c), ss_data = (SessionKeyCSRF, SStr ''t'') # d, ss_idle = 0\<rparr>, w\<lparr>tick := Suc (tick w)\<rparr>)"
  by (simp add: session_def tok_env_def)

lemma tok_csrf: "run_state (CSRF (tok_env d) (tok_ctx m p)) w = (Next (tok_ctx m p), w\<lparr>tick := Suc (tick w)\<rparr>)"
  by (simp add: CSRF_def tok_session sess_get_def Let_def)

lemma in_routes:
  "\<lparr>rt_methods = [''POST''], rt_path = ''/account/settings'', rt_chain = [CSRF E, RequireLogin E, RequireHTMX E, AccountSettings E]\<rparr>
    \<in> set (routes E)"
  "\<lparr>rt_methods = [''GET'', ''HEAD''], rt_path = ''/admin'', rt_chain = [CSRF E, RequireLogin E, Routes.Index E]\<rparr> \<in> set (routes E)"
  unfolding routes_def SetupRoutes_def Let_def by (simp_all add: chains_append)

lemma arrives_stop: "run_state (h c) w = (r, w') \<Longrightarrow> (\<And>c'. r \<noteq> Next c') \<Longrightarrow> hs \<noteq> [] \<Longrightarrow> arrives (h # hs) c w = None"
  by (cases r) (auto simp: arrives_Cons)

lemma in_routes_get:
  "\<lparr>rt_methods = [''GET'', ''HEAD''], rt_path = ''/otptoken/list'', rt_chain = [CSRF E, RequireLogin E, RequireHTMX E, OTPTokenList E]\<rparr> \<in> set (routes E)"
  unfolding routes_def SetupRoutes_def Let_def by (simp add: chains_append)

text \<open>Without a login the list of OTP tokens is not reached: a page in its place that would say hello is not either.\<close>

theorem login_required_witness:
  "run_state (run_chain [CSRF (tok_env []), RequireLogin (tok_env []), RequireHTMX (tok_env []), OTPTokenList (tok_env [])]
      (tok_ctx ''GET'' ''/otptoken/list'')) demo_world
    = run_state (run_chain [CSRF (tok_env []), RequireLogin (tok_env []), RequireHTMX (tok_env []), \<lambda>_. State_Monad.return (reply 200 (Tx ''hello''))]
      (tok_ctx ''GET'' ''/otptoken/list'')) demo_world"
proof -
  let ?E = "tok_env []" and ?c = "tok_ctx ''GET'' ''/otptoken/list''" and ?w = "demo_world\<lparr>tick := Suc (tick demo_world)\<rparr>"
  obtain e w2 where out: "run_state (isLoggedIn ?E ?c) ?w = (Err e, w2)"
    by (simp add: isLoggedIn_def tok_session session_claims_def sess_get_def SessionKeySID_def SessionKeyUsername_def
        SessionKeyAuthenticated_def SessionKeyCSRF_def)
  obtain o' w' where red: "run_state (redirectLogin ?E ?c) w2 = (o', w')" by fastforce
  have "run_state (RequireLogin ?E ?c) ?w = (o', w')" using out red by (simp add: RequireLogin_def)
  then have "arrives [RequireLogin ?E, RequireHTMX ?E, OTPTokenList ?E] ?c ?w = None"
    by (rule arrives_stop) (simp_all add: redirectLogin_ends [OF red])
  then have "arrives [CSRF ?E, RequireLogin ?E, RequireHTMX ?E, OTPTokenList ?E] ?c demo_world = None"
    by (simp add: arrives_Cons tok_csrf del: arrives.simps)
  with login_required [OF in_routes_get, of ?E ?c demo_world "\<lambda>_. State_Monad.return (reply 200 (Tx ''hello''))"] show ?thesis
    by (simp add: public_path_def del: run_chain.simps arrives.simps)
qed

definition login_data :: "(string \<times> sval) list" where
  "login_data = [(SessionKeySID, SStr ''ipa''), (SessionKeyUsername, SStr ''alice''), (SessionKeyAuthenticated, SBool True),
     (SessionKeyLoginTime, SInt 3)]"

theorem admin_required_witness:
  "\<exists>r\<in>set (routes (tok_env login_data)). \<exists>w3. rt_path r = ''/admin'' \<and>
     run_state (run_chain (rt_chain r) (tok_ctx ''GET'' ''/admin'')) demo_world = (status_only 403, w3)"
proof -
  let ?E = "tok_env login_data" and ?c = "tok_ctx ''GET'' ''/admin''"
  have none: "sound_view (sto demo_world) t k = None" for t k by (simp add: demo_world_def sound_defs)
  obtain c2 w2 where c2: "run_state (isLoggedIn ?E ?c) (demo_world\<lparr>tick := Suc (tick demo_world)\<rparr>) = (Ok c2, w2)"
    "rq_Path (req c2) = ''/admin''"
    by (simp add: isLoggedIn_def tok_session session_claims_def sess_get_def SessionKeySID_def SessionKeyUsername_def
        SessionKeyAuthenticated_def SessionKeyLoginTime_def SessionKeyCSRF_def login_data_def sound.get_ok none
        sessionInvalidatedByPasswordChange_def demo_outside_def sessionSave_def)
  have "\<not> isAdmin (cfg ?E) (lc_user c2)" by (simp add: isAdmin_def default_config_def)
  with admin_required [OF in_routes(2), of ?E ?c demo_world] tok_csrf [of login_data "''GET''" "''/admin''" demo_world] c2 show ?thesis
    by (intro bexI [OF _ in_routes(2)]) (auto simp: isAdmin_def list_ex_iff simp del: run_chain.simps)
qed

lemma in_routes_api:
  "\<lparr>rt_methods = [''GET'', ''HEAD''], rt_path = ''/api/v1/events'', rt_chain = [RequireAPIToken api_env, APIEvents api_env]\<rparr> \<in> set (routes api_env)"
  unfolding routes_def SetupRoutes_def Let_def by (simp add: chains_append api_env_def)

text \<open>A request without a header, and one with the configured token.\<close>

theorem api_token_required_witness:
  "run_state (run_chain [RequireAPIToken api_env, APIEvents api_env] (demo_ctx\<lparr>req := (req demo_ctx)\<lparr>rq_authorization := []\<rparr>\<rparr>)) demo_world
      = (unauthorized, demo_world)
    \<and> run_state (run_chain [RequireAPIToken api_env, APIEvents api_env]
          (demo_ctx\<lparr>req := (req demo_ctx)\<lparr>rq_authorization := ''Bearer s3cret''\<rparr>\<rparr>)) demo_world
      = run_state (run_chain [APIEvents api_env] (demo_ctx\<lparr>req := (req demo_ctx)\<lparr>rq_authorization := ''Bearer s3cret''\<rparr>\<rparr>)) demo_world"
proof -
  have env: "api_tokens (server (cfg api_env)) = [''s3cret'']" by (simp add: api_env_def)
  show ?thesis
    using api_token_required [OF in_routes_api, of "demo_ctx\<lparr>req := (req demo_ctx)\<lparr>rq_authorization := []\<rparr>\<rparr>" demo_world]
      api_token_required [OF in_routes_api, of "demo_ctx\<lparr>req := (req demo_ctx)\<lparr>rq_authorization := ''Bearer s3cret''\<rparr>\<rparr>" demo_world]
    by (simp add: env del: run_chain.simps)
qed

text \<open>A POST with a wrong token changes nothing but the clock.\<close>

theorem csrf_required_witness:
  "run_state (run_chain [CSRF (tok_env []), RequireLogin (tok_env []), RequireHTMX (tok_env []), AccountSettings (tok_env [])]
      (by_method ''POST'' ''x'' (tok_ctx ''POST'' ''/account/settings''))) demo_world
    = (Fail ErrForbidden, demo_world\<lparr>tick := Suc (tick demo_world)\<rparr>)"
  using csrf_required [OF in_routes(1), of "tok_env []" "by_method ''POST'' ''x'' (tok_ctx ''POST'' ''/account/settings'')" demo_world]
  by (simp add: tok_session sess_get_def del: run_chain.simps)

theorem head_acts_as_post_witness:
  "\<exists>r\<in>set (routes (tok_env [])). \<exists>r'\<in>set (routes (tok_env [])).
     rt_path r = ''/auth/email/confirm/:token'' \<and> rt_path r' = ''/auth/email/confirm/:token''
     \<and> run_state (run_chain (rt_chain r) (by_method ''HEAD'' [] (tok_ctx [] ''/auth/email/confirm/token-7''))) (demo_world\<lparr>sto := issued_alice\<rparr>)
       = run_state (run_chain (rt_chain r') (by_method ''POST'' ''t'' (tok_ctx [] ''/auth/email/confirm/token-7''))) (demo_world\<lparr>sto := issued_alice\<rparr>)
     \<and> fst (run_state (run_chain (rt_chain r) (by_method ''HEAD'' [] (tok_ctx [] ''/auth/email/confirm/token-7''))) (demo_world\<lparr>sto := issued_alice\<rparr>))
       = change_success"
proof -
  let ?w = "demo_world\<lparr>sto := issued_alice\<rparr>" and ?c = "tok_ctx [] ''/auth/email/confirm/token-7''"
  have parsed: "ParseToken sound_storage demo_branca default_config ''token-7'' TokenEmailChange t7 issued_alice = Ok claims_alice"
    by (rule parsed_alice) (simp add: token_purposes_def)
  have success: "fst (run_state (email_changed (tok_env []) (by_method ''HEAD'' [] ?c) ''token-7'' claims_alice demo_alice) w') = change_success" for w'
    using email_changed_success [of "tok_env []" "by_method ''HEAD'' [] ?c" "''token-7''" claims_alice demo_alice w']
    by (simp add: wp_def case_prod_unfold)
  have "(''/auth/email/confirm/:token'', EmailChangeConfirm (tok_env [])) \<in> link_pages (tok_env [])" by (simp add: link_pages_def)
  from head_acts_as_post [OF this _ tok_session, of ?c "''t''" ?w]
  show ?thesis by (fastforce simp: sess_get_def HasPrefix_iff parsed success demo_outside_def simp del: run_chain.simps)
qed

definition proxy_config :: config where
  "proxy_config = default_config\<lparr>server := (server default_config)\<lparr>trusted_proxies := [''10.0.0.2'']\<rparr>\<rparr>"

theorem remote_ip_not_forged_witness:
  "RemoteIP proxy_config (from4 0x0A000002) ([''1.1.1.1''] @ ''2.2.2.2'' # []) = ''2.2.2.2''"
proof -
  have trim: "TrimSpace ''2.2.2.2'' = ''2.2.2.2''" by (rule trimmed_TrimSpace, rule trimmedI) simp_all
  have print: "IP_String (from4 0x02020202) = ''2.2.2.2''" "IP_String (from4 0x0A000002) = ''10.0.0.2''"
    by (simp_all add: print_ip4 digits_of.simps char_of_def bit_0)
  have ips: "ParseIP ''2.2.2.2'' = Some (from4 0x02020202)" "ParseIP ''10.0.0.2'' = Some (from4 0x0A000002)"
    unfolding print [symmetric] by (rule ip4_round_trip, rule is4_from4, simp)+
  have "from4 0x02020202 \<noteq> from4 0x0A000002" by (simp add: from4_def)
  moreover have "trusted_proxies (server proxy_config) = [''10.0.0.2'']" by (simp add: proxy_config_def)
  moreover have "\<not> Contains ''10.0.0.2'' ''/''" by code_simp
  ultimately show ?thesis
    using remote_ip_not_forged [of proxy_config "from4 0x0A000002" "''2.2.2.2''" "from4 0x02020202" "[]" "[''1.1.1.1'']"]
    by (simp add: trustedProxyContains_def trim ips print)
qed

end
