(* ===== verification/Portal_Invariant.thy ===== *)
theory Portal_Invariant
  imports Routes
begin

text \<open>
  The portal as a whole: any sequence of requests to any route, of the two background sweeps, and of changes outside.
  Two things hold whatever is served: the documents in the storage keep their shape (no index of sessions is too long, names a
  session twice, or names one of the portal's own keys; no queue names a user twice), and the mark of a used link stays until the link expires.
  Each handler keeps them; the lemmas for handlers are collected in \<open>keeps_intros\<close>, one per action, and follow the structure of the code.
\<close>

named_theorems keeps_intros

section \<open>What is kept\<close>

text \<open>Keys whose content the invariant speaks of: the portal's own, but for the audit log.\<close>

definition watched :: "string \<Rightarrow> bool" where
  "watched k \<longleftrightarrow> portal_key k \<and> \<not> audit_key k"

lemmas key_unfolds = used_key_def issued_key_def sessions_key_def userSessionsPrefix_def groupRequests_key_def
  groupRequestsPrefix_def otpRecoveryKey_def pwchanged_key_def key_defs

lemma watched_simps [simp]:
  "watched (sessions_key u)" "watched (groupRequests_key g)" "watched otpRecoveryKey" "watched (pwchanged_key u)"
  "p \<in> set token_purposes \<Longrightarrow> watched (used_key p x)" "p \<in> set token_purposes \<Longrightarrow> watched (issued_key p x)"
  by (simp_all add: watched_def)

lemma watched_cases:
  assumes "watched k"
  obtains (index) u where "k = sessions_key u" | (requests) g where "k = groupRequests_key g" | (recoveries) "k = otpRecoveryKey"
    | (changed) u where "k = pwchanged_key u" | (mark) p x where "p \<in> set token_purposes" "k = used_key p x \<or> k = issued_key p x"
  using assms unfolding watched_def portal_key_def by blast

text \<open>The families of keys do not overlap.\<close>

lemma keys_apart [simp]:
  "sessions_key u \<noteq> groupRequests_key g" "groupRequests_key g \<noteq> sessions_key u"
  "sessions_key u \<noteq> otpRecoveryKey" "otpRecoveryKey \<noteq> sessions_key u"
  "sessions_key u \<noteq> pwchanged_key v" "pwchanged_key v \<noteq> sessions_key u"
  "groupRequests_key g \<noteq> otpRecoveryKey" "otpRecoveryKey \<noteq> groupRequests_key g"
  "groupRequests_key g \<noteq> pwchanged_key v" "pwchanged_key v \<noteq> groupRequests_key g"
  "otpRecoveryKey \<noteq> pwchanged_key v" "pwchanged_key v \<noteq> otpRecoveryKey"
  by (simp_all add: key_unfolds)

lemma marks_apart [simp]:
  assumes "p \<in> set token_purposes"
  shows "used_key p x \<noteq> sessions_key u" "sessions_key u \<noteq> used_key p x" "issued_key p x \<noteq> sessions_key u" "sessions_key u \<noteq> issued_key p x"
    "used_key p x \<noteq> groupRequests_key g" "groupRequests_key g \<noteq> used_key p x" "issued_key p x \<noteq> groupRequests_key g" "groupRequests_key g \<noteq> issued_key p x"
    "used_key p x \<noteq> otpRecoveryKey" "otpRecoveryKey \<noteq> used_key p x" "issued_key p x \<noteq> otpRecoveryKey" "otpRecoveryKey \<noteq> issued_key p x"
    "used_key p x \<noteq> pwchanged_key u" "pwchanged_key u \<noteq> used_key p x" "issued_key p x \<noteq> pwchanged_key u" "pwchanged_key u \<noteq> issued_key p x"
  using assms by (auto simp: key_unfolds purpose_cases)

text \<open>What is stored under a key is of the type the code reads there.\<close>

definition doc_ok :: "string \<Rightarrow> blob \<Rightarrow> bool" where
  "doc_ok k raw \<longleftrightarrow>
     (k \<in> range sessions_key \<longrightarrow> (\<exists>ss. unmarshal_list unmarshal_UserSession raw = Some ss \<and> index_ok (\<lambda>k. \<not> portal_key k) ss))
     \<and> (k \<in> range groupRequests_key \<longrightarrow> (\<exists>rs. unmarshal_list unmarshal_GroupRequest raw = Some rs \<and> distinct (map gr_Username rs)))
     \<and> (k = otpRecoveryKey \<longrightarrow> (\<exists>rs. unmarshal_list unmarshal_OTPRecoveryRequest raw = Some rs \<and> distinct (map or_Username rs)))
     \<and> (k \<in> range pwchanged_key \<longrightarrow> (\<exists>n. raw = Raw (FormatInt n)))
     \<and> ((\<exists>p\<in>set token_purposes. \<exists>x. k = used_key p x \<or> k = issued_key p x) \<longrightarrow> raw = Raw ''true'')"

lemma doc_ok_cases:
  "doc_ok (sessions_key u) raw \<longleftrightarrow> (\<exists>ss. unmarshal_list unmarshal_UserSession raw = Some ss \<and> index_ok (\<lambda>k. \<not> portal_key k) ss)"
  "doc_ok (groupRequests_key g) raw \<longleftrightarrow> (\<exists>rs. unmarshal_list unmarshal_GroupRequest raw = Some rs \<and> distinct (map gr_Username rs))"
  "doc_ok otpRecoveryKey raw \<longleftrightarrow> (\<exists>rs. unmarshal_list unmarshal_OTPRecoveryRequest raw = Some rs \<and> distinct (map or_Username rs))"
  "doc_ok (pwchanged_key u) raw \<longleftrightarrow> (\<exists>n. raw = Raw (FormatInt n))"
  "p \<in> set token_purposes \<Longrightarrow> doc_ok (used_key p x) raw \<longleftrightarrow> raw = Raw ''true''"
  "p \<in> set token_purposes \<Longrightarrow> doc_ok (issued_key p x) raw \<longleftrightarrow> raw = Raw ''true''"
  by (auto simp: doc_ok_def)

lemma unmarshal_Doc: "unmarshal_list f raw = Some xs \<Longrightarrow> \<exists>j. raw = Doc j"
  by (cases "(f, raw)" rule: unmarshal_list.cases) auto

text \<open>
  What the portal relies on beside the store and the session middleware: the clock does not go back, and neither a
  JSON document nor a mark is session data of the previous release. \<open>M\<close> holds used links, each with its purpose
  and an instant up to which it could still be valid.
\<close>

locale portal_laws = session_middleware E view
  for E :: "('s, 'x) env" and view :: "'s \<Rightarrow> time \<Rightarrow> string \<Rightarrow> blob option" +
  fixes M :: "(string \<times> string \<times> time) set"
  assumes clock: "mono (clk E)"
    and old_data: "fs_old (fib E) (Doc j) = None" "fs_old (fib E) (Raw ''true'') = None" "fs_old (fib E) (Raw (FormatInt n)) = None"
    and links: "(p, x, d) \<in> M \<Longrightarrow> p \<in> set token_purposes"
      "(p, x, d) \<in> M \<Longrightarrow> branca_open (brn E) (cfg E) x = Some (payload, ts) \<Longrightarrow> d \<le> ts + token_max_age (email (cfg E)) * second"
begin

lemma watched_not_old: "watched k \<Longrightarrow> doc_ok k raw \<Longrightarrow> fs_old (fib E) raw = None"
  by (erule watched_cases) (auto simp: doc_ok_cases old_data dest!: unmarshal_Doc)

definition kept :: "time \<Rightarrow> 's \<Rightarrow> bool" where
  "kept now s \<longleftrightarrow> (\<forall>k t raw. now \<le> t \<longrightarrow> view s t k = Some raw \<longrightarrow> doc_ok k raw)
     \<and> (\<forall>p x d t. (p, x, d) \<in> M \<longrightarrow> now \<le> t \<longrightarrow> t < d \<longrightarrow> view s t (used_key p x) = Some (Raw ''true''))"

lemma kept_doc: "kept now s \<Longrightarrow> now \<le> t \<Longrightarrow> view s t k = Some raw \<Longrightarrow> doc_ok k raw"
  unfolding kept_def by blast

lemma kept_marked: "kept now s \<Longrightarrow> (p, x, d) \<in> M \<Longrightarrow> now \<le> t \<Longrightarrow> t < d \<Longrightarrow> view s t (used_key p x) = Some (Raw ''true'')"
  unfolding kept_def by blast

lemma keptI:
  assumes "\<And>k t raw. now \<le> t \<Longrightarrow> view s t k = Some raw \<Longrightarrow> watched k \<Longrightarrow> doc_ok k raw"
    and "\<And>p x d t. (p, x, d) \<in> M \<Longrightarrow> now \<le> t \<Longrightarrow> t < d \<Longrightarrow> view s t (used_key p x) = Some (Raw ''true'')"
  shows "kept now s"
proof -
  have "doc_ok k raw" if "\<not> watched k" for k raw using that by (auto simp: doc_ok_def)
  with assms show ?thesis unfolding kept_def by blast
qed

lemma kept_later: "kept now s \<Longrightarrow> now \<le> t \<Longrightarrow> kept t s"
  unfolding kept_def by (meson order_trans)

lemma kept_frame:
  assumes "kept now s" and "\<And>k t. watched k \<Longrightarrow> view s' t k = view s t k"
  shows "kept now s'"
proof (rule keptI)
  show "doc_ok k raw" if "now \<le> t" "view s' t k = Some raw" "watched k" for k t raw
    using kept_doc [OF assms(1) that(1), of k raw] that(2) assms(2) [OF that(3), of t] by simp
  show "view s' t (used_key p x) = Some (Raw ''true'')" if "(p, x, d) \<in> M" "now \<le> t" "t < d" for p x d t
    using kept_marked [OF assms(1) that] assms(2) [of "used_key p x" t] links(1) [OF that(1)] by simp
qed

lemma kept_portal_frame:
  assumes "kept now s" and "\<And>k t. portal_key k \<Longrightarrow> \<not> audit_key k \<Longrightarrow> view s' t k = view s t k"
  shows "kept now s'"
  by (rule kept_frame [OF assms(1)], rule assms(2)) (simp_all add: watched_def)

lemma kept_write:
  assumes "kept now s" and "\<not> watched k" and "\<And>k' t. k' \<noteq> k \<Longrightarrow> view s' t k' = view s t k'"
  shows "kept now s'"
  by (rule kept_frame [OF assms(1)], rule assms(3)) (use assms(2) in auto)

text \<open>A change of one key that leaves a good document, and the mark if the key is that of a used link.\<close>

lemma kept_change:
  assumes "kept now s" and "\<And>k' t. k' \<noteq> k \<Longrightarrow> view s' t k' = view s t k'"
    and "\<And>t raw. now \<le> t \<Longrightarrow> view s' t k = Some raw \<Longrightarrow> view s t k = Some raw \<or> doc_ok k raw"
    and "\<And>p x d t. (p, x, d) \<in> M \<Longrightarrow> used_key p x = k \<Longrightarrow> now \<le> t \<Longrightarrow> t < d \<Longrightarrow> view s' t k = Some (Raw ''true'')"
  shows "kept now s'"
proof (rule keptI)
  show "doc_ok k' raw" if "now \<le> t" "view s' t k' = Some raw" for k' t raw
    using that assms(2,3) kept_doc [OF assms(1)] by metis
  show "view s' t (used_key p x) = Some (Raw ''true'')" if "(p, x, d) \<in> M" "now \<le> t" "t < d" for p x d t
    using that assms(2,4) kept_marked [OF assms(1)] by metis
qed

section \<open>Operations of the storage\<close>

lemma set_doc:
  assumes "doc_ok k v" and "now \<le> t" and "view (snd (st_set (stg E) s now k v ttl)) t k = Some raw"
  shows "view s t k = Some raw \<or> doc_ok k raw"
proof -
  obtain e s' where "st_set (stg E) s now k v ttl = (e, s')" by fastforce
  with set_only [OF this assms(2)] assms(1,3) show ?thesis by auto
qed

lemma kept_set:
  assumes "kept now s" and "doc_ok k v" and "\<And>p x. p \<in> set token_purposes \<Longrightarrow> k \<noteq> used_key p x"
  shows "kept now (snd (st_set (stg E) s now k v ttl))"
proof (rule kept_change [OF assms(1) _ set_doc [OF assms(2)]])
  show "view (snd (st_set (stg E) s now k v ttl)) t k = Some (Raw ''true'')" if "(p, x, d) \<in> M" "used_key p x = k" for p x d t
    using assms(3) [OF links(1) [OF that(1)]] that(2) by blast
qed (erule set_other')

lemma kept_delete:
  assumes "kept now s" and "\<And>p x. p \<in> set token_purposes \<Longrightarrow> k \<noteq> used_key p x"
  shows "kept now (snd (st_delete (stg E) s now k))"
proof (rule kept_change [OF assms(1), where k = k])
  show "view (snd (st_delete (stg E) s now k)) t k = Some (Raw ''true'')" if "(p, x, d) \<in> M" "used_key p x = k" for p x d t
    using assms(2) [OF links(1) [OF that(1)]] that(2) by blast
qed (simp_all add: delete_same_ok delete_other')

lemma kept_issued:
  assumes "kept now s" and "p \<in> set token_purposes"
  shows "kept now (snd (st_set (stg E) s now (issued_key p u) (Raw ''true'') ttl))" "kept now (snd (st_delete (stg E) s now (issued_key p u)))"
  using assms by (auto intro!: kept_set kept_delete simp: doc_ok_cases dest: used_issued_disjoint [THEN not_sym])

lemma kept_pwchanged: "kept now s \<Longrightarrow> kept now (snd (st_set (stg E) s now (pwchanged_key u) (Raw (FormatInt n)) ttl))"
  by (auto intro!: kept_set simp: doc_ok_cases)

lemma kept_NewToken:
  assumes "kept now s" and "p \<in> set token_purposes"
  shows "kept now (snd (NewToken (stg E) (brn E) (cfg E) u e p now n s))"
  using kept_issued(1) [OF assms, of u] assms(1)
  by (auto simp: NewToken_def Let_def split: sum.split option.split prod.split) (metis snd_conv)+

definition opens :: "string \<Rightarrow> Token \<Rightarrow> bool" where
  "opens x claims \<longleftrightarrow> (\<exists>payload. branca_open (brn E) (cfg E) x = Some (payload, tk_Timestamp claims))"

lemma kept_mark:
  assumes "kept now s" and "p \<in> set token_purposes" and "opens x claims"
  shows "kept now (MarkTokenUsed (stg E) (cfg E) x p claims now s)"
proof (rule kept_change [OF assms(1), where k = "used_key p x"])
  show "view s t (used_key p x) = Some raw \<or> doc_ok (used_key p x) raw"
    if "now \<le> t" "view (MarkTokenUsed (stg E) (cfg E) x p claims now s) t (used_key p x) = Some raw" for t raw
    by (rule set_doc [OF _ that(1)]) (use that(2) assms(2) in \<open>simp_all add: MarkTokenUsed_def Let_def doc_ok_cases\<close>)
next
  fix q y d t
  assume mark: "(q, y, d) \<in> M" "used_key q y = used_key p x" "now \<le> t" "t < d"
  then have "y = x" using used_key_inj links(1) assms(2) by blast
  with mark assms(3) links(2) [OF mark(1)] have "t < tk_Timestamp claims + token_max_age (email (cfg E)) * second"
    unfolding opens_def by fastforce
  with mark(3) show "view (MarkTokenUsed (stg E) (cfg E) x p claims now s) t (used_key p x) = Some (Raw ''true'')"
    by (simp add: MarkTokenUsed_def Let_def set_same_ok)
qed (erule MarkTokenUsed_frame)

lemma index_frame:
  assumes "indexes_ok (\<lambda>k. \<not> portal_key k) now s" and "portal_key k" and "\<And>v. k \<noteq> sessions_key v"
  shows "view (session_step (stg E) (now, u, oper) s) t k = view s t k"
proof -
  have ids: "k \<notin> SID ` set (loadSessionIndex (stg E) u now s)"
    using indexes_ok_load [OF assms(1) order_refl, of u] assms(2) by (auto simp: index_ok_def)
  have save: "view (saveSessionIndex (stg E) u xs now s1) t k = view s1 t k" for xs s1
    by (rule save_other) (rule assms(3))
  show ?thesis
  proof (cases oper)
    case (Revoke sid)
    with ids save show ?thesis
      by (auto simp: revokeUserSession_def Let_def list_ex_iff image_iff intro!: delete_other')
  next
    case (RevokeOthers cur)
    obtain kept n s1 where l: "revoke_others_loop (stg E) cur now (loadSessionIndex (stg E) u now s) ([], 0, s) = (kept, n, s1)"
      by (metis prod.collapse)
    from revoke_others_loop_spec [OF l] ids RevokeOthers l save show ?thesis
      by (simp add: revokeOtherUserSessions_def Let_def)
  qed (simp_all add: recordUserSession_newest userSessions_def dropSessionFromIndex_def Let_def save)
qed

lemma kept_indexes: "kept now s \<Longrightarrow> indexes_ok (\<lambda>k. \<not> portal_key k) now s"
  unfolding indexes_ok_def using kept_doc by (fastforce simp: doc_ok_def)

lemma kept_index:
  assumes "kept now s" and "\<And>sid ip br os. oper = session_op.Login sid ip br os \<Longrightarrow> \<not> portal_key sid"
  shows "kept now (session_step (stg E) (now, u, oper) s)"
proof (rule keptI)
  let ?s = "session_step (stg E) (now, u, oper) s"
  have frame: "view ?s t k = view s t k" if "watched k" "\<And>v. k \<noteq> sessions_key v" for t k
    by (rule index_frame [OF kept_indexes [OF assms(1)] _ that(2)]) (use that(1) in \<open>simp add: watched_def\<close>)
  have "indexes_ok (\<lambda>k. \<not> portal_key k) now ?s"
    by (rule session_step_ok [OF kept_indexes [OF assms(1)]]) (rule assms(2))
  then show "doc_ok k raw" if "now \<le> t" "view ?s t k = Some raw" "watched k" for k t raw
    using that frame [OF that(3)] kept_doc [OF assms(1) that(1)]
    by (cases "\<exists>v. k = sessions_key v") (auto simp: doc_ok_cases indexes_ok_def)
  show "view ?s t (used_key p x) = Some (Raw ''true'')" if "(p, x, d) \<in> M" "now \<le> t" "t < d" for p x d t
    using frame [of "used_key p x" t] links(1) [OF that(1)] kept_marked [OF assms(1) that] by simp
qed

text \<open>A session of the previous release is none of the documents and no mark.\<close>

lemma kept_migrate:
  assumes "kept t s" and "t \<le> now" and "view s t k = Some b" and "fs_old (fib E) b = Some ms"
  shows "kept now (snd (st_set (stg E) s now k b' ttl))"
proof (rule kept_write [OF kept_later [OF assms(1,2)], where k = k])
  show "\<not> watched k" using watched_not_old [of k b] kept_doc [OF assms(1) order_refl assms(3)] assms(4) by auto
qed (erule set_other')

text \<open>Saving a queue that names no user twice.\<close>

lemma kept_save_group:
  assumes "kept now s" and "distinct (map gr_Username rs)"
  shows "kept now (saveGroupRequests (stg E) g rs now s)"
  using assms by (auto simp: saveGroupRequests_def doc_ok_cases json_simps intro!: kept_set kept_delete)

lemma kept_save_otp:
  assumes "kept now s" and "distinct (map or_Username rs)"
  shows "kept now (saveOTPRecoveryRequests (stg E) rs now s)"
  using assms by (auto simp: saveOTPRecoveryRequests_def doc_ok_cases json_simps intro!: kept_set kept_delete)

lemma kept_load:
  assumes "kept now s"
  shows "distinct (map gr_Username (loadGroupRequests (stg E) g now s))"
    "distinct (map or_Username (loadOTPRecoveryRequests (stg E) now s))"
  using kept_doc [OF assms order_refl, of "groupRequests_key g"] kept_doc [OF assms order_refl, of otpRecoveryKey]
  by (auto simp: doc_ok_cases loadGroupRequests_def loadOTPRecoveryRequests_def get_ok split: option.split)

lemma kept_group:
  assumes "kept now s"
  shows "kept now (snd (addGroupRequest (stg E) g u ty now s))" "kept now (snd (removeGroupRequest (stg E) g u now s))"
  using assms kept_load(1) [OF assms, of g]
  by (auto simp: addGroupRequest_def removeGroupRequest_def Let_def list_ex_iff distinct_map_filter intro!: kept_save_group)

lemma kept_otp:
  assumes "kept now s"
  shows "kept now (snd (addOTPRecoveryRequest (stg E) u now s))" "kept now (snd (removeOTPRecoveryRequest (stg E) u now s))"
  using assms kept_load(2) [OF assms]
  by (auto simp: addOTPRecoveryRequest_def removeOTPRecoveryRequest_def Let_def list_ex_iff distinct_map_filter intro!: kept_save_otp)

section \<open>Actions\<close>

definition world_ok :: "('s, 'x) world \<Rightarrow> bool" where
  "world_ok w \<longleftrightarrow> kept (clk E (tick w)) (sto w)"

definition keeps :: "('s, 'x, 'a) act \<Rightarrow> bool" where
  "keeps m \<longleftrightarrow> (\<forall>w. world_ok w \<longrightarrow> world_ok (snd (run_state m w)))"

lemma keepsI: "(\<And>w. world_ok w \<Longrightarrow> wp m (\<lambda>_. world_ok) w) \<Longrightarrow> keeps m"
  by (simp add: keeps_def wp_def case_prod_unfold)

lemma keepsD: "keeps m \<Longrightarrow> world_ok w \<Longrightarrow> wp m (\<lambda>_. world_ok) w"
  by (simp add: keeps_def wp_def case_prod_unfold)

lemma world_ok_later: "world_ok w \<Longrightarrow> tick w \<le> n \<Longrightarrow> world_ok (w\<lparr>tick := n\<rparr>)"
  unfolding world_ok_def by (auto elim!: kept_later intro: monoD [OF clock])

lemma world_ok_other [simp]: "world_ok (w\<lparr>ext := x\<rparr>) = world_ok w" "world_ok (w\<lparr>counter := n\<rparr>) = world_ok w"
  "world_ok (w\<lparr>hooks := h\<rparr>) = world_ok w"
  by (simp_all add: world_ok_def)

text \<open>An operation of the storage at the instant just read.\<close>

lemma world_ok_write: "world_ok w \<Longrightarrow> kept (clk E (tick w)) s \<Longrightarrow> world_ok (w\<lparr>tick := Suc (tick w), sto := s\<rparr>)"
  unfolding world_ok_def by (auto elim!: kept_later intro: monoD [OF clock])

text \<open>Sessions the middleware hands out, and tokens that were opened, carry what later steps need.\<close>

lemma wp_migrate: "world_ok w \<Longrightarrow> wp (migrateFiberV2Session E c) (\<lambda>_. world_ok) w"
proof -
  assume w: "world_ok w"
  let ?t = "clk E (tick w)" and ?now = "clk E (Suc (tick w))" and ?k = "rq_cookie (req c)"
  have set: "world_ok (w\<lparr>tick := Suc (Suc (tick w)), sto := snd (st_set (stg E) (sto w) ?now ?k b' ttl)\<rparr>)"
    if old: "view (sto w) ?t ?k = Some b" "Option.bind (fs_old (fib E) b) (fs_new (fib E)) = Some b'" for b b' ttl
  proof -
    obtain ms where "fs_old (fib E) b = Some ms" using old(2) by (auto simp: bind_eq_Some_conv)
    then have "kept ?now (snd (st_set (stg E) (sto w) ?now ?k b' ttl))"
      using w old(1) by (intro kept_migrate [where t = ?t]) (auto simp: world_ok_def intro: monoD [OF clock])
    then show ?thesis by (auto simp: world_ok_def elim!: kept_later intro: monoD [OF clock])
  qed
  show ?thesis
    using world_ok_later [OF w, of "Suc (tick w)"] w set
    by (simp add: migrateFiberV2Session_def Let_def get_ok split: option.split)
qed

lemma wp_session:
  assumes "world_ok w"
  shows "wp (session E c) (\<lambda>r w'. world_ok w' \<and> (\<forall>x. r = Ok x \<longrightarrow> \<not> portal_key (ss_id x))) w"
proof -
  have "wp (migrateFiberV2Session E c) (\<lambda>_. world_ok) (w\<lparr>tick := Suc (tick w)\<rparr>)"
    by (rule wp_migrate, rule world_ok_later [OF assms]) simp
  then have "wp (migrateFiberV2Session E c) (\<lambda>m w'. world_ok w' \<and> world_ok (w'\<lparr>tick := Suc (tick w')\<rparr>)) (w\<lparr>tick := Suc (tick w)\<rparr>)"
    by (rule wp_mono) (auto intro: world_ok_later)
  then show ?thesis
    using world_ok_later [OF assms, of "Suc (tick w)"]
    by (auto simp: session_def split: sum.split dest: get_id elim!: wp_mono)
qed

lemma keeps_session_bind [keeps_intros]:
  assumes "\<And>r. (\<And>x. r = Ok x \<Longrightarrow> \<not> portal_key (ss_id x)) \<Longrightarrow> keeps (f r)"
  shows "keeps (State_Monad.bind (session E c) f)"
proof (rule keepsI)
  show "wp (State_Monad.bind (session E c) f) (\<lambda>_. world_ok) w" if "world_ok w" for w
    unfolding wp_bind by (rule wp_mono [OF wp_session [OF that]]) (auto intro: keepsD [OF assms])
qed

lemma keeps_Regenerate_bind [keeps_intros]:
  assumes "\<And>r. (\<And>x. r = Ok x \<Longrightarrow> \<not> portal_key (ss_id x)) \<Longrightarrow> keeps (f r)" and "\<not> portal_key (ss_id x)"
  shows "keeps (State_Monad.bind (Regenerate E x) f)"
proof (rule keepsI)
  fix w
  assume w: "world_ok w"
  obtain r s where reg: "fs_regenerate (fib E) (sto w) (clk E (tick w)) (Suc (tick w)) x = (r, s)" by fastforce
  have "kept (clk E (tick w)) s"
  proof (rule kept_portal_frame)
    show "kept (clk E (tick w)) (sto w)" using w by (simp add: world_ok_def)
    show "view s t k = view (sto w) t k" if "portal_key k" for k t
      using portal_frame(2) [OF that assms(2), of "sto w" "clk E (tick w)" "Suc (tick w)" t] reg by simp
  qed
  then have "world_ok (w\<lparr>tick := Suc (Suc (tick w)), sto := s\<rparr>)"
    by (auto simp: world_ok_def elim!: kept_later intro: monoD [OF clock])
  moreover have "keeps (f r)" by (rule assms(1)) (use regenerate_id reg in blast)
  ultimately show "wp (State_Monad.bind (Regenerate E x) f) (\<lambda>_. world_ok) w"
    by (simp add: Regenerate_def reg keepsD)
qed

lemma keeps_parse_token_bind [keeps_intros]:
  assumes "\<And>r. (\<And>claims. r = Ok claims \<Longrightarrow> opens x claims) \<Longrightarrow> keeps (f r)"
  shows "keeps (State_Monad.bind (parse_token E x p) f)"
proof (rule keepsI)
  fix w
  assume "world_ok w"
  then have "world_ok (w\<lparr>tick := Suc (tick w)\<rparr>)" by (rule world_ok_later) simp
  moreover have "keeps (f (ParseToken (stg E) (brn E) (cfg E) x p (clk E (tick w)) (sto w)))"
    by (rule assms) (auto simp: opens_def dest: ParseToken_opens)
  ultimately show "wp (State_Monad.bind (parse_token E x p) f) (\<lambda>_. world_ok) w"
    by (simp add: parse_token_def keepsD)
qed

lemma keeps_write_bind [keeps_intros]:
  assumes "\<And>t s. kept t s \<Longrightarrow> kept t (snd (f t s))" and "\<And>t a. keeps (g t a)"
  shows "keeps (State_Monad.bind (Now E) (\<lambda>t. State_Monad.bind (on_sto (f t)) (g t)))"
  by (rule keepsI) (auto intro!: keepsD [OF assms(2)] world_ok_write assms(1) simp: world_ok_def [symmetric])

lemma keeps_write [keeps_intros]:
  assumes "\<And>t s. kept t s \<Longrightarrow> kept t (snd (f t s))"
  shows "keeps (State_Monad.bind (Now E) (\<lambda>t. on_sto (f t)))"
  by (rule keepsI) (auto intro!: world_ok_write assms(1) simp: world_ok_def [symmetric])

lemma keeps_write_random [keeps_intros]:
  assumes "\<And>t k s. kept t s \<Longrightarrow> kept t (snd (f t k s))"
  shows "keeps (State_Monad.bind (Now E) (\<lambda>t. State_Monad.bind draw (\<lambda>k. on_sto (f t k))))"
proof (rule keepsI)
  fix w
  assume "world_ok w"
  then have "kept (clk E (tick w)) (snd (f (clk E (tick w)) (Suc (tick w)) (sto w)))" by (intro assms) (simp add: world_ok_def)
  then have "kept (clk E (Suc (Suc (tick w)))) (snd (f (clk E (tick w)) (Suc (tick w)) (sto w)))"
    by (rule kept_later) (auto intro: monoD [OF clock])
  then show "wp (State_Monad.bind (Now E) (\<lambda>t. State_Monad.bind draw (\<lambda>k. on_sto (f t k)))) (\<lambda>_. world_ok) w"
    by (simp add: world_ok_def)
qed

lemma keeps_basic [keeps_intros]:
  "keeps (State_Monad.return a)" "keeps (reads h)" "keeps (on_ext k)" "keeps (Now E)" "keeps draw" "keeps (Inc m)"
  by (auto intro!: keepsI world_ok_later)

lemma keeps_bind [keeps_intros]: "keeps m \<Longrightarrow> (\<And>a. keeps (f a)) \<Longrightarrow> keeps (State_Monad.bind m f)"
  by (simp add: keeps_def case_prod_unfold)

lemma keeps_cases [keeps_intros]:
  "(b \<Longrightarrow> keeps m) \<Longrightarrow> (\<not> b \<Longrightarrow> keeps n) \<Longrightarrow> keeps (if b then m else n)"
  "(\<And>e. r = Inl e \<Longrightarrow> keeps (f e)) \<Longrightarrow> (\<And>a. r = Inr a \<Longrightarrow> keeps (g a)) \<Longrightarrow> keeps (case r of Inl e \<Rightarrow> f e | Inr a \<Rightarrow> g a)"
  "(z = None \<Longrightarrow> keeps m) \<Longrightarrow> (\<And>a. z = Some a \<Longrightarrow> keeps (h a)) \<Longrightarrow> keeps (case z of None \<Rightarrow> m | Some a \<Rightarrow> h a)"
  "(\<And>a b. y = (a, b) \<Longrightarrow> keeps (k a b)) \<Longrightarrow> keeps (case y of (a, b) \<Rightarrow> k a b)"
  "keeps (l v) \<Longrightarrow> keeps (Let v l)"
  by (auto split: sum.split option.split prod.split)

lemma keeps_data_cases [keeps_intros]:
  "(\<And>s. v = SStr s \<Longrightarrow> keeps (f1 s)) \<Longrightarrow> (\<And>b. v = SBool b \<Longrightarrow> keeps (f2 b)) \<Longrightarrow> (\<And>i. v = SInt i \<Longrightarrow> keeps (f3 i)) \<Longrightarrow> keeps f4
    \<Longrightarrow> keeps (case v of SStr s \<Rightarrow> f1 s | SBool b \<Rightarrow> f2 b | SInt i \<Rightarrow> f3 i | SOther \<Rightarrow> f4)"
  "keeps m1 \<Longrightarrow> keeps m2 \<Longrightarrow> keeps (case b of True \<Rightarrow> m1 | False \<Rightarrow> m2)"
  "(xs = [] \<Longrightarrow> keeps m3) \<Longrightarrow> (\<And>y ys. xs = y # ys \<Longrightarrow> keeps (g1 y ys)) \<Longrightarrow> keeps (case xs of [] \<Rightarrow> m3 | y # ys \<Rightarrow> g1 y ys)"
  "(\<And>p. keeps (h1 p)) \<Longrightarrow> (\<And>e. keeps (h2 e)) \<Longrightarrow> (\<And>c. keeps (h3 c)) \<Longrightarrow> keeps h4
    \<Longrightarrow> keeps (case r of Reply p \<Rightarrow> h1 p | Fail e \<Rightarrow> h2 e | Next c \<Rightarrow> h3 c | Hangs \<Rightarrow> h4)"
  "(\<And>t. keeps (k1 t)) \<Longrightarrow> (\<And>l t ns. keeps (k2 l t ns)) \<Longrightarrow> (\<And>n t. keeps (k3 n t)) \<Longrightarrow> (\<And>t. keeps (k4 t)) \<Longrightarrow> (\<And>t. keeps (k5 t))
    \<Longrightarrow> (\<And>ts. keeps (k6 ts)) \<Longrightarrow> keeps (case_error k1 k2 k3 k4 k5 k6 er)"
  by (simp_all split: sval.split bool.split list.split outcome.split error.split)

lemma keeps_audit [keeps_intros]: "keeps (audit E l m as)"
proof (rule keepsI, rule wp_mono [OF audit_frame])
  fix w w' :: "('s, 'x) world"
  assume w: "world_ok w" and w': "ext w' = ext w \<and> tick w' = Suc (tick w) \<and> counter w' = counter w
    \<and> (\<forall>k t. \<not> audit_key k \<longrightarrow> view (sto w') t k = view (sto w) t k)"
  have "kept (clk E (tick w)) (sto w')"
    by (rule kept_portal_frame [of _ "sto w"]) (use w w' in \<open>simp_all add: world_ok_def\<close>)
  then show "world_ok w'" using w' by (auto simp: world_ok_def elim!: kept_later intro: monoD [OF clock])
qed

lemma kept_session:
  assumes "kept now s" and "\<not> portal_key (ss_id x)"
  shows "kept now (snd (fs_save (fib E) s t x))" "kept now (snd (fs_destroy (fib E) s t x))"
  by (rule kept_portal_frame [OF assms(1)], erule portal_frame(1) [OF _ assms(2)])
    (rule kept_portal_frame [OF assms(1)], erule portal_frame(3) [OF _ assms(2)])

lemma keeps_sessionSave [keeps_intros]: "\<not> portal_key (ss_id x) \<Longrightarrow> keeps (sessionSave E x)"
  unfolding sessionSave_def by (intro keeps_write kept_session)

lemma keeps_Destroy [keeps_intros]: "\<not> portal_key (ss_id x) \<Longrightarrow> keeps (Destroy E x)"
  unfolding Destroy_def by (intro keeps_write kept_session)

lemma kept_snd [keeps_intros]: "kept t s \<Longrightarrow> kept t (snd (a, s))"
  by simp

lemma kept_session_ops:
  "kept t s \<Longrightarrow> \<not> portal_key sid \<Longrightarrow> kept t (recordUserSession (stg E) u sid ip br os t s)"
  "kept t s \<Longrightarrow> kept t (snd (userSessions (stg E) u sid t s))"
  "kept t s \<Longrightarrow> kept t (snd (revokeUserSession (stg E) u sid t s))"
  "kept t s \<Longrightarrow> kept t (snd (revokeOtherUserSessions (stg E) u sid t s))"
  "kept t s \<Longrightarrow> kept t (dropSessionFromIndex (stg E) u sid t s)"
  using kept_index [of t s "session_op.Login sid ip br os" u] kept_index [of t s "ListSessions sid" u]
    kept_index [of t s "Revoke sid" u] kept_index [of t s "RevokeOthers sid" u] kept_index [of t s "Forget sid" u]
  by simp_all

lemmas kept_rules [keeps_intros] = kept_issued kept_pwchanged kept_NewToken kept_mark kept_session_ops kept_group kept_otp kept_session

end

end
