(* ===== verification/Portal_Handlers.thy ===== *)
theory Portal_Handlers
  imports Portal_Invariant
begin

text \<open>
  Every action of the portal keeps what \<open>Portal_Invariant\<close> calls kept: mails, guards, handlers and sweeps, file by file, in the
  order they call each other. A proof follows the structure of the code with the rules collected in \<open>keeps_intros\<close>.
\<close>

lemma purposes [simp]:
  "TokenAccountVerify \<in> set token_purposes" "TokenPasswordReset \<in> set token_purposes" "TokenEmailChange \<in> set token_purposes"
  "TokenInvite \<in> set token_purposes" "TokenOTPRecovery \<in> set token_purposes"
  by (simp_all add: token_purposes_def)

lemma sess_ids [simp]: "ss_id (sess_set k v x) = ss_id x" "ss_id (sess_delete k x) = ss_id x"
  "ss_id (signed_in u sid t x) = ss_id x"
  by (simp_all add: sess_set_def sess_delete_def signed_in_def)

context portal_laws
begin

subsection \<open>Mails\<close>

lemma keeps_email_1 [keeps_intros]:
  "keeps (deliver_mail E u c lang subject tmpl vs)"
  "purpose \<in> set token_purposes \<Longrightarrow> keeps (issue_token E username eaddr purpose)"
  unfolding deliver_mail_def issue_token_def
  by (intro keeps_intros; simp)+

lemma keeps_email_2 [keeps_intros]:
  "purpose \<in> set token_purposes \<Longrightarrow> keeps (sendTokenEmail E u tokenKey purpose c lang subject tmpl vs)"
  "keeps (SendPasswordElsewhereEmail E u reason c')" "keeps (event_mail E u c' event)"
  "keeps (SendPasswordChangedEmail E u c')" "keeps (SendWelcomeEmail E u c')"
  "keeps (SendUsernameReminderEmail E eaddr usernames c')" "keeps (SendNewLoginEmail E u browser os ip)"
  "keeps (SendPasswordExpiryReminderEmail E u days)" "keeps (SendGroupRequestEmail E manager requester g reqType)"
  "keeps (SendGroupDecisionEmail E u g approved reqType)" "keeps (SendGroupRemovedEmail E u g)"
  "keeps (SendOTPRecoveryDecisionEmail E u approved)"
  unfolding sendTokenEmail_def SendPasswordElsewhereEmail_def event_mail_def SendPasswordChangedEmail_def
    SendWelcomeEmail_def SendUsernameReminderEmail_def SendNewLoginEmail_def SendPasswordExpiryReminderEmail_def
    SendGroupRequestEmail_def SendGroupDecisionEmail_def SendGroupRemovedEmail_def
    SendOTPRecoveryDecisionEmail_def
  by (intro keeps_intros; simp)+

lemma keeps_email_3 [keeps_intros]:
  "purpose \<in> set token_purposes \<Longrightarrow> keeps (token_mail E u who eaddr purpose path subject tmpl vs c)"
  "keeps (SendEmailChangedNotification E oldEmail u c)" "keeps (SendMFAChangedEmail E on u c)"
  "keeps (SendPasskeyUpdatedEmail E added u c)" "keeps (SendSSHKeyUpdatedEmail E added u c)"
  "keeps (SendOTPTokenUpdatedEmail E added u c)"
  unfolding token_mail_def SendEmailChangedNotification_def SendMFAChangedEmail_def SendPasskeyUpdatedEmail_def
    SendSSHKeyUpdatedEmail_def SendOTPTokenUpdatedEmail_def
  by (intro keeps_intros; simp)+

lemma keeps_email_4 [keeps_intros]:
  "keeps (SendPasswordResetEmail E u c)" "keeps (SendAccountVerifyEmail E u c)"
  "keeps (SendOTPRecoveryConfirmEmail E u c)" "keeps (SendEmailChangeConfirmEmail E u newEmail c)"
  "keeps (SendInviteEmail E eaddr c)"
  unfolding SendPasswordResetEmail_def SendAccountVerifyEmail_def SendOTPRecoveryConfirmEmail_def
    SendEmailChangeConfirmEmail_def SendInviteEmail_def
  by (intro keeps_intros; simp)+

subsection \<open>User names and captchas\<close>

lemma keeps_usernames_1 [keeps_intros]:
  "keeps (newCaptchaID E)" "keeps (verifyCaptcha E cid sol)" "keeps (Captcha E c)"
  unfolding newCaptchaID_def verifyCaptcha_def Captcha_def
  by (intro keeps_intros; simp)+

lemma keeps_usernames_2 [keeps_intros]:
  "keeps (UsernameForgot E c)"
  unfolding UsernameForgot_def
  by (intro keeps_intros; simp)+

subsection \<open>Guards\<close>

lemma keeps_login_state_1 [keeps_intros]:
  "keeps (invalidateUserSessions E username)" "keeps (isLoggedIn E c)"
  "keeps (revokeHydraAuthenticationSession E username)" "keeps (RequireMFA E c)" "keeps (RequireHTMX E c)"
  "keeps (CSRF E c)" "\<not> portal_key sid \<Longrightarrow> keeps (record_session E c username sid)"
  "keeps (notifyNewLogin E c username)"
  unfolding invalidateUserSessions_def isLoggedIn_def revokeHydraAuthenticationSession_def RequireMFA_def RequireHTMX_def
    CSRF_def record_session_def notifyNewLogin_def
  by (intro keeps_intros; simp)+

lemma keeps_login_state_2 [keeps_intros]:
  "keeps (logout E c)" "keeps (RequireNoLogin E c)"
  unfolding logout_def RequireNoLogin_def
  by (intro keeps_intros; simp)+

lemma keeps_login_state_3 [keeps_intros]:
  "keeps (redirectLogin E c)"
  unfolding redirectLogin_def
  by (intro keeps_intros; simp)+

lemma keeps_login_state_4 [keeps_intros]:
  "keeps (RequireLogin E c)"
  unfolding RequireLogin_def
  by (intro keeps_intros; simp)+

subsection \<open>Hydra\<close>

lemma keeps_hydra_1 [keeps_intros]:
  "keeps (revokeConnectedApp E username clientID)" "keeps (hydra_failed st t)"
  "keeps (LoginOAuthPost E username challenge c)" "keeps (HydraLogout E c)"
  unfolding revokeConnectedApp_def hydra_failed_def LoginOAuthPost_def HydraLogout_def
  by (intro keeps_intros; simp)+

lemma keeps_revoke_loop [keeps_intros]: "keeps (revoke_loop E u ids n)"
  by (induction ids arbitrary: n; unfold revoke_loop.simps; intro keeps_intros; simp)

lemma keeps_hydra_2 [keeps_intros]:
  "keeps (accept_consent E c challenge consent u)" "keeps (skip_login E c challenge subject)"
  unfolding accept_consent_def skip_login_def
  by (intro keeps_intros; simp)+

lemma keeps_hydra_3 [keeps_intros]:
  "keeps (revokeDisallowedConsents E u)" "keeps (LoginOAuthGet E c)"
  unfolding revokeDisallowedConsents_def LoginOAuthGet_def
  by (intro keeps_intros; simp)+

lemma keeps_sweep_loop [keeps_intros]: "keeps (sweep_loop E us n)"
  by (induction us arbitrary: n; unfold sweep_loop.simps; intro keeps_intros; simp)

lemma keeps_hydra_4 [keeps_intros]:
  "keeps (revokeConsentsOf E username)" "keeps (reject_consent E c challenge consent u)"
  unfolding revokeConsentsOf_def reject_consent_def
  by (intro keeps_intros; simp)+

lemma keeps_hydra_5 [keeps_intros]:
  "keeps (consentSweep E)" "keeps (ConsentGet E c)"
  unfolding consentSweep_def ConsentGet_def
  by (intro keeps_intros; simp)+

subsection \<open>Signing in\<close>

lemma keeps_auth_1 [keeps_intros]:
  "keeps (UserShow E name)" "keeps (policy_of E name)" "keeps (elsewhere E c u)" "keeps (ad_user E name)"
  "keeps (locked_out E name)" "keeps (Logout E c)" "keeps (failed_login r)"
  "\<not> portal_key (ss_id x0) \<Longrightarrow> keeps (open_session E c username ipa_sid x0)"
  unfolding UserShow_def policy_of_def elsewhere_def ad_user_def locked_out_def Logout_def failed_login_def
    open_session_def
  by (intro keeps_intros; simp)+

lemma keeps_auth_2 [keeps_intros]:
  "keeps (check_found E c u)" "keeps (expired_login E c username)" "keeps (refused_login E c username e)"
  "keeps (accepted_login E c username ipa_sid)"
  unfolding check_found_def expired_login_def refused_login_def accepted_login_def
  by (intro keeps_intros; simp)+

lemma keeps_auth_3 [keeps_intros]:
  "keeps (CheckUser E c)" "keeps (Authenticate E c)"
  unfolding CheckUser_def Authenticate_def
  by (intro keeps_intros; simp)+

subsection \<open>Passwords\<close>

lemma keeps_passwords_1 [keeps_intros]:
  "keeps (pwPolicyVars E username vs)" "keeps (keep_session E c)" "keeps (forgot_known E c username u)"
  "purpose \<in> set token_purposes \<Longrightarrow> opens token claims \<Longrightarrow> keeps (mark_used E token purpose claims)"
  "\<not> portal_key (ss_id x) \<Longrightarrow> keeps (expired_changed E c x u)"
  unfolding pwPolicyVars_def keep_session_def forgot_known_def mark_used_def expired_changed_def
  by (intro keeps_intros; simp)+

lemma keeps_passwords_2 [keeps_intros]:
  "keeps (PasswordChange E c)" "keeps (PasswordForgot E c)"
  "opens token claims \<Longrightarrow> keeps (reset_done E c token claims u)"
  "\<not> portal_key (ss_id x) \<Longrightarrow> keeps (expired_change E c x u)"
  unfolding PasswordChange_def PasswordForgot_def reset_done_def expired_change_def
  by (intro keeps_intros; simp)+

lemma keeps_passwords_3 [keeps_intros]:
  "opens token claims \<Longrightarrow> keeps (reset_password E c token claims u)" "keeps (PasswordExpired E c)"
  unfolding reset_password_def PasswordExpired_def
  by (intro keeps_intros; simp)+

lemma keeps_passwords_4 [keeps_intros]:
  "opens token claims \<Longrightarrow> keeps (reset_known E c token claims u)"
  unfolding reset_known_def
  by (intro keeps_intros; simp)+

lemma keeps_passwords_5 [keeps_intros]:
  "keeps (PasswordReset E c)"
  unfolding PasswordReset_def
  by (intro keeps_intros; simp)+

subsection \<open>Accounts\<close>

lemma keeps_accounts_1 [keeps_intros]:
  "keeps (settings_saved E c u userUpdated newEmail emailChangeRequested)" "keeps (stageUserAdd E u password)"
  "keeps (stageUserShow E username)" "keeps (stageUserFindPending E)" "keeps (stageUserSetCategory E username category)"
  "keeps (clearNewPasswordExpiry E username)" "keeps (stageUserDel E username)"
  "keeps (direct_create E lang u password verified)" "keeps (sendVerifyResendEmail E u c)" "keeps (signup_refused E e)"
  "opens token claims \<Longrightarrow> keeps (finishAccountVerify E c claims u token)" "keeps (clear_category E u)"
  "opens token claims \<Longrightarrow> keeps (email_changed E c token claims user)"
  unfolding settings_saved_def stageUserAdd_def stageUserShow_def stageUserFindPending_def stageUserSetCategory_def
    clearNewPasswordExpiry_def stageUserDel_def direct_create_def sendVerifyResendEmail_def signup_refused_def
    finishAccountVerify_def clear_category_def email_changed_def
  by (intro keeps_intros; simp)+

lemma keeps_accounts_2 [keeps_intros]:
  "keeps (settings_save E c u)" "keeps (stageUserActivate E username)" "keeps (stagedAccountCreate E u password)"
  "opens token claims \<Longrightarrow> keeps (verifyLegacyUser E c claims token)" "keeps (resend_known E c u)"
  "keeps (resend_unknown E c username)" "keeps (EmailChangeConfirm E c)"
  unfolding settings_save_def stageUserActivate_def stagedAccountCreate_def verifyLegacyUser_def resend_known_def
    resend_unknown_def EmailChangeConfirm_def
  by (intro keeps_intros; simp)+

lemma keeps_accounts_3 [keeps_intros]:
  "keeps (AccountSettings E c)" "keeps (accountCreate E lang user password passwordConfirm verified)"
  "keeps (verifyStagedUser E username su)" "keeps (AccountVerifyResend E c)"
  unfolding AccountSettings_def accountCreate_def verifyStagedUser_def AccountVerifyResend_def
  by (intro keeps_intros; simp)+

lemma keeps_accounts_4 [keeps_intros]:
  "keeps (AccountCreate E c)" "keeps (AccountVerify E c)"
  unfolding AccountCreate_def AccountVerify_def
  by (intro keeps_intros; simp)+

subsection \<open>Keys and subordinate ids\<close>

lemma keeps_keys_1 [keeps_intros]:
  "keeps (save_keys E c user added)" "keeps (subidFind E username)" "keeps (subidGenerate E username)"
  unfolding save_keys_def subidFind_def subidGenerate_def
  by (intro keeps_intros; simp)+

lemma keeps_keys_2 [keeps_intros]:
  "keeps (SSHKeyAdd E c)" "keeps (SSHKeyRemove E c)" "keeps (subidVars E username vs)"
  unfolding SSHKeyAdd_def SSHKeyRemove_def subidVars_def
  by (intro keeps_intros; simp)+

lemma keeps_keys_3 [keeps_intros]:
  "keeps (SubidGenerate E c)"
  unfolding SubidGenerate_def
  by (intro keeps_intros; simp)+

subsection \<open>The security page\<close>

lemma keeps_security_1 [keeps_intros]:
  "keeps (userPasskeys E cl uid)" "keeps (FetchOTPTokens E c)" "keeps (session_vars E c vs)" "keeps (app_vars E c vs)"
  "keeps (RequireOTPSelfService E c)" "keeps (recovery_known E c username user)" "keeps (OTPRecoveryConfirm E c)"
  unfolding userPasskeys_def FetchOTPTokens_def session_vars_def app_vars_def RequireOTPSelfService_def recovery_known_def
    OTPRecoveryConfirm_def
  by (intro keeps_intros; simp)+

lemma keeps_security_2 [keeps_intros]:
  "keeps (securityVars E c vs)" "keeps (tokenList E c vs)" "keeps (OTPRecoveryRequest_handler E c)"
  unfolding securityVars_def tokenList_def OTPRecoveryRequest_handler_def
  by (intro keeps_intros; simp)+

lemma keeps_security_3 [keeps_intros]:
  "keeps (securityList E c vs)" "keeps (OTPTokenList E c)" "keeps (OTPTokenRemove E c)" "keeps (OTPTokenEnable E c)"
  "keeps (OTPTokenDisable E c)" "keeps (token_added E c)"
  unfolding securityList_def OTPTokenList_def OTPTokenRemove_def OTPTokenEnable_def OTPTokenDisable_def token_added_def
  by (intro keeps_intros; simp)+

lemma keeps_security_4 [keeps_intros]:
  "keeps (SecurityList E c)" "keeps (AppRevoke E c)" "keeps (SessionRevoke E c)" "keeps (SessionRevokeOthers E c)"
  "keeps (TwoFactorDisable E c)" "keeps (TwoFactorEnable E c)" "keeps (token_verified E c)"
  unfolding SecurityList_def AppRevoke_def SessionRevoke_def SessionRevokeOthers_def TwoFactorDisable_def
    TwoFactorEnable_def token_verified_def
  by (intro keeps_intros; simp)+

lemma keeps_security_5 [keeps_intros]:
  "keeps (OTPTokenVerify E c)"
  unfolding OTPTokenVerify_def
  by (intro keeps_intros; simp)+

subsection \<open>Groups\<close>

lemma keeps_notify_all [keeps_intros]: "keeps (notify_all E ms requester gn reqType)"
  by (induction ms; unfold notify_all.simps; intro keeps_intros; simp)

lemma keeps_group_pages_1 [keeps_intros]:
  "keeps (groupFindManaged E cl)" "keeps (groupShow E cl cn)" "keeps (groupAddMember E cl cn uid)"
  "keeps (groupRemoveMember E cl cn uid)" "keeps (load_requests E g)" "keeps (drop_request E g username)"
  "keeps (sendGroupDecision E username g approved reqType)" "keeps (notifyGroupRemoved E username g)"
  "keeps (add_request E g username reqType)"
  unfolding groupFindManaged_def groupShow_def groupAddMember_def groupRemoveMember_def load_requests_def drop_request_def
    sendGroupDecision_def notifyGroupRemoved_def add_request_def
  by (intro keeps_intros; simp)+

lemma keeps_drop_stale [keeps_intros]: "keeps (drop_stale E g rs)"
  by (induction rs; unfold drop_stale.simps; intro keeps_intros; simp)

lemma keeps_group_pages_2 [keeps_intros]:
  "keeps (notifyGroupSponsors E g requester reqType)" "keeps (groupDecision E c)"
  unfolding notifyGroupSponsors_def groupDecision_def
  by (intro keeps_intros; simp)+

lemma keeps_fill_sections [keeps_intros]: "keeps (fill_sections E user gs sc)"
  by (induction gs arbitrary: sc; unfold fill_sections.simps; intro keeps_intros; simp)

lemma keeps_group_pages_3 [keeps_intros]:
  "keeps (requestJoin E c groupName)"
  unfolding requestJoin_def
  by (intro keeps_intros; simp)+

lemma keeps_group_pages_4 [keeps_intros]:
  "keeps (groupsVars E c vs)"
  unfolding groupsVars_def
  by (intro keeps_intros; simp)+

lemma keeps_group_pages_5 [keeps_intros]:
  "keeps (groups_page E c)"
  unfolding groups_page_def
  by (intro keeps_intros; simp)+

lemma keeps_group_pages_6 [keeps_intros]:
  "keeps (GroupRequestJoin E c)" "keeps (GroupRequestLeave E c)" "keeps (GroupApprove E c)" "keeps (GroupDeny E c)"
  "keeps (GroupRemoveMember E c)"
  unfolding GroupRequestJoin_def GroupRequestLeave_def GroupApprove_def GroupDeny_def GroupRemoveMember_def
  by (intro keeps_intros; simp)+

subsection \<open>Apps\<close>

lemma keeps_apps_1 [keeps_intros]:
  "keeps (hasJoinRequest E g username)" "keeps (fetch_managed E c cache)"
  unfolding hasJoinRequest_def fetch_managed_def
  by (intro keeps_intros; simp)+

lemma keeps_pick_group [keeps_intros]: "keeps (pick_group E gs username ws app)"
  by (induction ws arbitrary: app; unfold pick_group.simps; intro keeps_intros; simp)

lemma keeps_catalog_loop [keeps_intros]: "keeps (catalog_loop E c policies cache cls apps)"
  by (induction cls arbitrary: cache apps; unfold catalog_loop.simps; intro keeps_intros; simp)

lemma keeps_apps_4 [keeps_intros]:
  "keeps (appCatalog E c)"
  unfolding appCatalog_def
  by (intro keeps_intros; simp)+

lemma keeps_apps_5 [keeps_intros]:
  "keeps (appsVars E c vs)"
  unfolding appsVars_def
  by (intro keeps_intros; simp)+

lemma keeps_apps_6 [keeps_intros]:
  "keeps (apps_page E c)"
  unfolding apps_page_def
  by (intro keeps_intros; simp)+

lemma keeps_apps_7 [keeps_intros]:
  "keeps (AppRequest E c)"
  unfolding AppRequest_def
  by (intro keeps_intros; simp)+

subsection \<open>Access rules\<close>

lemma keeps_access_1 [keeps_intros]:
  "keeps (hbacRuleFind E cl)" "keeps (sudoRuleFind E cl)" "keeps (hbacTest E cl user targethost service)"
  unfolding hbacRuleFind_def sudoRuleFind_def hbacTest_def
  by (intro keeps_intros; simp)+

lemma keeps_access_2 [keeps_intros]:
  "keeps (accessVars E c vs)" "keeps (AccessTest E c)"
  unfolding accessVars_def AccessTest_def
  by (intro keeps_intros; simp)+

subsection \<open>Passkeys\<close>

lemma keeps_passkeys_1 [keeps_intros]:
  "keeps (userAddPasskey E cl uid mapping)" "keeps (userRemovePasskey E cl uid mapping)" "keeps (passkeyList E c)"
  "keeps (webAuthn E c)" "keeps (webauthn_refused E c err)"
  unfolding userAddPasskey_def userRemovePasskey_def passkeyList_def webAuthn_def webauthn_refused_def
  by (intro keeps_intros; simp)+

lemma keeps_passkeys_2 [keeps_intros]:
  "keeps (addPasskey E user uid mapping)" "keeps (PasskeyBegin E c)" "keeps (PasskeyRemove E c)"
  unfolding addPasskey_def PasskeyBegin_def PasskeyRemove_def
  by (intro keeps_intros; simp)+

lemma keeps_passkeys_3 [keeps_intros]:
  "keeps (passkey_store E c mapping)"
  unfolding passkey_store_def
  by (intro keeps_intros; simp)+

lemma keeps_passkeys_4 [keeps_intros]:
  "keeps (passkey_create E c sd)"
  unfolding passkey_create_def
  by (intro keeps_intros; simp)+

lemma keeps_passkeys_5 [keeps_intros]:
  "keeps (PasskeyFinish E c)"
  unfolding PasskeyFinish_def
  by (intro keeps_intros; simp)+

subsection \<open>OTP tokens\<close>

lemma keeps_otp_setup_1 [keeps_intros]:
  "keeps (OTPTokenAdd E c)"
  unfolding OTPTokenAdd_def
  by (intro keeps_intros; simp)+

subsection \<open>Reminders\<close>

lemma reminder_not_watched: "\<not> watched (reminder_key u d)"
  by (auto elim!: watched_cases simp: key_unfolds purpose_cases reminder_key_def expiryReminderPrefix_def)

lemma kept_reminder [keeps_intros]: "kept t s \<Longrightarrow> kept t (snd (st_set (stg E) s t' (reminder_key u d) v ttl))"
  by (erule kept_write [OF _ reminder_not_watched]) (erule set_other')

lemma keeps_expiry_1 [keeps_intros]:
  "keeps (remind_window E u left days)" "keeps (expiryWarningVars E u vs)"
  unfolding remind_window_def expiryWarningVars_def
  by (intro keeps_intros; simp)+

lemma keeps_expiry_2 [keeps_intros]:
  "keeps (remind_user E now u)"
  unfolding remind_user_def
  by (intro keeps_intros; simp)+

lemma keeps_remind_all [keeps_intros]: "keeps (remind_all E now us n)"
  by (induction us arbitrary: n; unfold remind_all.simps; intro keeps_intros; simp)

lemma keeps_expiry_4 [keeps_intros]:
  "keeps (expiryReminderSweep E)"
  unfolding expiryReminderSweep_def
  by (intro keeps_intros; simp)+

subsection \<open>Administration\<close>

lemma keeps_admin_panel_1 [keeps_intros]:
  "keeps (RequireAdmin E c)" "keeps (InviteSend E c)" "keeps (InviteAccept E c)" "keeps (adminUserVars E c search)"
  "keeps (adminHelpdeskVars E c view0)" "keeps (AdminPendingList E c)" "keeps (load_recoveries E)"
  "keeps (drop_recovery E username)" "keeps (sendOTPRecoveryDecision E username approved)" "keeps (AdminAuditList E c)"
  "keeps (staged_user E username)" "keeps act \<Longrightarrow> keeps (after err act)" "keeps (send_welcome E u c)"
  "keeps (userUnlock E username)" "keeps (admin_reset E c username)"
  unfolding RequireAdmin_def InviteSend_def InviteAccept_def adminUserVars_def adminHelpdeskVars_def AdminPendingList_def
    load_recoveries_def drop_recovery_def sendOTPRecoveryDecision_def AdminAuditList_def staged_user_def after_def
    send_welcome_def userUnlock_def admin_reset_def
  by (intro keeps_intros; simp)+

lemma keeps_recovery_rows [keeps_intros]: "keeps (recovery_rows E rs)"
  by (induction rs; unfold recovery_rows.simps; intro keeps_intros; simp)

lemma keeps_admin_panel_2 [keeps_intros]:
  "keeps (AdminUserList E c)" "keeps (AdminHelpdesk E c)" "keeps (admin_approve E c username)"
  "keeps (admin_deny E username)" "keeps (recovery_approve E username)" "keeps (recovery_deny E username)"
  unfolding AdminUserList_def AdminHelpdesk_def admin_approve_def admin_deny_def recovery_approve_def recovery_deny_def
  by (intro keeps_intros; simp)+

lemma keeps_admin_panel_3 [keeps_intros]:
  "keeps (AdminOTPRecoveryList E c)"
  unfolding AdminOTPRecoveryList_def
  by (intro keeps_intros; simp)+

lemma keeps_admin_panel_4 [keeps_intros]:
  "keeps (action_page E c action username)"
  unfolding action_page_def
  by (intro keeps_intros; simp)+

lemma keeps_admin_action: "admin_action E c action username = Some act \<Longrightarrow> keeps act"
  by (auto simp: admin_action_def split: if_splits intro!: keeps_intros)

lemma keeps_admin_panel_5 [keeps_intros]:
  "keeps (AdminUserAction E c)" "keeps (action_done E c action username)"
  unfolding AdminUserAction_def action_done_def
  by (intro keeps_intros; (simp; fail | erule keeps_admin_action))+

subsection \<open>The API\<close>

lemma keeps_open_requests [keeps_intros]: "keeps (open_requests E gs)"
  by (induction gs; unfold open_requests.simps; intro keeps_intros; simp)

lemma keeps_api_1 [keeps_intros]:
  "keeps (RequireAPIToken E c)" "keeps (APIEvents E c)" "keeps (APIOTPRecovery E c)" "keeps (Healthz E c)"
  unfolding RequireAPIToken_def APIEvents_def APIOTPRecovery_def Healthz_def
  by (intro keeps_intros; simp)+

lemma keeps_api_2 [keeps_intros]:
  "keeps (APIGroupRequests E c)"
  unfolding APIGroupRequests_def
  by (intro keeps_intros; simp)+

subsection \<open>The index\<close>

lemma keeps_routes_1 [keeps_intros]:
  "keeps (index_section E c path vs)" "keeps (Logo E c)" "keeps (Styles E c)" "keeps (Metrics E c)"
  unfolding index_section_def Logo_def Styles_def Metrics_def
  by (intro keeps_intros; simp)+

lemma keeps_routes_2 [keeps_intros]:
  "keeps (Index E c)"
  unfolding Index_def
  by (intro keeps_intros; simp)+

end

end
