(* ===== verification/Portal.thy ===== *)
theory Portal
  imports Portal_Handlers
begin

text \<open>
  Runs of the portal: requests to any route, with any content, the two sweeps, changes of everything outside, and time that
  passes, in any order. A request is served to its end before the next one starts.
\<close>

section \<open>Steps\<close>

inductive portal_step :: "('s, 'x) env \<Rightarrow> ('s, 'x) world \<Rightarrow> ('s, 'x) world \<Rightarrow> bool" for E where
  request: "r \<in> set (routes E) \<Longrightarrow> portal_step E w (snd (run_state (run_chain (rt_chain r) c) w))"
| reminders: "portal_step E w (snd (run_state (expiryReminderSweep E) w))"
| consents: "portal_step E w (snd (run_state (consentSweep E) w))"
| elsewhere: "portal_step E w (w\<lparr>ext := x\<rparr>)"
| passing: "tick w \<le> n \<Longrightarrow> portal_step E w (w\<lparr>tick := n\<rparr>)"

inductive portal_run :: "('s, 'x) env \<Rightarrow> ('s, 'x) world \<Rightarrow> ('s, 'x) world \<Rightarrow> bool" for E where
  idle: "portal_run E w w"
| step: "portal_run E w w1 \<Longrightarrow> portal_step E w1 w2 \<Longrightarrow> portal_run E w w2"

inductive_cases portal_stepE: "portal_step E w w'"

context portal_laws
begin

lemma keeps_chain: "(\<And>h c. h \<in> set hs \<Longrightarrow> keeps (h c)) \<Longrightarrow> keeps (run_chain hs c)"
proof (induction hs arbitrary: c)
  case (Cons h hs)
  have "keeps (h c)" and "keeps (run_chain hs c')" for c' using Cons by auto
  then show ?case unfolding run_chain.simps by (intro keeps_intros; simp)
qed (simp add: keeps_intros)

lemma route_handlers_keep: "r \<in> set (routes E) \<Longrightarrow> h \<in> set (rt_chain r) \<Longrightarrow> keeps (h c)"
proof -
  have "list_all (\<lambda>r. list_all (\<lambda>h. \<forall>c. keeps (h c)) (rt_chain r)) (routes E)"
    unfolding routes_def SetupRoutes_def Let_def
    by (simp add: chains_append keeps_intros)
  then show "r \<in> set (routes E) \<Longrightarrow> h \<in> set (rt_chain r) \<Longrightarrow> keeps (h c)" by (auto simp: list_all_iff)
qed

lemma step_keeps: "portal_step E w w' \<Longrightarrow> world_ok w \<Longrightarrow> world_ok w'"
proof (induction rule: portal_step.induct)
  case (request r w c)
  have "keeps (run_chain (rt_chain r) c)" by (rule keeps_chain) (rule route_handlers_keep [OF request(1)])
  with request show ?case by (simp add: keeps_def)
next
  case (reminders w)
  have "keeps (expiryReminderSweep E)" by (intro keeps_intros)
  with reminders show ?case by (simp add: keeps_def)
next
  case (consents w)
  have "keeps (consentSweep E)" by (intro keeps_intros)
  with consents show ?case by (simp add: keeps_def)
qed (auto intro: world_ok_later)

lemma run_keeps: "portal_run E w w' \<Longrightarrow> world_ok w \<Longrightarrow> world_ok w'"
  by (induction rule: portal_run.induct) (auto intro: step_keeps)

end

section \<open>The laws hold in memory\<close>

lemma mem_portal_laws:
  assumes "stg E = sound_storage" "rdb E = None" "fib E = mem_sessions" "session_idle_timeout (server (cfg E)) = 900" "mono (clk E)"
  shows "portal_laws E sound_view {}"
  using mem_middleware [OF assms(1-4)] assms(3,5)
  by (simp add: portal_laws_def portal_laws_axioms_def mem_sessions_def)

interpretation mem_laws: portal_laws mem_env sound_view "{}"
  by (rule mem_portal_laws) (simp_all add: default_config_def monoI)

lemma laws_store: "portal_laws E view M \<Longrightarrow> portal_store E view"
  by (simp add: portal_laws_def session_middleware_def)

lemma laws_kv: "portal_laws E view M \<Longrightarrow> kv_store (stg E) view"
  by (drule laws_store) (simp add: portal_store_def reliable_store_def)

section \<open>Used links\<close>

text \<open>A page answers a link that does not parse with 404.\<close>

lemma dead_link:
  assumes "ParseToken (stg E) (brn E) (cfg E) (rq_params (req c) ''token'') p (clk E (tick w)) (sto w) = Err err"
    and "(p, h) \<in> {(TokenPasswordReset, PasswordReset E c), (TokenAccountVerify, AccountVerify E c),
      (TokenEmailChange, EmailChangeConfirm E c), (TokenOTPRecovery, OTPRecoveryConfirm E c), (TokenInvite, InviteAccept E c)}"
  shows "run_state h w = (status_only 404, w\<lparr>tick := Suc (tick w)\<rparr>)"
proof -
  from assms(1) have "run_state (parse_token E (rq_params (req c) ''token'') p) w = (Err err, w\<lparr>tick := Suc (tick w)\<rparr>)"
    by (simp add: parse_token_def)
  then show ?thesis
    using assms(2)
    by (auto simp: PasswordReset_def AccountVerify_def EmailChangeConfirm_def OTPRecoveryConfirm_def InviteAccept_def Let_def)
qed

text \<open>A link that was opened is good until its time is up.\<close>

lemma link_laws:
  assumes "portal_laws E view {}" and "branca_open (brn E) (cfg E) x = Some (payload, ts)" and "p \<in> set token_purposes"
  shows "portal_laws E view {(p, x, ts + token_max_age (email (cfg E)) * second)}"
  using assms by (simp add: portal_laws_def portal_laws_axioms_def)

definition documents_ok :: "('s, 'x) env \<Rightarrow> ('s \<Rightarrow> time \<Rightarrow> string \<Rightarrow> blob option) \<Rightarrow> ('s, 'x) world \<Rightarrow> bool" where
  "documents_ok E view w \<longleftrightarrow> (\<forall>k t raw. clk E (tick w) \<le> t \<longrightarrow> view (sto w) t k = Some raw \<longrightarrow> doc_ok k raw)"

lemma documents_ok_world: "portal_laws E view {} \<Longrightarrow> documents_ok E view w \<longleftrightarrow> portal_laws.world_ok E view {} w"
  by (simp add: documents_ok_def portal_laws.world_ok_def portal_laws.kept_def)

lemma run_documents: "portal_laws E view {} \<Longrightarrow> portal_run E w w' \<Longrightarrow> documents_ok E view w \<Longrightarrow> documents_ok E view w'"
  by (simp add: documents_ok_world portal_laws.run_keeps)

lemma mark_stays:
  assumes "portal_laws E view {}" and "documents_ok E view w" and "portal_run E w w'"
    and "branca_open (brn E) (cfg E) x = Some (payload, ts)" and p: "p \<in> set token_purposes"
    and "\<And>t. clk E (tick w) \<le> t \<Longrightarrow> t < ts + token_max_age (email (cfg E)) * second \<Longrightarrow> view (sto w) t (used_key p x) = Some (Raw ''true'')"
    and "clk E (tick w') < ts + token_max_age (email (cfg E)) * second"
  shows "view (sto w') (clk E (tick w')) (used_key p x) = Some (Raw ''true'')"
proof -
  let ?d = "ts + token_max_age (email (cfg E)) * second"
  note laws = link_laws [OF assms(1,4) p]
  have "portal_laws.world_ok E view {(p, x, ?d)} w"
    using assms(2,6) by (simp add: portal_laws.world_ok_def [OF laws] portal_laws.kept_def [OF laws] documents_ok_def)
  then have "portal_laws.world_ok E view {(p, x, ?d)} w'" by (rule portal_laws.run_keeps [OF laws assms(3)])
  then show ?thesis
    using portal_laws.kept_marked [OF laws, of _ _ p x ?d] assms(7) by (simp add: portal_laws.world_ok_def [OF laws])
qed

text \<open>
  The instants at which a used link is dead: all but those of the one second after its lifetime, when its mark is gone and branca does not call it
  expired yet (\<open>used_token_revives\<close> shows that second).
\<close>

definition outside_gap :: "config \<Rightarrow> time \<Rightarrow> time \<Rightarrow> bool" where
  "outside_gap cf ts t \<longleftrightarrow> t < ts + token_max_age (email cf) * second \<or> ts + token_max_age (email cf) * second + second \<le> t"

lemma marked_link_dead:
  assumes "portal_laws E view {}" and "branca_expires (brn E)" and "documents_ok E view w" and "portal_run E w w'"
    and "branca_open (brn E) (cfg E) x = Some (payload, ts)" and "p \<in> set token_purposes"
    and "\<And>t. clk E (tick w) \<le> t \<Longrightarrow> t < ts + token_max_age (email (cfg E)) * second \<Longrightarrow> view (sto w) t (used_key p x) = Some (Raw ''true'')"
    and "outside_gap (cfg E) ts (clk E (tick w'))"
  shows "\<exists>err. ParseToken (stg E) (brn E) (cfg E) x p (clk E (tick w')) (sto w') = Err err"
proof (cases "clk E (tick w') < ts + token_max_age (email (cfg E)) * second")
  case True
  show ?thesis
    using kv_store.used_token_rejected [OF laws_kv [OF assms(1)], OF mark_stays [OF assms(1,3-7) True]] by blast
next
  case False
  with assms(8) show ?thesis unfolding outside_gap_def by (intro late_token [OF assms(2,5)]) simp
qed

text \<open>
  C7. Once a link is used, it stays used on its page. From a storage whose documents are those of the portal and which holds the mark
  of a used link, after any run of the portal, the page of the link's purpose answers it with 404 and changes nothing, at every time but in the one second
  after the lifetime of the link.
\<close>

theorem used_link_stays_dead:
  assumes "portal_laws E view {}" and "branca_expires (brn E)" and "documents_ok E view w" and "portal_run E w w'"
    and "branca_open (brn E) (cfg E) (rq_params (req c) ''token'') = Some (payload, ts)"
    and "\<And>t. clk E (tick w) \<le> t \<Longrightarrow> t < ts + token_max_age (email (cfg E)) * second
      \<Longrightarrow> view (sto w) t (used_key p (rq_params (req c) ''token'')) = Some (Raw ''true'')"
    and "outside_gap (cfg E) ts (clk E (tick w'))"
    and "(p, h) \<in> {(TokenPasswordReset, PasswordReset E c), (TokenAccountVerify, AccountVerify E c),
      (TokenEmailChange, EmailChangeConfirm E c), (TokenOTPRecovery, OTPRecoveryConfirm E c), (TokenInvite, InviteAccept E c)}"
  shows "run_state h w' = (status_only 404, w'\<lparr>tick := Suc (tick w')\<rparr>)"
proof -
  have "p \<in> set token_purposes" using assms(8) by auto
  from marked_link_dead [OF assms(1-5) this assms(6,7)] show ?thesis by (auto intro: dead_link [OF _ assms(8)])
qed

text \<open>What a reset leaves: good documents, and the mark of the link for the rest of its lifetime.\<close>

lemma reset_leaves:
  assumes "portal_laws E view {}" and "documents_ok E view w1" and "run_state (PasswordReset E c) w1 = (reset_success, w2)"
    and "branca_open (brn E) (cfg E) (rq_params (req c) ''token'') = Some (payload, ts)"
  shows "documents_ok E view w2"
    and "clk E (tick w2) \<le> t \<Longrightarrow> t < ts + token_max_age (email (cfg E)) * second
      \<Longrightarrow> view (sto w2) t (used_key TokenPasswordReset (rq_params (req c) ''token'')) = Some (Raw ''true'')"
proof -
  have "portal_laws.keeps E view {} (PasswordReset E c)"
    using portal_laws.keeps_passwords_5 [OF assms(1)] by blast
  with assms(2,3) show "documents_ok E view w2"
    unfolding documents_ok_world [OF assms(1)] portal_laws.keeps_def [OF assms(1)] by (metis snd_conv)
  obtain claims u w where claims:
      "ParseToken (stg E) (brn E) (cfg E) (rq_params (req c) ''token'') TokenPasswordReset (clk E (tick w1)) (sto w1) = Ok claims"
    and w: "tick w = Suc (tick w1)" "run_state (reset_done E c (rq_params (req c) ''token'') claims u) w = (reset_success, w2)"
    by (rule PasswordReset_success [OF assms(3)]) blast
  have ts: "tk_Timestamp claims = ts" using ParseToken_opens [OF claims] assms(4) by auto
  note marks = wp_run [OF portal_store.reset_done_marks [OF laws_store [OF assms(1)]] w(2)]
  show "view (sto w2) t (used_key TokenPasswordReset (rq_params (req c) ''token'')) = Some (Raw ''true'')"
    if "clk E (tick w2) \<le> t" "t < ts + token_max_age (email (cfg E)) * second"
  proof -
    have "clk E (tick w) \<le> clk E (tick w2)"
      using marks portal_laws.clock [OF assms(1)] by (auto intro: monoD)
    with marks that show ?thesis by (simp add: ts)
  qed
qed

text \<open>
  C6. A reset link works once, whatever else is served. When a password was reset with a link, the page answers the same link with 404 and does nothing after any
  further run of the portal, at every time but in the one second after the lifetime of the link: no other request, sweep or change outside brings it back.
\<close>

theorem reset_link_dead:
  assumes "portal_laws E view {}" and "branca_expires (brn E)" and "documents_ok E view w0" and "portal_run E w0 w1"
    and "run_state (PasswordReset E c) w1 = (reset_success, w2)" and "portal_run E w2 w3"
    and "rq_params (req c') ''token'' = rq_params (req c) ''token''"
    and "branca_open (brn E) (cfg E) (rq_params (req c) ''token'') = Some (payload, ts)"
    and "outside_gap (cfg E) ts (clk E (tick w3))"
  shows "run_state (PasswordReset E c') w3 = (status_only 404, w3\<lparr>tick := Suc (tick w3)\<rparr>)"
proof -
  note left = reset_leaves [OF assms(1) run_documents [OF assms(1,4,3)] assms(5,8)]
  obtain err where "ParseToken (stg E) (brn E) (cfg E) (rq_params (req c') ''token'') TokenPasswordReset (clk E (tick w3)) (sto w3) = Err err"
    using marked_link_dead [OF assms(1,2) left(1) assms(6,8) _ left(2) assms(9)] unfolding assms(7) by auto
  then show ?thesis by (rule dead_link) simp
qed

section \<open>Documents\<close>

text \<open>
  C9. What is stored keeps its type. From a storage with good documents (an empty one, for instance), after any run of the portal, what is found under the key of an index of
  sessions, of a queue of group requests or of the queue of OTP recoveries decodes as such, what is found under the key of a password change is a number, and the marks of issued and used
  links are \<open>true\<close>: no document is taken for an empty one because it cannot be read. (The keys of the audit log and of the reminders are not spoken of.)
\<close>

theorem documents_typed:
  assumes "portal_laws E view {}" and "documents_ok E view w0" and "portal_run E w0 w"
    and "clk E (tick w) \<le> t" and "view (sto w) t k = Some raw"
  shows "(k = sessions_key u \<longrightarrow> unmarshal_list unmarshal_UserSession raw \<noteq> None)
    \<and> (k = groupRequests_key g \<longrightarrow> unmarshal_list unmarshal_GroupRequest raw \<noteq> None)
    \<and> (k = otpRecoveryKey \<longrightarrow> unmarshal_list unmarshal_OTPRecoveryRequest raw \<noteq> None)
    \<and> (k = pwchanged_key u \<longrightarrow> (\<exists>n. raw = Raw (FormatInt n)))
    \<and> (p \<in> set token_purposes \<and> (k = used_key p x \<or> k = issued_key p x) \<longrightarrow> raw = Raw ''true'')"
  using run_documents [OF assms(1,3,2)] assms(4,5) unfolding documents_ok_def doc_ok_def by fastforce

text \<open>
  C8. What is stored keeps its shape. After any run of the portal the index of every user has at most 20 entries, for distinct sessions, none of which is
  one of the portal's own keys (so that signing out a session cannot delete a mark or a queue); and no queue names a user twice.
\<close>

theorem documents_shaped:
  assumes "portal_laws E view {}" and "documents_ok E view w0" and "portal_run E w0 w" and "t = clk E (tick w)"
  shows "length (loadSessionIndex (stg E) u t (sto w)) \<le> userSessionsMax
    \<and> distinct (map SID (loadSessionIndex (stg E) u t (sto w)))
    \<and> (\<forall>x\<in>set (loadSessionIndex (stg E) u t (sto w)). \<not> portal_key (SID x))
    \<and> distinct (map gr_Username (loadGroupRequests (stg E) g t (sto w)))
    \<and> distinct (map or_Username (loadOTPRecoveryRequests (stg E) t (sto w)))"
proof -
  have kept: "portal_laws.kept view {} t (sto w)"
    using run_documents [OF assms(1,3,2)] assms(4)
    by (simp add: documents_ok_world [OF assms(1)] portal_laws.world_ok_def [OF assms(1)])
  have "index_ok (\<lambda>k. \<not> portal_key k) (loadSessionIndex (stg E) u t (sto w))"
    using kv_store.indexes_ok_load [OF laws_kv [OF assms(1)], OF portal_laws.kept_indexes [OF assms(1), OF kept] order_refl] .
  with portal_laws.kept_load [OF assms(1), OF kept] show ?thesis by (simp add: index_ok_def)
qed

section \<open>Witnesses\<close>

lemma reset_laws: "portal_laws reset_env sound_view {}"
  by (rule mem_portal_laws) (simp_all add: default_config_def monoI)

lemma reset_documents: "documents_ok reset_env sound_view reset_world"
proof -
  have cells: "issued_alice = [issued_key TokenPasswordReset ''alice'' \<mapsto> (Raw ''true'', Some (t7 + 180 * second))]"
    by (simp add: issued_alice_def NewToken_def sound_defs demo_branca_def default_config_def alice_payload_def t7_unix second_def)
  have "sound_view issued_alice t k = Some raw \<Longrightarrow> k = issued_key TokenPasswordReset ''alice'' \<and> raw = Raw ''true''" for t k raw
    by (auto simp: cells sound_defs split: if_splits)
  then show ?thesis by (fastforce simp: documents_ok_def doc_ok_cases(6) reset_world_def)
qed

lemma reset_opens: "branca_open (brn reset_env) (cfg reset_env) (rq_params (req reset_ctx) ''token'') = Some (alice_payload, t7)"
  by (simp add: branca_open_def demo_branca_def default_config_def t7_def)

lemma reset_valid_still:
  "clk reset_env n < t7 + token_max_age (email (cfg reset_env)) * second" "outside_gap (cfg reset_env) t7 (clk reset_env n)"
  by (simp_all add: outside_gap_def default_config_def second_def)

lemma reset_expires: "branca_expires (brn reset_env)"
  by (simp add: demo_branca_expires)

lemma reset_sweeps: "portal_run reset_env w (snd (run_state (expiryReminderSweep reset_env) w))"
  by (rule portal_run.step [OF portal_run.idle portal_step.reminders])

theorem reset_link_dead_witness:
  "\<exists>w2. run_state (PasswordReset reset_env reset_ctx) reset_world = (reset_success, w2)
     \<and> fst (run_state (PasswordReset reset_env reset_ctx) (snd (run_state (expiryReminderSweep reset_env) w2))) = status_only 404"
proof -
  obtain w2 where run: "run_state (PasswordReset reset_env reset_ctx) reset_world = (reset_success, w2)"
    using reset_runs by blast
  show ?thesis
    using run reset_link_dead [OF reset_laws reset_expires reset_documents portal_run.idle run reset_sweeps refl reset_opens reset_valid_still(2)] by simp
qed

definition spent_world :: "(cells, unit) world" where
  "spent_world = reset_world\<lparr>sto := [used_key TokenInvite ''token-7'' \<mapsto> (Raw ''true'', None)]\<rparr>"

lemma spent_documents:
  "documents_ok reset_env sound_view spent_world" "sound_view (sto spent_world) t (used_key TokenInvite ''token-7'') = Some (Raw ''true'')"
  by (auto simp: documents_ok_def spent_world_def sound_defs doc_ok_cases split: if_splits)

theorem used_link_stays_dead_witness:
  "fst (run_state (InviteAccept reset_env reset_ctx) (snd (run_state (expiryReminderSweep reset_env) spent_world))) = status_only 404"
  by (subst used_link_stays_dead [OF reset_laws reset_expires spent_documents(1) reset_sweeps reset_opens _ reset_valid_still(2), of TokenInvite])
    (simp_all add: spent_documents(2))

text \<open>After a reset and a sweep the mark of the link is there, and it is \<open>true\<close>.\<close>

theorem documents_typed_witness:
  "\<exists>w2 w3. run_state (PasswordReset reset_env reset_ctx) reset_world = (reset_success, w2)
     \<and> snd (run_state (expiryReminderSweep reset_env) w2) = w3
     \<and> sound_view (sto w3) t7 (used_key TokenPasswordReset ''token-7'') = Some (Raw ''true'')"
proof -
  obtain w2 where run: "run_state (PasswordReset reset_env reset_ctx) reset_world = (reset_success, w2)"
    using reset_runs by blast
  let ?w3 = "snd (run_state (expiryReminderSweep reset_env) w2)"
  note left = reset_leaves [OF reset_laws reset_documents run reset_opens]
  have "\<exists>raw. sound_view (sto ?w3) t7 (used_key TokenPasswordReset ''token-7'') = Some raw"
    using mark_stays [OF reset_laws left(1) reset_sweeps reset_opens _ left(2) reset_valid_still(1)] by simp
  then obtain raw where raw: "sound_view (sto ?w3) t7 (used_key TokenPasswordReset ''token-7'') = Some raw" by blast
  with documents_typed [OF reset_laws left(1) reset_sweeps, OF _ raw, of _ _ TokenPasswordReset "''token-7''"] run show ?thesis by simp
qed

theorem documents_shaped_witness:
  "length (loadSessionIndex sound_storage ''alice'' t7 (sto (snd (run_state (expiryReminderSweep reset_env) reset_world)))) \<le> 20"
  using documents_shaped [OF reset_laws reset_documents reset_sweeps refl, of "''alice''"] by (simp add: userSessionsMax_def)

end
