(* ===== verification/Language_Files.thy ===== *)
theory Language_Files
  imports Translations Portal_Types "HOL-Library.AList"
begin

text \<open>
  Loading the translations (\<open>parseTranslationFile\<close> and \<open>LoadTranslations\<close> of \<open>translations.go\<close>): the embedded files, then those of
  \<open>site.translations_dir\<close>, and what is offered to visitors. A file as viper reads it is a list of keys with their texts.
\<close>

section \<open>Files and tables\<close>

text \<open>
  The files: the names of the embedded ones and whether one opens, the content of a directory (names, and which are directories), and
  the result of parsing a file, embedded or not.
\<close>

record lang_files =
  lf_embedded :: "string list result"
  lf_open :: "string \<Rightarrow> error option"
  lf_dir :: "string \<Rightarrow> (string \<times> bool) list result"
  lf_parse :: "bool \<Rightarrow> string \<Rightarrow> (string \<times> string) list result"

text \<open>What is loaded for a language: its texts and its tag.\<close>

type_synonym tables = "(string \<times> (string \<times> string) list \<times> string) list"

definition builtinLanguageCodes :: "(string \<times> string) list" where
  "builtinLanguageCodes = [(''english'', ''en''), (''dutch'', ''nl''), (''russian'', ''ru''), (''ukrainian'', ''uk'')]"

definition get_string :: "(string \<times> string) list \<Rightarrow> string \<Rightarrow> string" where
  "get_string kvs k = (case map_of kvs k of None \<Rightarrow> [] | Some v \<Rightarrow> v)"

definition parseTranslationFile ::
    "unicode \<Rightarrow> lang_files \<Rightarrow> string \<Rightarrow> string \<Rightarrow> bool \<Rightarrow> tables \<Rightarrow> tables result" where
  "parseTranslationFile U F lang path embedded ts =
     (case (if embedded then lf_open F path else None) of
        Some e \<Rightarrow> Err e
      | None \<Rightarrow>
          (case lf_parse F embedded path of
             Err e \<Rightarrow> Err (EText (''failed to parse translation file '' @ path @ '': '' @ error_string e))
           | Ok kvs \<Rightarrow>
               (let texts = filter (\<lambda>(k, _). k \<noteq> ''language_code'') kvs; tag = get_string kvs ''language_code''
                in Ok (AList.update lang
                     (texts, if tag \<noteq> [] then ToLower U tag else get_string builtinLanguageCodes lang) ts))))"

definition TrimSuffix :: "string \<Rightarrow> string \<Rightarrow> string" where
  "TrimSuffix s suf = (if HasSuffix s suf then take (length s - length suf) s else s)"

fun load_all :: "unicode \<Rightarrow> lang_files \<Rightarrow> string \<Rightarrow> bool \<Rightarrow> string list \<Rightarrow> tables \<Rightarrow> tables result" where
  "load_all U F dir embedded [] ts = Ok ts"
| "load_all U F dir embedded (name # names) ts =
     (case parseTranslationFile U F (TrimSuffix name ''.toml'') (Join dir name) embedded ts of
        Err e \<Rightarrow> Err e
      | Ok ts' \<Rightarrow> load_all U F dir embedded names ts')"

definition local_names :: "(string \<times> bool) list \<Rightarrow> string list" where
  "local_names entries = map fst (filter (\<lambda>(name, is_dir). \<not> is_dir \<and> HasSuffix name ''.toml'') entries)"

definition load_local :: "unicode \<Rightarrow> config \<Rightarrow> lang_files \<Rightarrow> tables \<Rightarrow> tables result" where
  "load_local U cf F ts =
     (let dir = translations_dir (site cf)
      in if dir = [] then Ok ts
         else (case lf_dir F dir of
                 Err e \<Rightarrow> Err (EText (''failed to read translations_dir: '' @ error_string e))
               | Ok entries \<Rightarrow> load_all U F dir False (local_names entries) ts))"

definition tags :: "tables \<Rightarrow> (string \<times> string) list" where
  "tags ts = map (\<lambda>(l, _, tag). (l, tag)) ts"

definition LoadTranslations :: "unicode \<Rightarrow> config \<Rightarrow> lang_files \<Rightarrow> (tables \<times> string list) result" where
  "LoadTranslations U cf F =
     (case lf_embedded F of Err e \<Rightarrow> Err e | Ok names \<Rightarrow>
       (case load_all U F ''translations'' True names [] of Err e \<Rightarrow> Err e | Ok ts \<Rightarrow>
         (case load_local U cf F ts of Err e \<Rightarrow> Err e | Ok ts' \<Rightarrow>
           (case offered (tags ts') (defaultLanguage (default_language (site cf))) (site_languages (site cf)) of
              Err e \<Rightarrow> Err e
            | Ok ls \<Rightarrow> Ok (ts', ls)))))"

text \<open>The look-up the rest of the portal works with: \<open>trn\<close> and \<open>lcode\<close> of its environment.\<close>

definition text_in :: "tables \<Rightarrow> string \<Rightarrow> string \<Rightarrow> string option" where
  "text_in ts lang key = (case map_of ts lang of None \<Rightarrow> None | Some (texts, _) \<Rightarrow> map_of texts key)"

definition tag_of :: "tables \<Rightarrow> string \<Rightarrow> string" where
  "tag_of ts lang = (case map_of ts lang of None \<Rightarrow> [] | Some (_, tag) \<Rightarrow> tag)"

section \<open>What a load gives\<close>

lemma map_of_tags: "map_of (tags ts) l = map_option snd (map_of ts l)"
  by (induction ts) (auto simp: tags_def)

lemma tags_names: "fst ` set (tags ts) = fst ` set ts"
  by (force simp: tags_def)

text \<open>The content a file gives its language.\<close>

definition file_entry :: "unicode \<Rightarrow> string \<Rightarrow> (string \<times> string) list \<Rightarrow> (string \<times> string) list \<times> string" where
  "file_entry U lang kvs =
     (filter (\<lambda>(k, _). k \<noteq> ''language_code'') kvs,
      if get_string kvs ''language_code'' \<noteq> [] then ToLower U (get_string kvs ''language_code'') else get_string builtinLanguageCodes lang)"

lemma parse_ok:
  assumes "parseTranslationFile U F lang path embedded ts = Ok ts'"
  shows "\<exists>kvs. lf_parse F embedded path = Ok kvs \<and> map_of ts' = (map_of ts)(lang \<mapsto> file_entry U lang kvs)"
proof -
  obtain kvs where "lf_parse F embedded path = Ok kvs" "ts' = AList.update lang (file_entry U lang kvs) ts"
    using assms unfolding parseTranslationFile_def file_entry_def Let_def
    by (cases "if embedded then lf_open F path else None"; cases "lf_parse F embedded path") simp_all
  then show ?thesis by (simp add: update_conv')
qed

text \<open>
  A later file replaces an earlier one for the same language as a whole; \<open>last_file\<close> is the one that counts.
\<close>

definition last_file :: "string \<Rightarrow> string list \<Rightarrow> string option" where
  "last_file lang names = find (\<lambda>n. TrimSuffix n ''.toml'' = lang) (rev names)"

lemma last_file_simps:
  "last_file lang [] = None"
  "last_file lang (n # names) =
     (case last_file lang names of Some m \<Rightarrow> Some m | None \<Rightarrow> if TrimSuffix n ''.toml'' = lang then Some n else None)"
proof -
  have "find P (xs @ ys) = (case find P xs of Some x \<Rightarrow> Some x | None \<Rightarrow> find P ys)" for P :: "string \<Rightarrow> bool" and xs ys
    by (induction xs) auto
  then show "last_file lang (n # names) =
     (case last_file lang names of Some m \<Rightarrow> Some m | None \<Rightarrow> if TrimSuffix n ''.toml'' = lang then Some n else None)"
    by (simp add: last_file_def split: option.split)
qed (simp add: last_file_def)

definition loaded :: "unicode \<Rightarrow> lang_files \<Rightarrow> string \<Rightarrow> bool \<Rightarrow> string list \<Rightarrow> string \<Rightarrow> ((string \<times> string) list \<times> string) option" where
  "loaded U F dir embedded names lang =
     (case last_file lang names of
        None \<Rightarrow> None
      | Some n \<Rightarrow> (case lf_parse F embedded (Join dir n) of Err _ \<Rightarrow> None | Ok kvs \<Rightarrow> Some (file_entry U lang kvs)))"

lemma load_all_ok:
  "load_all U F dir embedded names ts = Ok ts'
    \<Longrightarrow> map_of ts' lang = (case loaded U F dir embedded names lang of Some x \<Rightarrow> Some x | None \<Rightarrow> map_of ts lang)
      \<and> (\<forall>n. last_file lang names = Some n \<longrightarrow> (\<exists>kvs. lf_parse F embedded (Join dir n) = Ok kvs))"
proof (induction names arbitrary: ts)
  case (Cons n names)
  then obtain ts1 where p: "parseTranslationFile U F (TrimSuffix n ''.toml'') (Join dir n) embedded ts = Ok ts1"
    and r: "load_all U F dir embedded names ts1 = Ok ts'" by (auto split: sum.splits)
  from parse_ok [OF p] obtain kvs where "lf_parse F embedded (Join dir n) = Ok kvs"
    "map_of ts1 = (map_of ts)(TrimSuffix n ''.toml'' \<mapsto> file_entry U (TrimSuffix n ''.toml'') kvs)" by blast
  with Cons.IH [OF r] show ?case
    by (auto simp: loaded_def last_file_simps split: option.splits sum.splits)
qed (simp add: loaded_def last_file_simps)

lemma offered_ok:
  assumes "offered codes dflt extra = Ok ls"
  shows "hd ls = dflt \<and> ls \<noteq> [] \<and> set ls = insert dflt (set extra) \<and> distinct ls \<and> set ls \<subseteq> fst ` set codes
    \<and> (1 < length ls \<longrightarrow> (\<forall>l\<in>set ls. map_of codes l \<noteq> Some []))"
proof -
  let ?add = "\<lambda>l acc. if l \<in> set acc then acc else acc @ [l]"
  have fold: "\<exists>xs. fold ?add extra acc = acc @ xs \<and> set (acc @ xs) = set acc \<union> set extra \<and> (distinct acc \<longrightarrow> distinct (acc @ xs))" for acc :: "string list"
  proof (induction extra arbitrary: acc)
    case (Cons l extra)
    from Cons [of "?add l acc"] show ?case by (auto split: if_splits)
  qed simp
  from fold [of "[dflt]"] obtain xs where xs: "fold ?add extra [dflt] = dflt # xs" "set (dflt # xs) = insert dflt (set extra)" "distinct (dflt # xs)"
    by auto
  have ls: "ls = dflt # xs" "dflt \<in> fst ` set codes" "\<forall>l\<in>set extra. l \<in> fst ` set codes"
    "1 < length ls \<longrightarrow> (\<forall>l\<in>set ls. map_of codes l \<noteq> Some [])"
    using assms unfolding offered_def Let_def xs(1) by (auto simp: filter_empty_conv split: if_splits list.splits)
  have all: "set ls = insert dflt (set extra)" using xs(2) ls(1) by simp
  have "hd ls = dflt" "ls \<noteq> []" "distinct ls" using ls(1) xs(3) by auto
  moreover have "set ls \<subseteq> fst ` set codes" using all ls(2,3) by auto
  ultimately show ?thesis using all ls(4) by blast
qed

text \<open>
  C30. Loading is exact. When the translations load, the languages offered are the default one, first, and the configured ones, each once; every offered
  language has a table, and a tag where there is a choice. The table of a language is that of its last file in \<open>translations_dir\<close>, as a whole, and that of the
  embedded file only where the directory has none.
\<close>

theorem load_exact:
  assumes "LoadTranslations U cf F = Ok (ts, ls)" and "lf_embedded F = Ok names"
    and "translations_dir (site cf) \<noteq> [] \<Longrightarrow> lf_dir F (translations_dir (site cf)) = Ok entries"
  shows "hd ls = defaultLanguage (default_language (site cf)) \<and> distinct ls
    \<and> set ls = insert (defaultLanguage (default_language (site cf))) (set (site_languages (site cf)))
    \<and> (\<forall>l\<in>set ls. map_of ts l \<noteq> None \<and> (1 < length ls \<longrightarrow> tag_of ts l \<noteq> []))
    \<and> map_of ts lang =
        (case (if translations_dir (site cf) = [] then None
               else loaded U F (translations_dir (site cf)) False (local_names entries) lang) of
           Some x \<Rightarrow> Some x
         | None \<Rightarrow> loaded U F ''translations'' True names lang)"
proof -
  obtain ts0 where emb: "load_all U F ''translations'' True names [] = Ok ts0" and loc: "load_local U cf F ts0 = Ok ts"
    and off: "offered (tags ts) (defaultLanguage (default_language (site cf))) (site_languages (site cf)) = Ok ls"
    using assms(1,2) by (auto simp: LoadTranslations_def split: sum.splits)
  have "map_of ts l \<noteq> None \<and> (1 < length ls \<longrightarrow> tag_of ts l \<noteq> [])" if "l \<in> set ls" for l
  proof -
    have "l \<in> fst ` set ts" using offered_ok [OF off] that by (auto simp: tags_names)
    then obtain x where "map_of ts l = Some x" by (metis map_of_eq_None_iff not_None_eq)
    moreover have "1 < length ls \<longrightarrow> map_of (tags ts) l \<noteq> Some []" using offered_ok [OF off] that by blast
    ultimately show ?thesis by (auto simp: tag_of_def map_of_tags case_prod_unfold)
  qed
  moreover have "map_of ts lang =
        (case (if translations_dir (site cf) = [] then None
               else loaded U F (translations_dir (site cf)) False (local_names entries) lang) of
           Some x \<Rightarrow> Some x
         | None \<Rightarrow> loaded U F ''translations'' True names lang)"
    using load_all_ok [OF emb, of lang] loc assms(3) load_all_ok [of U F "translations_dir (site cf)" False "local_names entries" ts0 ts lang]
    by (auto simp: load_local_def Let_def split: if_splits option.splits sum.splits)
  ultimately show ?thesis using offered_ok [OF off] by auto
qed

section \<open>Witness\<close>

definition demo_files :: lang_files where
  "demo_files = \<lparr>lf_embedded = Ok [''dutch.toml'', ''english.toml''], lf_open = \<lambda>_. None,
     lf_dir = \<lambda>_. Ok [(''english.toml'', False), (''readme'', False)],
     lf_parse = \<lambda>e p. Ok (if e then [(''hello'', p)] else [(''bye'', p), (''language_code'', ''EN-GB'')])\<rparr>"

definition local_config :: config where
  "local_config = default_config\<lparr>site := (site default_config)\<lparr>translations_dir := ''/etc'', site_languages := [''dutch'']\<rparr>\<rparr>"

lemma demo_loads:
  "LoadTranslations plain_unicode local_config demo_files
    = Ok ([(''dutch'', [(''hello'', ''translations/dutch.toml'')], ''nl''), (''english'', [(''bye'', ''/etc/english.toml'')], ''en-gb'')],
        [''english'', ''dutch''])"
proof -
  have names: "TrimSuffix ''dutch.toml'' ''.toml'' = ''dutch''" "TrimSuffix ''english.toml'' ''.toml'' = ''english''"
    "Join ''translations'' ''dutch.toml'' = ''translations/dutch.toml''" "Join ''translations'' ''english.toml'' = ''translations/english.toml''"
    "Join ''/etc'' ''english.toml'' = ''/etc/english.toml''" "local_names [(''english.toml'', False), (''readme'', False)] = [''english.toml'']"
    "ToLower plain_unicode ''EN-GB'' = ''en-gb''"
    by code_simp+
  have cf: "translations_dir (site local_config) = ''/etc''" "site_languages (site local_config) = [''dutch'']"
    "default_language (site local_config) = ''english''"
    by (simp_all add: local_config_def default_config_def)
  have parse: "parseTranslationFile plain_unicode demo_files lang path True ts
      = Ok (AList.update lang ([(''hello'', path)], get_string builtinLanguageCodes lang) ts)"
    "parseTranslationFile plain_unicode demo_files lang path False ts = Ok (AList.update lang ([(''bye'', path)], ''en-gb'') ts)" for lang path ts
    by (simp_all add: parseTranslationFile_def demo_files_def get_string_def names Let_def)
  let ?ts = "[(''dutch'', [(''hello'', ''translations/dutch.toml'')], ''nl''), (''english'', [(''hello'', ''translations/english.toml'')], ''en'')]"
  let ?ts' = "[(''dutch'', [(''hello'', ''translations/dutch.toml'')], ''nl''), (''english'', [(''bye'', ''/etc/english.toml'')], ''en-gb'')]"
  have 1: "load_all plain_unicode demo_files ''translations'' True [''dutch.toml'', ''english.toml''] [] = Ok ?ts"
    by (simp add: parse names get_string_def builtinLanguageCodes_def)
  have 2: "load_local plain_unicode local_config demo_files ?ts = Ok ?ts'"
    by (simp add: load_local_def cf demo_files_def [THEN arg_cong, of lf_dir, simplified] parse names Let_def)
  have 3: "offered (tags ?ts') (defaultLanguage ''english'') [''dutch''] = Ok [''english'', ''dutch'']"
    by code_simp
  have "lf_embedded demo_files = Ok [''dutch.toml'', ''english.toml'']" by (simp add: demo_files_def)
  then show ?thesis unfolding LoadTranslations_def cf by (simp add: 1 2 3 del: load_all.simps)
qed

theorem load_exact_witness:
  "\<exists>ts ls. LoadTranslations plain_unicode local_config demo_files = Ok (ts, ls) \<and> hd ls = ''english''
    \<and> text_in ts ''english'' ''bye'' = Some ''/etc/english.toml'' \<and> text_in ts ''english'' ''hello'' = None"
proof -
  have "lf_embedded demo_files = Ok [''dutch.toml'', ''english.toml'']"
    and "lf_dir demo_files (translations_dir (site local_config)) = Ok [(''english.toml'', False), (''readme'', False)]"
    by (simp_all add: demo_files_def)
  note exact = load_exact [OF demo_loads this, of "''english''"]
  have "defaultLanguage (default_language (site local_config)) = ''english''"
    by (simp add: local_config_def default_config_def defaultLanguage_def)
  with conjunct1 [OF exact] have first: "hd [''english'', ''dutch''] = ''english''" by metis
  show ?thesis by (intro exI conjI, rule demo_loads, rule first) (simp_all add: text_in_def)
qed

end
