(* ===== verification/Templates.thy ===== *)
theory Templates
  imports Language_Files Phone "HOL-Library.List_Lexorder" "HOL-Library.Char_ord"
begin

text \<open>
  The functions the HTML templates call (\<open>template.go\<close>), with the list of countries of the phone fields (\<open>phone.go\<close>), and the template sets by language. The
  templates themselves and html/template are not modelled; \<open>HTMLEscapeString\<close> is.
\<close>

section \<open>Functions\<close>

definition AllowedDomains :: "config \<Rightarrow> string" where
  "AllowedDomains cf = join_sep '', '' (sort (map fst (allowed_domains (accounts cf))))"

definition TrimLeft_char :: "char \<Rightarrow> string \<Rightarrow> string" where
  "TrimLeft_char c s = dropWhile (\<lambda>x. x = c) s"

definition TrimRight_char :: "char \<Rightarrow> string \<Rightarrow> string" where
  "TrimRight_char c s = rev (dropWhile (\<lambda>x. x = c) (rev s))"

definition SplitSSHFP :: "string \<Rightarrow> string list" where
  "SplitSSHFP fp =
     (if fp = [] then [[], [], []]
      else case Split fp CHR '' '' of
             [a] \<Rightarrow> [a, [], []]
           | [a, b] \<Rightarrow> [a, b, []]
           | parts \<Rightarrow> parts[2 := TrimRight_char CHR '')'' (TrimLeft_char CHR ''('' (parts ! 2))])"

text \<open>\<open>template.HTMLEscapeString\<close>; a zero byte becomes the replacement character.\<close>

definition escape_char :: "char \<Rightarrow> string" where
  "escape_char c =
     (if c = CHR 0x00 then map char_of [239, 191, 189 :: nat]
      else if c = CHR 0x22 then ''&#34;''
      else if c = CHR 0x27 then ''&#39;''
      else if c = CHR ''&'' then ''&amp;''
      else if c = CHR ''<'' then ''&lt;''
      else if c = CHR ''>'' then ''&gt;''
      else [c])"

definition HTMLEscapeString :: "string \<Rightarrow> string" where
  "HTMLEscapeString s = concat (map escape_char s)"

text \<open>\<open>strings.Replace\<close> of one byte by a text, everywhere.\<close>

definition replace_char :: "char \<Rightarrow> string \<Rightarrow> string \<Rightarrow> string" where
  "replace_char c r s = concat (map (\<lambda>x. if x = c then r else [x]) s)"

definition BreakNewlines :: "string \<Rightarrow> string" where
  "BreakNewlines s = replace_char CHR 0x0A ''<br />'' (HTMLEscapeString s)"

text \<open>The language whose template set \<open>Render\<close> executes; \<open>None\<close> is the set of the default language.\<close>

definition render_language :: "string list \<Rightarrow> string option \<Rightarrow> string option" where
  "render_language languages lang =
     (case lang of None \<Rightarrow> None | Some l \<Rightarrow> if l \<in> set languages then Some l else None)"

text \<open>The functions bound to a language; the text of \<open>TimeAgo\<close> is its key with the duration in it.\<close>

record language_funcs =
  lf_T :: "string \<Rightarrow> string"
  lf_TimeAgo :: "time \<Rightarrow> time \<Rightarrow> string \<times> (string \<times> int) option"
  lf_LanguageCode :: string

definition languageFuncs :: "unicode \<Rightarrow> tables \<Rightarrow> string \<Rightarrow> language_funcs" where
  "languageFuncs U ts lang =
     \<lparr>lf_T = TL U (text_in ts) lang, lf_TimeAgo = timeAgo (tag_of ts) (text_in ts) lang, lf_LanguageCode = tag_of ts lang\<rparr>"

text \<open>
  Loading a set of templates: the embedded ones, then local ones that replace them by name. \<open>parse\<close> extends a set by the files of a pattern;
  \<open>glob\<close> lists the local files of a pattern. Each offered language gets a copy of the set with its own functions.
\<close>

record 'set template_files =
  tf_empty :: 'set
  tf_embedded :: "string list \<Rightarrow> 'set \<Rightarrow> 'set result"
  tf_glob :: "string \<Rightarrow> string list result"
  tf_local :: "string \<Rightarrow> 'set \<Rightarrow> 'set result"
  tf_clone :: "'set \<Rightarrow> 'set result"

record 'set template_sets =
  ts_default :: "'set \<times> language_funcs"
  ts_byLang :: "(string \<times> 'set \<times> language_funcs) list"

definition add_local :: "'set template_files \<Rightarrow> string \<Rightarrow> 'set \<Rightarrow> 'set result" where
  "add_local T pattern st =
     (case tf_glob T pattern of
        Err e \<Rightarrow> Err e
      | Ok files \<Rightarrow> if files \<noteq> [] then tf_local T pattern st else Ok st)"

fun clone_all :: "'set template_files \<Rightarrow> (string \<Rightarrow> language_funcs) \<Rightarrow> 'set \<Rightarrow> string list \<Rightarrow> (string \<times> 'set \<times> language_funcs) list result" where
  "clone_all T funs st [] = Ok []"
| "clone_all T funs st (lang # langs) =
     (case tf_clone T st of
        Err e \<Rightarrow> Err e
      | Ok c \<Rightarrow> (case clone_all T funs st langs of Err e \<Rightarrow> Err e | Ok r \<Rightarrow> Ok ((lang, c, funs lang) # r)))"

definition NewTemplateRenderer ::
    "'set template_files \<Rightarrow> config \<Rightarrow> (string \<Rightarrow> language_funcs) \<Rightarrow> string list \<Rightarrow> 'set template_sets result" where
  "NewTemplateRenderer T cf funs languages =
     (case tf_embedded T [''templates/*.html'', ''templates/partials/*.html''] (tf_empty T) of Err e \<Rightarrow> Err e | Ok st \<Rightarrow>
       (case (case templates_dir (site cf) of None \<Rightarrow> Ok st | Some dir \<Rightarrow> add_local T (Join dir ''*.html'') st) of Err e \<Rightarrow> Err e | Ok st' \<Rightarrow>
         (case clone_all T funs st' languages of
            Err e \<Rightarrow> Err e
          | Ok cs \<Rightarrow> Ok \<lparr>ts_default = (st', funs (defaultLanguage (default_language (site cf)))), ts_byLang = cs\<rparr>)))"

text \<open>The templates of mails, for both kinds of text; an unset directory makes the pattern relative.\<close>

definition mail_templates :: "'set template_files \<Rightarrow> config \<Rightarrow> string \<Rightarrow> 'set \<Rightarrow> 'set result" where
  "mail_templates T cf extn st =
     (case tf_embedded T [''templates/email/*.'' @ extn] st of
        Err e \<Rightarrow> Err e
      | Ok st' \<Rightarrow> add_local T (Join (case templates_dir (site cf) of None \<Rightarrow> [] | Some dir \<Rightarrow> dir) (''email/*.'' @ extn)) st')"

definition NewEmailer ::
    "'set template_files \<Rightarrow> config \<Rightarrow> (string \<Rightarrow> language_funcs) \<Rightarrow> string list \<Rightarrow> 'set template_sets result" where
  "NewEmailer T cf funs languages =
     (case mail_templates T cf ''txt'' (tf_empty T) of Err e \<Rightarrow> Err e | Ok st \<Rightarrow>
       (case mail_templates T cf ''html'' st of Err e \<Rightarrow> Err e | Ok st' \<Rightarrow>
         (case clone_all T funs st' languages of
            Err e \<Rightarrow> Err e
          | Ok cs \<Rightarrow> Ok \<lparr>ts_default = (st', funs (defaultLanguage (default_language (site cf)))), ts_byLang = cs\<rparr>)))"

section \<open>Countries\<close>

text \<open>A country of the library: its name, its code, its dial codes and its flag; \<open>unknown\<close> is the name of its unknown country.\<close>

record country =
  cy_Name :: string
  cy_Alpha2 :: string
  cy_CallCodes :: "int list"
  cy_Emoji :: string

definition phone_country :: "string \<Rightarrow> country \<Rightarrow> PhoneCountry option" where
  "phone_country unknown c =
     (case cy_CallCodes c of
        [] \<Rightarrow> None
      | d # _ \<Rightarrow>
          if d = 0 \<or> cy_Name c = [] \<or> cy_Name c = unknown then None
          else Some \<lparr>pc_Name = cy_Name c, pc_Alpha2 = cy_Alpha2 c, pc_Code = FormatInt d, pc_Flag = cy_Emoji c\<rparr>)"

text \<open>\<open>sort.Slice\<close> leaves the order of equal names open; this is one of its results.\<close>

definition buildPhoneCountries :: "string \<Rightarrow> country list \<Rightarrow> PhoneCountry list" where
  "buildPhoneCountries unknown cs = sort_key pc_Name (List.map_filter (phone_country unknown) cs)"

lemma flag_loop_find:
  "flag_loop cc primary cs first =
     (case find (\<lambda>c. pc_Code c = cc \<and> pc_Alpha2 c = primary) cs of
        Some c \<Rightarrow> pc_Flag c
      | None \<Rightarrow> if first \<noteq> [] then first
                else (case find (\<lambda>c. pc_Code c = cc \<and> pc_Flag c \<noteq> []) cs of None \<Rightarrow> [] | Some c \<Rightarrow> pc_Flag c))"
  by (induction cc primary cs first rule: flag_loop.induct) (auto split: option.splits)

text \<open>
  The flag of a number. The picker offers, sorted by name, exactly the countries with a name and a dial code. The flag shown for a stored dial code is that of
  the country chosen for a shared code if the picker has it, otherwise that of the first country of the list with the code.
\<close>

theorem phone_picker:
  "sorted (map pc_Name (buildPhoneCountries unknown cs))
   \<and> set (buildPhoneCountries unknown cs) = {p. \<exists>c\<in>set cs. phone_country unknown c = Some p}
   \<and> PhoneFlag ps cc =
       (case find (\<lambda>c. pc_Code c = cc \<and> pc_Alpha2 c = (case map_of primaryForSharedCode cc of None \<Rightarrow> [] | Some p \<Rightarrow> p)) ps of
          Some c \<Rightarrow> pc_Flag c
        | None \<Rightarrow> (case find (\<lambda>c. pc_Code c = cc \<and> pc_Flag c \<noteq> []) ps of None \<Rightarrow> [] | Some c \<Rightarrow> pc_Flag c))"
proof -
  have "set (List.map_filter f xs) = {p. \<exists>c\<in>set xs. f c = Some p}" for f and xs :: "country list"
    by (force simp: List.map_filter_def)
  then show ?thesis by (simp add: buildPhoneCountries_def PhoneFlag_def flag_loop_find)
qed

section \<open>No markup comes from the data\<close>

definition harmless :: "string \<Rightarrow> bool" where
  "harmless s \<longleftrightarrow> CHR ''<'' \<notin> set s \<and> CHR ''>'' \<notin> set s \<and> CHR 0x22 \<notin> set s \<and> CHR 0x27 \<notin> set s \<and> CHR 0x00 \<notin> set s"

lemma harmless_simps [simp]: "harmless []" "harmless (s @ t) \<longleftrightarrow> harmless s \<and> harmless t"
  by (auto simp: harmless_def)

lemma escape_harmless: "harmless (escape_char c)"
  by (auto simp: escape_char_def harmless_def char_of_def)

lemma escape_newline: "CHR 0x0A \<in> set (escape_char c) \<longleftrightarrow> c = CHR 0x0A" "escape_char CHR 0x0A = [CHR 0x0A]"
  by (auto simp: escape_char_def char_of_def)

lemma HTMLEscape_harmless: "harmless (HTMLEscapeString s)"
  by (induction s) (simp_all add: HTMLEscapeString_def escape_harmless)

lemma replace_plain: "c \<notin> set s \<Longrightarrow> replace_char c r s = s"
  by (induction s) (auto simp: replace_char_def)

lemma BreakNewlines_Cons:
  "BreakNewlines [] = []"
  "BreakNewlines (c # s) = (if c = CHR 0x0A then ''<br />'' else escape_char c) @ BreakNewlines s"
proof -
  have "replace_char CHR 0x0A r (escape_char c) = (if c = CHR 0x0A then r else escape_char c)" for r
    using replace_plain [of "CHR 0x0A" "escape_char c" r] escape_newline
    by (cases "c = CHR 0x0A") (simp_all add: replace_char_def)
  then show "BreakNewlines (c # s) = (if c = CHR 0x0A then ''<br />'' else escape_char c) @ BreakNewlines s"
    by (simp add: BreakNewlines_def HTMLEscapeString_def replace_char_def)
qed (simp add: BreakNewlines_def HTMLEscapeString_def replace_char_def)

text \<open>
  Line breaks are the only markup. What a template gets for a text with line breaks is the escaped lines of the text
  with \<open><br />\<close> between them, and no line holds a character that could open or close a tag or an attribute.
\<close>

theorem break_newlines_safe:
  "BreakNewlines s = join_sep ''<br />'' (map HTMLEscapeString (Split s CHR 0x0A))
   \<and> (\<forall>l. harmless (HTMLEscapeString l))"
proof -
  have "BreakNewlines s = join_sep ''<br />'' (map HTMLEscapeString (Split s CHR 0x0A))"
  proof (induction s)
    case Nil
    show ?case by (simp add: BreakNewlines_Cons HTMLEscapeString_def)
  next
    case (Cons c s)
    obtain l ls where split: "Split s CHR 0x0A = l # ls" using Split_nonempty by (cases "Split s CHR 0x0A") auto
    have esc: "HTMLEscapeString [] = []" "HTMLEscapeString (c # l) = escape_char c @ HTMLEscapeString l"
      by (simp_all add: HTMLEscapeString_def)
    show ?case using Cons
      by (cases ls) (simp_all add: BreakNewlines_Cons split esc join_sep_Cons)
  qed
  with HTMLEscape_harmless show ?thesis by blast
qed

end
