(* ===== verification/Tls.thy ===== *)
theory Tls
  imports Config Net
begin

text \<open>
  The TLS settings (\<open>tls.go\<close>) and those of the connection to Redis (\<open>redisTLSConfig\<close> in \<open>server.go\<close>). The table of
  cipher suites of crypto/tls, reading certificates and parsing the Redis URL are arguments.
\<close>

section \<open>The server\<close>

definition VersionTLS12 :: nat where "VersionTLS12 = 0x303"
definition VersionTLS13 :: nat where "VersionTLS13 = 0x304"

definition tlsVersionFromConfig :: "config \<Rightarrow> nat result" where
  "tlsVersionFromConfig cf =
     (let v = tls_min_version (server cf)
      in if v = [] \<or> v = ''1.2'' then Ok VersionTLS12
         else if v = ''1.3'' then Ok VersionTLS13
         else Err (EText (''invalid config value for tls_min_version: '' @ v)))"

text \<open>The suites by name: an insecure suite of the same name would replace a secure one.\<close>

definition suite_id :: "(string \<times> nat) list \<Rightarrow> (string \<times> nat) list \<Rightarrow> string \<Rightarrow> nat option" where
  "suite_id secure insecure = map_of (rev (secure @ insecure))"

fun suite_ids :: "(string \<Rightarrow> nat option) \<Rightarrow> string list \<Rightarrow> nat list result" where
  "suite_ids byName [] = Ok []"
| "suite_ids byName (name # names) =
     (case byName name of
        None \<Rightarrow> Err (EText (''unknown cipher suite in tls_ciphers: '' @ name))
      | Some i \<Rightarrow> (case suite_ids byName names of Err e \<Rightarrow> Err e | Ok ids \<Rightarrow> Ok (i # ids)))"

text \<open>\<open>None\<close>: the library's own choice.\<close>

definition cipherSuitesFromConfig :: "(string \<times> nat) list \<Rightarrow> (string \<times> nat) list \<Rightarrow> config \<Rightarrow> nat list option result" where
  "cipherSuitesFromConfig secure insecure cf =
     (let names = tls_ciphers (server cf)
      in if names = [] then Ok None
         else (case suite_ids (suite_id secure insecure) names of Err e \<Rightarrow> Err e | Ok ids \<Rightarrow> Ok (Some ids)))"

record 'cert tls_config =
  tc_Certificates :: "'cert list"
  tc_MinVersion :: nat
  tc_CipherSuites :: "nat list option"
  tc_ServerName :: string
  tc_RootCAs :: "string option"

definition tlsConfig ::
    "(string \<times> nat) list \<Rightarrow> (string \<times> nat) list \<Rightarrow> config \<Rightarrow> 'cert result \<Rightarrow> 'cert tls_config result" where
  "tlsConfig secure insecure cf loaded =
     (case loaded of
        Err e \<Rightarrow> Err e
      | Ok cert \<Rightarrow>
          (case tlsVersionFromConfig cf of
             Err e \<Rightarrow> Err e
           | Ok minVersion \<Rightarrow>
               (case cipherSuitesFromConfig secure insecure cf of
                  Err e \<Rightarrow> Err e
                | Ok ciphers \<Rightarrow>
                    Ok \<lparr>tc_Certificates = [cert], tc_MinVersion = minVersion, tc_CipherSuites = ciphers,
                        tc_ServerName = [], tc_RootCAs = None\<rparr>)))"

section \<open>Redis\<close>

text \<open>
  \<open>parse\<close> is \<open>goredis.ParseURL\<close> (the address and the TLS settings of the URL), \<open>read\<close> reads a file (under its cleaned path), \<open>pems\<close> tells whether it
  holds certificates, and \<open>pair\<close> loads a certificate with its key. What \<open>net\<close> says of an address without a port is left out of the error.
\<close>

definition redisTLSConfig ::
    "(string \<Rightarrow> (string \<times> 'cert tls_config option) result) \<Rightarrow> (string \<Rightarrow> string result) \<Rightarrow> (string \<Rightarrow> bool)
      \<Rightarrow> (string \<Rightarrow> string \<Rightarrow> 'cert result) \<Rightarrow> redis_config \<Rightarrow> 'cert tls_config option result" where
  "redisTLSConfig parse read pems pair rc =
     (let caFile = ca_file rc; certFile = cert_file rc; keyFile = key_file rc
      in if caFile = [] \<and> certFile = [] \<and> keyFile = [] then Ok None
         else if (certFile = []) \<noteq> (keyFile = []) then Err (EText ''cert_file and key_file must be set together'')
         else case parse (redis_url rc) of
           Err e \<Rightarrow> Err e
         | Ok (adr, given) \<Rightarrow>
             (case (case given of
                      Some tc \<Rightarrow> Ok tc
                    | None \<Rightarrow>
                        (case SplitHostPort adr of
                           None \<Rightarrow> Err (EText ''TLS needs a host:port url'')
                         | Some (host, _) \<Rightarrow>
                             Ok \<lparr>tc_Certificates = [], tc_MinVersion = VersionTLS12, tc_CipherSuites = None,
                                 tc_ServerName = host, tc_RootCAs = None\<rparr>)) of
                Err e \<Rightarrow> Err e
              | Ok c0 \<Rightarrow>
                  (case (if caFile = [] then Ok c0
                         else case read caFile of
                                Err e \<Rightarrow> Err (EText (''ca_file: '' @ error_string e))
                              | Ok pem \<Rightarrow>
                                  if pems pem then Ok (c0\<lparr>tc_RootCAs := Some pem\<rparr>)
                                  else Err (EText (''ca_file: no PEM certificates in '' @ caFile))) of
                     Err e \<Rightarrow> Err e
                   | Ok c1 \<Rightarrow>
                       if certFile = [] then Ok (Some c1)
                       else case pair certFile keyFile of
                              Err e \<Rightarrow> Err (EText (''cert_file/key_file: '' @ error_string e))
                            | Ok cert \<Rightarrow> Ok (Some (c1\<lparr>tc_Certificates := [cert]\<rparr>)))))"

section \<open>Properties\<close>

lemma suite_ids_ok: "suite_ids f ns = Ok is \<longleftrightarrow> map Some is = map f ns"
proof (induction f ns arbitrary: "is" rule: suite_ids.induct)
  case (2 f n ns)
  then show ?case by (cases "is") (auto split: option.splits sum.splits)
qed auto

text \<open>
  C39. TLS 1.2 at least. A server starts with TLS exactly when its certificate loads, the minimal version is left out, \<open>1.2\<close> or \<open>1.3\<close>, and
  every configured cipher suite is known; it then refuses TLS below 1.2, below 1.3 where 1.3 is asked for, and where cipher suites are configured it offers
  exactly those, in the order of the configuration. A misspelt version or suite is an error, never a silent default.
\<close>

theorem tls_at_least_12:
  "tlsConfig secure insecure cf loaded = Ok tc \<longleftrightarrow>
     (\<exists>cert version suites. loaded = Ok cert
       \<and> (tls_min_version (server cf), version) \<in> {([], 0x303), (''1.2'', 0x303), (''1.3'', 0x304)}
       \<and> (if tls_ciphers (server cf) = [] then suites = None
          else \<exists>ids. suites = Some ids \<and> map Some ids = map (map_of (rev (secure @ insecure))) (tls_ciphers (server cf)))
       \<and> tc = \<lparr>tc_Certificates = [cert], tc_MinVersion = version, tc_CipherSuites = suites, tc_ServerName = [], tc_RootCAs = None\<rparr>)"
proof -
  have version: "tlsVersionFromConfig cf = Ok v \<longleftrightarrow> (tls_min_version (server cf), v) \<in> {([], 0x303), (''1.2'', 0x303), (''1.3'', 0x304)}" for v
    by (auto simp: tlsVersionFromConfig_def VersionTLS12_def VersionTLS13_def Let_def)
  have suites: "cipherSuitesFromConfig secure insecure cf = Ok s \<longleftrightarrow>
      (if tls_ciphers (server cf) = [] then s = None
       else \<exists>ids. s = Some ids \<and> map Some ids = map (map_of (rev (secure @ insecure))) (tls_ciphers (server cf)))" for s
    unfolding cipherSuitesFromConfig_def Let_def suite_ids_ok [symmetric] suite_id_def by (auto split: sum.splits)
  have "tlsConfig secure insecure cf loaded = Ok tc \<longleftrightarrow>
     (\<exists>cert version suites. loaded = Ok cert \<and> tlsVersionFromConfig cf = Ok version \<and> cipherSuitesFromConfig secure insecure cf = Ok suites
       \<and> tc = \<lparr>tc_Certificates = [cert], tc_MinVersion = version, tc_CipherSuites = suites, tc_ServerName = [], tc_RootCAs = None\<rparr>)"
    by (auto simp: tlsConfig_def split: sum.splits)
  then show ?thesis unfolding version suites .
qed

text \<open>
  Redis certificates are checked. Unless nothing is configured, the connection uses TLS: a private CA replaces the
  system's, a client certificate needs both of its files, and where the URL brings no TLS settings of its own the
  server must be at least at TLS 1.2 and prove the name of the address.
\<close>

lemma redis_tls:
  assumes "redisTLSConfig parse read pems pair rc = Ok r" and "ca_file rc \<noteq> [] \<or> cert_file rc \<noteq> [] \<or> key_file rc \<noteq> []"
  shows "\<exists>tc. r = Some tc \<and> (ca_file rc \<noteq> [] \<longrightarrow> (\<exists>pem. read (ca_file rc) = Ok pem \<and> pems pem \<and> tc_RootCAs tc = Some pem))
    \<and> (cert_file rc \<noteq> [] \<longleftrightarrow> key_file rc \<noteq> [])
    \<and> (cert_file rc \<noteq> [] \<longrightarrow> (\<exists>cert. pair (cert_file rc) (key_file rc) = Ok cert \<and> tc_Certificates tc = [cert]))
    \<and> (\<forall>adr. parse (redis_url rc) = Ok (adr, None) \<longrightarrow>
         tc_MinVersion tc = 0x303 \<and> (\<exists>port. SplitHostPort adr = Some (tc_ServerName tc, port)))"
  using assms
  by (auto simp: redisTLSConfig_def VersionTLS12_def Let_def split: sum.splits if_splits option.splits prod.splits)

end
