(* ===== verification/Webhook_Delivery.thy ===== *)
theory Webhook_Delivery
  imports Tokens Audit_Log
begin

text \<open>
  The requests to the webhooks (\<open>post\<close>, \<open>webhookSignature\<close> and \<open>run\<close> of \<open>webhooks.go\<close>): what is sent for an event, how it is signed, and what counts
  as delivered. The HMAC is an argument, as are the outcome of a request and the clock; \<open>js\<close> prints a JSON value.
\<close>

section \<open>Requests\<close>

record http_request =
  hq_Method :: string
  hq_URL :: string
  hq_Header :: "(string \<times> string) list"
  hq_Body :: string

definition webhookSignature :: "(string \<Rightarrow> string \<Rightarrow> string) \<Rightarrow> string \<Rightarrow> string \<Rightarrow> string \<Rightarrow> string" where
  "webhookSignature hmac secret ts body = HexEncode (hmac secret (ts @ ''.'' @ body))"

definition hook_request :: "(string \<Rightarrow> string \<Rightarrow> string) \<Rightarrow> time \<Rightarrow> webhookTarget \<Rightarrow> string \<Rightarrow> http_request" where
  "hook_request hmac now t body =
     \<lparr>hq_Method = ''POST'', hq_URL = wt_URL t,
      hq_Header = [(''Content-Type'', ''application/json''), (''User-Agent'', ''mokey-webhook'')]
        @ (if wt_Secret t \<noteq> [] then
             (let ts = FormatInt (unix now)
              in [(''X-Mokey-Timestamp'', ts), (''X-Mokey-Signature'', ''sha256='' @ webhookSignature hmac (wt_Secret t) ts body)])
           else []),
      hq_Body = body\<rparr>"

text \<open>What is outside: whether \<open>http.NewRequest\<close> takes the URL, and the status or error a request ends with.\<close>

record http_client =
  hc_new :: "string \<Rightarrow> error option"
  hc_do :: "http_request \<Rightarrow> int result"

definition post :: "(string \<Rightarrow> string \<Rightarrow> string) \<Rightarrow> http_client \<Rightarrow> time \<Rightarrow> webhookTarget \<Rightarrow> string \<Rightarrow> error option" where
  "post hmac C now t body =
     (case hc_new C (wt_URL t) of
        Some e \<Rightarrow> Some e
      | None \<Rightarrow>
          (case hc_do C (hook_request hmac now t body) of
             Err e \<Rightarrow> Some e
           | Ok status \<Rightarrow> if status < 200 \<or> status > 299 then Some (EText (''status '' @ FormatInt status)) else None))"

text \<open>The worker, for one event: the requests sent, in order, and whether one was taken. Attempt \<open>n\<close> has its own client answers \<open>C n\<close> and clock.\<close>

definition run_event ::
    "(json \<Rightarrow> string) \<Rightarrow> (string \<Rightarrow> string \<Rightarrow> string) \<Rightarrow> (nat \<Rightarrow> http_client) \<Rightarrow> (nat \<Rightarrow> time) \<Rightarrow> webhookTarget \<Rightarrow> AuditEvent
      \<Rightarrow> http_request list \<times> bool" where
  "run_event js hmac C now t event =
     (let body = js (hook_body t event)
      in case deliver (\<lambda>n. post hmac (C n) (now n) t body) 1 of
           (n, done) \<Rightarrow> (map (\<lambda>i. hook_request hmac (now i) t body) (filter (\<lambda>i. hc_new (C i) (wt_URL t) = None) [1..<Suc n]), done))"

section \<open>The receiver\<close>

text \<open>
  What a receiver checks, as the documentation of the webhooks asks for: the signature is the hexadecimal HMAC, with the shared secret, of the timestamp, a dot
  and the body it received.
\<close>

definition verified :: "(string \<Rightarrow> string \<Rightarrow> string) \<Rightarrow> string \<Rightarrow> http_request \<Rightarrow> string option" where
  "verified hmac secret r =
     (case (map_of (hq_Header r) ''X-Mokey-Timestamp'', map_of (hq_Header r) ''X-Mokey-Signature'') of
        (Some ts, Some sig) \<Rightarrow> if sig = ''sha256='' @ HexEncode (hmac secret (ts @ ''.'' @ hq_Body r)) then Some ts else None
      | _ \<Rightarrow> None)"

lemma hook_request_verified:
  "wt_Secret t \<noteq> [] \<Longrightarrow> verified hmac (wt_Secret t) (hook_request hmac now t body) = Some (FormatInt (unix now))"
  by (simp add: verified_def hook_request_def webhookSignature_def Let_def)

lemma hook_request_simps [simp]: "hq_Body (hook_request hmac now t body) = body" "hq_URL (hook_request hmac now t body) = wt_URL t"
  by (simp_all add: hook_request_def)

text \<open>
  C19. Deliveries verify. For an event at most three requests are sent, all to the URL of the target and with the same body; with a secret each verifies, for the
  second of its own attempt. The event counts as delivered only if the last attempt was answered with a status of the 2xx range, and is given
  up only after three attempts failed.
\<close>

theorem webhook_delivery:
  assumes "run_event js hmac C now t event = (rs, delivered)"
  shows "length rs \<le> webhookAttempts
    \<and> (\<forall>r\<in>set rs. hq_URL r = wt_URL t \<and> hq_Body r = js (hook_body t event)
         \<and> (wt_Secret t \<noteq> [] \<longrightarrow> (\<exists>i. verified hmac (wt_Secret t) r = Some (FormatInt (unix (now i))))))
    \<and> (delivered \<longrightarrow> (\<exists>i\<in>{1..3}. \<exists>status. rs \<noteq> [] \<and> hc_do (C i) (last rs) = Ok status \<and> 200 \<le> status \<and> status \<le> 299))
    \<and> (\<not> delivered \<longrightarrow> (\<forall>i\<in>{1..3}. post hmac (C i) (now i) t (js (hook_body t event)) \<noteq> None))"
proof -
  let ?body = "js (hook_body t event)" and ?req = "\<lambda>i. hook_request hmac (now i) t (js (hook_body t event))"
  let ?post = "\<lambda>i. post hmac (C i) (now i) t ?body"
  obtain n where n: "deliver ?post 1 = (n, delivered)" 
    using assms by (cases "deliver ?post 1") (simp add: run_event_def)
  have rs: "rs = map ?req (filter (\<lambda>i. hc_new (C i) (wt_URL t) = None) [1..<Suc n])"
    using assms unfolding run_event_def Let_def n by simp
  have cases: "n \<in> {1, 2, 3}" "delivered \<longrightarrow> ?post n = None" "\<not> delivered \<longrightarrow> n = 3 \<and> (\<forall>i\<in>{1..3}. ?post i \<noteq> None)"
  proof -
    have three: "{1..3 :: nat} = {1, 2, 3}" by auto
    show "n \<in> {1, 2, 3}" "delivered \<longrightarrow> ?post n = None" "\<not> delivered \<longrightarrow> n = 3 \<and> (\<forall>i\<in>{1..3}. ?post i \<noteq> None)"
      using n unfolding webhook_attempts three by (auto split: if_splits)
  qed
  have "length rs \<le> n" unfolding rs length_map by (rule order_trans [OF length_filter_le]) simp
  moreover have "rs \<noteq> [] \<and> last rs = ?req n" if "?post n = None"
  proof -
    have "hc_new (C n) (wt_URL t) = None" using that by (auto simp: post_def split: option.splits)
    then have "filter (\<lambda>i. hc_new (C i) (wt_URL t) = None) [1..<Suc n] = filter (\<lambda>i. hc_new (C i) (wt_URL t) = None) [1..<n] @ [n]"
      using cases(1) by auto
    then show ?thesis unfolding rs by simp
  qed
  moreover have "\<exists>status. hc_do (C n) (?req n) = Ok status \<and> 200 \<le> status \<and> status \<le> 299" if "?post n = None"
    using that by (auto simp: post_def split: option.splits sum.splits if_splits)
  moreover have "r \<in> set rs \<Longrightarrow> \<exists>i. r = ?req i" for r by (auto simp: rs)
  ultimately show ?thesis
    using cases by (fastforce simp: webhookAttempts_def hook_request_verified)
qed

text \<open>
  A signature binds. Two requests that carry the same signature under one secret have the same timestamp and body, or else
  they exhibit two different messages with the same HMAC: the timestamp cannot be moved into the body or out of it.
\<close>

lemma signed_text_inj:
  assumes "CHR ''.'' \<notin> set ts" and "CHR ''.'' \<notin> set ts'" and "ts @ ''.'' @ body = ts' @ ''.'' @ body'"
  shows "ts = ts' \<and> body = body'"
proof -
  have "Cut (ts @ ''.'' @ body) ''.'' = (ts, body, True)" "Cut (ts' @ ''.'' @ body') ''.'' = (ts', body', True)"
    using Cut_first [OF assms(1), of body] Cut_first [OF assms(2), of body'] by simp_all
  with assms(3) show ?thesis by simp
qed

lemma FormatInt_no_dot: "CHR ''.'' \<notin> set (FormatInt n)"
proof -
  have "c \<in> set (digits_of m) \<Longrightarrow> c \<noteq> CHR ''.''" for c m using digits_of_digits [of m] by (auto simp: is_digit_def)
  then show ?thesis by (auto simp: FormatInt_def)
qed

theorem webhook_signature_binds:
  assumes "webhookSignature hmac secret (FormatInt n) body = webhookSignature hmac secret (FormatInt n') body'"
  shows "FormatInt n = FormatInt n' \<and> body = body'
    \<or> (\<exists>m m'. m \<noteq> m' \<and> hmac secret m = hmac secret m')"
proof -
  have "hmac secret (FormatInt n @ ''.'' @ body) = hmac secret (FormatInt n' @ ''.'' @ body')"
    using assms unfolding webhookSignature_def by (metis hex_round_trip option.inject)
  then show ?thesis using signed_text_inj [OF FormatInt_no_dot FormatInt_no_dot, of n body n' body'] by blast
qed

section \<open>Witnesses\<close>

definition signed_target :: webhookTarget where
  "signed_target = \<lparr>wt_URL = ''https://hooks'', wt_Secret = ''s'', wt_Events = [], wt_Format = ''slack'', wt_queue = []\<rparr>"

definition demo_client :: "nat \<Rightarrow> http_client" where
  "demo_client n = \<lparr>hc_new = \<lambda>_. None, hc_do = \<lambda>_. Ok (if n = 1 then 503 else 204)\<rparr>"

lemma demo_run:
  "run_event (\<lambda>_. ''b'') (\<lambda>k m. k @ m) demo_client (\<lambda>_. t7) signed_target demo_event
    = ([hook_request (\<lambda>k m. k @ m) t7 signed_target ''b'', hook_request (\<lambda>k m. k @ m) t7 signed_target ''b''], True)"
proof -
  have "deliver (\<lambda>n. post (\<lambda>k m. k @ m) (demo_client n) t7 signed_target ''b'') 1 = (2, True)"
    unfolding webhook_attempts by (simp add: post_def demo_client_def)
  moreover have "[1..<Suc 2] = [1, 2 :: nat]" by (simp add: numeral_2_eq_2)
  ultimately show ?thesis unfolding run_event_def Let_def by (simp only: prod.case) (simp add: demo_client_def)
qed

theorem webhook_delivery_witness:
  "\<exists>r. run_event (\<lambda>_. ''b'') (\<lambda>k m. k @ m) demo_client (\<lambda>_. t7) signed_target demo_event = ([r, r], True)
    \<and> verified (\<lambda>k m. k @ m) ''s'' r = Some (FormatInt 7)"
  using webhook_delivery [OF demo_run] demo_run by (auto simp: signed_target_def t7_unix)

theorem webhook_signature_binds_witness:
  "FormatInt 7 = FormatInt 7 \<and> ''b'' = ''b'' \<or> (\<exists>m m' :: string. m \<noteq> m' \<and> ''s'' @ m = ''s'' @ m')"
  by (rule webhook_signature_binds [of "\<lambda>k m. k @ m" "''s''" 7 "''b''" 7 "''b''"]) (rule refl)

end
