(* ===== verification/Startup.thy ===== *)
theory Startup
  imports Portal Templates Tls Logging Webhook_Delivery
begin

text \<open>
  From the command line to a listening server: \<open>initConfig\<close> and \<open>SetupLogging\<close> (\<open>src/cmd/root.go\<close>), \<open>serve\<close> (\<open>src/cmd/serve/serve.go\<close>), \<open>newStorage\<close>, \<open>newFiber\<close>,
  \<open>Serve\<close> (\<open>server.go\<close>), \<open>NewRouter\<close> (\<open>router.go\<close>) and the start of the sweeps. What the machine answers (files, sockets, drivers, FreeIPA) is a record.
  The result of a start is the environment the handlers run in.
\<close>

section \<open>The command line\<close>

datatype read_outcome = ReadOk string | NotFound | ReadFailed error

text \<open>
  \<open>cf\<close> holds the values viper gives after defaults, environment and file; \<open>isset\<close> tells which options are set. \<open>Err\<close> is the end of the process.
\<close>

definition set_token_secret :: "(nat \<Rightarrow> string result) \<Rightarrow> (string \<Rightarrow> bool) \<Rightarrow> config \<Rightarrow> config result" where
  "set_token_secret rand_read isset cf =
     (if isset ''email.token_secret'' then Ok cf
      else (case GenerateSecret rand_read 32 of Err e \<Rightarrow> Err e | Ok s \<Rightarrow> Ok (cf\<lparr>email := (email cf)\<lparr>token_secret := s\<rparr>\<rparr>)))"

definition set_csrf_secret :: "(nat \<Rightarrow> nat \<Rightarrow> nat result) \<Rightarrow> (string \<Rightarrow> bool) \<Rightarrow> config \<Rightarrow> config result" where
  "set_csrf_secret rand_int isset cf =
     (if isset ''server.csrf_secret'' then Ok cf
      else (case GenerateSecretString rand_int 16 of Err e \<Rightarrow> Err e | Ok s \<Rightarrow> Ok (cf\<lparr>server := (server cf)\<lparr>csrf_secret := s\<rparr>\<rparr>)))"

definition hash_algorithms :: "string list" where "hash_algorithms = [''sha1'', ''sha256'', ''sha512'']"

definition initConfig ::
    "(nat \<Rightarrow> string result) \<Rightarrow> (nat \<Rightarrow> nat \<Rightarrow> nat result) \<Rightarrow> string \<Rightarrow> string result \<Rightarrow> read_outcome \<Rightarrow> (string \<Rightarrow> bool) \<Rightarrow> config
      \<Rightarrow> (config \<times> string) result" where
  "initConfig rand_read rand_int cfgFile cwd outcome isset cf =
     (case (if cfgFile \<noteq> [] then Ok cfgFile else cwd) of Err e \<Rightarrow> Err e | Ok _ \<Rightarrow>
       (case (case outcome of ReadOk path \<Rightarrow> Ok path | NotFound \<Rightarrow> Ok [] | ReadFailed e \<Rightarrow> Err (EText ''Failed parsing config file'')) of
          Err e \<Rightarrow> Err e
        | Ok used \<Rightarrow>
            (case set_token_secret rand_read isset cf of Err e \<Rightarrow> Err e | Ok cf1 \<Rightarrow>
              (case set_csrf_secret rand_int isset cf1 of Err e \<Rightarrow> Err e | Ok cf2 \<Rightarrow>
                if keytab (site cf2) = None then Err (EText ''Please provide path to keytab file'')
                else if isset ''accounts.otp_hash_algorithm'' \<and> otp_hash_algorithm (accounts cf2) \<notin> set hash_algorithms
                then Err (EText ''Invalid otp hash algorithm'')
                else Ok (cf2, used)))))"

text \<open>The levels of \<open>log/slog\<close>.\<close>

definition SetupLogging :: "string \<Rightarrow> int result" where
  "SetupLogging logLevel =
     (if logLevel = ''trace'' \<or> logLevel = ''debug'' then Ok (- 4)
      else if logLevel = ''info'' then Ok 0
      else if logLevel = ''warn'' then Ok 4
      else if logLevel = ''error'' then Ok 8
      else Err (EText (''Unknown log level: '' @ logLevel)))"

section \<open>The storage\<close>

datatype 'c driver = MemoryStore | Sqlite3Store string | RedisStore string "'c tls_config option"

text \<open>\<open>parsed\<close> is \<open>url.Parse\<close> followed by \<open>Redacted\<close>, \<open>None\<close> where the URL does not parse.\<close>

definition redactURL :: "(string \<Rightarrow> string option) \<Rightarrow> string \<Rightarrow> string" where
  "redactURL parsed raw = (case parsed raw of Some u \<Rightarrow> u | None \<Rightarrow> redactURLs raw)"

text \<open>\<open>strings.ReplaceAll\<close>, for a text to replace that is not empty.\<close>

function ReplaceAll :: "string \<Rightarrow> string \<Rightarrow> string \<Rightarrow> string" where
  "ReplaceAll s old new =
     (case Cut s old of (a, b, found) \<Rightarrow> if found \<and> old \<noteq> [] then a @ new @ ReplaceAll b old new else s)"
  by pat_completeness auto
termination
proof (relation "measure (\<lambda>(s, _, _). length s)")
  fix s old new a b b' found
  assume "(a, b') = Cut s old" "(b, found) = b'" "found \<and> old \<noteq> []"
  then have "length b < length s" by (cases s) (auto simp: Cut_def split: option.splits if_splits)
  then show "((b, old, new), s, old, new) \<in> measure (\<lambda>(s, _, _). length s)" by simp
qed simp

declare ReplaceAll.simps [simp del]

record ('c, 'set) machine =
  mc_files :: lang_files
  mc_pages :: "'set template_files"
  mc_mails :: "'set template_files"
  mc_redis_url :: "string \<Rightarrow> (string \<times> 'c tls_config option) result"
  mc_read :: "string \<Rightarrow> string result"
  mc_pems :: "string \<Rightarrow> bool"
  mc_pair :: "string \<Rightarrow> string \<Rightarrow> 'c result"
  mc_redacted :: "string \<Rightarrow> string option"
  mc_open :: "'c driver \<Rightarrow> string option"
  mc_hooks :: "webhookTarget list result"
  mc_ipa :: "error option"
  mc_keytab :: "string \<Rightarrow> string \<Rightarrow> error option"
  mc_url :: "string \<Rightarrow> string result"
  mc_suites :: "(string \<times> nat) list \<times> (string \<times> nat) list"
  mc_listen :: "string \<Rightarrow> error option"

text \<open>A driver that cannot connect panics; \<open>mc_open\<close> is its message. An error never quotes the URL of the Redis server as it is.\<close>

definition hide_url :: "('c, 'set) machine \<Rightarrow> config \<Rightarrow> string \<Rightarrow> error" where
  "hide_url K cf text =
     (let u = redis_url (storage_redis cf) in EText (if u \<noteq> [] then ReplaceAll text u (redactURL (mc_redacted K) u) else text))"

definition newStorage :: "('c, 'set) machine \<Rightarrow> config \<Rightarrow> ('c driver \<times> config) result" where
  "newStorage K cf0 =
     (let cf = (if sqlite3_dbpath cf0 \<noteq> None \<and> storage_driver cf0 = ''memory'' then cf0\<lparr>storage_driver := ''sqlite3''\<rparr> else cf0);
          driver = storage_driver cf
      in case (if driver = ''redis'' then redisTLSConfig (mc_redis_url K) (mc_read K) (mc_pems K) (mc_pair K) (storage_redis cf) else Ok None) of
           Err e \<Rightarrow> Err (hide_url K cf (''storage.redis: '' @ error_string e))
         | Ok tc \<Rightarrow>
             (let d = (if driver = ''sqlite3'' then Sqlite3Store (case sqlite3_dbpath cf of None \<Rightarrow> [] | Some p \<Rightarrow> p)
                       else if driver = ''redis'' then RedisStore (redis_url (storage_redis cf)) tc
                       else MemoryStore)
              in case mc_open K d of
                   Some p \<Rightarrow> Err (hide_url K cf (''failed to initialize storage driver '' @ driver @ '': '' @ p))
                 | None \<Rightarrow> Ok (d, cf)))"

text \<open>\<open>newStoreLock\<close>: the lock is shared by all replicas where the storage is.\<close>

definition newStoreLock :: "'c driver \<Rightarrow> 's storage \<Rightarrow> 's redis \<Rightarrow> 's storeLock" where
  "newStoreLock d S conn = \<lparr>lk_storage = S, lk_rdb = (case d of RedisStore _ _ \<Rightarrow> Some conn | _ \<Rightarrow> None)\<rparr>"

section \<open>The router and the application\<close>

record session_config =
  sc_IdleTimeout :: duration
  sc_CookieSameSite :: string
  sc_CookieSecure :: bool
  sc_CookieHTTPOnly :: bool

record 'set router =
  ro_hooks :: "webhookTarget list"
  ro_sessions :: session_config
  ro_emailer :: "'set template_sets"
  ro_hydra :: "(string \<times> bool) option"

definition session_settings :: "config \<Rightarrow> session_config" where
  "session_settings cf =
     \<lparr>sc_IdleTimeout = session_idle_timeout (server cf) * second, sc_CookieSameSite = ''Strict'',
      sc_CookieSecure = secure_cookies (server cf), sc_CookieHTTPOnly = True\<rparr>"

text \<open>The client of Hydra: its URL, and whether requests claim to come over TLS.\<close>

definition hydra_client :: "('c, 'set) machine \<Rightarrow> config \<Rightarrow> (string \<times> bool) option result" where
  "hydra_client K cf =
     (case hydra_admin_url (hydra cf) of
        None \<Rightarrow> Ok None
      | Some raw \<Rightarrow>
          (case mc_url K raw of
             Err e \<Rightarrow> Err (EText (''hydra.admin_url: '' @ error_string e))
           | Ok u \<Rightarrow> Ok (Some (u, fake_tls_termination (hydra cf)))))"

definition load_hooks :: "('c, 'set) machine \<Rightarrow> webhookTarget list result" where
  "load_hooks K = (case mc_hooks K of Err e \<Rightarrow> Err (EText (''webhooks: '' @ error_string e)) | Ok cfgs \<Rightarrow> newWebhooks cfgs)"

definition NewRouter :: "('c, 'set) machine \<Rightarrow> config \<Rightarrow> (string \<Rightarrow> language_funcs) \<Rightarrow> string list \<Rightarrow> 'set router result" where
  "NewRouter K cf funs languages =
     (case load_hooks K of Err e \<Rightarrow> Err e | Ok ts \<Rightarrow>
       (case mc_ipa K of Some e \<Rightarrow> Err e | None \<Rightarrow>
         (case mc_keytab K (case keytab (site cf) of None \<Rightarrow> [] | Some k \<Rightarrow> k) (ktuser (site cf)) of Some e \<Rightarrow> Err e | None \<Rightarrow>
           (case NewEmailer (mc_mails K) cf funs languages of Err e \<Rightarrow> Err e | Ok mails \<Rightarrow>
             (case hydra_client K cf of
                Err e \<Rightarrow> Err e
              | Ok h \<Rightarrow> Ok \<lparr>ro_hooks = ts, ro_sessions = session_settings cf, ro_emailer = mails, ro_hydra = h\<rparr>)))))"

text \<open>
  The environment the handlers run in, from what was loaded; \<open>pf\<close> reads a weight of an Accept-Language list. The sweeps run in the background: reminders
  at once and then after every interval, the consent sweep after every interval.
\<close>

definition started ::
    "('s, 'x) env \<Rightarrow> (string \<Rightarrow> ('q :: {linorder, zero, one}) option) \<Rightarrow> config \<Rightarrow> tables \<Rightarrow> string list \<Rightarrow> 's redis \<Rightarrow> 'c driver \<Rightarrow> ('s, 'x) env" where
  "started E pf cf ts languages conn d =
     E\<lparr>cfg := cf, lcode := tag_of ts, trn := text_in ts, langs := languages, rdb := lk_rdb (newStoreLock d (stg E) conn),
       pref := matchLanguage (uni E) pf (map (\<lambda>l. (l, tag_of ts l)) languages)\<rparr>"

definition StartExpiryReminders :: "config \<Rightarrow> duration option" where
  "StartExpiryReminders cf = (if expiryReminderDays cf = [] then None else Some expirySweepInterval)"

definition StartConsentSweep :: "('s, 'x) env \<Rightarrow> duration option" where
  "StartConsentSweep E = (if consentSweepInterval E \<le> 0 then None else Some (consentSweepInterval E))"

text \<open>The settings of fiber and of its rate limiter that come from the configuration or differ from the defaults of the library.\<close>

record fiber_config =
  fc_CaseSensitive :: bool
  fc_StrictRouting :: bool
  fc_ReadTimeout :: duration
  fc_WriteTimeout :: duration
  fc_IdleTimeout :: duration
  fc_ReadBufferSize :: int
  fc_TrustProxy :: bool
  fc_Proxies :: "string list"

definition fiber_settings :: "config \<Rightarrow> fiber_config" where
  "fiber_settings cf =
     \<lparr>fc_CaseSensitive = True, fc_StrictRouting = True, fc_ReadTimeout = read_timeout (server cf) * second,
      fc_WriteTimeout = write_timeout (server cf) * second, fc_IdleTimeout = idle_timeout (server cf) * second,
      fc_ReadBufferSize = read_buffer_size (server cf), fc_TrustProxy = True, fc_Proxies = trusted_proxies (server cf)\<rparr>"

record limiter_config =
  lm_Max :: int
  lm_Expiration :: duration
  lm_SkipSuccessfulRequests :: bool
  lm_Next :: "request \<Rightarrow> bool"

definition limiter_settings :: "config \<Rightarrow> limiter_config" where
  "limiter_settings cf =
     \<lparr>lm_Max = rate_limit_max (server cf), lm_Expiration = rate_limit_expiration (server cf) * second,
      lm_SkipSuccessfulRequests = True, lm_Next = limiter_skips\<rparr>"

record ('s, 'x, 'c, 'set) app =
  ap_fiber :: fiber_config
  ap_limiter :: limiter_config
  ap_env :: "('s, 'x) env"
  ap_tables :: tables
  ap_pages :: "'set template_sets"
  ap_storage :: "'c driver"
  ap_router :: "'set router"
  ap_routes :: "('s, 'x) route list"
  ap_reminders :: "duration option"
  ap_consents :: "duration option"
  ap_favicon :: "string option"

definition newFiber ::
    "('c, 'set) machine \<Rightarrow> ('s, 'x) env \<Rightarrow> 's redis \<Rightarrow> (string \<Rightarrow> ('q :: {linorder, zero, one}) option) \<Rightarrow> config
      \<Rightarrow> ('s, 'x, 'c, 'set) app result" where
  "newFiber K E conn pf cf0 =
     (case LoadTranslations (uni E) cf0 (mc_files K) of Err e \<Rightarrow> Err e | Ok (ts, languages) \<Rightarrow>
       (case NewTemplateRenderer (mc_pages K) cf0 (languageFuncs (uni E) ts) languages of Err e \<Rightarrow> Err e | Ok views \<Rightarrow>
         (case newStorage K cf0 of Err e \<Rightarrow> Err e | Ok (d, cf) \<Rightarrow>
           (case NewRouter K cf (languageFuncs (uni E) ts) languages of Err e \<Rightarrow> Err e | Ok r \<Rightarrow>
             (let E' = started E pf cf ts languages conn d
              in Ok \<lparr>ap_fiber = fiber_settings cf, ap_limiter = limiter_settings cf, ap_env = E', ap_tables = ts, ap_pages = views, ap_storage = d, ap_router = r, ap_routes = routes E',
                     ap_reminders = StartExpiryReminders cf, ap_consents = StartConsentSweep E',
                     ap_favicon = (if favicon (site cf) \<noteq> [] then Some (favicon (site cf)) else None)\<rparr>)))))"

text \<open>Requests for directories under \<open>/static\<close> are left to the page for what is not found; \<open>is_dir\<close> is \<open>None\<close> where there is no such file.\<close>

definition static_next :: "(string \<Rightarrow> bool option) \<Rightarrow> string \<Rightarrow> bool" where
  "static_next is_dir path =
     (let name = TrimRight_char CHR ''/'' (TrimLeft_char CHR ''/'' (TrimPrefix path ''/static''))
      in is_dir (if name = [] then ''.'' else name) = Some True)"

section \<open>Listening\<close>

record 'c listener =
  ls_Scheme :: string
  ls_Address :: string
  ls_TLS :: "'c tls_config option"

definition Serve :: "('c, 'set) machine \<Rightarrow> config \<Rightarrow> string \<Rightarrow> string \<Rightarrow> string \<Rightarrow> 'c listener result" where
  "Serve K cf address certFile keyFile =
     (if certFile \<noteq> [] \<and> keyFile \<noteq> [] then
        (case tlsConfig (fst (mc_suites K)) (snd (mc_suites K)) cf (mc_pair K certFile keyFile) of
           Err e \<Rightarrow> Err e
         | Ok tc \<Rightarrow>
             (case mc_listen K address of
                Some e \<Rightarrow> Err e
              | None \<Rightarrow> Ok \<lparr>ls_Scheme = ''https'', ls_Address = address, ls_TLS = Some tc\<rparr>))
      else
        (case mc_listen K address of
           Some e \<Rightarrow> Err e
         | None \<Rightarrow> Ok \<lparr>ls_Scheme = ''http'', ls_Address = address, ls_TLS = None\<rparr>))"

definition serve ::
    "('c, 'set) machine \<Rightarrow> ('s, 'x) env \<Rightarrow> 's redis \<Rightarrow> (string \<Rightarrow> ('q :: {linorder, zero, one}) option) \<Rightarrow> config
      \<Rightarrow> (('s, 'x, 'c, 'set) app \<times> 'c listener) result" where
  "serve K E conn pf cf =
     (case newFiber K E conn pf cf of
        Err e \<Rightarrow> Err e
      | Ok a \<Rightarrow>
          (case Serve K (cfg (ap_env a)) (listen (server cf)) (ssl_cert (server cf)) (ssl_key (server cf)) of
             Err e \<Rightarrow> Err e
           | Ok l \<Rightarrow> Ok (a, l)))"

section \<open>A start that succeeds\<close>

lemma check_targets_ok:
  "check_targets i cfgs = Ok ts \<Longrightarrow> t \<in> set ts \<Longrightarrow>
     (HasPrefix (wt_URL t) ''https://'' \<or> HasPrefix (wt_URL t) ''http://'') \<and> wt_Format t \<in> {[], ''slack''} \<and> wt_queue t = []"
  by (induction i cfgs arbitrary: ts rule: check_targets.induct) (auto split: if_splits sum.splits)

lemma clone_all_langs: "clone_all T funs st ls = Ok cs \<Longrightarrow> map fst cs = ls \<and> (\<forall>(l, _, f)\<in>set cs. f = funs l)"
  by (induction ls arbitrary: cs) (simp, fastforce split: sum.splits)

lemma LoadTranslations_ok:
  assumes "LoadTranslations U cf F = Ok (ts, ls)"
  shows "ls \<noteq> [] \<and> hd ls = defaultLanguage (default_language (site cf)) \<and> (\<forall>l\<in>set ls. map_of ts l \<noteq> None)"
proof -
  obtain off: "offered (tags ts) (defaultLanguage (default_language (site cf))) (site_languages (site cf)) = Ok ls"
    using assms by (auto simp: LoadTranslations_def split: sum.splits)
  have "map_of ts l \<noteq> None" if "l \<in> set ls" for l
    using offered_ok [OF off] that by (auto simp: tags_names map_of_eq_None_iff)
  with offered_ok [OF off] show ?thesis by blast
qed

lemma newStorage_ok:
  assumes "newStorage K cf0 = Ok (d, cf)"
  shows "mc_open K d = None
    \<and> cf = (if sqlite3_dbpath cf0 \<noteq> None \<and> storage_driver cf0 = ''memory'' then cf0\<lparr>storage_driver := ''sqlite3''\<rparr> else cf0)
    \<and> (case d of
         Sqlite3Store path \<Rightarrow> storage_driver cf = ''sqlite3'' \<and> path = (case sqlite3_dbpath cf of None \<Rightarrow> [] | Some p \<Rightarrow> p)
       | RedisStore u _ \<Rightarrow> storage_driver cf = ''redis'' \<and> u = redis_url (storage_redis cf)
       | MemoryStore \<Rightarrow> storage_driver cf \<noteq> ''sqlite3'' \<and> storage_driver cf \<noteq> ''redis'')"
  using assms unfolding newStorage_def Let_def by (auto split: sum.splits option.splits if_splits)

lemma NewRouter_ok:
  assumes "NewRouter K cf funs ls = Ok r"
  shows "newWebhooks (projr (mc_hooks K)) = Ok (ro_hooks r) \<and> ro_sessions r = session_settings cf
    \<and> mc_keytab K (case keytab (site cf) of None \<Rightarrow> [] | Some k \<Rightarrow> k) (ktuser (site cf)) = None
    \<and> map fst (ts_byLang (ro_emailer r)) = ls \<and> (ro_hydra r = None \<longleftrightarrow> hydra_admin_url (hydra cf) = None)"
  using assms
  by (auto simp: NewRouter_def load_hooks_def hydra_client_def NewEmailer_def dest!: clone_all_langs split: sum.splits option.splits)

lemma newFiber_ok:
  assumes "newFiber K E conn pf cf0 = Ok a"
  obtains ts ls d cf where "LoadTranslations (uni E) cf0 (mc_files K) = Ok (ts, ls)" "newStorage K cf0 = Ok (d, cf)"
    "NewRouter K cf (languageFuncs (uni E) ts) ls = Ok (ap_router a)" "ap_env a = started E pf cf ts ls conn d" "ap_tables a = ts"
    "ap_storage a = d" "ap_routes a = routes (ap_env a)" "ap_reminders a = StartExpiryReminders cf" "ap_consents a = StartConsentSweep (ap_env a)"
    "map fst (ts_byLang (ap_pages a)) = ls"
  using assms
  by (auto simp: newFiber_def NewTemplateRenderer_def Let_def dest!: clone_all_langs split: sum.splits option.splits)


text \<open>
  No silent downgrade of the configuration. When the process starts, a keytab is set; a hash algorithm for OTP tokens that was configured is the one tokens are made with; and
  where no secret was configured, the secret of tokens is 32 random bytes and that of the CSRF check 16 random letters.
\<close>

theorem initConfig_sound:
  assumes "initConfig rand_read rand_int cfgFile cwd outcome isset cf = Ok (cf', used)"
    and "\<And>b. rand_read 32 = Ok b \<Longrightarrow> length b = 32"
    and "\<And>i. \<exists>n < length secret_letters. rand_int i (length secret_letters) = Ok n"
  shows "keytab (site cf') = keytab (site cf) \<and> keytab (site cf) \<noteq> None
    \<and> (isset ''accounts.otp_hash_algorithm'' \<longrightarrow>
         map_of [(''sha1'', ''SHA1''), (''sha256'', ''SHA256''), (''sha512'', ''SHA512'')] (otp_hash_algorithm (accounts cf)) = Some (getHashAlgorithm cf'))
    \<and> (if isset ''email.token_secret'' then token_secret (email cf') = token_secret (email cf)
       else \<exists>b. HexDecode (token_secret (email cf')) = Some b \<and> length b = 32)
    \<and> (if isset ''server.csrf_secret'' then csrf_secret (server cf') = csrf_secret (server cf)
       else length (csrf_secret (server cf')) = 16 \<and> set (csrf_secret (server cf')) \<subseteq> set secret_letters)"
proof -
  obtain cf1 where 1: "set_token_secret rand_read isset cf = Ok cf1" and 2: "set_csrf_secret rand_int isset cf1 = Ok cf'"
    and 3: "keytab (site cf') \<noteq> None" "isset ''accounts.otp_hash_algorithm'' \<longrightarrow> otp_hash_algorithm (accounts cf') \<in> set hash_algorithms"
    using assms(1) by (auto simp: initConfig_def split: sum.splits if_splits)
  have 4: "if isset ''email.token_secret'' then cf1 = cf
      else \<exists>b. cf1 = cf\<lparr>email := (email cf)\<lparr>token_secret := HexEncode b\<rparr>\<rparr> \<and> length b = 32"
    using 1 assms(2) by (auto simp: set_token_secret_def GenerateSecret_def split: sum.splits)
  have 5: "if isset ''server.csrf_secret'' then cf' = cf1
      else \<exists>r. cf' = cf1\<lparr>server := (server cf1)\<lparr>csrf_secret := r\<rparr>\<rparr> \<and> length r = 16 \<and> set r \<subseteq> set secret_letters"
    using 2 secret_loop_ok [of rand_int 0 16 "[]", OF assms(3)] by (auto simp: set_csrf_secret_def GenerateSecretString_def)
  have "site cf' = site cf" "accounts cf' = accounts cf" "email cf' = email cf1"
    "server cf1 = server cf" using 4 5 by (auto split: if_splits)
  with 3 4 5 show ?thesis
    by (auto simp: hash_algorithms_def getHashAlgorithm_def hex_round_trip split: if_splits)
qed

section \<open>Witnesses\<close>

definition demo_machine :: "(unit, unit) machine" where
  "demo_machine =
     (let tf = \<lparr>tf_empty = (), tf_embedded = \<lambda>_ s. Ok s, tf_glob = \<lambda>_. Ok [], tf_local = \<lambda>_ s. Ok s, tf_clone = Ok\<rparr>
      in \<lparr>mc_files = demo_files, mc_pages = tf, mc_mails = tf, mc_redis_url = \<lambda>_. Err (EText ''url''), mc_read = \<lambda>_. Err (EText ''file''),
          mc_pems = \<lambda>_. False, mc_pair = \<lambda>_ _. Ok (), mc_redacted = \<lambda>_. None, mc_open = \<lambda>_. None, mc_hooks = Ok [signed_target],
          mc_ipa = None, mc_keytab = \<lambda>_ _. None, mc_url = Ok, mc_suites = ([], []), mc_listen = \<lambda>_. None\<rparr>)"

lemma demo_machine_simps:
  "mc_files demo_machine = demo_files" "mc_open demo_machine d = None" "mc_hooks demo_machine = Ok [signed_target]" "mc_ipa demo_machine = None"
  "mc_keytab demo_machine k u = None" "mc_listen demo_machine adr = None" "mc_pair demo_machine f k = Ok ()" "mc_suites demo_machine = ([], [])"
  "tf_clone (mc_pages demo_machine) = Ok" "tf_clone (mc_mails demo_machine) = Ok" "tf_embedded (mc_pages demo_machine) ps st = Ok st"
  "tf_embedded (mc_mails demo_machine) ps st = Ok st" "tf_glob (mc_mails demo_machine) p = Ok []"
  by (simp_all add: demo_machine_def Let_def)

definition start_config :: config where
  "start_config = local_config\<lparr>site := (site local_config)\<lparr>keytab := Some ''/etc/keytab''\<rparr>,
     server := (server local_config)\<lparr>ssl_cert := ''crt'', ssl_key := ''key''\<rparr>\<rparr>"

definition no_redis :: "cells redis" where
  "no_redis = \<lparr>rd_get = \<lambda>_ _ _. None, rd_del = \<lambda>s _ _. s, rd_setnx = \<lambda>s _ _ _ _. (Err (EText ''redis''), s), rd_eval = \<lambda>s _ _. (None, s),
     rd_incr = \<lambda>s _ _. (Err (EText ''redis''), s)\<rparr>"

lemma start_loads: "\<exists>ts ls. LoadTranslations plain_unicode start_config demo_files = Ok (ts, ls)"
proof -
  have "LoadTranslations plain_unicode start_config demo_files = LoadTranslations plain_unicode local_config demo_files"
  proof -
    have "translations_dir (site start_config) = translations_dir (site local_config)"
      "default_language (site start_config) = default_language (site local_config)" "site_languages (site start_config) = site_languages (site local_config)"
      by (simp_all add: start_config_def)
    then show ?thesis unfolding LoadTranslations_def load_local_def by (simp only:)
  qed
  with demo_loads show ?thesis by metis
qed

lemma clone_demo: "tf_clone T = Ok \<Longrightarrow> \<exists>cs. clone_all T funs st ls = Ok cs"
  by (induction ls) auto

lemma start_serves: "\<exists>a l. serve demo_machine mem_env no_redis (\<lambda>_. None :: int option) start_config = Ok (a, l)"
proof -
  obtain ts ls where load: "LoadTranslations plain_unicode start_config demo_files = Ok (ts, ls)" using start_loads by blast
  let ?funs = "languageFuncs plain_unicode ts"
  obtain cs where cs: "clone_all (mc_pages demo_machine) ?funs (tf_empty (mc_pages demo_machine)) ls = Ok cs"
    using clone_demo [OF demo_machine_simps(9)] by blast
  obtain ms where ms: "clone_all (mc_mails demo_machine) ?funs (tf_empty (mc_mails demo_machine)) ls = Ok ms"
    using clone_demo [OF demo_machine_simps(10)] by blast
  have cf: "templates_dir (site start_config) = None" "sqlite3_dbpath start_config = None" "storage_driver start_config = ''memory''"
    "hydra_admin_url (hydra start_config) = None" "tls_min_version (server start_config) = []" "tls_ciphers (server start_config) = []"
    by (simp_all add: start_config_def local_config_def default_config_def)
  have hooks: "\<exists>hs. load_hooks demo_machine = Ok hs"
    by (simp add: load_hooks_def newWebhooks_def demo_machine_simps signed_target_def)
  have view: "\<exists>v. NewTemplateRenderer (mc_pages demo_machine) start_config ?funs ls = Ok v"
    using cs by (simp add: NewTemplateRenderer_def cf demo_machine_simps)
  have mails: "\<exists>v. NewEmailer (mc_mails demo_machine) start_config ?funs ls = Ok v"
    using ms by (simp add: NewEmailer_def mail_templates_def add_local_def cf demo_machine_simps)
  have sto: "newStorage demo_machine start_config = Ok (MemoryStore, start_config)"
    by (simp add: newStorage_def cf demo_machine_simps)
  obtain r where r: "NewRouter demo_machine start_config ?funs ls = Ok r"
    using hooks mails by (auto simp: NewRouter_def hydra_client_def cf demo_machine_simps)
  obtain v where v: "NewTemplateRenderer (mc_pages demo_machine) start_config ?funs ls = Ok v" using view by blast
  have uni: "uni mem_env = plain_unicode" by (simp add: mem_env_def demo_env_def)
  obtain a where a: "newFiber demo_machine mem_env no_redis (\<lambda>_. None :: int option) start_config = Ok a" "cfg (ap_env a) = start_config"
    by (simp add: newFiber_def demo_machine_simps(1) uni load v sto r started_def Let_def)
  have "\<exists>l. Serve demo_machine start_config adr f k = Ok l" for adr f k
    by (simp add: Serve_def tlsConfig_def tlsVersionFromConfig_def cipherSuitesFromConfig_def cf demo_machine_simps)
  then obtain l where "Serve demo_machine start_config (listen (server start_config)) (ssl_cert (server start_config)) (ssl_key (server start_config)) = Ok l"
    by blast
  with a have "serve demo_machine mem_env no_redis (\<lambda>_. None :: int option) start_config = Ok (a, l)" by (simp add: serve_def)
  then show ?thesis by blast
qed


theorem initConfig_sound_witness:
  "\<exists>cf' used. initConfig (\<lambda>n. Ok (replicate n CHR ''k'')) (\<lambda>_ _. Ok 0) ''mokey.toml'' (Ok []) NotFound (\<lambda>_. False) start_config = Ok (cf', used)
    \<and> length (csrf_secret (server cf')) = 16"
proof -
  have rand: "\<exists>n < length secret_letters. (\<lambda>_ _. Ok 0) i (length secret_letters) = Ok n" for i by (simp add: secret_letters_def)
  obtain cf' used where i:
    "initConfig (\<lambda>n. Ok (replicate n CHR ''k'')) (\<lambda>_ _. Ok 0) ''mokey.toml'' (Ok []) NotFound (\<lambda>_. False) start_config = Ok (cf', used)"
    using secret_loop_ok [of "\<lambda>_ _. Ok 0" 0 16 "[]", OF rand]
    by (auto simp: initConfig_def set_token_secret_def set_csrf_secret_def GenerateSecret_def GenerateSecretString_def start_config_def)
  from initConfig_sound [OF i _ rand] i show ?thesis by auto
qed

end
