(* ===== verification/Spec2Isabelle.thy ===== *)
theory Spec2Isabelle
  imports Startup
begin

text \<open>
  \<^bold>\<open>mokey, a self-service portal for FreeIPA.\<close> The server under \<open>src/server\<close> lets the users of a FreeIPA domain sign up,
  sign in, change and reset passwords, manage OTP tokens, passkeys, SSH keys, groups and sessions, and answers the
  login and consent requests of an Ory Hydra OAuth server. It keeps no accounts of its own: FreeIPA does, and a
  \<open>fiber.Storage\<close> (memory, SQLite or Redis) keeps sessions, markers of used links, queues and the audit ring.

  \<^bold>\<open>How the parts work together.\<close> A request meets the table of \<open>SetupRoutes\<close>: the CSRF check, a guard
  (\<open>RequireLogin\<close>, \<open>RequireNoLogin\<close>, \<open>RequireAdmin\<close>, \<open>RequireAPIToken\<close>, \<open>RequireMFA\<close>) and a handler. Guards read the session through fiber's
  session middleware and the markers a password change leaves. Handlers call FreeIPA as the user or as the service
  account, read and write the storage under locks, send mails that carry single-use tokens, and write audit events,
  which also go to webhooks. Links of mails come back as requests that parse and mark such a token.

  \<^bold>\<open>The model.\<close> A handler is a function from the environment and the request context to an action of the state monad over a
  \<open>world\<close> (theory \<open>Web\<close>): the storage, the state of everything outside, sent mails, metrics and a tick that
  counts readings of the clock. \<open>outcome\<close> is what a handler does in the end: reply, hand over to the next handler (\<open>Next\<close>), return an error
  to the error handler (\<open>Fail\<close>), or never return (\<open>Hangs\<close>). Errors are values. Code that is not in the repository is a field of a record: the storage backend
  (\<open>storage\<close>), fiber's sessions (\<open>fib\<close>), the branca codec (\<open>branca\<close>), FreeIPA and the captcha (\<open>outside\<close>), Hydra (\<open>hydra_api\<close>), WebAuthn (\<open>webauthn\<close>),
  Unicode tables (\<open>unicode\<close>). What the code relies on of them is stated as locales (\<open>kv_store\<close>, \<open>reliable_store\<close>, \<open>portal_store\<close>,
  \<open>session_middleware\<close>, \<open>portal_laws\<close>, \<open>redis_server\<close>), each interpreted by an executable instance. Handlers are reasoned about with rules
  for \<open>wp\<close>, one per step of the monad.

  \<^bold>\<open>The theories\<close>, each with the files it models:
  \<^item> \<open>Prelude\<close>, \<open>Go_Strings\<close>, \<open>Net\<close>: errors, times, JSON values; what the code uses of \<open>strings\<close>, \<open>strconv\<close>, \<open>unicode/utf8\<close> and \<open>net\<close>. \<open>Config\<close>: the values read through viper and \<open>SetDefaults\<close> (\<open>server.go\<close>).
  \<^item> \<open>Storage\<close>: the interface of the backend, with an instance that may fail and one that does not.
  \<^item> \<open>Tokens\<close> (\<open>token.go\<close>, \<open>const.go\<close>): issuing, parsing and marking; tokens work once, within their time, and not more often than the cooldown allows, and they are not bound to a purpose. In the one second after its lifetime a used token is accepted again: the theorems about links say so.
  \<^item> \<open>Sessions\<close> (\<open>sessions.go\<close>): the index of a user's sessions, with its invariant under any run of operations. \<open>Queues\<close> (\<open>group_requests.go\<close>, \<open>otprecovery.go\<close>): both queues refine one abstract queue, a locale with two instances.
  \<^item> \<open>Store_Lock\<close> (\<open>storelock.go\<close>): taking and releasing the lock in steps, of which \<open>hold\<close> is a run; all requests of all replicas interleaved; mutual exclusion while the lease runs, and waiting ends.
  \<^item> \<open>Logging\<close> (\<open>logging.go\<close>), \<open>Audit_Log\<close> (\<open>audit.go\<close>, \<open>webhooks.go\<close>): redaction; the ring refines an unbounded log; retries. \<open>Webhook_Delivery\<close> (\<open>webhooks.go\<close>): the signed requests, and what counts as delivered.
  \<^item> \<open>Password_Policy\<close> (\<open>password.go\<close>, \<open>lockout.go\<close>, \<open>hibp.go\<close>), \<open>Phone\<close> (\<open>phone.go\<close>), \<open>Translations\<close> (\<open>translations.go\<close>, \<open>duration.go\<close>), \<open>Tls\<close> (\<open>tls.go\<close>, \<open>server.go\<close>): pure functions, with exact characterisations.
  \<^item> \<open>Language_Files\<close> (\<open>translations.go\<close>), \<open>Templates\<close> (\<open>template.go\<close>, \<open>email.go\<close>, \<open>phone.go\<close>): loading the tables of the languages, the sets of templates, and the countries of the phone picker; the functions of the templates.
  \<^item> \<open>Portal_Types\<close>, \<open>Mime\<close>, \<open>Smtp\<close>, \<open>Web\<close>, \<open>Email\<close> (\<open>email.go\<close>, \<open>slack.go\<close>): the data of pages and mails, the text of a mail, which a reader takes apart again, the SMTP dialogue and the copy to Slack, the monad, every mail.
  \<^item> \<open>Login_State\<close> (\<open>session.go\<close>, \<open>csrf.go\<close>, \<open>auth.go\<close>, \<open>middleware.go\<close>), \<open>Session_Store\<close>, \<open>Auth\<close> (\<open>auth.go\<close>): the session of a request, the guards, signing in and out.
  \<^item> \<open>Usernames\<close> (\<open>usernames.go\<close>, \<open>captcha.go\<close>), \<open>Passwords\<close> (\<open>password.go\<close>), \<open>Accounts\<close> (\<open>account.go\<close>, \<open>ipa_stageuser.go\<close>), \<open>Keys\<close> (\<open>sshpubkey.go\<close>, \<open>subid.go\<close>, \<open>ipa_subid.go\<close>), \<open>Security\<close> (\<open>security.go\<close>, \<open>otp.go\<close>, \<open>otprecovery.go\<close>, \<open>sessions.go\<close>), \<open>Passkeys\<close> (\<open>passkey.go\<close>, \<open>ipa_passkey.go\<close>): the pages of a user.
  \<^item> \<open>Hydra\<close> (\<open>hydra.go\<close>, \<open>hydra_consent.go\<close>), \<open>Apps\<close> (\<open>apps.go\<close>), \<open>Access\<close> (\<open>access.go\<close>, \<open>ipa_access.go\<close>), \<open>Group_Pages\<close> (\<open>groups.go\<close>, \<open>ipa_group.go\<close>): who may use which client, app, host and group.
  \<^item> \<open>Expiry\<close> (\<open>expiry.go\<close>), \<open>Admin_Panel\<close> (\<open>admin.go\<close>, \<open>helpdesk.go\<close>), \<open>Api\<close> (\<open>api.go\<close>, \<open>health.go\<close>): reminders, administration, automation.
  \<^item> \<open>Routes\<close> (\<open>router.go\<close>): the table, the address of a client, the index page; which guards stand before which handler, what a request has passed when its page is called, and what a HEAD request does. \<open>Url\<close>, \<open>Otp_Setup\<close> (\<open>qrcode.go\<close>, \<open>otp.go\<close>): the URI of an OTP token, with what the code uses of \<open>net/url\<close>.
  \<^item> \<open>Portal_Invariant\<close>, \<open>Portal_Handlers\<close>, \<open>Portal\<close>: runs of the whole portal, any requests to any routes with the sweeps of \<open>expiry.go\<close> and \<open>hydra_consent.go\<close> and changes outside between them. Every action keeps the documents in the storage in shape and the marks of used links; the locale \<open>portal_laws\<close> says what that rests on.
  \<^item> \<open>Startup\<close> (\<open>src/cmd/root.go\<close>, \<open>src/cmd/serve/serve.go\<close>, \<open>server.go\<close>, \<open>router.go\<close>): from the command line to a listening server, and what a start that succeeds guarantees.
  \<^item> This theory: the public forms.

  \<^bold>\<open>Loops.\<close> Most loops run over a list and are structural. Retries, trimming, decoding and polling have a measure. The two
  loops that page through answers of Hydra may run forever and are \<open>partial_function (option)\<close>; they are shown to return when page
  tokens do not repeat, and not to when they cycle. \<open>acquire\<close> takes the clock as a stream and ends within the wait limit.
  No definition uses fuel but \<open>poll\<close>, which models a client that asks \<open>k\<close> times.

  \<^bold>\<open>Not modelled.\<close> Drawing the QR image, the HTML and text templates themselves, the registry of the Prometheus metrics, the counters of the
  rate limiter and the static files (fiber's middleware), parsing TOML and flags (viper and cobra), storage drivers, sockets and timers, \<open>ipaclient.go\<close>, \<open>src/main.go\<close>, and the
  example client under \<open>src/examples\<close>: each is a call of a library or I/O with no decision the rest depends on, and a parameter where an answer matters.
  Handlers run one after another; interleaving is modelled for the lock only. Texts for the user stay symbolic, as language and key.
\<close>

section \<open>Forms\<close>

lemma resend_uniform:
  "wp (resend_unknown E c n) (\<lambda>r _. r = resent) w" "wp (resend_known E c u) (\<lambda>r _. r = resent) w"
  by (auto simp: resend_unknown_def resend_known_def stageUserShow_def wp_def case_prod_unfold split: sum.split)

lemma AccountVerifyResend_form:
  assumes "\<not> is_get c"
  shows "wp (AccountVerifyResend E c) (\<lambda>r _. r = captcha_form E c (on_ext (x_new_captcha (ipa E))) resent w) w"
  by (simp only: AccountVerifyResend_def assms if_False, rule captcha_formI)
    (auto split: sum.split intro!: resend_uniform)

text \<open>
  C33. The forms tell nothing. The forms for a forgotten user name, a forgotten password, another verify mail and a
  lost OTP token answer a request that is no GET with one fixed page once the captcha is solved, and with the
  captcha's error otherwise, whatever the directory holds: whether the account exists, is blocked or locked,
  or whether the mail could be sent does not show. (For a password, user names of a trusted domain are
  refused beforehand, by their form alone.)
\<close>

theorem forms_tell_nothing:
  assumes "\<not> is_get c" and "\<not> adTrustUsername (uni E) (ip_Realm (ipa E) (ext w)) (form c ''username'')"
  shows "fst (run_state (UsernameForgot E c) w)
      = captcha_form E c (newCaptchaID E) (render ''username-forgot-success.html'' []) w
    \<and> fst (run_state (PasswordForgot E c) w)
      = captcha_form E c (on_ext (x_new_captcha (ipa E))) (render ''password-forgot-success.html'' []) w
    \<and> fst (run_state (AccountVerifyResend E c) w)
      = captcha_form E c (on_ext (x_new_captcha (ipa E))) (render ''account-verify-forgot-success.html'' []) w
    \<and> fst (run_state (OTPRecoveryRequest_handler E c) w)
      = captcha_form E c (on_ext (x_new_captcha (ipa E))) (render ''otprecovery-forgot-success.html'' []) w"
  using UsernameForgot_form [OF assms(1), of E w] PasswordForgot_form [OF assms] AccountVerifyResend_form [OF assms(1), of E w]
    OTPRecovery_form [OF assms(1), of E w]
  by (simp add: wp_def case_prod_unfold)

theorem forms_tell_nothing_witness:
  "fst (run_state (UsernameForgot demo_env demo_ctx) demo_world)
      = captcha_form demo_env demo_ctx (newCaptchaID demo_env) (render ''username-forgot-success.html'' []) demo_world
    \<and> fst (run_state (PasswordForgot demo_env demo_ctx) demo_world)
      = captcha_form demo_env demo_ctx (on_ext (x_new_captcha (ipa demo_env))) (render ''password-forgot-success.html'' []) demo_world
    \<and> fst (run_state (AccountVerifyResend demo_env demo_ctx) demo_world)
      = captcha_form demo_env demo_ctx (on_ext (x_new_captcha (ipa demo_env))) (render ''account-verify-forgot-success.html'' []) demo_world
    \<and> fst (run_state (OTPRecoveryRequest_handler demo_env demo_ctx) demo_world)
      = captcha_form demo_env demo_ctx (on_ext (x_new_captcha (ipa demo_env))) (render ''otprecovery-forgot-success.html'' []) demo_world"
  by (rule forms_tell_nothing) (simp_all add: demo_ctx_def adTrustUsername_def Contains_def)

end
